(* ===== verification/Prelude.thy ===== *)
theory Prelude imports Main begin

text \<open>
  Shared vocabulary of the development: the exceptions the Python code can raise, results of
  pure code, stateful code as functions from a state to a result and a new state, the loops the
  code uses, Python dictionaries as insertion-ordered association lists, and the generic facts
  about them that every component uses.

  The collection \<open>py_simps\<close> unfolds the combinators on a concrete state.
\<close>

named_theorems py_simps

section \<open>Exceptions and results\<close>

text \<open>
  One constructor per exception class the code raises, catches or lets through (\<open>PyException\<close> is the
  base class \<open>Exception\<close> itself). \<open>OutOfFuel\<close>
  marks a fuel-bounded recursion that ran out; theorems show where it cannot occur.
  \<open>Unmodelled\<close> marks an input outside the model (its argument says why); no theorem treats it
  as a normal return.
\<close>

datatype exn =
    AssertionError | KeyError | ValueError | IndexError | TypeError | AttributeError
  | RuntimeError | NotImplementedError | JSONDecodeError | UnicodeDecodeError | OSError
  | SubstitutionError | RedisError | ZmqAgain | ZmqError | Skipped | XFailed
  | NameError | SystemExit | PyException | OutOfFuel | Unmodelled string

datatype 'a res = Ok 'a | Err exn

fun rbind :: "'a res \<Rightarrow> ('a \<Rightarrow> 'b res) \<Rightarrow> 'b res" where
  "rbind (Ok x) f = f x"
| "rbind (Err e) f = Err e"

definition rassert :: "bool \<Rightarrow> unit res" where
  "rassert b = (if b then Ok () else Err AssertionError)"

fun rmap :: "('a \<Rightarrow> 'b res) \<Rightarrow> 'a list \<Rightarrow> 'b list res" where
  "rmap f [] = Ok []"
| "rmap f (x # xs) = rbind (f x) (\<lambda>y. rbind (rmap f xs) (\<lambda>ys. Ok (y # ys)))"

lemma rbind_eq_Ok [simp]: "rbind m f = Ok y \<longleftrightarrow> (\<exists>x. m = Ok x \<and> f x = Ok y)"
  by (cases m) auto

lemma rbind_eq_Err: "rbind m f = Err e \<longleftrightarrow> m = Err e \<or> (\<exists>x. m = Ok x \<and> f x = Err e)"
  by (cases m) auto

lemma rassert_eq_Ok [simp]: "rassert b = Ok u \<longleftrightarrow> b"
  by (simp add: rassert_def)

lemma rassert_True [simp]: "rassert True = Ok ()"
  by (simp add: rassert_def)

lemma rassert_False [simp]: "rassert False = Err AssertionError"
  by (simp add: rassert_def)

lemma rmap_length: "rmap f xs = Ok ys \<Longrightarrow> length ys = length xs"
  by (induction xs arbitrary: ys) auto

lemma rmap_Ok: "(\<And>x. x \<in> set xs \<Longrightarrow> f x = Ok (g x)) \<Longrightarrow> rmap f xs = Ok (map g xs)"
  by (induction xs) auto

lemma rmap_append:
  "rmap f (xs @ ys) = rbind (rmap f xs) (\<lambda>a. rbind (rmap f ys) (\<lambda>b. Ok (a @ b)))"
proof (induction xs)
  case Nil
  show ?case by (cases "rmap f ys") auto
next
  case (Cons x xs)
  then show ?case by (cases "f x"; cases "rmap f xs"; cases "rmap f ys") auto
qed

lemma rmap_list_all2: "rmap f xs = Ok ys \<longleftrightarrow> list_all2 (\<lambda>x y. f x = Ok y) xs ys"
  by (induction xs arbitrary: ys) (auto simp: list_all2_Cons1)

section \<open>Stateful code\<close>

text \<open>
  A statement of the code maps a state to a result and the state it leaves; an exception leaves
  the state as it was when it was raised, as in Python.
\<close>

type_synonym ('s, 'a) py = "'s \<Rightarrow> 'a res \<times> 's"

definition py_return :: "'a \<Rightarrow> ('s, 'a) py" where
  "py_return x = (\<lambda>s. (Ok x, s))"

definition py_raise :: "exn \<Rightarrow> ('s, 'a) py" where
  "py_raise e = (\<lambda>s. (Err e, s))"

definition py_bind :: "('s, 'a) py \<Rightarrow> ('a \<Rightarrow> ('s, 'b) py) \<Rightarrow> ('s, 'b) py" where
  "py_bind m f = (\<lambda>s. case m s of (Ok x, t) \<Rightarrow> f x t | (Err e, t) \<Rightarrow> (Err e, t))"

definition py_lift :: "'a res \<Rightarrow> ('s, 'a) py" where
  "py_lift r = (\<lambda>s. (r, s))"

definition py_assert :: "bool \<Rightarrow> ('s, unit) py" where
  "py_assert b = (if b then py_return () else py_raise AssertionError)"

definition py_get :: "('s \<Rightarrow> 'a) \<Rightarrow> ('s, 'a) py" where
  "py_get f = (\<lambda>s. (Ok (f s), s))"

definition py_modify :: "('s \<Rightarrow> 's) \<Rightarrow> ('s, unit) py" where
  "py_modify f = (\<lambda>s. (Ok (), f s))"

text \<open>\<open>try: m; except E: h\<close> where \<open>E\<close> is the set of exceptions caught.\<close>

definition py_catch :: "('s, 'a) py \<Rightarrow> (exn \<Rightarrow> bool) \<Rightarrow> ('s, 'a) py \<Rightarrow> ('s, 'a) py" where
  "py_catch m p h = (\<lambda>s. case m s of (Ok x, t) \<Rightarrow> (Ok x, t)
                        | (Err e, t) \<Rightarrow> if p e then h t else (Err e, t))"

text \<open>
  \<open>try: m\<close> with several \<open>except\<close> clauses: the handler gets the exception and raises again what
  no clause matches. What a handler raises is not caught by its siblings.
\<close>

definition py_handle :: "('s, 'a) py \<Rightarrow> (exn \<Rightarrow> ('s, 'a) py) \<Rightarrow> ('s, 'a) py" where
  "py_handle m h = (\<lambda>s. case m s of (Ok x, t) \<Rightarrow> (Ok x, t) | (Err e, t) \<Rightarrow> h e t)"

text \<open>\<open>try: m; finally: f\<close>: the result of \<open>m\<close> unless \<open>f\<close> itself raises.\<close>

definition py_finally :: "('s, 'a) py \<Rightarrow> ('s, unit) py \<Rightarrow> ('s, 'a) py" where
  "py_finally m f = (\<lambda>s. case m s of (r, t) \<Rightarrow>
     (case f t of (Ok _, u) \<Rightarrow> (r, u) | (Err e, u) \<Rightarrow> (Err e, u)))"

text \<open>\<open>for x in xs: ...\<close>, with the list of the bodies' values.\<close>

fun py_map :: "('a \<Rightarrow> ('s, 'b) py) \<Rightarrow> 'a list \<Rightarrow> ('s, 'b list) py" where
  "py_map f [] = py_return []"
| "py_map f (x # xs) = py_bind (f x) (\<lambda>y. py_bind (py_map f xs) (\<lambda>ys. py_return (y # ys)))"

fun py_iter :: "('a \<Rightarrow> ('s, unit) py) \<Rightarrow> 'a list \<Rightarrow> ('s, unit) py" where
  "py_iter f [] = py_return ()"
| "py_iter f (x # xs) = py_bind (f x) (\<lambda>_. py_iter f xs)"

lemma py_bind_return [py_simps, simp]: "py_bind (py_return x) f = f x"
  by (simp add: py_bind_def py_return_def)

lemma py_bind_raise [py_simps, simp]: "py_bind (py_raise e) f = py_raise e"
  by (simp add: py_bind_def py_raise_def)

lemma py_bind_right_unit [simp]: "py_bind m py_return = m"
  by (auto simp: py_bind_def py_return_def fun_eq_iff split: prod.splits res.splits)

lemma py_bind_assoc: "py_bind (py_bind m f) g = py_bind m (\<lambda>x. py_bind (f x) g)"
  by (auto simp: py_bind_def fun_eq_iff split: prod.splits res.splits)

lemma py_bind_lift_Ok [py_simps, simp]: "py_bind (py_lift (Ok x)) f = f x"
  by (simp add: py_bind_def py_lift_def)

lemma py_bind_lift_Err [py_simps, simp]: "py_bind (py_lift (Err e)) f = py_raise e"
  by (simp add: py_bind_def py_lift_def py_raise_def)

lemma py_assert_True [py_simps, simp]: "py_assert True = py_return ()"
  by (simp add: py_assert_def)

lemma py_assert_False [py_simps, simp]: "py_assert False = py_raise AssertionError"
  by (simp add: py_assert_def)

lemma py_return_app [py_simps]: "py_return x s = (Ok x, s)"
  by (simp add: py_return_def)

lemma py_raise_app [py_simps]: "py_raise e s = (Err e, s)"
  by (simp add: py_raise_def)

lemma py_lift_app [py_simps]: "py_lift r s = (r, s)"
  by (simp add: py_lift_def)

lemma py_get_app [py_simps]: "py_get f s = (Ok (f s), s)"
  by (simp add: py_get_def)

lemma py_modify_app [py_simps]: "py_modify f s = (Ok (), f s)"
  by (simp add: py_modify_def)

lemma py_bind_app [py_simps]:
  "py_bind m f s = (case m s of (Ok x, t) \<Rightarrow> f x t | (Err e, t) \<Rightarrow> (Err e, t))"
  by (simp add: py_bind_def)

lemma py_catch_app [py_simps]:
  "py_catch m p h s = (case m s of (Ok x, t) \<Rightarrow> (Ok x, t)
     | (Err e, t) \<Rightarrow> if p e then h t else (Err e, t))"
  by (simp add: py_catch_def)

lemma py_handle_app [py_simps]:
  "py_handle m h s = (case m s of (Ok x, t) \<Rightarrow> (Ok x, t) | (Err e, t) \<Rightarrow> h e t)"
  by (simp add: py_handle_def)

lemma py_finally_app [py_simps]:
  "py_finally m f s = (case m s of (r, t) \<Rightarrow>
     (case f t of (Ok _, u) \<Rightarrow> (r, u) | (Err e, u) \<Rightarrow> (Err e, u)))"
  by (simp add: py_finally_def)

lemma py_bind_Ok_iff:
  "py_bind m f s = (Ok y, u) \<longleftrightarrow> (\<exists>x t. m s = (Ok x, t) \<and> f x t = (Ok y, u))"
  by (auto simp: py_bind_def split: prod.splits res.splits)

lemma py_bind_Err_iff:
  "py_bind m f s = (Err e, u) \<longleftrightarrow>
   m s = (Err e, u) \<or> (\<exists>x t. m s = (Ok x, t) \<and> f x t = (Err e, u))"
  by (auto simp: py_bind_def split: prod.splits res.splits)

lemma py_bind_OkE:
  assumes "py_bind m f s = (Ok y, u)"
  obtains x t where "m s = (Ok x, t)" and "f x t = (Ok y, u)"
  using assms by (auto simp: py_bind_Ok_iff)

lemma py_assert_Ok_iff [simp]: "py_assert b s = (Ok x, t) \<longleftrightarrow> b \<and> t = s"
  by (auto simp: py_assert_def py_return_def py_raise_def)

lemma py_assert_app: "py_assert b s = (if b then Ok () else Err AssertionError, s)"
  by (simp add: py_assert_def py_return_def py_raise_def)

lemma py_map_length: "py_map f xs s = (Ok ys, t) \<Longrightarrow> length ys = length xs"
  by (induction xs arbitrary: s ys t) (auto simp: py_bind_Ok_iff py_return_def)

section \<open>Invariants and triples of stateful code\<close>

text \<open>
  \<open>py_inv I m\<close>: whatever \<open>m\<close> does, return or raise, it keeps \<open>I\<close>.
  \<open>py_post P m Q\<close>: from a state with \<open>P\<close>, a normal return satisfies \<open>Q\<close> (of the state before,
  the value and the state after).
\<close>

definition py_inv :: "('s \<Rightarrow> bool) \<Rightarrow> ('s, 'a) py \<Rightarrow> bool" where
  "py_inv I m \<longleftrightarrow> (\<forall>s. I s \<longrightarrow> I (snd (m s)))"

definition py_post :: "('s \<Rightarrow> bool) \<Rightarrow> ('s, 'a) py \<Rightarrow> ('a \<Rightarrow> 's \<Rightarrow> bool) \<Rightarrow> bool" where
  "py_post P m Q \<longleftrightarrow> (\<forall>s x t. P s \<longrightarrow> m s = (Ok x, t) \<longrightarrow> Q x t)"

named_theorems inv_intros

lemma py_invD: "py_inv I m \<Longrightarrow> I s \<Longrightarrow> m s = (r, t) \<Longrightarrow> I t"
  by (metis py_inv_def snd_conv)

lemma py_invI: "(\<And>s r t. I s \<Longrightarrow> m s = (r, t) \<Longrightarrow> I t) \<Longrightarrow> py_inv I m"
  by (metis py_inv_def surjective_pairing)

lemma py_inv_return [inv_intros, intro]: "py_inv I (py_return x)"
  by (simp add: py_inv_def py_return_def)

lemma py_inv_raise [inv_intros, intro]: "py_inv I (py_raise e)"
  by (simp add: py_inv_def py_raise_def)

lemma py_inv_lift [inv_intros, intro]: "py_inv I (py_lift r)"
  by (simp add: py_inv_def py_lift_def)

lemma py_inv_get [inv_intros, intro]: "py_inv I (py_get f)"
  by (simp add: py_inv_def py_get_def)

lemma py_inv_assert [inv_intros, intro]: "py_inv I (py_assert b)"
  by (simp add: py_assert_def inv_intros)

lemma py_inv_modify: "(\<And>s. I s \<Longrightarrow> I (f s)) \<Longrightarrow> py_inv I (py_modify f)"
  by (simp add: py_inv_def py_modify_def)

lemma py_inv_bind [inv_intros, intro]:
  "py_inv I m \<Longrightarrow> (\<And>x. py_inv I (f x)) \<Longrightarrow> py_inv I (py_bind m f)"
  by (fastforce simp: py_inv_def py_bind_def split: prod.splits res.splits)

lemma py_inv_catch [inv_intros]:
  "py_inv I m \<Longrightarrow> py_inv I h \<Longrightarrow> py_inv I (py_catch m p h)"
  by (fastforce simp: py_inv_def py_catch_def split: prod.splits res.splits)

lemma py_inv_handle [inv_intros]:
  "py_inv I m \<Longrightarrow> (\<And>e. py_inv I (h e)) \<Longrightarrow> py_inv I (py_handle m h)"
  by (fastforce simp: py_inv_def py_handle_def split: prod.splits res.splits)

lemma py_inv_finally [inv_intros]:
  "py_inv I m \<Longrightarrow> py_inv I f \<Longrightarrow> py_inv I (py_finally m f)"
  by (fastforce simp: py_inv_def py_finally_def split: prod.splits res.splits)

lemma py_inv_map [inv_intros]: "(\<And>x. py_inv I (f x)) \<Longrightarrow> py_inv I (py_map f xs)"
  by (induction xs) (auto intro: inv_intros)

lemma py_inv_iter [inv_intros]: "(\<And>x. py_inv I (f x)) \<Longrightarrow> py_inv I (py_iter f xs)"
  by (induction xs) (auto intro: inv_intros)

lemma py_inv_if [inv_intros]:
  "py_inv I m \<Longrightarrow> py_inv I n \<Longrightarrow> py_inv I (if b then m else n)"
  by simp

lemma py_postD: "py_post P m Q \<Longrightarrow> P s \<Longrightarrow> m s = (Ok x, t) \<Longrightarrow> Q x t"
  by (simp add: py_post_def)

lemma py_post_bind:
  "py_post P m R \<Longrightarrow> (\<And>x. py_post (R x) (f x) Q) \<Longrightarrow> py_post P (py_bind m f) Q"
  by (fastforce simp: py_post_def py_bind_Ok_iff)

section \<open>Code that returns\<close>

text \<open>\<open>py_total I m\<close>: from a state with \<open>I\<close>, \<open>m\<close> returns normally and keeps \<open>I\<close>.\<close>

definition py_total :: "('s \<Rightarrow> bool) \<Rightarrow> ('s, 'a) py \<Rightarrow> bool" where
  "py_total I m \<longleftrightarrow> (\<forall>s. I s \<longrightarrow> (\<exists>x t. m s = (Ok x, t) \<and> I t))"

named_theorems total_intros

lemma py_totalD: "py_total I m \<Longrightarrow> I s \<Longrightarrow> \<exists>x t. m s = (Ok x, t) \<and> I t"
  by (simp add: py_total_def)

lemma py_total_return [total_intros]: "py_total I (py_return x)"
  by (simp add: py_total_def py_return_def)

lemma py_total_get [total_intros]: "py_total I (py_get f)"
  by (simp add: py_total_def py_get_def)

lemma py_total_modify: "(\<And>s. I s \<Longrightarrow> I (f s)) \<Longrightarrow> py_total I (py_modify f)"
  by (simp add: py_total_def py_modify_def)

lemma py_total_bind [total_intros]:
  "py_total I m \<Longrightarrow> (\<And>x. py_total I (f x)) \<Longrightarrow> py_total I (py_bind m f)"
  unfolding py_total_def py_bind_def by fastforce

lemma py_total_iter [total_intros]: "(\<And>x. py_total I (f x)) \<Longrightarrow> py_total I (py_iter f xs)"
  by (induction xs) (auto intro: total_intros)

lemma py_total_if [total_intros]: "py_total I m \<Longrightarrow> py_total I n \<Longrightarrow> py_total I (if b then m else n)"
  by simp

section \<open>Dictionaries\<close>

text \<open>
  A Python dictionary iterates in insertion order, so it is an association list with distinct
  keys. Storing an existing key keeps its place; a new key goes to the end.
\<close>

type_synonym ('k, 'v) dict = "('k \<times> 'v) list"

fun dict_set :: "'k \<Rightarrow> 'v \<Rightarrow> ('k, 'v) dict \<Rightarrow> ('k, 'v) dict" where
  "dict_set k v [] = [(k, v)]"
| "dict_set k v ((k', v') # d) = (if k = k' then (k, v) # d else (k', v') # dict_set k v d)"

definition dict_del :: "'k \<Rightarrow> ('k, 'v) dict \<Rightarrow> ('k, 'v) dict" where
  "dict_del k d = filter (\<lambda>(k', _). k' \<noteq> k) d"

abbreviation dict_get :: "('k, 'v) dict \<Rightarrow> 'k \<Rightarrow> 'v option" where
  "dict_get d k \<equiv> map_of d k"

definition dict_getitem :: "('k, 'v) dict \<Rightarrow> 'k \<Rightarrow> 'v res" where
  "dict_getitem d k = (case map_of d k of None \<Rightarrow> Err KeyError | Some v \<Rightarrow> Ok v)"

abbreviation dict_ok :: "('k, 'v) dict \<Rightarrow> bool" where
  "dict_ok d \<equiv> distinct (map fst d)"

lemma dict_get_set [simp]: "map_of (dict_set k v d) = (map_of d)(k \<mapsto> v)"
  by (induction k v d rule: dict_set.induct) (auto simp: fun_eq_iff)

lemma dict_get_del [simp]: "map_of (dict_del k d) = (map_of d)(k := None)"
  by (induction d) (auto simp: dict_del_def fun_eq_iff)

lemma dict_keys_set: "fst ` set (dict_set k v d) = insert k (fst ` set d)"
  by (induction k v d rule: dict_set.induct) auto

lemma dict_ok_set [simp]: "dict_ok d \<Longrightarrow> dict_ok (dict_set k v d)"
proof (induction k v d rule: dict_set.induct)
  case (2 k v k' v' d)
  then show ?case using dict_keys_set [of k v d] by auto
qed simp

lemma dict_ok_del [simp]: "dict_ok d \<Longrightarrow> dict_ok (dict_del k d)"
  by (induction d) (auto simp: dict_del_def)

lemma dict_set_new: "k \<notin> fst ` set d \<Longrightarrow> dict_set k v d = d @ [(k, v)]"
  by (induction k v d rule: dict_set.induct) auto

lemma dict_del_new: "k \<notin> fst ` set d \<Longrightarrow> dict_del k d = d"
  by (induction d) (auto simp: dict_del_def)

lemma dict_getitem_Ok [simp]: "dict_getitem d k = Ok v \<longleftrightarrow> map_of d k = Some v"
  by (auto simp: dict_getitem_def split: option.splits)

lemma dict_getitem_Err: "dict_getitem d k = Err e \<longleftrightarrow> map_of d k = None \<and> e = KeyError"
  by (auto simp: dict_getitem_def split: option.splits)

section \<open>Codecs\<close>

text \<open>
  The code writes values as text and reads them back in many places (JSON, OIDs, counted lists,
  integers in a base, record attributes). The contract they share: decoding what was encoded
  gives the value back. A client that only knows the contract still knows that the encoding
  tells valid values apart and that lists of values survive element by element.
\<close>

locale codec =
  fixes enc :: "'a \<Rightarrow> 'b"
    and dec :: "'b \<Rightarrow> 'a res"
    and valid :: "'a \<Rightarrow> bool"
  assumes dec_enc: "valid x \<Longrightarrow> dec (enc x) = Ok x"
begin

lemma enc_inj: "valid x \<Longrightarrow> valid y \<Longrightarrow> enc x = enc y \<Longrightarrow> x = y"
  by (metis dec_enc res.inject(1))

lemma enc_inj_on: "inj_on enc (Collect valid)"
  by (auto intro: inj_onI enc_inj)

lemma rmap_dec_enc: "list_all valid xs \<Longrightarrow> rmap dec (map enc xs) = Ok xs"
  by (induction xs) (auto simp: dec_enc)

lemma distinct_enc: "list_all valid xs \<Longrightarrow> distinct (map enc xs) \<longleftrightarrow> distinct xs"
  by (auto simp: distinct_map list_all_iff intro!: inj_onI enc_inj)

end

end
