(* ===== verification/PyString.thy ===== *)
theory PyString imports Prelude begin

text \<open>
  Python's string methods, as the code uses them. A string is the list of its characters; a
  character is a code point below 256 (HOL's \<open>char\<close>). Case mapping is on ASCII letters, which
  is all that SAI names contain. Separators and search strings are the literals of the code and
  are never empty; where Python raises for an empty separator the model is not used.
\<close>

section \<open>Searching\<close>

definition starts_with :: "string \<Rightarrow> string \<Rightarrow> bool" where
  "starts_with s p = (take (length p) s = p)"

fun str_in :: "string \<Rightarrow> string \<Rightarrow> bool" where
  "str_in p [] = (p = [])"
| "str_in p (c # s) = (starts_with (c # s) p \<or> str_in p s)"

text \<open>\<open>str_cut p s\<close> splits \<open>s\<close> around the first occurrence of \<open>p\<close>, if there is one.\<close>

fun str_cut :: "string \<Rightarrow> string \<Rightarrow> (string \<times> string) option" where
  "str_cut p [] = None"
| "str_cut p (c # s) =
     (if p \<noteq> [] \<and> starts_with (c # s) p then Some ([], drop (length p) (c # s))
      else map_option (\<lambda>(a, b). (c # a, b)) (str_cut p s))"

text \<open>\<open>s.find(p)\<close>: the index of the first occurrence, or -1.\<close>

definition str_find :: "string \<Rightarrow> string \<Rightarrow> int" where
  "str_find s p = (case str_cut p s of None \<Rightarrow> -1 | Some (a, _) \<Rightarrow> int (length a))"

lemma starts_with_iff: "starts_with s p \<longleftrightarrow> (\<exists>r. s = p @ r)"
  unfolding starts_with_def by (metis append_eq_conv_conj append_take_drop_id)

lemma starts_with_append [simp]: "starts_with (p @ r) p"
  by (auto simp: starts_with_iff)

lemma starts_with_Nil [simp]: "starts_with s [] "
  by (simp add: starts_with_def)

lemma starts_with_Cons [simp]: "starts_with (c # s) (d # p) \<longleftrightarrow> c = d \<and> starts_with s p"
  by (auto simp: starts_with_def)

lemma starts_with_empty [simp]: "starts_with [] p \<longleftrightarrow> p = []"
  by (auto simp: starts_with_def)

lemma str_in_iff: "str_in p s \<longleftrightarrow> (\<exists>a b. s = a @ p @ b)"
proof (induction s)
  case Nil
  show ?case by auto
next
  case (Cons c s)
  have "(\<exists>a b. c # s = a @ p @ b) \<longleftrightarrow> (\<exists>b. c # s = p @ b) \<or> (\<exists>a b. s = a @ p @ b)"
    by (metis append_Cons append_Nil list.inject neq_Nil_conv)
  with Cons show ?case by (simp add: starts_with_iff)
qed

lemma str_in_single [simp]: "str_in [c] s \<longleftrightarrow> c \<in> set s"
  by (induction s) auto

lemma str_cut_Some: "str_cut p s = Some (a, b) \<Longrightarrow> s = a @ p @ b"
proof (induction s arbitrary: a)
  case (Cons c s)
  show ?case
  proof (cases "p \<noteq> [] \<and> starts_with (c # s) p")
    case True
    with Cons.prems have ab: "a = []" "b = drop (length p) (c # s)" by auto
    from True have "take (length p) (c # s) = p" by (simp add: starts_with_def)
    with ab show ?thesis by (metis append_Nil append_take_drop_id)
  next
    case False
    with Cons show ?thesis by auto
  qed
qed simp

lemma str_cut_None: "p \<noteq> [] \<Longrightarrow> str_cut p s = None \<longleftrightarrow> \<not> str_in p s"
  by (induction s) auto

lemma str_cut_nonempty: "str_cut p s = Some (a, b) \<Longrightarrow> p \<noteq> []"
  by (induction s arbitrary: a) (auto split: if_splits)

lemma str_cut_shorter: "str_cut p s = Some (a, b) \<Longrightarrow> length b < length s"
  by (frule str_cut_Some, drule str_cut_nonempty) auto

lemma str_cut_single: "c \<notin> set a \<Longrightarrow> str_cut [c] (a @ c # b) = Some (a, b)"
  by (induction a) auto

lemma str_cut_single_None: "c \<notin> set a \<Longrightarrow> str_cut [c] a = None"
  by (induction a) auto

section \<open>Splitting and joining\<close>

text \<open>\<open>s.split(p)\<close>, \<open>s.split(p, 1)\<close> and \<open>s.partition(p)\<close>.\<close>

function str_split :: "string \<Rightarrow> string \<Rightarrow> string list" where
  "str_split p s = (case str_cut p s of None \<Rightarrow> [s] | Some (a, b) \<Rightarrow> a # str_split p b)"
  by pat_completeness auto
termination
  by (relation "measure (\<lambda>(p, s). length s)") (auto dest: str_cut_shorter)

declare str_split.simps [simp del]

definition str_split1 :: "string \<Rightarrow> string \<Rightarrow> string list" where
  "str_split1 p s = (case str_cut p s of None \<Rightarrow> [s] | Some (a, b) \<Rightarrow> [a, b])"

definition str_partition :: "string \<Rightarrow> string \<Rightarrow> string \<times> string \<times> string" where
  "str_partition p s = (case str_cut p s of None \<Rightarrow> (s, [], []) | Some (a, b) \<Rightarrow> (a, p, b))"

text \<open>\<open>p.join(xs)\<close>.\<close>

fun str_join :: "string \<Rightarrow> string list \<Rightarrow> string" where
  "str_join p [] = []"
| "str_join p [x] = x"
| "str_join p (x # y # xs) = x @ p @ str_join p (y # xs)"

lemma str_split_nonempty [simp]: "str_split p s \<noteq> []"
  by (subst str_split.simps) (auto split: option.splits)

lemma str_split_None: "str_cut p s = None \<Longrightarrow> str_split p s = [s]"
  by (subst str_split.simps) simp

lemma str_split_Some: "str_cut p s = Some (a, b) \<Longrightarrow> str_split p s = a # str_split p b"
  by (subst str_split.simps) simp

lemma str_join_Cons: "xs \<noteq> [] \<Longrightarrow> str_join p (x # xs) = x @ p @ str_join p xs"
  by (cases xs) auto

lemma str_join_split: "str_join p (str_split p s) = s"
proof (induction p s rule: str_split.induct)
  case (1 p s)
  show ?case
  proof (cases "str_cut p s")
    case None
    then show ?thesis by (simp add: str_split_None)
  next
    case (Some ab)
    obtain a b where ab: "ab = (a, b)" by (cases ab)
    with Some 1 have "str_join p (str_split p b) = b" by simp
    with Some ab show ?thesis
      by (simp add: str_split_Some str_join_Cons str_cut_Some [symmetric])
  qed
qed

lemma str_split_join:
  "xs \<noteq> [] \<Longrightarrow> list_all (\<lambda>x. c \<notin> set x) xs \<Longrightarrow> str_split [c] (str_join [c] xs) = xs"
proof (induction xs rule: induct_list012)
  case (2 x)
  then show ?case by (simp add: str_split_None str_cut_single_None)
next
  case (3 x y zs)
  then have "str_cut [c] (str_join [c] (x # y # zs)) = Some (x, str_join [c] (y # zs))"
    by (simp add: str_cut_single)
  with 3 show ?case by (simp add: str_split_Some)
qed simp

lemma str_split1_single: "c \<notin> set a \<Longrightarrow> str_split1 [c] (a @ c # b) = [a, b]"
  by (simp add: str_split1_def str_cut_single)

lemma str_split1_length: "length (str_split1 p s) \<le> 2"
  by (simp add: str_split1_def split: option.splits prod.splits)

lemma str_join_no_char:
  "c \<notin> set p \<Longrightarrow> list_all (\<lambda>x. c \<notin> set x) xs \<Longrightarrow> c \<notin> set (str_join p xs)"
  by (induction p xs rule: str_join.induct) auto

lemma str_split_parts_no_char: "list_all (\<lambda>x. c \<notin> set x) (str_split [c] s)"
proof (induction "[c]" s rule: str_split.induct)
  case (1 s)
  show ?case
  proof (cases "str_cut [c] s")
    case None
    then show ?thesis by (simp add: str_split_None str_cut_None)
  next
    case (Some ab)
    obtain a b where ab: "ab = (a, b)" by (cases ab)
    have "c \<notin> set a" using Some unfolding ab
    proof (induction s arbitrary: a)
      case (Cons d s)
      then show ?case by (auto split: if_splits)
    qed simp
    with Some ab 1 show ?thesis by (simp add: str_split_Some)
  qed
qed

section \<open>Replacing, stripping, case\<close>

text \<open>\<open>s.replace(p, q)\<close>, left to right, occurrences not overlapping.\<close>

function str_replace :: "string \<Rightarrow> string \<Rightarrow> string \<Rightarrow> string" where
  "str_replace p q s = (case str_cut p s of None \<Rightarrow> s | Some (a, b) \<Rightarrow> a @ q @ str_replace p q b)"
  by pat_completeness auto
termination
  by (relation "measure (\<lambda>(p, q, s). length s)") (auto dest: str_cut_shorter)

declare str_replace.simps [simp del]

definition is_space :: "char \<Rightarrow> bool" where
  "is_space c = (let n = (of_char c :: nat) in
     9 \<le> n \<and> n \<le> 13 \<or> 28 \<le> n \<and> n \<le> 32 \<or> n = 133 \<or> n = 160)"

text \<open>\<open>s.strip()\<close> with no argument.\<close>

definition str_strip :: "string \<Rightarrow> string" where
  "str_strip s = rev (dropWhile is_space (rev (dropWhile is_space s)))"

definition lower_char :: "char \<Rightarrow> char" where
  "lower_char c = (let n = (of_char c :: nat) in if 65 \<le> n \<and> n \<le> 90 then char_of (n + 32) else c)"

definition upper_char :: "char \<Rightarrow> char" where
  "upper_char c = (let n = (of_char c :: nat) in if 97 \<le> n \<and> n \<le> 122 then char_of (n - 32) else c)"

definition str_lower :: "string \<Rightarrow> string" where
  "str_lower s = map lower_char s"

definition str_upper :: "string \<Rightarrow> string" where
  "str_upper s = map upper_char s"

lemma str_replace_None: "str_cut p s = None \<Longrightarrow> str_replace p q s = s"
  by (subst str_replace.simps) simp

lemma str_replace_Some: "str_cut p s = Some (a, b) \<Longrightarrow> str_replace p q s = a @ q @ str_replace p q b"
  by (subst str_replace.simps) simp

lemma str_replace_absent: "p \<noteq> [] \<Longrightarrow> \<not> str_in p s \<Longrightarrow> str_replace p q s = s"
  by (simp add: str_replace_None str_cut_None)

lemma str_cut_single_Some: "str_cut [c] s = Some (a, b) \<Longrightarrow> s = a @ c # b \<and> c \<notin> set a"
  by (induction s arbitrary: a) (auto split: if_splits)

text \<open>Deleting one character is filtering it out.\<close>

lemma str_replace_char: "str_replace [c] [] s = filter (\<lambda>x. x \<noteq> c) s"
proof (induction "[c]" "[]::string" s rule: str_replace.induct)
  case (1 s)
  show ?case
  proof (cases "str_cut [c] s")
    case None
    then have "c \<notin> set s" by (simp add: str_cut_None)
    then have "filter (\<lambda>x. x \<noteq> c) s = s" by (auto intro: filter_True)
    with None show ?thesis by (simp add: str_replace_None)
  next
    case (Some ab)
    obtain a b where ab: "ab = (a, b)" by (cases ab)
    from Some ab have s: "s = a @ c # b" and "c \<notin> set a"
      using str_cut_single_Some by blast+
    then have "filter (\<lambda>x. x \<noteq> c) a = a" by (auto intro: filter_True)
    with s Some ab 1 show ?thesis by (simp add: str_replace_Some)
  qed
qed

lemma lower_char_idem [simp]: "lower_char (lower_char c) = lower_char c"
  by (simp add: lower_char_def Let_def)

lemma str_lower_idem [simp]: "str_lower (str_lower s) = str_lower s"
  by (simp add: str_lower_def)

section \<open>Integers as text\<close>

text \<open>
  The value of a digit in any base up to 36 is not needed: the code reads bases 2, 8, 10 and 16.
\<close>

definition digit_char :: "nat \<Rightarrow> char" where
  "digit_char d = char_of (if d < 10 then 48 + d else 87 + d)"

definition digit_val :: "char \<Rightarrow> nat option" where
  "digit_val c = (let n = (of_char c :: nat) in
     if 48 \<le> n \<and> n \<le> 57 then Some (n - 48)
     else if 97 \<le> n \<and> n \<le> 102 then Some (n - 87)
     else if 65 \<le> n \<and> n \<le> 70 then Some (n - 55) else None)"

definition is_dec :: "char \<Rightarrow> bool" where
  "is_dec c = (let n = (of_char c :: nat) in 48 \<le> n \<and> n \<le> 57)"

text \<open>
  \<open>s.isdigit()\<close>: non-empty and every character a digit. The superscripts two, three and one
  (code points 178, 179 and 185) count as digits for \<open>isdigit\<close>, although \<open>int\<close> refuses them.
\<close>

definition isdigit_char :: "char \<Rightarrow> bool" where
  "isdigit_char c = (is_dec c \<or> (of_char c :: nat) \<in> {178, 179, 185})"

definition str_isdigit :: "string \<Rightarrow> bool" where
  "str_isdigit s = (s \<noteq> [] \<and> list_all isdigit_char s)"

fun nat_digits :: "nat \<Rightarrow> nat \<Rightarrow> string" where
  "nat_digits b n = (if b < 2 \<or> n < b then [digit_char n]
                     else nat_digits b (n div b) @ [digit_char (n mod b)])"

declare nat_digits.simps [simp del]

text \<open>\<open>str(n)\<close> and \<open>hex(n)\<close>.\<close>

definition int_str :: "int \<Rightarrow> string" where
  "int_str n = (if n < 0 then CHR ''-'' # nat_digits 10 (nat (- n)) else nat_digits 10 (nat n))"

definition int_hex :: "int \<Rightarrow> string" where
  "int_hex n = (if n < 0 then ''-0x'' @ nat_digits 16 (nat (- n)) else ''0x'' @ nat_digits 16 (nat n))"

text \<open>
  Digits in base \<open>b\<close>, with single underscores allowed between digits, as in \<open>int(s, b)\<close>. The
  flag says whether an underscore may come next.
\<close>

fun digits_from :: "nat \<Rightarrow> nat \<Rightarrow> bool \<Rightarrow> string \<Rightarrow> nat option" where
  "digits_from b acc u [] = (if u then Some acc else None)"
| "digits_from b acc u (c # cs) =
     (if c = CHR ''_'' then (if u then digits_from b acc False cs else None)
      else case digit_val c of
        None \<Rightarrow> None
      | Some d \<Rightarrow> if d < b then digits_from b (acc * b + d) True cs else None)"

definition base_prefix :: "nat \<Rightarrow> string \<Rightarrow> bool" where
  "base_prefix b s = (let p = str_lower (take 2 s) in
     (b = 16 \<and> p = ''0x'') \<or> (b = 8 \<and> p = ''0o'') \<or> (b = 2 \<and> p = ''0b''))"

definition after_prefix :: "string \<Rightarrow> string" where
  "after_prefix s = (case drop 2 s of CHR ''_'' # t \<Rightarrow> t | t \<Rightarrow> t)"

text \<open>
  The digits after the sign: \<open>int(s, 16)\<close> accepts a \<open>0x\<close> prefix; \<open>int(s, 0)\<close> takes the base from
  the prefix and refuses a decimal with leading zeros unless it is zero.
\<close>

definition unsigned_int :: "nat \<Rightarrow> string \<Rightarrow> nat option" where
  "unsigned_int b s =
     (if b = 0 then
        (if base_prefix 16 s then digits_from 16 0 False (after_prefix s)
         else if base_prefix 8 s then digits_from 8 0 False (after_prefix s)
         else if base_prefix 2 s then digits_from 2 0 False (after_prefix s)
         else (case digits_from 10 0 False s of
                 None \<Rightarrow> None
               | Some n \<Rightarrow> if n \<noteq> 0 \<and> take 1 s = ''0'' then None else Some n))
      else if base_prefix b s then digits_from b 0 False (after_prefix s)
      else digits_from b 0 False s)"

definition py_int :: "nat \<Rightarrow> string \<Rightarrow> int res" where
  "py_int b s =
     (let t = str_strip s;
          (neg, u) = (case t of
             c # r \<Rightarrow> if c = CHR ''-'' then (True, r) else if c = CHR ''+'' then (False, r) else (False, t)
           | [] \<Rightarrow> (False, []))
      in case unsigned_int b u of
           None \<Rightarrow> Err ValueError
         | Some n \<Rightarrow> Ok (if neg then - int n else int n))"

lemma of_char_digit_char: "d < 16 \<Longrightarrow> (of_char (digit_char d) :: nat) = (if d < 10 then 48 + d else 87 + d)"
  by (simp add: digit_char_def)

lemma digit_val_digit_char [simp]: "d < 16 \<Longrightarrow> digit_val (digit_char d) = Some d"
  by (auto simp: digit_val_def of_char_digit_char Let_def)

lemma digit_char_not_underscore [simp]: "d < 16 \<Longrightarrow> digit_char d \<noteq> CHR ''_''"
proof
  assume d: "d < 16" and "digit_char d = CHR ''_''"
  then have "(of_char (digit_char d) :: nat) = 95" by simp
  with d show False by (simp add: of_char_digit_char split: if_splits)
qed

lemma digit_char_not_space [simp]: "d < 16 \<Longrightarrow> \<not> is_space (digit_char d)"
  by (auto simp: is_space_def of_char_digit_char Let_def)

lemma is_dec_digit_char [simp]: "d < 16 \<Longrightarrow> is_dec (digit_char d) \<longleftrightarrow> d < 10"
  by (auto simp: is_dec_def of_char_digit_char Let_def)


section \<open>Integers survive printing and reading\<close>

lemma nat_digits_nonempty [simp]: "nat_digits b n \<noteq> []"
  by (subst nat_digits.simps) simp

lemma nat_digits_chars:
  "2 \<le> b \<Longrightarrow> c \<in> set (nat_digits b n) \<Longrightarrow> \<exists>d < b. c = digit_char d"
proof (induction b n rule: nat_digits.induct)
  case (1 b n)
  show ?case
  proof (cases "n < b")
    case True
    with 1 show ?thesis by (auto simp: nat_digits.simps [of b n])
  next
    case False
    from 1 False have "c = digit_char (n mod b) \<or> c \<in> set (nat_digits b (n div b))"
      by (simp add: nat_digits.simps [of b n])
    with 1 False show ?thesis by (metis linorder_not_le mod_less_divisor order_less_le_trans zero_less_numeral)
  qed
qed

lemma nat_digits_all:
  "2 \<le> b \<Longrightarrow> (\<And>d. d < b \<Longrightarrow> P (digit_char d)) \<Longrightarrow> list_all P (nat_digits b n)"
  by (auto simp: list_all_iff dest: nat_digits_chars)

lemma digits_from_snoc:
  "digits_from b acc u s = Some v \<Longrightarrow> d < b \<Longrightarrow> b \<le> 16 \<Longrightarrow>
   digits_from b acc u (s @ [digit_char d]) = Some (v * b + d)"
  by (induction s arbitrary: acc u) (auto split: if_splits option.splits)

lemma digits_from_nat_digits:
  "2 \<le> b \<Longrightarrow> b \<le> 16 \<Longrightarrow> digits_from b 0 False (nat_digits b n) = Some n"
proof (induction b n rule: nat_digits.induct)
  case (1 b n)
  show ?case
  proof (cases "n < b")
    case True
    with 1 show ?thesis by (simp add: nat_digits.simps [of b n])
  next
    case False
    with 1 have "digits_from b 0 False (nat_digits b (n div b)) = Some (n div b)" by simp
    then have "digits_from b 0 False (nat_digits b (n div b) @ [digit_char (n mod b)])
        = Some (n div b * b + n mod b)"
      using 1 by (intro digits_from_snoc) auto
    with False 1 show ?thesis by (simp add: nat_digits.simps [of b n])
  qed
qed

lemma dropWhile_hd: "s \<noteq> [] \<Longrightarrow> \<not> P (hd s) \<Longrightarrow> dropWhile P s = s"
  by (cases s) auto

lemma str_strip_id: "list_all (\<lambda>c. \<not> is_space c) s \<Longrightarrow> str_strip s = s"
proof (cases "s = []")
  case False
  assume "list_all (\<lambda>c. \<not> is_space c) s"
  with False have "\<not> is_space (hd s)" "\<not> is_space (last s)" by (auto simp: list_all_iff)
  with False show ?thesis
    by (simp add: str_strip_def dropWhile_hd hd_rev)
qed (simp add: str_strip_def)

lemma nat_digits_no_space: "2 \<le> b \<Longrightarrow> b \<le> 16 \<Longrightarrow> list_all (\<lambda>c. \<not> is_space c) (nat_digits b n)"
  by (rule nat_digits_all) auto

lemma digit_char_neq [simp]:
  assumes "d < 16"
  shows "digit_char d \<noteq> CHR ''-''" "digit_char d \<noteq> CHR ''+''" "digit_char d \<noteq> CHR '' ''"
    "digit_char d \<noteq> CHR ''x''" "digit_char d \<noteq> CHR '':''" "digit_char d \<noteq> CHR '',''"
    "digit_char d \<noteq> CHR ''o''" "digit_char d \<noteq> CHR 0x22" "digit_char d \<noteq> CHR ''{''"
    "digit_char d \<noteq> CHR ''[''" "digit_char d \<noteq> CHR ''n''" "digit_char d \<noteq> CHR ''t''"
    "digit_char d \<noteq> CHR '']''" "digit_char d \<noteq> CHR ''}''"
proof -
  have "(of_char (digit_char d) :: nat) \<in> {48..57} \<union> {97..102}"
    using assms by (auto simp: of_char_digit_char)
  then show "digit_char d \<noteq> CHR ''-''" "digit_char d \<noteq> CHR ''+''" "digit_char d \<noteq> CHR '' ''"
    "digit_char d \<noteq> CHR ''x''" "digit_char d \<noteq> CHR '':''" "digit_char d \<noteq> CHR '',''"
    "digit_char d \<noteq> CHR ''o''" "digit_char d \<noteq> CHR 0x22" "digit_char d \<noteq> CHR ''{''"
    "digit_char d \<noteq> CHR ''[''" "digit_char d \<noteq> CHR ''n''" "digit_char d \<noteq> CHR ''t''"
    "digit_char d \<noteq> CHR '']''" "digit_char d \<noteq> CHR ''}''"
    by auto
qed

lemma hd_nat_digits: "2 \<le> b \<Longrightarrow> \<exists>d < b. hd (nat_digits b n) = digit_char d"
  using nat_digits_chars [of b "hd (nat_digits b n)" n] by (simp add: hd_in_set)

lemma nat_digits_Cons:
  assumes "2 \<le> b"
  obtains d ds where "nat_digits b n = digit_char d # ds" and "d < b"
  using hd_nat_digits [OF assms, of n]
  by (metis list.exhaust_sel nat_digits_nonempty)

lemma lower_digit: "d < 16 \<Longrightarrow> lower_char (digit_char d) = digit_char d"
  by (auto simp: lower_char_def of_char_digit_char Let_def)

lemma base_prefix_10 [simp]: "\<not> base_prefix 10 s"
  by (simp add: base_prefix_def Let_def)

lemma base_prefix_0x [simp]: "base_prefix 16 (CHR ''0'' # CHR ''x'' # s)"
  by (simp add: base_prefix_def str_lower_def lower_char_def Let_def)

lemma after_prefix_digits:
  "2 \<le> b \<Longrightarrow> b \<le> 16 \<Longrightarrow> after_prefix (CHR ''0'' # x # nat_digits b n) = nat_digits b n"
  by (rule nat_digits_Cons [of b n]) (auto simp: after_prefix_def split: list.splits char.splits bool.splits)

lemma py_int_signed:
  assumes "list_all (\<lambda>c. \<not> is_space c) u" and "unsigned_int b u = Some n"
    and "u = [] \<or> hd u \<noteq> CHR ''-'' \<and> hd u \<noteq> CHR ''+''"
  shows "py_int b u = Ok (int n)" and "py_int b (CHR ''-'' # u) = Ok (- int n)"
proof -
  have "str_strip u = u" using assms(1) by (rule str_strip_id)
  with assms show "py_int b u = Ok (int n)"
    by (auto simp: py_int_def Let_def split: list.splits)
  have "str_strip (CHR ''-'' # u) = CHR ''-'' # u"
    using assms(1) by (intro str_strip_id) (simp add: is_space_def)
  with assms show "py_int b (CHR ''-'' # u) = Ok (- int n)"
    by (simp add: py_int_def)
qed

lemma unsigned_int_dec: "unsigned_int 10 (nat_digits 10 n) = Some n"
  by (simp add: unsigned_int_def digits_from_nat_digits)

lemma unsigned_int_hex: "unsigned_int 16 (''0x'' @ nat_digits 16 n) = Some n"
  by (simp add: unsigned_int_def digits_from_nat_digits after_prefix_digits)

lemma py_int_dec: "py_int 10 (int_str n) = Ok n"
proof -
  have "hd (nat_digits 10 m) \<noteq> CHR ''-'' \<and> hd (nat_digits 10 m) \<noteq> CHR ''+''" for m
  proof -
    obtain d where "d < 10" and d: "hd (nat_digits 10 m) = digit_char d"
      using hd_nat_digits [of 10 m] by auto
    then have "d < 16" by simp
    then show ?thesis by (simp only: d digit_char_neq simp_thms)
  qed
  then show ?thesis
    using py_int_signed [OF _ unsigned_int_dec] nat_digits_no_space [of 10]
    by (simp add: int_str_def)
qed

lemma py_int_hex: "py_int 16 (int_hex n) = Ok n"
proof -
  have "list_all (\<lambda>c. \<not> is_space c) (''0x'' @ nat_digits 16 m)" for m
    using nat_digits_no_space [of 16 m] by (simp add: is_space_def)
  then show ?thesis
    using py_int_signed [OF _ unsigned_int_hex] by (simp add: int_hex_def)
qed

interpretation dec_codec: codec int_str "py_int 10" "\<lambda>_. True"
  by unfold_locales (rule py_int_dec)

interpretation hex_codec: codec int_hex "py_int 16" "\<lambda>_. True"
  by unfold_locales (rule py_int_hex)

end
