(* ===== verification/Json.thy ===== *)
theory Json imports PyString begin

text \<open>
  The dynamic values the code passes around (JSON values: \<open>None\<close>, booleans, integers, strings,
  lists and dictionaries with string keys) and the two library functions every SAI message goes
  through, \<open>json.dumps\<close> and \<open>json.loads\<close>. The main result is that reading back what was printed
  gives the value, for both separator styles the code uses. Floating-point literals and code
  points from 256 on are outside the model and reported as \<open>Unmodelled\<close>.
\<close>

datatype pyval =
    PNone
  | PBool bool
  | PInt int
  | PStr string
  | PList "pyval list"
  | PDict "(string \<times> pyval) list"

text \<open>A value Python can hold: every dictionary has distinct keys.\<close>

fun val_ok :: "pyval \<Rightarrow> bool"
  and vals_ok :: "pyval list \<Rightarrow> bool"
  and members_ok :: "(string \<times> pyval) list \<Rightarrow> bool" where
  "val_ok (PList xs) = vals_ok xs"
| "val_ok (PDict kvs) = (dict_ok kvs \<and> members_ok kvs)"
| "val_ok _ = True"
| "vals_ok [] = True"
| "vals_ok (x # xs) = (val_ok x \<and> vals_ok xs)"
| "members_ok [] = True"
| "members_ok ((k, v) # kvs) = (val_ok v \<and> members_ok kvs)"

lemma vals_ok_iff: "vals_ok xs \<longleftrightarrow> (\<forall>x \<in> set xs. val_ok x)"
  by (induction xs) auto

text \<open>Python's truth value of an object.\<close>

fun truthy :: "pyval \<Rightarrow> bool" where
  "truthy PNone = False"
| "truthy (PBool b) = b"
| "truthy (PInt n) = (n \<noteq> 0)"
| "truthy (PStr s) = (s \<noteq> [])"
| "truthy (PList xs) = (xs \<noteq> [])"
| "truthy (PDict kvs) = (kvs \<noteq> [])"

text \<open>\<open>==\<close> on values: dictionaries compare without regard to order, and \<open>True == 1\<close>.\<close>

fun py_eq :: "pyval \<Rightarrow> pyval \<Rightarrow> bool"
  and py_eqs :: "pyval list \<Rightarrow> pyval list \<Rightarrow> bool"
  and py_eq_members :: "(string \<times> pyval) list \<Rightarrow> (string \<times> pyval) list \<Rightarrow> bool" where
  "py_eq PNone w = (w = PNone)"
| "py_eq (PBool b) w = (w = PBool b \<or> w = PInt (if b then 1 else 0))"
| "py_eq (PInt n) w = (w = PInt n \<or> n = 0 \<and> w = PBool False \<or> n = 1 \<and> w = PBool True)"
| "py_eq (PStr s) w = (w = PStr s)"
| "py_eq (PList xs) w = (case w of PList ys \<Rightarrow> py_eqs xs ys | _ \<Rightarrow> False)"
| "py_eq (PDict kvs) w = (case w of
     PDict ls \<Rightarrow> length kvs = length ls \<and> py_eq_members kvs ls | _ \<Rightarrow> False)"
| "py_eqs [] ys = (ys = [])"
| "py_eqs (x # xs) ys = (case ys of [] \<Rightarrow> False | y # zs \<Rightarrow> py_eq x y \<and> py_eqs xs zs)"
| "py_eq_members [] ls = True"
| "py_eq_members ((k, v) # kvs) ls =
     ((case map_of ls k of None \<Rightarrow> False | Some w \<Rightarrow> py_eq v w) \<and> py_eq_members kvs ls)"

text \<open>Using a value as a string: anything else raises the exception given.\<close>

fun as_str :: "exn \<Rightarrow> pyval \<Rightarrow> string res" where
  "as_str e (PStr s) = Ok s"
| "as_str e _ = Err e"

lemma as_str_Ok [simp]: "as_str e v = Ok s \<longleftrightarrow> v = PStr s"
  by (cases v) auto

abbreviation quote_ch :: char where
  "quote_ch \<equiv> CHR 0x22"

abbreviation bslash :: char where
  "bslash \<equiv> CHR 0x5C"

section \<open>Printing\<close>

definition esc_char :: "char \<Rightarrow> string" where
  "esc_char c = (let n = (of_char c :: nat) in
     if c = quote_ch then [bslash, quote_ch]
     else if c = bslash then [bslash, bslash]
     else if n = 10 then [bslash, CHR ''n'']
     else if n = 13 then [bslash, CHR ''r'']
     else if n = 9 then [bslash, CHR ''t'']
     else if n = 12 then [bslash, CHR ''f'']
     else if n = 8 then [bslash, CHR ''b'']
     else if 32 \<le> n \<and> n \<le> 126 then [c]
     else [bslash, CHR ''u'', CHR ''0'', CHR ''0'', digit_char (n div 16), digit_char (n mod 16)])"

definition dumps_str :: "string \<Rightarrow> string" where
  "dumps_str s = quote_ch # concat (map esc_char s) @ [quote_ch]"

text \<open>
  The flag picks the separators: \<open>True\<close> for \<open>separators=(',', ':')\<close>, \<open>False\<close> for the default
  \<open>(', ', ': ')\<close>.
\<close>

definition item_sep :: "bool \<Rightarrow> string" where
  "item_sep compact = (if compact then '','' else '', '')"

definition key_sep :: "bool \<Rightarrow> string" where
  "key_sep compact = (if compact then '':'' else '': '')"

fun dumps_with :: "bool \<Rightarrow> pyval \<Rightarrow> string"
  and dumps_items :: "bool \<Rightarrow> pyval list \<Rightarrow> string"
  and dumps_members :: "bool \<Rightarrow> (string \<times> pyval) list \<Rightarrow> string" where
  "dumps_with c PNone = ''null''"
| "dumps_with c (PBool b) = (if b then ''true'' else ''false'')"
| "dumps_with c (PInt n) = int_str n"
| "dumps_with c (PStr s) = dumps_str s"
| "dumps_with c (PList xs) = CHR ''['' # dumps_items c xs @ '']''"
| "dumps_with c (PDict kvs) = CHR ''{'' # dumps_members c kvs @ ''}''"
| "dumps_items c [] = []"
| "dumps_items c (x # xs) =
     (if xs = [] then dumps_with c x else dumps_with c x @ item_sep c @ dumps_items c xs)"
| "dumps_members c [] = []"
| "dumps_members c ((k, v) # kvs) =
     (if kvs = [] then dumps_str k @ key_sep c @ dumps_with c v
      else dumps_str k @ key_sep c @ dumps_with c v @ item_sep c @ dumps_members c kvs)"

text \<open>\<open>json.dumps(v)\<close>.\<close>

abbreviation dumps :: "pyval \<Rightarrow> string" where
  "dumps \<equiv> dumps_with False"

section \<open>Reading\<close>

definition is_ws :: "char \<Rightarrow> bool" where
  "is_ws c = (c = CHR '' '' \<or> c = CHR 0x09 \<or> c = CHR 0x0A \<or> c = CHR 0x0D)"

definition skip_ws :: "string \<Rightarrow> string" where
  "skip_ws s = dropWhile is_ws s"

definition unescape :: "char \<Rightarrow> char option" where
  "unescape e =
     (if e = quote_ch then Some quote_ch
      else if e = bslash then Some bslash
      else if e = CHR ''/'' then Some (CHR ''/'')
      else if e = CHR ''b'' then Some (CHR 0x08)
      else if e = CHR ''f'' then Some (CHR 0x0C)
      else if e = CHR ''n'' then Some (CHR 0x0A)
      else if e = CHR ''r'' then Some (CHR 0x0D)
      else if e = CHR ''t'' then Some (CHR 0x09)
      else None)"

definition hex4 :: "char \<Rightarrow> char \<Rightarrow> char \<Rightarrow> char \<Rightarrow> nat option" where
  "hex4 a b c d = (case (digit_val a, digit_val b, digit_val c, digit_val d) of
     (Some p, Some q, Some r, Some s) \<Rightarrow> Some (((p * 16 + q) * 16 + r) * 16 + s)
   | _ \<Rightarrow> None)"

text \<open>One character of a string literal: itself, or an escape sequence.\<close>

definition scan_unicode :: "string \<Rightarrow> (char \<times> string) res" where
  "scan_unicode s = (case s of
     p # q # r # t # rest \<Rightarrow>
       (case hex4 p q r t of
          None \<Rightarrow> Err JSONDecodeError
        | Some n \<Rightarrow> if n < 256 then Ok (char_of n, rest) else Err (Unmodelled ''code point''))
   | _ \<Rightarrow> Err JSONDecodeError)"

definition scan_escape :: "string \<Rightarrow> (char \<times> string) res" where
  "scan_escape s = (case s of
     [] \<Rightarrow> Err JSONDecodeError
   | e # rest \<Rightarrow>
       if e = CHR ''u'' then scan_unicode rest
       else (case unescape e of None \<Rightarrow> Err JSONDecodeError | Some x \<Rightarrow> Ok (x, rest)))"

definition scan_char :: "char \<Rightarrow> string \<Rightarrow> (char \<times> string) res" where
  "scan_char c cs =
     (if c = bslash then scan_escape cs
      else if (of_char c :: nat) < 32 then Err JSONDecodeError
      else Ok (c, cs))"

lemma scan_unicode_length: "scan_unicode s = Ok (x, r) \<Longrightarrow> length r < length s"
  by (auto simp: scan_unicode_def split: list.splits option.splits if_splits)

lemma scan_escape_length: "scan_escape s = Ok (x, r) \<Longrightarrow> length r < length s"
  by (auto simp: scan_escape_def dest: scan_unicode_length split: list.splits option.splits if_splits)

lemma scan_char_length: "scan_char c cs = Ok (x, r) \<Longrightarrow> length r < Suc (length cs)"
  by (auto simp: scan_char_def dest!: scan_escape_length split: if_splits)

text \<open>The rest of a string literal, after its opening quote.\<close>

function scan_str :: "string \<Rightarrow> (string \<times> string) res" where
  "scan_str [] = Err JSONDecodeError"
| "scan_str (c # cs) =
     (if c = quote_ch then Ok ([], cs)
      else (case scan_char c cs of
              Err e \<Rightarrow> Err e
            | Ok (x, r) \<Rightarrow> rbind (scan_str r) (\<lambda>(t, u). Ok (x # t, u))))"
  by pat_completeness auto
termination
  by (relation "measure length") (auto dest: scan_char_length)

text \<open>Numbers: \<open>-?(0|[1-9][0-9]*)\<close>; a fraction or exponent would make a float.\<close>

definition float_tail :: "string \<Rightarrow> bool" where
  "float_tail s = (case s of
     c # d # r \<Rightarrow>
       (if c = CHR ''.'' then is_dec d
        else if c = CHR ''e'' \<or> c = CHR ''E'' then
          (is_dec d \<or> ((d = CHR ''+'' \<or> d = CHR ''-'') \<and> r \<noteq> [] \<and> is_dec (hd r)))
        else False)
   | _ \<Rightarrow> False)"

definition dec_value :: "string \<Rightarrow> nat" where
  "dec_value s = (case digits_from 10 0 False s of None \<Rightarrow> 0 | Some n \<Rightarrow> n)"

definition scan_nat :: "string \<Rightarrow> (nat \<times> string) res" where
  "scan_nat s = (case s of
     [] \<Rightarrow> Err JSONDecodeError
   | c # cs \<Rightarrow>
       if c = CHR ''0'' then (if float_tail cs then Err (Unmodelled ''float'') else Ok (0, cs))
       else if is_dec c then
         (let r = dropWhile is_dec s in
          if float_tail r then Err (Unmodelled ''float'') else Ok (dec_value (takeWhile is_dec s), r))
       else Err JSONDecodeError)"

definition scan_number :: "string \<Rightarrow> (pyval \<times> string) res" where
  "scan_number s = (case s of
     c # cs \<Rightarrow>
       if c = CHR ''-'' then
         (if starts_with cs ''Infinity'' then Err (Unmodelled ''float'')
          else rbind (scan_nat cs) (\<lambda>(n, r). Ok (PInt (- int n), r)))
       else rbind (scan_nat s) (\<lambda>(n, r). Ok (PInt (int n), r))
   | [] \<Rightarrow> Err JSONDecodeError)"

definition scan_word :: "string \<Rightarrow> (pyval \<times> string) res" where
  "scan_word s =
     (if starts_with s ''null'' then Ok (PNone, drop 4 s)
      else if starts_with s ''true'' then Ok (PBool True, drop 4 s)
      else if starts_with s ''false'' then Ok (PBool False, drop 5 s)
      else if starts_with s ''NaN'' \<or> starts_with s ''Infinity'' then Err (Unmodelled ''float'')
      else scan_number s)"

text \<open>
  The value parser, on fuel: one unit per value, element or member. A repeated key overwrites
  the earlier value, as \<open>json.loads\<close> does.
\<close>

fun scan_value :: "nat \<Rightarrow> string \<Rightarrow> (pyval \<times> string) res"
  and scan_items :: "nat \<Rightarrow> string \<Rightarrow> pyval list \<Rightarrow> (pyval \<times> string) res"
  and scan_members :: "nat \<Rightarrow> string \<Rightarrow> (string, pyval) dict \<Rightarrow> (pyval \<times> string) res" where
  "scan_value 0 s = Err OutOfFuel"
| "scan_value (Suc f) s = (case s of
     [] \<Rightarrow> Err JSONDecodeError
   | c # cs \<Rightarrow>
       if c = quote_ch then rbind (scan_str cs) (\<lambda>(t, r). Ok (PStr t, r))
       else if c = CHR ''{'' then
         (case skip_ws cs of
            [] \<Rightarrow> Err JSONDecodeError
          | d # ds \<Rightarrow> if d = CHR ''}'' then Ok (PDict [], ds) else scan_members f (d # ds) [])
       else if c = CHR ''['' then
         (case skip_ws cs of
            [] \<Rightarrow> Err JSONDecodeError
          | d # ds \<Rightarrow> if d = CHR '']'' then Ok (PList [], ds) else scan_items f (d # ds) [])
       else scan_word s)"
| "scan_items 0 s acc = Err OutOfFuel"
| "scan_items (Suc f) s acc = rbind (scan_value f s) (\<lambda>(v, r).
     case skip_ws r of
       [] \<Rightarrow> Err JSONDecodeError
     | d # ds \<Rightarrow>
         if d = CHR '']'' then Ok (PList (acc @ [v]), ds)
         else if d = CHR '','' then scan_items f (skip_ws ds) (acc @ [v])
         else Err JSONDecodeError)"
| "scan_members 0 s acc = Err OutOfFuel"
| "scan_members (Suc f) s acc = (case s of
     [] \<Rightarrow> Err JSONDecodeError
   | c # cs \<Rightarrow>
       if c \<noteq> quote_ch then Err JSONDecodeError
       else rbind (scan_str cs) (\<lambda>(k, r).
         case skip_ws r of
           [] \<Rightarrow> Err JSONDecodeError
         | d # ds \<Rightarrow>
             if d \<noteq> CHR '':'' then Err JSONDecodeError
             else rbind (scan_value f (skip_ws ds)) (\<lambda>(v, r2).
               case skip_ws r2 of
                 [] \<Rightarrow> Err JSONDecodeError
               | e # es \<Rightarrow>
                   if e = CHR ''}'' then Ok (PDict (dict_set k v acc), es)
                   else if e = CHR '','' then scan_members f (skip_ws es) (dict_set k v acc)
                   else Err JSONDecodeError)))"

text \<open>\<open>json.loads(s)\<close>. Twice the length of the text is always enough fuel (\<open>loads_no_fuel\<close>).\<close>

definition loads :: "string \<Rightarrow> pyval res" where
  "loads s = rbind (scan_value (2 * length s + 1) (skip_ws s)) (\<lambda>(v, r).
     if skip_ws r = [] then Ok v else Err JSONDecodeError)"

section \<open>The parser never runs out of fuel\<close>

lemma skip_ws_length: "length (skip_ws s) \<le> length s"
  by (simp add: skip_ws_def length_dropWhile_le)

lemma skip_ws_Cons_length: "skip_ws s = c # t \<Longrightarrow> length t < length s"
  using skip_ws_length [of s] by simp

lemma starts_with_length: "starts_with s p \<Longrightarrow> length p \<le> length s"
  by (auto simp: starts_with_iff)

lemma scan_str_length: "scan_str s = Ok (t, u) \<Longrightarrow> length u < length s"
proof (induction s arbitrary: t u rule: scan_str.induct)
  case (2 c cs)
  then show ?case
    by (cases "scan_char c cs") (fastforce dest: scan_char_length split: if_splits)+
qed simp

lemma scan_char_fuel [simp]: "scan_char c cs \<noteq> Err OutOfFuel"
  by (auto simp: scan_char_def scan_escape_def scan_unicode_def
      split: list.splits option.splits if_splits)

lemma scan_str_fuel [simp]: "scan_str s \<noteq> Err OutOfFuel"
proof (induction s rule: scan_str.induct)
  case (2 c cs)
  then show ?case
    by (cases "scan_char c cs") (auto simp: rbind_eq_Err split: prod.splits)
qed simp

lemma scan_nat_length: "scan_nat s = Ok (n, r) \<Longrightarrow> length r < length s"
  by (auto simp: scan_nat_def Let_def less_Suc_eq_le length_dropWhile_le
      split: list.splits if_splits)

lemma scan_number_length: "scan_number s = Ok (v, r) \<Longrightarrow> length r < length s"
  by (auto simp: scan_number_def dest!: scan_nat_length split: list.splits if_splits)

lemma scan_word_length: "scan_word s = Ok (v, r) \<Longrightarrow> length r < length s"
  by (auto simp: scan_word_def dest: scan_number_length starts_with_length split: if_splits)

lemma scan_nat_fuel [simp]: "scan_nat s \<noteq> Err OutOfFuel"
  by (auto simp: scan_nat_def Let_def split: list.splits)

lemma scan_number_fuel [simp]: "scan_number s \<noteq> Err OutOfFuel"
  by (auto simp: scan_number_def rbind_eq_Err split: list.splits)

lemma scan_word_fuel [simp]: "scan_word s \<noteq> Err OutOfFuel"
  by (simp add: scan_word_def)

lemma scan_items_OkE:
  assumes "scan_items (Suc f) s acc = Ok (w, r)"
  obtains (last) v q where "scan_value f s = Ok (v, q)" "skip_ws q = CHR '']'' # r"
      "w = PList (acc @ [v])"
  | (more) v q ds where "scan_value f s = Ok (v, q)" "skip_ws q = CHR '','' # ds"
      "scan_items f (skip_ws ds) (acc @ [v]) = Ok (w, r)"
proof -
  from assms obtain v q where v: "scan_value f s = Ok (v, q)" by auto
  with assms obtain d ds where d: "skip_ws q = d # ds" by (auto split: list.splits)
  from assms v d consider "d = CHR '']''" "w = PList (acc @ [v])" "r = ds"
    | "d = CHR '',''" "scan_items f (skip_ws ds) (acc @ [v]) = Ok (w, r)"
    by (auto split: if_splits)
  then show thesis using v d last more by cases auto
qed

lemma scan_members_OkE:
  assumes "scan_members (Suc f) s acc = Ok (w, r)"
  obtains (last) cs k q ds v q2 where "s = quote_ch # cs" "scan_str cs = Ok (k, q)"
      "skip_ws q = CHR '':'' # ds" "scan_value f (skip_ws ds) = Ok (v, q2)"
      "skip_ws q2 = CHR ''}'' # r" "w = PDict (dict_set k v acc)"
  | (more) cs k q ds v q2 es where "s = quote_ch # cs" "scan_str cs = Ok (k, q)"
      "skip_ws q = CHR '':'' # ds" "scan_value f (skip_ws ds) = Ok (v, q2)"
      "skip_ws q2 = CHR '','' # es" "scan_members f (skip_ws es) (dict_set k v acc) = Ok (w, r)"
proof -
  from assms obtain cs where s: "s = quote_ch # cs" by (auto split: list.splits if_splits)
  with assms obtain k q where k: "scan_str cs = Ok (k, q)" by auto
  with assms s obtain ds where d: "skip_ws q = CHR '':'' # ds"
    by (auto split: list.splits if_splits)
  with assms s k obtain v q2 where v: "scan_value f (skip_ws ds) = Ok (v, q2)" by auto
  with assms s k d obtain e es where e: "skip_ws q2 = e # es" by (auto split: list.splits)
  from assms s k d v e consider "e = CHR ''}''" "w = PDict (dict_set k v acc)" "r = es"
    | "e = CHR '',''" "scan_members f (skip_ws es) (dict_set k v acc) = Ok (w, r)"
    by (auto split: if_splits)
  then show thesis using s k d v e last more by cases auto
qed

lemma scan_value_OkE:
  assumes "scan_value (Suc f) s = Ok (w, r)"
  obtains (str) cs t where "s = quote_ch # cs" "scan_str cs = Ok (t, r)" "w = PStr t"
  | (nil) c cs d where "s = c # cs" "skip_ws cs = d # r"
  | (dict) c cs where "s = c # cs" "scan_members f (skip_ws cs) [] = Ok (w, r)"
  | (list) c cs where "s = c # cs" "scan_items f (skip_ws cs) [] = Ok (w, r)"
  | (word) "scan_word s = Ok (w, r)"
proof -
  from assms obtain c cs where s: "s = c # cs" by (auto split: list.splits)
  consider "c = quote_ch" | "c = CHR ''{''" | "c = CHR ''[''"
    | "c \<noteq> quote_ch" "c \<noteq> CHR ''{''" "c \<noteq> CHR ''[''" by blast
  then show thesis
  proof cases
    case 2
    with assms s nil dict show thesis by (cases "skip_ws cs") (auto split: if_splits)
  next
    case 3
    with assms s nil list show thesis by (cases "skip_ws cs") (auto split: if_splits)
  qed (use assms s str word in auto)
qed

lemma scan_length:
  "(scan_value f s = Ok (v, r) \<longrightarrow> length r < length s) \<and>
   (scan_items f s acc = Ok (v, r) \<longrightarrow> length r < length s) \<and>
   (scan_members f s d = Ok (v, r) \<longrightarrow> length r < length s)"
proof (induction f arbitrary: s v r acc d)
  case (Suc f)
  note step = skip_ws_Cons_length scan_str_length skip_ws_length less_trans
  have val_c: "length r < length s" if "scan_value (Suc f) s = Ok (v, r)" for s v r
    using that
  proof (cases rule: scan_value_OkE)
    case (dict c cs)
    then show ?thesis using Suc skip_ws_length [of cs] by fastforce
  next
    case (list c cs)
    then show ?thesis using Suc skip_ws_length [of cs] by fastforce
  qed (auto dest: scan_str_length scan_word_length skip_ws_Cons_length)
  have its_c: "length r < length s" if "scan_items (Suc f) s acc = Ok (v, r)"
    using that
  proof (cases rule: scan_items_OkE)
    case (last w q)
    then show ?thesis using Suc skip_ws_Cons_length [of q] by (meson less_trans)
  next
    case (more w q ds)
    then have "length r < length (skip_ws ds)" "length q < length s" using Suc by blast+
    with more show ?thesis using skip_ws_Cons_length [of q] skip_ws_length [of ds] by fastforce
  qed
  have mem_c: "length r < length s" if "scan_members (Suc f) s d = Ok (v, r)"
    using that
  proof (cases rule: scan_members_OkE)
    case (last cs k q ds w q2)
    then have "length q2 < length (skip_ws ds)" "length q < length cs"
      using Suc scan_str_length by blast+
    with last show ?thesis
      using skip_ws_Cons_length [of q] skip_ws_Cons_length [of q2] skip_ws_length [of ds] by fastforce
  next
    case (more cs k q ds w q2 es)
    then have "length q2 < length (skip_ws ds)" "length q < length cs" "length r < length (skip_ws es)"
      using Suc scan_str_length by blast+
    with more show ?thesis
      using skip_ws_Cons_length [of q] skip_ws_Cons_length [of q2]
        skip_ws_length [of ds] skip_ws_length [of es] by fastforce
  qed
  from val_c its_c mem_c show ?case by blast
qed simp

lemma scan_no_fuel:
  "(2 * length s + 1 \<le> f \<longrightarrow> scan_value f s \<noteq> Err OutOfFuel) \<and>
   (2 * length s + 2 \<le> f \<longrightarrow> scan_items f s acc \<noteq> Err OutOfFuel) \<and>
   (2 * length s + 2 \<le> f \<longrightarrow> scan_members f s d \<noteq> Err OutOfFuel)"
proof (induction f arbitrary: s acc d)
  case (Suc f)
  have val_c: "scan_value (Suc f) s \<noteq> Err OutOfFuel" if "2 * length s \<le> f" for s
  proof (cases s)
    case (Cons c cs)
    have "scan_items f (skip_ws cs) [] \<noteq> Err OutOfFuel"
      and "scan_members f (skip_ws cs) [] \<noteq> Err OutOfFuel"
      using that Cons skip_ws_length [of cs] Suc by simp_all
    with Cons show ?thesis by (cases "skip_ws cs") (simp_all add: rbind_eq_Err)
  qed simp
  have its_c: "scan_items (Suc f) s acc \<noteq> Err OutOfFuel" if le: "2 * length s + 1 \<le> f"
  proof
    assume err: "scan_items (Suc f) s acc = Err OutOfFuel"
    from Suc le have "scan_value f s \<noteq> Err OutOfFuel" by simp
    with err obtain v r where v1: "scan_value f s = Ok (v, r)"
      by (cases "scan_value f s") auto
    with err obtain ds where v2: "skip_ws r = CHR '','' # ds"
      and rest: "scan_items f (skip_ws ds) (acc @ [v]) = Err OutOfFuel"
      by (cases "skip_ws r") (auto split: if_splits)
    note v = v1 v2
    from v have "length ds + 2 \<le> length s"
      using scan_length [of f s v r] skip_ws_Cons_length [of r] by fastforce
    then have "2 * length (skip_ws ds) + 2 \<le> f" using le skip_ws_length [of ds] by linarith
    with rest Suc show False by blast
  qed
  have mem_c: "scan_members (Suc f) s d \<noteq> Err OutOfFuel" if le: "2 * length s + 1 \<le> f"
  proof
    assume err: "scan_members (Suc f) s d = Err OutOfFuel"
    then obtain cs where s1: "s = quote_ch # cs" by (auto split: list.splits if_splits)
    with err obtain k q where s2: "scan_str cs = Ok (k, q)" by (cases "scan_str cs") auto
    with err s1 obtain ds where "skip_ws q = CHR '':'' # ds"
      by (cases "skip_ws q") (auto split: if_splits)
    note s = s1 s2 this
    from s have lt: "length ds + 2 < length s"
      using scan_str_length [of cs k q] skip_ws_Cons_length [of q] by fastforce
    then have "2 * length (skip_ws ds) + 1 \<le> f" using le skip_ws_length [of ds] by linarith
    with Suc have "scan_value f (skip_ws ds) \<noteq> Err OutOfFuel" by blast
    with err s obtain v r where v1: "scan_value f (skip_ws ds) = Ok (v, r)"
      by (cases "scan_value f (skip_ws ds)") auto
    with err s obtain es where v2: "skip_ws r = CHR '','' # es"
      and rest: "scan_members f (skip_ws es) (dict_set k v d) = Err OutOfFuel"
      by (cases "skip_ws r") (auto split: if_splits)
    note v = v1 v2
    from v have "length es < length (skip_ws ds)"
      using scan_length [of f "skip_ws ds" v r] skip_ws_Cons_length [of r] by fastforce
    then have "2 * length (skip_ws es) + 2 \<le> f"
      using lt le skip_ws_length [of ds] skip_ws_length [of es] by linarith
    with rest Suc show False by blast
  qed
  from val_c its_c mem_c show ?case by simp
qed simp

lemma loads_no_fuel: "loads s \<noteq> Err OutOfFuel"
proof -
  have "scan_value (2 * length s + 1) (skip_ws s) \<noteq> Err OutOfFuel"
    using scan_no_fuel [of "skip_ws s" "2 * length s + 1"] skip_ws_length [of s] by simp
  then show ?thesis by (auto simp: loads_def rbind_eq_Err split: if_splits)
qed

section \<open>Reading back what was printed\<close>

lemma hex4_byte:
  "n < 256 \<Longrightarrow> hex4 (CHR ''0'') (CHR ''0'') (digit_char (n div 16)) (digit_char (n mod 16)) = Some n"
  by (simp add: hex4_def digit_val_def [of "CHR ''0''"])

lemma of_char_less [simp]: "(of_char c :: nat) < 256"
  by (metis of_char_mod_256 mod_less_divisor zero_less_numeral)

lemma scan_escape_u:
  "scan_escape (CHR ''u'' # CHR ''0'' # CHR ''0'' # digit_char (of_char c div 16) #
     digit_char (of_char c mod 16) # s) = Ok (c, s)"
  by (simp add: scan_escape_def scan_unicode_def hex4_byte)

lemma scan_char_simple: "unescape e = Some x \<Longrightarrow> e \<noteq> CHR ''u'' \<Longrightarrow> scan_char bslash (e # s) = Ok (x, s)"
  by (simp add: scan_char_def scan_escape_def)

lemma char_eqI: "(of_char c :: nat) = of_char d \<Longrightarrow> c = d"
  by (drule arg_cong [where f = char_of]) simp

lemma scan_str_esc:
  "scan_str (esc_char c @ s) = rbind (scan_str s) (\<lambda>(t, u). Ok (c # t, u))"
proof -
  have esc: "(of_char c :: nat) = 10 \<Longrightarrow> c = CHR 0x0A" "(of_char c :: nat) = 13 \<Longrightarrow> c = CHR 0x0D"
    "(of_char c :: nat) = 9 \<Longrightarrow> c = CHR 0x09" "(of_char c :: nat) = 12 \<Longrightarrow> c = CHR 0x0C"
    "(of_char c :: nat) = 8 \<Longrightarrow> c = CHR 0x08"
    by (auto intro: char_eqI)
  consider "c = quote_ch" | "c = bslash" | "(of_char c :: nat) \<in> {8, 9, 10, 12, 13}"
    | "c \<noteq> quote_ch" "c \<noteq> bslash" "(of_char c :: nat) \<notin> {8, 9, 10, 12, 13}" by blast
  then show ?thesis
  proof cases
    case 3
    with esc show ?thesis
      by (auto simp: esc_char_def scan_char_simple unescape_def)
  next
    case 4
    then show ?thesis
      by (cases "32 \<le> (of_char c :: nat) \<and> (of_char c :: nat) \<le> 126")
         (auto simp: esc_char_def scan_escape_u scan_char_def Let_def)
  qed (auto simp: esc_char_def scan_char_simple unescape_def)
qed

lemma scan_dumps_str: "scan_str (concat (map esc_char s) @ quote_ch # rest) = Ok (s, rest)"
  by (induction s) (simp_all add: scan_str_esc)


lemma nat_digits_zero [simp]: "nat_digits b 0 = ''0''"
proof -
  have "char_of (48::nat) = CHR ''0''" by (rule char_eqI) simp
  then show ?thesis by (subst nat_digits.simps) (auto simp: digit_char_def)
qed

lemma nat_digits_hd_nonzero: "2 \<le> b \<Longrightarrow> b \<le> 16 \<Longrightarrow> 0 < n \<Longrightarrow> hd (nat_digits b n) \<noteq> CHR ''0''"
proof (induction b n rule: nat_digits.induct)
  case (1 b n)
  have zero: "d < 16 \<Longrightarrow> digit_char d = CHR ''0'' \<Longrightarrow> d = 0" for d
    using of_char_digit_char [of d] by (auto split: if_splits)
  show ?case
  proof (cases "n < b")
    case True
    with 1 zero [of n] show ?thesis by (auto simp: nat_digits.simps [of b n])
  next
    case False
    with 1 have "0 < n div b" by (simp add: div_greater_zero_iff)
    with 1 False show ?thesis by (simp add: nat_digits.simps [of b n])
  qed
qed

text \<open>What may follow a value: the end of the text or a delimiter.\<close>

definition delimited :: "string \<Rightarrow> bool" where
  "delimited r = (r = [] \<or> hd r \<in> {CHR '','', CHR '']'', CHR ''}''})"

lemma delimited_no_dec: "delimited r \<Longrightarrow> takeWhile is_dec r = [] \<and> dropWhile is_dec r = r"
  by (cases r) (auto simp: delimited_def is_dec_def)

lemma delimited_no_float: "delimited r \<Longrightarrow> \<not> float_tail r"
  by (auto simp: delimited_def float_tail_def split: list.splits)

lemma scan_nat_digits:
  assumes "delimited r"
  shows "scan_nat (nat_digits 10 n @ r) = Ok (n, r)"
proof (cases "n = 0")
  case True
  with assms show ?thesis by (simp add: scan_nat_def delimited_no_float)
next
  case False
  obtain d ds where ds: "nat_digits 10 n = digit_char d # ds" and d: "d < 10"
    by (rule nat_digits_Cons [of 10 n]) auto
  have "digit_char d \<noteq> CHR ''0''" using nat_digits_hd_nonzero [of 10 n] False ds by simp
  moreover have all: "list_all is_dec (nat_digits 10 n)" by (rule nat_digits_all) auto
  then have "takeWhile is_dec (nat_digits 10 n @ r) = nat_digits 10 n"
    "dropWhile is_dec (nat_digits 10 n @ r) = r"
    using delimited_no_dec [OF assms]
    by (simp_all add: takeWhile_append2 dropWhile_append2 list_all_iff)
  moreover have "is_dec (digit_char d)" using d by simp
  moreover have "dec_value (digit_char d # ds) = n"
    by (simp only: ds [symmetric] dec_value_def digits_from_nat_digits) simp
  ultimately show ?thesis using delimited_no_float [OF assms] by (simp add: scan_nat_def ds)
qed

lemma scan_word_int:
  assumes "delimited r"
  shows "scan_word (int_str n @ r) = Ok (PInt n, r)"
proof -
  obtain d ds where ds: "nat_digits 10 (nat n) = digit_char d # ds" and d: "d < 10"
    by (rule nat_digits_Cons [of 10 "nat n"]) auto
  obtain e es where es: "nat_digits 10 (nat (- n)) = digit_char e # es" and e: "e < 10"
    by (rule nat_digits_Cons [of 10 "nat (- n)"]) auto
  have neq: "x < 10 \<Longrightarrow> digit_char x \<noteq> CHR ''I'' \<and> digit_char x \<noteq> CHR ''N'' \<and> digit_char x \<noteq> CHR ''f''" for x
    using of_char_digit_char [of x] by auto
  have "d < 16" "e < 16" using d e by simp_all
  with assms d e neq [OF d] neq [OF e] show ?thesis
    using scan_nat_digits [OF assms, of "nat n"] scan_nat_digits [OF assms, of "nat (- n)"]
    by (simp add: int_str_def scan_word_def scan_number_def ds es)
qed

lemma dumps_hd:
  "\<exists>h t. dumps_with c v = h # t \<and> \<not> is_ws h \<and> h \<noteq> CHR '']'' \<and> h \<noteq> CHR ''}'' \<and>
     (h = quote_ch \<or> h = CHR ''{'' \<or> h = CHR ''['' \<or> (\<forall>x. v \<noteq> PStr x) \<and> (\<forall>x. v \<noteq> PList x) \<and> (\<forall>x. v \<noteq> PDict x))"
proof (cases v)
  case (PInt n)
  have digits: "\<exists>h t. nat_digits 10 m = h # t \<and> \<not> is_ws h \<and> h \<noteq> CHR '']'' \<and> h \<noteq> CHR ''}''" for m
  proof -
    obtain d ds where ds: "nat_digits 10 m = digit_char d # ds" and d: "d < 10"
      by (rule nat_digits_Cons [of 10 m]) auto
    have "\<not> is_ws (digit_char d)" using of_char_digit_char [of d] d by (auto simp: is_ws_def)
    with ds d show ?thesis by simp
  qed
  show ?thesis
  proof (cases "n < 0")
    case True
    then show ?thesis using PInt by (simp add: int_str_def is_ws_def)
  next
    case False
    then show ?thesis using PInt digits [of "nat n"] by (auto simp: int_str_def)
  qed
qed (auto simp: dumps_str_def is_ws_def)

lemma skip_ws_dumps [simp]: "skip_ws (dumps_with c v @ r) = dumps_with c v @ r"
  using dumps_hd [of c v] by (auto simp: skip_ws_def)

lemma skip_ws_item_sep: "skip_ws (tl (item_sep c) @ dumps_with c v @ r) = dumps_with c v @ r"
  using skip_ws_dumps [of c v r] by (cases c) (simp_all add: item_sep_def skip_ws_def is_ws_def)

lemma skip_ws_simps [simp]:
  "skip_ws [] = []" "skip_ws (CHR '','' # r) = CHR '','' # r" "skip_ws (CHR '']'' # r) = CHR '']'' # r"
  "skip_ws (CHR ''}'' # r) = CHR ''}'' # r" "skip_ws (CHR '':'' # r) = CHR '':'' # r"
  "skip_ws (CHR '' '' # r) = skip_ws r" "skip_ws (quote_ch # r) = quote_ch # r"
  by (simp_all add: skip_ws_def is_ws_def)

lemma delimited_simps [simp]:
  "delimited []" "delimited (CHR '','' # r)" "delimited (CHR '']'' # r)" "delimited (CHR ''}'' # r)"
  by (simp_all add: delimited_def)

lemma item_sep_append: "item_sep c @ s = CHR '','' # (if c then s else CHR '' '' # s)"
  by (simp add: item_sep_def)

lemma key_sep_append: "key_sep c @ s = CHR '':'' # (if c then s else CHR '' '' # s)"
  by (simp add: key_sep_def)

lemma scan_value_int:
  assumes "delimited r"
  shows "scan_value (Suc f) (int_str n @ r) = Ok (PInt n, r)"
proof -
  obtain h t where h: "int_str n = h # t" using dumps_hd [of False "PInt n"] by auto
  have "h \<noteq> quote_ch \<and> h \<noteq> CHR ''{'' \<and> h \<noteq> CHR ''[''"
  proof (cases "n < 0")
    case True
    with h show ?thesis by (auto simp: int_str_def)
  next
    case False
    obtain d ds where ds: "nat_digits 10 (nat n) = digit_char d # ds" and d: "d < 10"
      by (rule nat_digits_Cons [of 10 "nat n"]) auto
    have "d < 16" using d by simp
    with False h ds show ?thesis by (auto simp: int_str_def)
  qed
  with h show ?thesis using scan_word_int [OF assms, of n] by simp
qed

lemma item_sep_length: "1 \<le> length (item_sep c)"
  by (simp add: item_sep_def)

lemma dumps_items_hd:
  "\<exists>h t. dumps_items c (x # xs) @ s = h # t \<and> \<not> is_ws h \<and> h \<noteq> CHR '']''"
proof -
  obtain h t where "dumps_with c x = h # t" "\<not> is_ws h" "h \<noteq> CHR '']''"
    using dumps_hd [of c x] by blast
  then show ?thesis by (cases "xs = []") simp_all
qed

lemma dumps_members_hd: "\<exists>t. dumps_members c (kv # kvs) @ s = quote_ch # t"
  by (cases kv; cases "kvs = []") (simp_all add: dumps_str_def)

lemma scan_dumps:
  "val_ok v \<Longrightarrow> delimited r \<Longrightarrow> 2 * length (dumps_with c v) + 1 \<le> f \<Longrightarrow>
     scan_value f (dumps_with c v @ r) = Ok (v, r)"
  "vals_ok xs \<Longrightarrow> xs \<noteq> [] \<Longrightarrow> 2 * length (dumps_items c xs) + 2 \<le> f \<Longrightarrow>
     scan_items f (dumps_items c xs @ CHR '']'' # r) acc = Ok (PList (acc @ xs), r)"
  "members_ok kvs \<Longrightarrow> kvs \<noteq> [] \<Longrightarrow> dict_ok (d @ kvs) \<Longrightarrow>
     2 * length (dumps_members c kvs) + 2 \<le> f \<Longrightarrow>
     scan_members f (dumps_members c kvs @ CHR ''}'' # r) d = Ok (PDict (d @ kvs), r)"
proof (induction c v and c xs and c kvs arbitrary: f r and f r acc and f r d
    rule: dumps_with_dumps_items_dumps_members.induct)
  case (1 c)
  then show ?case by (cases f) (simp_all add: scan_word_def)
next
  case (2 c b)
  then show ?case by (cases f; cases b) (simp_all add: scan_word_def)
next
  case (3 c n)
  then show ?case by (cases f) (simp_all add: scan_value_int del: scan_value.simps)
next
  case (4 c s)
  then show ?case by (cases f) (simp_all add: dumps_str_def scan_dumps_str)
next
  case (5 c xs)
  then obtain g where f: "f = Suc g" by (cases f) auto
  show ?case
  proof (cases xs)
    case Nil
    with f show ?thesis by simp
  next
    case (Cons x ys)
    then obtain h t where "dumps_items c xs @ CHR '']'' # r = h # t" "\<not> is_ws h" "h \<noteq> CHR '']''"
      using dumps_items_hd by blast
    moreover have "scan_items g (dumps_items c xs @ CHR '']'' # r) [] = Ok (PList xs, r)"
      using 5 f Cons by simp
    ultimately show ?thesis using f by (simp add: skip_ws_def)
  qed
next
  case (6 c kvs)
  then obtain g where f: "f = Suc g" by (cases f) auto
  show ?case
  proof (cases kvs)
    case Nil
    with f show ?thesis by simp
  next
    case (Cons kv ys)
    then obtain t where "dumps_members c kvs @ CHR ''}'' # r = quote_ch # t"
      using dumps_members_hd by blast
    moreover have "scan_members g (dumps_members c kvs @ CHR ''}'' # r) [] = Ok (PDict kvs, r)"
      using 6 f Cons by simp
    ultimately show ?thesis using f by simp
  qed
next
  case (8 c x xs)
  then obtain g where f: "f = Suc g" by (cases f) auto
  show ?case
  proof (cases "xs = []")
    case True
    with 8 f show ?thesis by simp
  next
    case False
    then obtain y ys where xs: "xs = y # ys" by (cases xs) auto
    have "skip_ws ((if c then [] else '' '') @ dumps_items c xs @ CHR '']'' # r) =
        dumps_items c xs @ CHR '']'' # r"
      using xs by simp
    moreover have "scan_value g (dumps_with c x @ item_sep c @ dumps_items c xs @ CHR '']'' # r) =
        Ok (x, item_sep c @ dumps_items c xs @ CHR '']'' # r)"
      using 8 f False by (simp add: item_sep_append)
    moreover have "scan_items g (dumps_items c xs @ CHR '']'' # r) (acc @ [x]) =
        Ok (PList (acc @ x # xs), r)"
      using "8.IH"(3) [of g r "acc @ [x]"] "8.prems" f False item_sep_length [of c] by simp
    ultimately show ?thesis using f False by (cases c) (simp_all add: item_sep_append)
  qed
next
  case (10 c k v kvs)
  then obtain g where f: "f = Suc g" by (cases f) auto
  have new: "dict_set k v d = d @ [(k, v)]" using 10 by (intro dict_set_new) auto
  show ?case
  proof (cases "kvs = []")
    case True
    have "scan_value g (dumps_with c v @ CHR ''}'' # r) = Ok (v, CHR ''}'' # r)"
      using 10 f True by simp
    with True f new show ?thesis
      by (cases c) (simp_all add: dumps_str_def scan_dumps_str key_sep_append)
  next
    case False
    then obtain t where t: "dumps_members c kvs @ CHR ''}'' # r = quote_ch # t"
      using dumps_members_hd by (metis neq_Nil_conv)
    have "scan_value g (dumps_with c v @ item_sep c @ dumps_members c kvs @ CHR ''}'' # r) =
        Ok (v, item_sep c @ dumps_members c kvs @ CHR ''}'' # r)"
      using 10 f False by (simp add: item_sep_append)
    moreover have "scan_members g (dumps_members c kvs @ CHR ''}'' # r) (d @ [(k, v)]) =
        Ok (PDict (d @ (k, v) # kvs), r)"
      using "10.IH"(3) [of "d @ [(k, v)]" g r] "10.prems" f False item_sep_length [of c] by simp
    ultimately show ?thesis using f False t new
      by (cases c) (simp_all add: dumps_str_def scan_dumps_str key_sep_append item_sep_append)
  qed
qed simp_all

lemma loads_dumps_with: "val_ok v \<Longrightarrow> loads (dumps_with c v) = Ok v"
  using scan_dumps(1) [of v "[]" c] skip_ws_dumps [of c v "[]"] by (simp add: loads_def del: scan_value.simps)

interpretation json_codec: codec dumps loads val_ok
  by unfold_locales (rule loads_dumps_with)

interpretation compact_codec: codec "dumps_with True" loads val_ok
  by unfold_locales (rule loads_dumps_with)


section \<open>Removing spaces\<close>

text \<open>
  The code turns the default separators into the compact ones by deleting every space of the
  text, which is harmless exactly when no key and no string of the value has a space in it.
\<close>

fun val_no_space :: "pyval \<Rightarrow> bool"
  and vals_no_space :: "pyval list \<Rightarrow> bool"
  and members_no_space :: "(string \<times> pyval) list \<Rightarrow> bool" where
  "val_no_space (PStr s) = (CHR '' '' \<notin> set s)"
| "val_no_space (PList xs) = vals_no_space xs"
| "val_no_space (PDict kvs) = members_no_space kvs"
| "val_no_space _ = True"
| "vals_no_space [] = True"
| "vals_no_space (x # xs) = (val_no_space x \<and> vals_no_space xs)"
| "members_no_space [] = True"
| "members_no_space ((k, v) # kvs) = (CHR '' '' \<notin> set k \<and> val_no_space v \<and> members_no_space kvs)"

lemma esc_char_space: "CHR '' '' \<in> set (esc_char c) \<longleftrightarrow> c = CHR '' ''"
proof -
  have "of_char c div 16 < (16::nat)" "of_char c mod 16 < (16::nat)"
    using of_char_less [of c] by (simp_all add: less_mult_imp_div_less)
  from this [THEN digit_char_neq(3)] show ?thesis by (auto simp: esc_char_def Let_def dest: sym)
qed

lemma dumps_str_space: "CHR '' '' \<in> set (dumps_str s) \<longleftrightarrow> CHR '' '' \<in> set s"
  by (auto simp: dumps_str_def esc_char_space)

lemma filter_no_space: "CHR '' '' \<notin> set s \<Longrightarrow> filter (\<lambda>x. x \<noteq> CHR '' '') s = s"
  by (auto intro: filter_True)

lemma int_str_no_space: "CHR '' '' \<notin> set (int_str n)"
  using nat_digits_all [of 10 "\<lambda>c. c \<noteq> CHR '' ''"]
  by (auto simp: int_str_def list_all_iff)

lemma filter_dumps:
  "val_no_space v \<Longrightarrow> filter (\<lambda>x. x \<noteq> CHR '' '') (dumps_with c v) = dumps_with True v"
  "vals_no_space xs \<Longrightarrow> filter (\<lambda>x. x \<noteq> CHR '' '') (dumps_items c xs) = dumps_items True xs"
  "members_no_space kvs \<Longrightarrow> filter (\<lambda>x. x \<noteq> CHR '' '') (dumps_members c kvs) = dumps_members True kvs"
proof (induction c v and c xs and c kvs rule: dumps_with_dumps_items_dumps_members.induct)
  case (3 c n)
  then show ?case by (simp add: filter_no_space int_str_no_space)
next
  case (4 c s)
  then show ?case by (simp add: filter_no_space dumps_str_space)
next
  case (8 c x xs)
  then show ?case by (cases c) (simp_all add: item_sep_def)
next
  case (10 c k v kvs)
  then show ?case
    by (cases c) (simp_all add: filter_no_space dumps_str_space item_sep_def key_sep_def)
qed simp_all

lemma replace_space_dumps:
  "val_no_space v \<Longrightarrow> str_replace '' '' [] (dumps_with c v) = dumps_with True v"
  by (simp add: str_replace_char filter_dumps)

end
