(* ===== verification/SaiData.thy ===== *)
theory SaiData imports Json "HOL-Library.Word" begin

text \<open>
  \<open>common/sai_data.py\<close> and the list builders of \<open>common/sai.py\<close>: the status and object-type
  enumerations, the \<open>SaiData\<close> wrapper around the text of a response with its accessors, and the
  \<open>make_*\<close> functions that build the counted lists the accessors read back. Object IDs
  (\<open>oid:0x...\<close>) carry the object type in bits 48 and up.
\<close>

unbundle bit_operations_syntax

section \<open>SaiStatus\<close>

datatype sai_status =
    SUCCESS | FAILURE | NOT_SUPPORTED | NO_MEMORY | INSUFFICIENT_RESOURCES | INVALID_PARAMETER
  | ITEM_ALREADY_EXISTS | ITEM_NOT_FOUND | BUFFER_OVERFLOW | INVALID_PORT_NUMBER
  | INVALID_PORT_MEMBER | INVALID_VLAN_ID | UNINITIALIZED | TABLE_FULL
  | MANDATORY_ATTRIBUTE_MISSING | NOT_IMPLEMENTED | ADDR_NOT_FOUND | OBJECT_IN_USE
  | INVALID_OBJECT_TYPE | INVALID_OBJECT_ID | INVALID_NV_STORAGE | NV_STORAGE_FULL
  | SW_UPGRADE_VERSION_MISMATCH | NOT_EXECUTED | INVALID_ATTRIBUTE_0 | INVALID_ATTRIBUTE_MAX
  | INVALID_ATTR_VALUE_0 | INVALID_ATTR_VALUE_MAX | ATTR_NOT_IMPLEMENTED_0
  | ATTR_NOT_IMPLEMENTED_MAX | UNKNOWN_ATTRIBUTE_0 | UNKNOWN_ATTRIBUTE_MAX
  | ATTR_NOT_SUPPORTED_0 | ATTR_NOT_SUPPORTED_MAX

definition sai_statuses :: "(sai_status \<times> string \<times> int) list" where
  "sai_statuses =
    [(SUCCESS, ''SUCCESS'', 0x00000000),
     (FAILURE, ''FAILURE'', -0x00000001),
     (NOT_SUPPORTED, ''NOT_SUPPORTED'', -0x00000002),
     (NO_MEMORY, ''NO_MEMORY'', -0x00000003),
     (INSUFFICIENT_RESOURCES, ''INSUFFICIENT_RESOURCES'', -0x00000004),
     (INVALID_PARAMETER, ''INVALID_PARAMETER'', -0x00000005),
     (ITEM_ALREADY_EXISTS, ''ITEM_ALREADY_EXISTS'', -0x00000006),
     (ITEM_NOT_FOUND, ''ITEM_NOT_FOUND'', -0x00000007),
     (BUFFER_OVERFLOW, ''BUFFER_OVERFLOW'', -0x00000008),
     (INVALID_PORT_NUMBER, ''INVALID_PORT_NUMBER'', -0x00000009),
     (INVALID_PORT_MEMBER, ''INVALID_PORT_MEMBER'', -0x0000000A),
     (INVALID_VLAN_ID, ''INVALID_VLAN_ID'', -0x0000000B),
     (UNINITIALIZED, ''UNINITIALIZED'', -0x0000000C),
     (TABLE_FULL, ''TABLE_FULL'', -0x0000000D),
     (MANDATORY_ATTRIBUTE_MISSING, ''MANDATORY_ATTRIBUTE_MISSING'', -0x0000000E),
     (NOT_IMPLEMENTED, ''NOT_IMPLEMENTED'', -0x0000000F),
     (ADDR_NOT_FOUND, ''ADDR_NOT_FOUND'', -0x00000010),
     (OBJECT_IN_USE, ''OBJECT_IN_USE'', -0x00000011),
     (INVALID_OBJECT_TYPE, ''INVALID_OBJECT_TYPE'', -0x00000012),
     (INVALID_OBJECT_ID, ''INVALID_OBJECT_ID'', -0x00000013),
     (INVALID_NV_STORAGE, ''INVALID_NV_STORAGE'', -0x00000014),
     (NV_STORAGE_FULL, ''NV_STORAGE_FULL'', -0x00000015),
     (SW_UPGRADE_VERSION_MISMATCH, ''SW_UPGRADE_VERSION_MISMATCH'', -0x00000016),
     (NOT_EXECUTED, ''NOT_EXECUTED'', -0x00000017),
     (INVALID_ATTRIBUTE_0, ''INVALID_ATTRIBUTE_0'', -0x00010000),
     (INVALID_ATTRIBUTE_MAX, ''INVALID_ATTRIBUTE_MAX'', -0x0001FFFF),
     (INVALID_ATTR_VALUE_0, ''INVALID_ATTR_VALUE_0'', -0x00020000),
     (INVALID_ATTR_VALUE_MAX, ''INVALID_ATTR_VALUE_MAX'', -0x0002FFFF),
     (ATTR_NOT_IMPLEMENTED_0, ''ATTR_NOT_IMPLEMENTED_0'', -0x00030000),
     (ATTR_NOT_IMPLEMENTED_MAX, ''ATTR_NOT_IMPLEMENTED_MAX'', -0x0003FFFF),
     (UNKNOWN_ATTRIBUTE_0, ''UNKNOWN_ATTRIBUTE_0'', -0x00040000),
     (UNKNOWN_ATTRIBUTE_MAX, ''UNKNOWN_ATTRIBUTE_MAX'', -0x0004FFFF),
     (ATTR_NOT_SUPPORTED_0, ''ATTR_NOT_SUPPORTED_0'', -0x00050000),
     (ATTR_NOT_SUPPORTED_MAX, ''ATTR_NOT_SUPPORTED_MAX'', -0x0005FFFF)]"

text \<open>\<open>SaiStatus(v)\<close>, \<open>.name\<close> and \<open>.value\<close>.\<close>

definition status_of_value :: "int \<Rightarrow> sai_status res" where
  "status_of_value v = (case filter (\<lambda>(_, _, w). w = v) sai_statuses of
     [] \<Rightarrow> Err ValueError | (s, _, _) # _ \<Rightarrow> Ok s)"

definition status_name :: "sai_status \<Rightarrow> string" where
  "status_name s = (case map_of sai_statuses s of Some (n, _) \<Rightarrow> n | None \<Rightarrow> [])"

definition status_value :: "sai_status \<Rightarrow> int" where
  "status_value s = (case map_of sai_statuses s of Some (_, v) \<Rightarrow> v | None \<Rightarrow> 0)"

lemma statuses_agree: "list_all (\<lambda>(s, _, v). status_of_value v = Ok s \<and> status_value s = v) sai_statuses"
  by code_simp

lemma every_status: "list_ex (\<lambda>(t, _). t = s) sai_statuses"
  by (cases s; hypsubst_thin; code_simp)

lemma status_of_value_of: "status_of_value (status_value s) = Ok s"
  using statuses_agree every_status [of s] by (fastforce simp: list_all_iff list_ex_iff)

lemma status_value_of:
  assumes "status_of_value v = Ok s"
  shows "status_value s = v"
proof -
  from assms obtain n w xs where "filter (\<lambda>(_, _, w). w = v) sai_statuses = (s, n, w) # xs"
    by (auto simp: status_of_value_def split: list.splits)
  then have "(s, n, w) \<in> set (filter (\<lambda>(_, _, w). w = v) sai_statuses)" by simp
  with statuses_agree show ?thesis by (fastforce simp: list_all_iff)
qed

interpretation status_codec: codec status_value status_of_value "\<lambda>_. True"
  by unfold_locales (rule status_of_value_of)

section \<open>SaiObjType\<close>

text \<open>
  The members of \<open>SaiObjType\<close> are read at run time from \<open>sai.json\<close> or the Thrift headers; the
  rest of the development takes the resulting list as a parameter \<open>ots\<close>. \<open>ext\<close> stands for
  \<open>aenum.extend_enum\<close>.
\<close>

datatype sai_obj_type = SaiObjType (ot_name: string) (ot_value: int)

type_synonym extend_enum = "sai_obj_type list \<Rightarrow> string \<Rightarrow> pyval \<Rightarrow> sai_obj_type list res"

text \<open>A name of the Thrift headers is bound to an integer or to an object with a \<open>value\<close>.\<close>

datatype header_value = HInt int | HEnum int

fun header_int :: "header_value \<Rightarrow> int" where
  "header_int (HInt v) = v"
| "header_int (HEnum v) = v"

fun extend_all :: "extend_enum \<Rightarrow> (string \<times> pyval) list \<Rightarrow> sai_obj_type list \<Rightarrow> sai_obj_type list res" where
  "extend_all ext [] ots = Ok ots"
| "extend_all ext ((n, v) # ms) ots = rbind (ext ots n v) (extend_all ext ms)"

definition obj_type_headers :: "(string \<times> header_value) list \<Rightarrow> (string \<times> header_value) list" where
  "obj_type_headers globals = filter (\<lambda>(n, _).
     starts_with n ''SAI_OBJECT_TYPE_'' \<and> n \<noteq> ''SAI_OBJECT_TYPE_MAX'' \<and>
     n \<noteq> ''SAI_OBJECT_TYPE_EXTENSIONS_RANGE_START'') globals"

text \<open>\<open>None\<close> for the globals: \<open>sai_thrift\<close> cannot be imported, and the enumeration stays empty.\<close>

definition generate_from_thrift ::
  "extend_enum \<Rightarrow> (string \<times> header_value) list option \<Rightarrow> sai_obj_type list \<Rightarrow> sai_obj_type list res" where
  "generate_from_thrift ext globals ots =
     (if ots \<noteq> [] then Ok ots
      else case globals of
        None \<Rightarrow> Ok ots
      | Some gs \<Rightarrow> extend_all ext (map (\<lambda>(n, v). (drop 16 n, PInt (header_int v))) (obj_type_headers gs)) ots)"

text \<open>\<open>item.get('name')[16:]\<close> and \<open>item.get('value')\<close>.\<close>

definition json_member :: "pyval \<Rightarrow> (string \<times> pyval) res" where
  "json_member item = (case item of
     PDict kvs \<Rightarrow>
       (case map_of kvs ''name'' of
          Some (PStr n) \<Rightarrow> Ok (drop 16 n, case map_of kvs ''value'' of None \<Rightarrow> PNone | Some v \<Rightarrow> v)
        | Some (PList _) \<Rightarrow> Err (Unmodelled ''object type name'')
        | _ \<Rightarrow> Err TypeError)
   | _ \<Rightarrow> Err AttributeError)"

fun json_members :: "extend_enum \<Rightarrow> pyval list \<Rightarrow> sai_obj_type list \<Rightarrow> sai_obj_type list res" where
  "json_members ext [] ots = Ok ots"
| "json_members ext (i # is) ots =
     rbind (json_member i) (\<lambda>(n, v). rbind (ext ots n v) (json_members ext is))"

text \<open>\<open>None\<close> for the file: it cannot be opened.\<close>

definition generate_from_json :: "extend_enum \<Rightarrow> string option \<Rightarrow> sai_obj_type list \<Rightarrow> sai_obj_type list res" where
  "generate_from_json ext file ots =
     (if ots \<noteq> [] then Ok ots
      else case file of
        None \<Rightarrow> Err AssertionError
      | Some txt \<Rightarrow> rbind (loads txt) (\<lambda>j. case j of
          PList items \<Rightarrow> json_members ext items ots
        | PDict kvs \<Rightarrow> (if kvs = [] then Ok ots else Err AttributeError)
        | PStr s \<Rightarrow> (if s = [] then Ok ots else Err AttributeError)
        | _ \<Rightarrow> Err TypeError))"

text \<open>\<open>SaiObjType[name]\<close> and \<open>SaiObjType(value)\<close>.\<close>

definition obj_type_named :: "sai_obj_type list \<Rightarrow> string \<Rightarrow> sai_obj_type res" where
  "obj_type_named ots n = (case filter (\<lambda>t. ot_name t = n) ots of [] \<Rightarrow> Err KeyError | t # _ \<Rightarrow> Ok t)"

definition obj_type_valued :: "sai_obj_type list \<Rightarrow> int \<Rightarrow> sai_obj_type res" where
  "obj_type_valued ots v = (case filter (\<lambda>t. ot_value t = v) ots of [] \<Rightarrow> Err ValueError | t # _ \<Rightarrow> Ok t)"

text \<open>What an enumeration without aliases looks like.\<close>

definition ots_ok :: "sai_obj_type list \<Rightarrow> bool" where
  "ots_ok ots = (distinct (map ot_name ots) \<and> distinct (map ot_value ots) \<and>
     list_all (\<lambda>t. 0 \<le> ot_value t) ots)"

lemma filter_unique:
  "distinct (map f xs) \<Longrightarrow> t \<in> set xs \<Longrightarrow> filter (\<lambda>x. f x = f t) xs = [t]"
  by (induction xs) (auto simp: filter_empty_conv image_iff)

lemma obj_type_named_ok: "ots_ok ots \<Longrightarrow> t \<in> set ots \<Longrightarrow> obj_type_named ots (ot_name t) = Ok t"
  by (simp add: obj_type_named_def ots_ok_def filter_unique)

lemma obj_type_valued_ok: "ots_ok ots \<Longrightarrow> t \<in> set ots \<Longrightarrow> obj_type_valued ots (ot_value t) = Ok t"
  by (simp add: obj_type_valued_def ots_ok_def filter_unique)

lemma filter_Cons_mem: "filter P xs = y # ys \<Longrightarrow> y \<in> set xs \<and> P y"
  by (drule arg_cong [where f = set]) auto

lemma obj_type_named_mem: "obj_type_named ots n = Ok t \<Longrightarrow> t \<in> set ots \<and> ot_name t = n"
  by (auto simp: obj_type_named_def dest: filter_Cons_mem split: list.splits)

lemma obj_type_valued_mem: "obj_type_valued ots v = Ok t \<Longrightarrow> t \<in> set ots \<and> ot_value t = v"
  by (auto simp: obj_type_valued_def dest: filter_Cons_mem split: list.splits)

section \<open>Object IDs\<close>

text \<open>\<open>"oid:" + hex((obj_type.value << 48) | vid)\<close>, the last line of \<open>alloc_vid\<close>.\<close>

definition mk_vid :: "sai_obj_type \<Rightarrow> int \<Rightarrow> string" where
  "mk_vid t c = ''oid:'' @ int_hex (push_bit 48 (ot_value t) OR c)"

text \<open>\<open>int(vid[4:], 16) >> 48\<close>.\<close>

definition vid_type_value :: "string \<Rightarrow> int res" where
  "vid_type_value vid = rbind (py_int 16 (drop 4 vid)) (\<lambda>n. Ok (drop_bit 48 n))"

definition vid_to_type :: "sai_obj_type list \<Rightarrow> string \<Rightarrow> string res" where
  "vid_to_type ots vid =
     rbind (vid_type_value vid) (\<lambda>v.
     rbind (obj_type_valued ots v) (\<lambda>t. Ok (''SAI_OBJECT_TYPE_'' @ ot_name t)))"

lemma vid_type_value_mk:
  assumes "0 \<le> c" and "c < 2 ^ 48"
  shows "vid_type_value (mk_vid t c) = Ok (ot_value t)"
proof -
  have "drop_bit 48 c = 0" using assms by (simp add: drop_bit_eq_div)
  then show ?thesis by (simp add: vid_type_value_def mk_vid_def py_int_hex drop_bit_push_bit)
qed

lemma vid_to_type_mk:
  "ots_ok ots \<Longrightarrow> t \<in> set ots \<Longrightarrow> 0 \<le> c \<Longrightarrow> c < 2 ^ 48 \<Longrightarrow>
   vid_to_type ots (mk_vid t c) = Ok (''SAI_OBJECT_TYPE_'' @ ot_name t)"
  by (simp add: vid_to_type_def vid_type_value_mk obj_type_valued_ok)

lemma mk_vid_inj:
  assumes "0 \<le> c" "c < 2 ^ 48" "0 \<le> d" "d < 2 ^ 48" "mk_vid t c = mk_vid u d"
  shows "ot_value t = ot_value u \<and> c = d"
proof -
  from assms(5) have eq: "push_bit 48 (ot_value t) OR c = push_bit 48 (ot_value u) OR d"
    using py_int_hex by (metis append_same_eq mk_vid_def res.inject(1) same_append_eq)
  have low: "take_bit 48 (push_bit 48 v OR e) = e" if "0 \<le> e" "e < 2 ^ 48" for v e :: int
    using that by (simp add: take_bit_push_bit take_bit_int_eq_self)
  have "c = d" using low [OF assms(1,2), of "ot_value t"] low [OF assms(3,4), of "ot_value u"] eq by simp
  moreover have "ot_value t = ot_value u"
    using assms vid_type_value_mk by (metis res.inject(1))
  ultimately show ?thesis by blast
qed

section \<open>SaiData\<close>

text \<open>\<open>SaiData(data)\<close>; \<open>None\<close> is Python's \<open>None\<close>.\<close>

datatype sai_data = SaiData (raw: "string option")

definition to_json :: "sai_data \<Rightarrow> pyval res" where
  "to_json d = (case raw d of None \<Rightarrow> Err TypeError | Some s \<Rightarrow> loads s)"

text \<open>\<open>v[i]\<close> for a non-negative integer \<open>i\<close>; a dictionary's keys are strings here.\<close>

fun py_index :: "pyval \<Rightarrow> nat \<Rightarrow> pyval res" where
  "py_index (PList xs) i = (if i < length xs then Ok (xs ! i) else Err IndexError)"
| "py_index (PStr s) i = (if i < length s then Ok (PStr [s ! i]) else Err IndexError)"
| "py_index (PDict kvs) i = Err KeyError"
| "py_index _ i = Err TypeError"

text \<open>\<open>p in v\<close> for a string \<open>p\<close>.\<close>

fun py_str_in :: "string \<Rightarrow> pyval \<Rightarrow> bool res" where
  "py_str_in p (PStr s) = Ok (str_in p s)"
| "py_str_in p (PList xs) = Ok (PStr p \<in> set xs)"
| "py_str_in p (PDict kvs) = Ok (p \<in> set (map fst kvs))"
| "py_str_in p _ = Err TypeError"

definition data_oid :: "nat \<Rightarrow> sai_data \<Rightarrow> pyval res" where
  "data_oid idx d =
     rbind (to_json d) (\<lambda>j.
     rbind (py_index j idx) (\<lambda>v.
     rbind (py_str_in ''oid:'' v) (\<lambda>b. Ok (if b then v else PStr ''oid:0x0''))))"

definition split_counted :: "string \<Rightarrow> string list res" where
  "split_counted s = (case str_partition '':'' s of (n_items, _, items) \<Rightarrow>
     if str_isdigit n_items then
       rbind (py_int 10 n_items) (\<lambda>n. Ok (if n > 0 then str_split '','' items else []))
     else Ok [])"

definition data_to_list :: "nat \<Rightarrow> sai_data \<Rightarrow> string list res" where
  "data_to_list idx d =
     rbind (to_json d) (\<lambda>j.
     rbind (py_index j idx) (\<lambda>v.
     rbind (as_str AttributeError v) split_counted))"

definition data_oids :: "nat \<Rightarrow> sai_data \<Rightarrow> string list res" where
  "data_oids idx d = rbind (data_to_list idx d) (\<lambda>vs. case vs of
     v # _ \<Rightarrow> Ok (if str_in ''oid:'' v then vs else [])
   | [] \<Rightarrow> Ok [])"

text \<open>\<open>int(v)\<close>.\<close>

fun py_int_of :: "pyval \<Rightarrow> int res" where
  "py_int_of (PStr s) = py_int 10 s"
| "py_int_of (PInt n) = Ok n"
| "py_int_of (PBool b) = Ok (if b then 1 else 0)"
| "py_int_of _ = Err TypeError"

text \<open>The key of a counter: a list or dictionary cannot be one; other values are not counter names.\<close>

fun counter_key :: "pyval \<Rightarrow> string res" where
  "counter_key (PStr s) = Ok s"
| "counter_key (PList _) = Err TypeError"
| "counter_key (PDict _) = Err TypeError"
| "counter_key _ = Err (Unmodelled ''counter name'')"

text \<open>The loop of \<open>counters\<close>: the value is evaluated before the key.\<close>

fun counters_loop :: "pyval list \<Rightarrow> (string, int) dict \<Rightarrow> (string, int) dict res" where
  "counters_loop [] acc = Ok acc"
| "counters_loop [k] acc = Err IndexError"
| "counters_loop (k # v # xs) acc =
     rbind (py_int_of v) (\<lambda>n.
     rbind (counter_key k) (\<lambda>s. counters_loop xs (dict_set s n acc)))"

definition data_counters :: "sai_data \<Rightarrow> (string, int) dict res" where
  "data_counters d = rbind (to_json d) (\<lambda>j. case j of
     PList xs \<Rightarrow> counters_loop xs []
   | PStr s \<Rightarrow> counters_loop (map (\<lambda>c. PStr [c]) s) []
   | PDict kvs \<Rightarrow> (if kvs = [] then Ok [] else Err KeyError)
   | _ \<Rightarrow> Err TypeError)"

definition data_value :: "sai_data \<Rightarrow> string res" where
  "data_value d =
     rbind (to_json d) (\<lambda>j.
     rbind (py_index j 1) (\<lambda>v.
     rbind (as_str AttributeError v) (\<lambda>s.
       Ok (if str_lower s \<in> {''true'', ''false''} then str_lower s else s))))"

definition data_uint32 :: "sai_data \<Rightarrow> int res" where
  "data_uint32 d = rbind (data_value d) (\<lambda>v.
     rbind (rassert (str_isdigit v)) (\<lambda>_. py_int 10 v))"

text \<open>What a server answers to a request for the attribute \<open>a\<close>: \<open>["a", "v"]\<close>.\<close>

definition reply_data :: "string \<Rightarrow> string \<Rightarrow> sai_data" where
  "reply_data a v = SaiData (Some (dumps (PList [PStr a, PStr v])))"

lemma to_json_dumps: "val_ok j \<Longrightarrow> to_json (SaiData (Some (dumps_with c j))) = Ok j"
  by (simp add: to_json_def loads_dumps_with)

lemma to_json_reply: "to_json (reply_data a v) = Ok (PList [PStr a, PStr v])"
  by (simp add: reply_data_def to_json_dumps del: dumps_with.simps)

lemma data_oid_reply: "data_oid 1 (reply_data a v) = Ok (PStr (if str_in ''oid:'' v then v else ''oid:0x0''))"
  by (simp add: data_oid_def to_json_reply del: str_in.simps)

lemma data_value_reply:
  "data_value (reply_data a v) = Ok (if str_lower v \<in> {''true'', ''false''} then str_lower v else v)"
  by (simp add: data_value_def to_json_reply)

lemma data_to_list_reply: "data_to_list 1 (reply_data a v) = split_counted v"
  by (simp add: data_to_list_def to_json_reply)

section \<open>Counted lists\<close>

text \<open>
  \<open>"{}:".format(length) + (elem + ",") * (length - 1) + elem\<close>: repeating a string a negative
  number of times gives the empty string.
\<close>

definition make_list :: "int \<Rightarrow> string \<Rightarrow> string" where
  "make_list n e = int_str n @ '':'' @ concat (replicate (nat (n - 1)) (e @ '','')) @ e"

definition make_acl_list :: "int \<Rightarrow> string" where
  "make_acl_list n = ''false:'' @ make_list n ''0''"

text \<open>\<open>json.dumps({"count": n, "list": [item] * n}).replace(" ", "")\<close>, which four builders share.\<close>

definition make_count_list :: "pyval \<Rightarrow> int \<Rightarrow> string" where
  "make_count_list item n = str_replace '' '' []
     (dumps (PDict [(''count'', PInt n), (''list'', PList (replicate (nat n) item))]))"

definition make_acl_resource_list :: "int \<Rightarrow> string" where
  "make_acl_resource_list = make_count_list
     (PDict [(''avail_num'', PStr []), (''bind_point'', PStr []), (''stage'', PStr [])])"

definition make_map_list :: "int \<Rightarrow> string" where
  "make_map_list = make_count_list (PDict [(''key'', PInt 0), (''value'', PInt 0)])"

definition qos_map_params :: "pyval" where
  "qos_map_params = PDict
     [(''color'', PStr ''SAI_PACKET_COLOR_GREEN''), (''dot1p'', PInt 0), (''dscp'', PInt 0),
      (''fc'', PInt 0), (''mpls_exp'', PInt 0), (''pg'', PInt 0), (''prio'', PInt 0),
      (''qidx'', PInt 0), (''tc'', PInt 0)]"

definition make_qos_map_list :: "int \<Rightarrow> string" where
  "make_qos_map_list = make_count_list (PDict [(''key'', qos_map_params), (''value'', qos_map_params)])"

definition make_system_port_config_list :: "int \<Rightarrow> string" where
  "make_system_port_config_list = make_count_list (PDict
     [(''port_id'', PStr []), (''attached_switch_id'', PStr []), (''attached_core_index'', PStr []),
      (''attached_core_port_index'', PStr []), (''speed'', PStr []), (''num_voq'', PStr [])])"

lemma concat_replicate_join:
  "concat (replicate n (e @ '','')) @ e = str_join '','' (replicate (Suc n) e)"
proof (induction n)
  case (Suc n)
  then show ?case by (simp add: str_join_Cons)
qed simp

lemma int_str_isdigit: "0 \<le> n \<Longrightarrow> str_isdigit (int_str n)"
  using nat_digits_all [of 10 isdigit_char "nat n"]
  by (simp add: str_isdigit_def int_str_def isdigit_char_def)

lemma int_str_no_colon: "CHR '':'' \<notin> set (int_str n)"
  using nat_digits_all [of 10 "\<lambda>c. c \<noteq> CHR '':''"] by (auto simp: int_str_def list_all_iff)

lemma str_partition_colon:
  "CHR '':'' \<notin> set a \<Longrightarrow> str_partition '':'' (a @ CHR '':'' # b) = (a, '':'', b)"
  by (simp add: str_partition_def str_cut_single)

lemmas split_counted_simps = split_counted_def py_int_dec int_str_isdigit
  str_partition_colon [OF int_str_no_colon]

lemma split_counted_make_list:
  assumes "1 \<le> n" and "CHR '','' \<notin> set e"
  shows "split_counted (make_list n e) = Ok (replicate (nat n) e)"
proof -
  from assms have suc: "Suc (nat (n - 1)) = nat n" by simp
  have "str_split '','' (str_join '','' (replicate (nat n) e)) = replicate (nat n) e"
    using assms by (intro str_split_join) (auto simp: list_all_iff)
  with assms show ?thesis
    using concat_replicate_join [of "nat (n - 1)" e, unfolded suc]
    by (simp add: make_list_def split_counted_simps)
qed

text \<open>The counted text of a list of comma-free items, and its reader: a codec.\<close>

definition counted :: "string list \<Rightarrow> string" where
  "counted xs = int_str (int (length xs)) @ '':'' @ str_join '','' xs"

lemma make_list_counted:
  assumes "1 \<le> n"
  shows "make_list n e = counted (replicate (nat n) e)"
proof -
  from assms have suc: "Suc (nat (n - 1)) = nat n" by simp
  with assms show ?thesis
    using concat_replicate_join [of "nat (n - 1)" e, unfolded suc]
    by (simp add: make_list_def counted_def)
qed

lemma split_counted_counted:
  assumes "list_all (\<lambda>x. CHR '','' \<notin> set x) xs"
  shows "split_counted (counted xs) = Ok xs"
proof (cases "xs = []")
  case False
  with assms have "str_split '','' (str_join '','' xs) = xs" by (simp add: str_split_join)
  with False show ?thesis by (simp add: counted_def split_counted_simps)
qed (simp add: counted_def split_counted_simps)

interpretation counted_codec: codec counted split_counted "list_all (\<lambda>x. CHR '','' \<notin> set x)"
  by unfold_locales (rule split_counted_counted)

lemma make_count_list_loads:
  assumes "val_ok item" and "val_no_space item"
  shows "loads (make_count_list item n) =
    Ok (PDict [(''count'', PInt n), (''list'', PList (replicate (nat n) item))])"
proof -
  have "vals_ok (replicate k item)" "vals_no_space (replicate k item)" for k
    using assms by (induction k) simp_all
  then show ?thesis
    by (simp add: make_count_list_def replace_space_dumps loads_dumps_with del: dumps_with.simps)
qed

section \<open>Counters\<close>

fun counter_pairs :: "(string \<times> int) list \<Rightarrow> pyval list" where
  "counter_pairs [] = []"
| "counter_pairs ((k, n) # cs) = PStr k # PStr (int_str n) # counter_pairs cs"

lemma counters_loop_pairs:
  "dict_ok (acc @ cs) \<Longrightarrow> counters_loop (counter_pairs cs) acc = Ok (acc @ cs)"
proof (induction cs arbitrary: acc rule: counter_pairs.induct)
  case (2 k n cs)
  then have "dict_set k n acc = acc @ [(k, n)]" by (intro dict_set_new) auto
  with 2 show ?case by (simp add: py_int_dec)
qed simp

lemma counters_loop_dict_ok: "dict_ok acc \<Longrightarrow> counters_loop xs acc = Ok d \<Longrightarrow> dict_ok d"
  by (induction xs acc arbitrary: d rule: counters_loop.induct) auto

lemma data_counters_reply:
  assumes "dict_ok cs"
  shows "data_counters (SaiData (Some (dumps (PList (counter_pairs cs))))) = Ok cs"
proof -
  have "vals_ok (counter_pairs cs)" by (induction cs rule: counter_pairs.induct) simp_all
  with assms show ?thesis
    using counters_loop_pairs [of "[]" cs] by (simp add: data_counters_def to_json_dumps del: dumps_with.simps)
qed

end
