(* ===== verification/RedisEnv.thy ===== *)
theory RedisEnv imports SaiData begin

text \<open>
  What the clients rely on and the repository does not contain: the Redis server as the
  \<open>redis\<close> package presents it, the clock, and TCP connections. They are one parameter, a record
  of operations on an environment state of any type; every one of them may raise. The client's
  own state wraps that environment. Below it, the two loop shapes that all waiting in the code
  has, with their bounds.
\<close>

section \<open>The environment\<close>

text \<open>
  The first argument of a Redis operation is the database number of the connection used. Values
  read through a connection that does not decode responses are bytes, written as strings.
  \<open>rd_scan\<close> is one step of \<open>scan_iter\<close>: a batch of keys and the next cursor, zero at the end.
  \<open>connect_to\<close> is an attempt to connect: \<open>False\<close> for a refused connection.
\<close>

record 'e redis_env =
  rd_delete :: "int \<Rightarrow> string \<Rightarrow> ('e, int) py"
  rd_lrange :: "int \<Rightarrow> string \<Rightarrow> ('e, string list) py"
  rd_lpush :: "int \<Rightarrow> string \<Rightarrow> string list \<Rightarrow> ('e, unit) py"
  rd_rpush :: "int \<Rightarrow> string \<Rightarrow> string list \<Rightarrow> ('e, unit) py"
  rd_publish :: "int \<Rightarrow> string \<Rightarrow> string \<Rightarrow> ('e, unit) py"
  rd_numsub :: "int \<Rightarrow> string \<Rightarrow> ('e, int) py"
  rd_get :: "int \<Rightarrow> string \<Rightarrow> ('e, string option) py"
  rd_set :: "int \<Rightarrow> string \<Rightarrow> string \<Rightarrow> ('e, unit) py"
  rd_incr :: "int \<Rightarrow> string \<Rightarrow> ('e, int) py"
  rd_hget :: "int \<Rightarrow> string \<Rightarrow> string \<Rightarrow> ('e, string option) py"
  rd_hgetall :: "int \<Rightarrow> string \<Rightarrow> ('e, (string \<times> string) list) py"
  rd_hset :: "int \<Rightarrow> string \<Rightarrow> (string \<times> pyval) list \<Rightarrow> ('e, unit) py"
  rd_hdel :: "int \<Rightarrow> string \<Rightarrow> string \<Rightarrow> ('e, unit) py"
  rd_hmget :: "int \<Rightarrow> string \<Rightarrow> string list \<Rightarrow> ('e, string option list) py"
  rd_exists :: "int \<Rightarrow> string \<Rightarrow> ('e, int) py"
  rd_sadd :: "int \<Rightarrow> string \<Rightarrow> string \<Rightarrow> ('e, unit) py"
  rd_scan :: "int \<Rightarrow> string \<Rightarrow> int \<Rightarrow> ('e, string list \<times> int) py"
  rd_flushdb :: "int \<Rightarrow> ('e, unit) py"
  rd_flushall :: "int \<Rightarrow> ('e, unit) py"
  rd_shutdown :: "int \<Rightarrow> ('e, unit) py"
  sleep_ms :: "nat \<Rightarrow> ('e, unit) py"
  connect_to :: "pyval \<Rightarrow> int \<Rightarrow> ('e, bool) py"

text \<open>
  The mutable part of a client object: the channel syncd listens on, once known, and the
  environment. The ZMQ client extends it.
\<close>

record 'e rclient =
  asic_channel :: "string option"
  env :: 'e

definition on_env :: "('e, 'a) py \<Rightarrow> (('e, 'z) rclient_scheme, 'a) py" where
  "on_env m = (\<lambda>s. case m (env s) of (r, e) \<Rightarrow> (r, s\<lparr>env := e\<rparr>))"

lemma on_env_app [py_simps]: "on_env m s = (case m (env s) of (r, e) \<Rightarrow> (r, s\<lparr>env := e\<rparr>))"
  by (simp add: on_env_def)

text \<open>What an operation on the environment alone cannot change.\<close>

lemma on_env_channel: "on_env m s = (r, t) \<Longrightarrow> asic_channel t = asic_channel s"
  by (auto simp: on_env_def split: prod.splits)

lemma py_inv_on_env [inv_intros]:
  "(\<And>s e. I s \<Longrightarrow> I (s\<lparr>env := e\<rparr>)) \<Longrightarrow> py_inv I (on_env m)"
  by (auto simp: py_inv_def on_env_def split: prod.splits)

text \<open>
  \<open>b.decode("utf-8")\<close>: ASCII bytes are themselves; other byte strings are outside the model.
\<close>

definition decode_utf8 :: "string \<Rightarrow> string res" where
  "decode_utf8 s = (if list_all (\<lambda>c. (of_char c :: nat) < 128) s then Ok s else Err (Unmodelled ''non-ASCII bytes''))"

lemma decode_utf8_Ok [simp]: "decode_utf8 s = Ok t \<longleftrightarrow> t = s \<and> list_all (\<lambda>c. (of_char c :: nat) < 128) s"
  by (auto simp: decode_utf8_def)

text \<open>An element of a response: bytes, or any other object the transport put there.\<close>

datatype wire = Bytes string | Obj pyval

fun wire_decode :: "wire \<Rightarrow> string res" where
  "wire_decode (Bytes s) = decode_utf8 s"
| "wire_decode (Obj v) = Err AttributeError"

definition nth_res :: "'a list \<Rightarrow> nat \<Rightarrow> 'a res" where
  "nth_res xs i = (if i < length xs then Ok (xs ! i) else Err IndexError)"

lemma nth_res_Ok [simp]: "nth_res xs i = Ok x \<longleftrightarrow> i < length xs \<and> x = xs ! i"
  by (auto simp: nth_res_def)

section \<open>Waiting\<close>

text \<open>
  \<open>for i in range(tout + 1): probe; if it answers: stop; if i < tout: sleep\<close>. The loop of
  \<open>assert_process_running\<close>, \<open>__assert_syncd_running\<close>, \<open>pre_shutdown\<close> and \<open>warm_shutdown\<close>.
\<close>

fun poll_until :: "('s, 'a option) py \<Rightarrow> ('s, unit) py \<Rightarrow> nat \<Rightarrow> ('s, 'a option) py" where
  "poll_until probe pause 0 = probe"
| "poll_until probe pause (Suc n) = py_bind probe (\<lambda>r. case r of
     Some x \<Rightarrow> py_return (Some x)
   | None \<Rightarrow> py_bind pause (\<lambda>_. poll_until probe pause n))"

definition poll_for :: "int \<Rightarrow> ('s, 'a option) py \<Rightarrow> ('s, unit) py \<Rightarrow> ('s, 'a option) py" where
  "poll_for tout probe pause = (if tout < 0 then py_return None else poll_until probe pause (nat tout))"

text \<open>The probe answers after at most \<open>k\<close> pauses.\<close>

fun answers_within :: "('s, 'a option) py \<Rightarrow> ('s, unit) py \<Rightarrow> nat \<Rightarrow> 's \<Rightarrow> bool" where
  "answers_within probe pause 0 s = (case probe s of (Ok (Some _), _) \<Rightarrow> True | _ \<Rightarrow> False)"
| "answers_within probe pause (Suc k) s = (case probe s of
     (Ok (Some _), _) \<Rightarrow> True
   | (Ok None, t) \<Rightarrow> (case pause t of (Ok _, u) \<Rightarrow> answers_within probe pause k u | _ \<Rightarrow> False)
   | _ \<Rightarrow> False)"

lemma poll_until_answers:
  "answers_within probe pause k s \<Longrightarrow> k \<le> n \<Longrightarrow> \<exists>x t. poll_until probe pause n s = (Ok (Some x), t)"
proof (induction n arbitrary: k s)
  case 0
  then show ?case by (auto split: prod.splits res.splits option.splits)
next
  case (Suc n)
  show ?case
  proof (cases k)
    case 0
    with Suc.prems show ?thesis
      by (auto simp: py_bind_def py_return_def split: prod.splits res.splits option.splits)
  next
    case (Suc j)
    with Suc.prems Suc.IH [of j] show ?thesis
      by (auto simp: py_bind_def py_return_def split: prod.splits res.splits option.splits)
  qed
qed

lemma poll_until_answers_back:
  "poll_until probe pause n s = (Ok (Some x), t) \<Longrightarrow> answers_within probe pause n s"
  by (induction n arbitrary: s)
     (auto simp: py_bind_def py_return_def split: prod.splits res.splits option.splits)

text \<open>Polling succeeds exactly when an answer comes within the bound.\<close>

lemma poll_for_iff:
  "(\<exists>x t. poll_for tout probe pause s = (Ok (Some x), t)) \<longleftrightarrow>
   0 \<le> tout \<and> answers_within probe pause (nat tout) s"
proof (cases "tout < 0")
  case True
  then show ?thesis by (simp add: poll_for_def py_return_def)
next
  case False
  then show ?thesis
    using poll_until_answers [of probe pause "nat tout" s "nat tout"]
      poll_until_answers_back [of probe pause "nat tout" s]
    by (auto simp: poll_for_def)
qed

lemma poll_until_last:
  "poll_until probe pause n s = (Ok (Some x), t) \<Longrightarrow> \<exists>u. probe u = (Ok (Some x), t)"
  by (induction n arbitrary: s)
     (auto simp: py_bind_def py_return_def split: prod.splits res.splits option.splits)

lemma poll_for_last:
  "poll_for tout probe pause s = (Ok (Some x), t) \<Longrightarrow> \<exists>u. probe u = (Ok (Some x), t)"
  using poll_until_last by (fastforce simp: poll_for_def py_return_def split: if_splits)

lemma py_inv_poll_until [inv_intros]:
  "py_inv I probe \<Longrightarrow> py_inv I pause \<Longrightarrow> py_inv I (poll_until probe pause n)"
  by (induction n) (auto intro!: inv_intros split: option.splits)

lemma py_inv_poll_for [inv_intros]:
  "py_inv I probe \<Longrightarrow> py_inv I pause \<Longrightarrow> py_inv I (poll_for tout probe pause)"
  by (simp add: poll_for_def inv_intros)

section \<open>sai_client.py\<close>

text \<open>\<open>SaiClient.assert_process_running(port, ip, msg, tout=10)\<close>; \<open>int(port)\<close> is part of each attempt.\<close>

definition assert_process_running ::
  "'e redis_env \<Rightarrow> pyval \<Rightarrow> pyval \<Rightarrow> int \<Rightarrow> (('e, 'z) rclient_scheme, unit) py" where
  "assert_process_running E port ip tout =
     py_bind (poll_for tout
       (py_bind (py_lift (py_int_of port)) (\<lambda>p.
        py_bind (on_env (connect_to E ip p)) (\<lambda>b. py_return (if b then Some () else None))))
       (on_env (sleep_ms E 1000)))
     (\<lambda>r. case r of Some _ \<Rightarrow> py_return () | None \<Rightarrow> py_raise AssertionError)"

text \<open>\<open>SaiClient.spawn\<close>: which client the parameters ask for.\<close>

datatype client_kind = RedisKind pyval | ZmqKind pyval | ThriftKind pyval

definition spawn :: "(string, pyval) dict \<Rightarrow> client_kind res" where
  "spawn params =
     rbind (dict_getitem params ''type'') (\<lambda>t.
       if t = PStr ''redis'' then rbind (dict_getitem params ''config'') (\<lambda>c. Ok (RedisKind c))
       else if t = PStr ''zmq'' then rbind (dict_getitem params ''config'') (\<lambda>c. Ok (ZmqKind c))
       else if t = PStr ''thrift'' then rbind (dict_getitem params ''config'') (\<lambda>c. Ok (ThriftKind c))
       else Err RuntimeError)"

end
