(* ===== verification/RedisClient.thy ===== *)
theory RedisClient imports RedisEnv "HOL-Library.List_Lexorder" "HOL-Library.Char_ord" begin

text \<open>
  \<open>common/sai_client/sai_redis_client/sai_redis_client.py\<close>: the SAI client that talks to syncd
  through Redis queues. The request/response exchange \<open>operate\<close> is here together with every
  operation built on it. The operations the ZMQ client inherits take the transport (\<open>operate\<close>
  and the liveness checks) as an argument, as method lookup does.
\<close>

section \<open>Objects and configuration\<close>

text \<open>An object argument: a member of \<open>SaiObjType\<close> or a string.\<close>

datatype objref = OType sai_obj_type | OStr string

text \<open>
  What \<open>do_assert\<close> selects: with it the bare value, without it the status and the value.
\<close>

datatype 'a reply = Bare 'a | Tagged string 'a

fun reply_val :: "'a reply \<Rightarrow> 'a" where
  "reply_val (Bare x) = x"
| "reply_val (Tagged s x) = x"

text \<open>\<open>status, data = reply\<close>: a bare value is not a pair.\<close>

fun untag :: "'a reply \<Rightarrow> (string \<times> 'a) res" where
  "untag (Tagged s x) = Ok (s, x)"
| "untag (Bare x) = Err TypeError"

record redis_cfg =
  server_ip :: pyval
  loglevel :: pyval
  port :: pyval
  libsaivs :: pyval
  asic_db :: int
  restart_query :: string
  is_dut_mbr :: bool

text \<open>
  \<open>SaiRedisClient.__init__\<close>. \<open>cfg["asic_type"] is "phy"\<close> compares identities, which the value
  does not determine: the flag is the outcome.
\<close>

definition redis_init :: "bool \<Rightarrow> (string, pyval) dict \<Rightarrow> redis_cfg res" where
  "redis_init is_phy cfg =
     rbind (dict_getitem cfg ''ip'') (\<lambda>ip.
     rbind (dict_getitem cfg ''loglevel'') (\<lambda>ll.
     rbind (dict_getitem cfg ''port'') (\<lambda>p.
     rbind (dict_getitem cfg ''saivs'') (\<lambda>vs.
     rbind (dict_getitem cfg ''asic_type'') (\<lambda>at.
       Ok \<lparr>server_ip = ip, loglevel = ll, port = p, libsaivs = vs,
           asic_db = (if is_phy then 9 else 1),
           restart_query = (if is_phy then ''GB_ASIC_DB_RESTARTQUERY'' else ''RESTARTQUERY''),
           is_dut_mbr = (case map_of cfg ''mode'' of None \<Rightarrow> False | Some m \<Rightarrow> m \<noteq> PNone)\<rparr>)))))"

definition sai_counter_type_to_id_list :: "(string, string) dict" where
  "sai_counter_type_to_id_list =
    [(''SAI_PORT_STAT'', ''PORT_COUNTER_ID_LIST''),
     (''SAI_PORT_ATTR'', ''PORT_PHY_ATTR_ID_LIST''),
     (''SAI_QUEUE_STAT'', ''QUEUE_COUNTER_ID_LIST''),
     (''SAI_QUEUE_ATTR'', ''QUEUE_ATTR_ID_LIST''),
     (''SAI_INGRESS_PRIORITY_GROUP_STAT'', ''PG_COUNTER_ID_LIST''),
     (''SAI_INGRESS_PRIORITY_GROUP_ATTR'', ''PG_ATTR_ID_LIST''),
     (''SAI_ROUTER_INTERFACE_STAT'', ''RIF_COUNTER_ID_LIST''),
     (''SAI_SWITCH_STAT'', ''SWITCH_COUNTER_ID_LIST''),
     (''SAI_MACSEC_FLOW_STAT'', ''MACSEC_FLOW_COUNTER_ID_LIST''),
     (''SAI_MACSEC_SA_STAT'', ''MACSEC_SA_COUNTER_ID_LIST''),
     (''SAI_MACSEC_SA_ATTR'', ''MACSEC_SA_ATTR_ID_LIST''),
     (''SAI_COUNTER_STAT'', ''FLOW_COUNTER_ID_LIST''),
     (''SAI_TUNNEL_STAT'', ''TUNNEL_COUNTER_ID_LIST''),
     (''SAI_ENI_STAT'', ''ENI_COUNTER_ID_LIST''),
     (''SAI_BUFFER_POOL_STAT'', ''BUFFER_POOL_COUNTER_ID_LIST''),
     (''SAI_HA_SET_STAT'', ''HA_SET_COUNTER_ID_LIST''),
     (''SAI_POLICER_STAT'', ''POLICER_COUNTER_ID_LIST''),
     (''SAI_SWITCH_COUNTER_STAT'', ''SWITCH_COUNTER_ID_LIST''),
     (''SAI_ACL_COUNTER_ATTR'', ''ACL_COUNTER_ATTR_ID_LIST'')]"

section \<open>Liveness of syncd\<close>

definition redis_check_syncd :: "'e redis_env \<Rightarrow> redis_cfg \<Rightarrow> (('e, 'z) rclient_scheme, string option) py" where
  "redis_check_syncd E cfg =
     (let db = asic_db cfg;
          versioned = ''ASIC_STATE_CHANNEL@'' @ int_str db;
          newer = py_bind (on_env (rd_numsub E db versioned)) (\<lambda>n.
                    py_return (if n \<ge> 1 then Some versioned else None))
      in if db = 1 then
           py_bind (on_env (rd_numsub E db ''ASIC_STATE_CHANNEL'')) (\<lambda>n.
             if n \<ge> 1 then py_return (Some ''ASIC_STATE_CHANNEL'') else newer)
         else newer)"

text \<open>Truth of an optional string.\<close>

definition chan_ok :: "string option \<Rightarrow> bool" where
  "chan_ok c = (c \<noteq> None \<and> c \<noteq> Some [])"

text \<open>
  \<open>__assert_syncd_running(tout=30)\<close>, for either client's \<open>__check_syncd_running\<close>: every probe
  stores its outcome in \<open>asic_channel\<close>.
\<close>

definition assert_syncd_with ::
  "'e redis_env \<Rightarrow> (('e, 'z) rclient_scheme, string option) py \<Rightarrow> int \<Rightarrow> (('e, 'z) rclient_scheme, unit) py" where
  "assert_syncd_with E check tout =
     py_bind (poll_for tout
       (py_bind check (\<lambda>c.
        py_bind (py_modify (\<lambda>s. s\<lparr>asic_channel := c\<rparr>)) (\<lambda>_.
        py_return (if chan_ok c then Some () else None))))
       (on_env (sleep_ms E 1000)))
     (\<lambda>r. case r of Some _ \<Rightarrow> py_return () | None \<Rightarrow> py_raise AssertionError)"

abbreviation redis_assert_syncd :: "'e redis_env \<Rightarrow> redis_cfg \<Rightarrow> (('e, 'z) rclient_scheme, unit) py" where
  "redis_assert_syncd E cfg \<equiv> assert_syncd_with E (redis_check_syncd E cfg) 30"

section \<open>The exchange\<close>

text \<open>The rewriting of the key that \<open>sai_deserialize_*_entry\<close> of syncd requires.\<close>

definition norm_key :: "string \<Rightarrow> string" where
  "norm_key obj0 =
     (let obj1 = str_replace '' '' [] obj0;
          obj2 = (if str_in ''bv_id'' obj1
                  then str_replace ''mac_address'' ''mac'' (str_replace ''bv_id'' ''bvid'' obj1)
                  else obj1)
      in if str_in ''ip_address'' obj2
         then str_replace ''rif_id'' ''rif'' (str_replace ''ip_address'' ''ip'' obj2)
         else obj2)"

definition response_queue :: string where
  "response_queue = ''GETRESPONSE_KEY_VALUE_OP_QUEUE''"

definition default_attempts :: nat where
  "default_attempts = 100"

text \<open>Pause in milliseconds and number of attempts.\<close>

definition wait_params :: "string \<Rightarrow> string \<Rightarrow> nat \<times> nat" where
  "wait_params obj op =
     (if starts_with obj ''SAI_OBJECT_TYPE_SWITCH'' \<and> op = ''Screate'' then (500, 240)
      else (10, default_attempts))"

text \<open>\<open>while len(status) < 3 and attempts > 0\<close>.\<close>

fun await_response ::
  "'e redis_env \<Rightarrow> redis_cfg \<Rightarrow> nat \<Rightarrow> nat \<Rightarrow> string list \<Rightarrow> (('e, 'z) rclient_scheme, string list) py" where
  "await_response E cfg tout 0 status = py_return status"
| "await_response E cfg tout (Suc attempts) status =
     (if length status < 3 then
        py_bind (redis_check_syncd E cfg) (\<lambda>c.
        py_bind (py_assert (chan_ok c)) (\<lambda>_.
        py_bind (on_env (sleep_ms E tout)) (\<lambda>_.
        py_bind (on_env (rd_lrange E (asic_db cfg) response_queue)) (\<lambda>st.
        await_response E cfg tout attempts st))))
      else py_return status)"

definition redis_operate ::
  "'e redis_env \<Rightarrow> redis_cfg \<Rightarrow> string \<Rightarrow> string \<Rightarrow> string \<Rightarrow> (('e, 'z) rclient_scheme, wire list) py" where
  "redis_operate E cfg obj0 attrs op =
     py_bind (py_get asic_channel) (\<lambda>ch0.
     py_bind (if ch0 = None then redis_assert_syncd E cfg else py_return ()) (\<lambda>_.
     py_bind (on_env (rd_delete E (asic_db cfg) response_queue)) (\<lambda>_.
     py_bind (on_env (rd_lrange E (asic_db cfg) response_queue)) (\<lambda>st0.
     py_bind (py_assert (length st0 = 0)) (\<lambda>_.
     (let obj = norm_key obj0; (tout, attempts) = wait_params obj op in
     py_bind (on_env (rd_lpush E (asic_db cfg) ''ASIC_STATE_KEY_VALUE_OP_QUEUE'' [obj, attrs, op])) (\<lambda>_.
     py_bind (py_get asic_channel) (\<lambda>ch.
     py_bind (case ch of Some c \<Rightarrow> on_env (rd_publish E (asic_db cfg) c ''G'')
                | None \<Rightarrow> py_raise RedisError) (\<lambda>_.
     py_bind (on_env (rd_lrange E (asic_db cfg) response_queue)) (\<lambda>st1.
     py_bind (await_response E cfg tout attempts st1) (\<lambda>st.
     py_bind (on_env (rd_delete E (asic_db cfg) response_queue)) (\<lambda>_.
     py_bind (py_assert (length st = 3)) (\<lambda>_.
     py_return (map Bytes st)))))))))))))) "

text \<open>What the inherited operations use of the class they run in.\<close>

record 's transport =
  operate :: "string \<Rightarrow> string \<Rightarrow> string \<Rightarrow> ('s, wire list) py"
  assert_syncd :: "('s, unit) py"

definition redis_transport :: "'e redis_env \<Rightarrow> redis_cfg \<Rightarrow> ('e, 'z) rclient_scheme transport" where
  "redis_transport E cfg = \<lparr>operate = redis_operate E cfg, assert_syncd = redis_assert_syncd E cfg\<rparr>"

section \<open>Virtual IDs\<close>

text \<open>An object type given as a string is looked up by its name without the prefix.\<close>

definition as_obj_type :: "sai_obj_type list \<Rightarrow> objref \<Rightarrow> sai_obj_type res" where
  "as_obj_type ots o1 = (case o1 of
     OType t \<Rightarrow> Ok t
   | OStr s \<Rightarrow> if starts_with s ''SAI_OBJECT_TYPE_''
               then obj_type_named ots (str_replace ''SAI_OBJECT_TYPE_'' [] s)
               else Err AssertionError)"

text \<open>The member \<open>SaiObjType.SWITCH\<close>.\<close>

definition switch_member :: "sai_obj_type list \<Rightarrow> sai_obj_type res" where
  "switch_member ots = (case obj_type_named ots ''SWITCH'' of Ok t \<Rightarrow> Ok t | Err _ \<Rightarrow> Err AttributeError)"

definition alloc_vid ::
  "'e redis_env \<Rightarrow> redis_cfg \<Rightarrow> sai_obj_type list \<Rightarrow> objref \<Rightarrow> (('e, 'z) rclient_scheme, string) py" where
  "alloc_vid E cfg ots o1 =
     py_bind (py_lift (as_obj_type ots o1)) (\<lambda>t.
     py_bind (py_lift (switch_member ots)) (\<lambda>sw.
     py_bind
       (if t = sw then
          py_bind (on_env (rd_get E (asic_db cfg) ''VIDCOUNTER'')) (\<lambda>v.
            if v = None then py_bind (on_env (rd_set E (asic_db cfg) ''VIDCOUNTER'' ''0'')) (\<lambda>_. py_return (Some 0))
            else py_return None)
        else py_return None) (\<lambda>vid0.
     py_bind (case vid0 of Some v \<Rightarrow> py_return v
                | None \<Rightarrow> on_env (rd_incr E (asic_db cfg) ''VIDCOUNTER'')) (\<lambda>vid.
     py_return (mk_vid t vid)))))"

definition vid_to_rid :: "'e redis_env \<Rightarrow> redis_cfg \<Rightarrow> string \<Rightarrow> (('e, 'z) rclient_scheme, string option) py" where
  "vid_to_rid E cfg vid =
     py_bind (py_assert (starts_with vid ''oid:'')) (\<lambda>_.
     py_bind (on_env (rd_hget E (asic_db cfg) ''VIDTORID'' vid)) (\<lambda>r. case r of
       None \<Rightarrow> py_return None
     | Some b \<Rightarrow>
         py_bind (py_lift (decode_utf8 b)) (\<lambda>rid.
         py_bind (py_assert (starts_with rid ''oid:'')) (\<lambda>_.
         py_return (Some rid)))))"

section \<open>Create, remove, set, get\<close>

text \<open>
  \<open>attrs\<close> as \<open>create\<close> turns it into text: a string stays; of a list the non-string elements are
  dumped (in the caller's list too), then the list is; iterating a dictionary sees its keys.
\<close>

definition dump_elem :: "pyval \<Rightarrow> pyval" where
  "dump_elem v = (case v of PStr s \<Rightarrow> PStr s | _ \<Rightarrow> PStr (dumps v))"

definition create_attrs :: "pyval \<Rightarrow> string res" where
  "create_attrs attrs = (case attrs of
     PStr s \<Rightarrow> Ok s
   | PList xs \<Rightarrow> Ok (dumps (PList (map dump_elem xs)))
   | PDict kvs \<Rightarrow> Ok (dumps attrs)
   | _ \<Rightarrow> Err TypeError)"

text \<open>\<open>attrs if type(attrs) == str else json.dumps(attrs)\<close>.\<close>

definition text_attrs :: "pyval \<Rightarrow> string" where
  "text_attrs attrs = (case attrs of PStr s \<Rightarrow> s | _ \<Rightarrow> dumps attrs)"

text \<open>\<open>x if type(x) == str else json.dumps(x).replace(" ", "")\<close>.\<close>

definition text_key :: "pyval \<Rightarrow> string" where
  "text_key k = (case k of PStr s \<Rightarrow> s | _ \<Rightarrow> str_replace '' '' [] (dumps k))"

definition success :: string where
  "success = ''SAI_STATUS_SUCCESS''"

definition status_text :: "wire list \<Rightarrow> string res" where
  "status_text st = rbind (nth_res st 2) wire_decode"

text \<open>\<open>if do_assert: assert status == 'SAI_STATUS_SUCCESS'\<close>.\<close>

definition assert_success :: "bool \<Rightarrow> string \<Rightarrow> ('s, unit) py" where
  "assert_success do_assert status = py_assert (do_assert \<longrightarrow> status = success)"

definition create_target ::
  "'e redis_env \<Rightarrow> redis_cfg \<Rightarrow> sai_obj_type list \<Rightarrow> objref \<Rightarrow> (('e, 'z) rclient_scheme, string \<times> pyval) py" where
  "create_target E cfg ots o1 = (case o1 of
     OType t \<Rightarrow> py_bind (alloc_vid E cfg ots o1) (\<lambda>vid.
                  py_return (''SAI_OBJECT_TYPE_'' @ ot_name t @ '':'' @ vid, PStr vid))
   | OStr s \<Rightarrow>
       if starts_with s ''SAI_OBJECT_TYPE_'' \<and> \<not> str_in '':'' s then
         py_bind (alloc_vid E cfg ots o1) (\<lambda>vid. py_return (s @ '':'' @ vid, PStr vid))
       else
         py_bind (py_lift (rbind (nth_res (str_split1 '':'' s) 1) loads)) (\<lambda>key.
           py_return (s, key)))"

definition create ::
  "'e redis_env \<Rightarrow> redis_cfg \<Rightarrow> sai_obj_type list \<Rightarrow> ('e, 'z) rclient_scheme transport \<Rightarrow>
   objref \<Rightarrow> pyval \<Rightarrow> bool \<Rightarrow> (('e, 'z) rclient_scheme, pyval reply) py" where
  "create E cfg ots T o1 attrs do_assert =
     py_bind (create_target E cfg ots o1) (\<lambda>(obj, vid).
     py_bind (py_lift (create_attrs attrs)) (\<lambda>txt.
     py_bind (operate T obj txt ''Screate'') (\<lambda>st.
     py_bind (py_lift (status_text st)) (\<lambda>status.
     py_bind (assert_success do_assert status) (\<lambda>_.
     py_return (if do_assert then Bare vid else Tagged status vid))))))"

text \<open>
  The first lines of \<open>remove\<close>, \<open>set\<close>, \<open>get\<close> and \<open>flush_fdb_entries\<close>: an OID must be known to
  syncd and is prefixed with its type.
\<close>

definition resolve_obj ::
  "'e redis_env \<Rightarrow> redis_cfg \<Rightarrow> sai_obj_type list \<Rightarrow> string \<Rightarrow> (('e, 'z) rclient_scheme, string) py" where
  "resolve_obj E cfg ots obj =
     py_bind
       (if starts_with obj ''oid:'' then
          py_bind (vid_to_rid E cfg obj) (\<lambda>rid.
          py_bind (py_assert (chan_ok rid)) (\<lambda>_.
          py_bind (py_lift (vid_to_type ots obj)) (\<lambda>t.
          py_return (t @ '':'' @ obj))))
        else py_return obj) (\<lambda>full.
     py_bind (py_assert (starts_with full ''SAI_OBJECT_TYPE_'')) (\<lambda>_. py_return full))"

definition remove ::
  "'e redis_env \<Rightarrow> redis_cfg \<Rightarrow> sai_obj_type list \<Rightarrow> ('e, 'z) rclient_scheme transport \<Rightarrow>
   string \<Rightarrow> bool \<Rightarrow> (('e, 'z) rclient_scheme, string) py" where
  "remove E cfg ots T obj0 do_assert =
     py_bind (resolve_obj E cfg ots obj0) (\<lambda>full.
     py_bind (operate T (str_replace '' '' [] full) ''{}'' ''Dremove'') (\<lambda>st.
     py_bind (py_lift (status_text st)) (\<lambda>status.
     py_bind (assert_success do_assert status) (\<lambda>_.
     py_return status))))"

definition set_attr ::
  "'e redis_env \<Rightarrow> redis_cfg \<Rightarrow> sai_obj_type list \<Rightarrow> ('e, 'z) rclient_scheme transport \<Rightarrow>
   string \<Rightarrow> pyval \<Rightarrow> bool \<Rightarrow> (('e, 'z) rclient_scheme, string) py" where
  "set_attr E cfg ots T obj0 attr do_assert =
     py_bind (resolve_obj E cfg ots obj0) (\<lambda>obj.
     py_bind (operate T obj (text_attrs attr) ''Sset'') (\<lambda>st.
     py_bind (py_lift (status_text st)) (\<lambda>status.
     py_bind (assert_success do_assert status) (\<lambda>_.
     py_return status))))"

text \<open>\<open>SaiData(status[1].decode("utf-8"))\<close>.\<close>

definition response_data :: "wire list \<Rightarrow> sai_data res" where
  "response_data st = rbind (rbind (nth_res st 1) wire_decode) (\<lambda>s. Ok (SaiData (Some s)))"

definition get_attrs ::
  "'e redis_env \<Rightarrow> redis_cfg \<Rightarrow> sai_obj_type list \<Rightarrow> ('e, 'z) rclient_scheme transport \<Rightarrow>
   string \<Rightarrow> pyval \<Rightarrow> bool \<Rightarrow> (('e, 'z) rclient_scheme, sai_data reply) py" where
  "get_attrs E cfg ots T obj0 attrs do_assert =
     py_bind (resolve_obj E cfg ots obj0) (\<lambda>obj.
     py_bind (operate T obj (text_attrs attrs) ''Sget'') (\<lambda>st.
     py_bind (py_lift (status_text st)) (\<lambda>status.
     py_bind (assert_success do_assert status) (\<lambda>_.
     py_bind (py_lift (response_data st)) (\<lambda>data.
     py_return (if do_assert then Bare data else Tagged status data))))))"

end
