(* ===== verification/RedisOps.thy ===== *)
theory RedisOps imports RedisClient begin

text \<open>
  The rest of \<open>sai_redis_client.py\<close>: bulk operations, statistics, flex counters, warm reboot,
  availability, FDB flush, remote host interfaces, object keys, log levels and the clean-up of
  the server.
\<close>

section \<open>Bulk operations\<close>

text \<open>The elements \<open>enumerate\<close> or \<open>for\<close> sees.\<close>

definition elements :: "pyval \<Rightarrow> pyval list res" where
  "elements v = (case v of
     PList xs \<Rightarrow> Ok xs
   | PStr s \<Rightarrow> Ok (map (\<lambda>c. PStr [c]) s)
   | PDict kvs \<Rightarrow> Ok (map (\<lambda>(k, _). PStr k) kvs)
   | _ \<Rightarrow> Err TypeError)"

text \<open>The loop of \<open>__bulk_attr_serialize\<close>; the flag tells an even index.\<close>

fun bulk_attr_loop :: "bool \<Rightarrow> string \<Rightarrow> pyval list \<Rightarrow> string res" where
  "bulk_attr_loop ev data [] = Ok data"
| "bulk_attr_loop ev data (v # vs) =
     rbind (as_str TypeError v) (\<lambda>s.
       bulk_attr_loop (\<not> ev)
         (if ev then (if length data > 0 then data @ ''|'' else data) @ s @ ''='' else data @ s) vs)"

definition bulk_attr_serialize :: "pyval \<Rightarrow> string res" where
  "bulk_attr_serialize attr = rbind (elements attr) (bulk_attr_loop True [])"

text \<open>\<open>isinstance(obj_type, SaiObjType) or obj_type.startswith("SAI_OBJECT_TYPE_")\<close>.\<close>

definition bulk_type :: "objref \<Rightarrow> string res" where
  "bulk_type o1 = (case o1 of
     OType t \<Rightarrow> Ok (''SAI_OBJECT_TYPE_'' @ ot_name t)
   | OStr s \<Rightarrow> if starts_with s ''SAI_OBJECT_TYPE_'' then Ok s else Err AssertionError)"

fun evens :: "'a list \<Rightarrow> 'a list" where
  "evens [] = []"
| "evens [x] = [x]"
| "evens (x # y # xs) = x # evens xs"

text \<open>The status of every entry is at an even position of the second part of the response.\<close>

definition bulk_response :: "wire list \<Rightarrow> (string \<times> pyval list) res" where
  "bulk_response st =
     rbind (rbind (nth_res st 1) wire_decode) (\<lambda>txt.
     rbind (loads txt) (\<lambda>j.
     rbind (elements j) (\<lambda>vs.
     rbind (status_text st) (\<lambda>status. Ok (status, evens vs)))))"

text \<open>The attributes of entry \<open>i\<close>: one set for all, or its own.\<close>

definition bulk_attr_at :: "pyval list \<Rightarrow> string \<Rightarrow> nat \<Rightarrow> string res" where
  "bulk_attr_at attrs common i =
     (if length attrs > 1 then rbind (nth_res attrs i) bulk_attr_serialize else Ok common)"

definition bulk_common :: "pyval list \<Rightarrow> string res" where
  "bulk_common attrs = (if length attrs = 1 then bulk_attr_serialize (hd attrs) else Ok [])"

fun flat_pairs :: "(string \<times> string) list \<Rightarrow> pyval list" where
  "flat_pairs [] = []"
| "flat_pairs ((k, a) # ps) = PStr k # PStr a # flat_pairs ps"

text \<open>\<open>keys\<close> as given, or \<open>None\<close>; an empty list counts as none for the number of entries.\<close>

definition bulk_create ::
  "'e redis_env \<Rightarrow> redis_cfg \<Rightarrow> sai_obj_type list \<Rightarrow> ('e, 'z) rclient_scheme transport \<Rightarrow>
   objref \<Rightarrow> pyval list option \<Rightarrow> pyval list \<Rightarrow> int \<Rightarrow> bool \<Rightarrow>
   (('e, 'z) rclient_scheme, string \<times> string list \<times> pyval list) py" where
  "bulk_create E cfg ots T o1 keys attrs obj_count do_assert =
     py_bind (py_lift (bulk_type o1)) (\<lambda>type.
     py_bind (py_assert (case keys of None \<Rightarrow> True
        | Some ks \<Rightarrow> length ks = length attrs \<or> length attrs = 1)) (\<lambda>_.
     (let given = (case keys of None \<Rightarrow> [] | Some ks \<Rightarrow> ks);
          entries_num = (if given \<noteq> [] then int (length given) else obj_count) in
     py_bind (py_lift (bulk_common attrs)) (\<lambda>common.
     py_bind (py_map (\<lambda>i.
         py_bind (if given \<noteq> [] then py_return (text_key (given ! i)) else alloc_vid E cfg ots o1) (\<lambda>k.
         py_bind (py_lift (bulk_attr_at attrs common i)) (\<lambda>a. py_return (k, a))))
       [0..<nat entries_num]) (\<lambda>pairs.
     py_bind (operate T (type @ '':'' @ int_str entries_num) (dumps (PList (flat_pairs pairs))) ''Sbulkcreate'') (\<lambda>st.
     py_bind (py_lift (bulk_response st)) (\<lambda>(status, entry_status).
     py_bind (assert_success do_assert status) (\<lambda>_.
     py_return (status, map fst pairs, entry_status)))))))))"

definition bulk_remove ::
  "'s transport \<Rightarrow> objref \<Rightarrow> pyval list \<Rightarrow> bool \<Rightarrow> ('s, string \<times> pyval list) py" where
  "bulk_remove T o1 keys do_assert =
     py_bind (py_lift (bulk_type o1)) (\<lambda>type.
     py_bind (operate T (type @ '':'' @ int_str (int (length keys)))
         (dumps (PList (flat_pairs (map (\<lambda>k. (text_key k, [])) keys)))) ''Dbulkremove'') (\<lambda>st.
     py_bind (py_lift (bulk_response st)) (\<lambda>(status, entry_status).
     py_bind (assert_success do_assert status) (\<lambda>_.
     py_return (status, entry_status)))))"

definition bulk_set ::
  "'s transport \<Rightarrow> objref \<Rightarrow> pyval list \<Rightarrow> pyval list \<Rightarrow> bool \<Rightarrow> ('s, string \<times> pyval list) py" where
  "bulk_set T o1 keys attrs do_assert =
     py_bind (py_lift (bulk_type o1)) (\<lambda>type.
     py_bind (py_assert (length keys = length attrs \<or> length attrs = 1)) (\<lambda>_.
     py_bind (py_lift (bulk_common attrs)) (\<lambda>common.
     py_bind (py_lift (rmap (\<lambda>i. rbind (bulk_attr_at attrs common i) (\<lambda>a. Ok (text_key (keys ! i), a)))
         [0..<length keys])) (\<lambda>pairs.
     py_bind (operate T (type @ '':'' @ int_str (int (length keys))) (dumps (PList (flat_pairs pairs))) ''Sbulkset'') (\<lambda>st.
     py_bind (py_lift (bulk_response st)) (\<lambda>(status, entry_status).
     py_bind (assert_success do_assert status) (\<lambda>_.
     py_return (status, entry_status))))))))"

section \<open>Statistics\<close>

text \<open>Statistics do not ask whether the OID is known.\<close>

definition stats_obj :: "sai_obj_type list \<Rightarrow> string \<Rightarrow> string res" where
  "stats_obj ots obj = (if starts_with obj ''oid:''
     then rbind (vid_to_type ots obj) (\<lambda>t. Ok (t @ '':'' @ obj)) else Ok obj)"

definition get_stats ::
  "sai_obj_type list \<Rightarrow> 's transport \<Rightarrow> string \<Rightarrow> pyval \<Rightarrow> bool \<Rightarrow> ('s, sai_data reply) py" where
  "get_stats ots T obj0 attrs do_assert =
     py_bind (py_lift (stats_obj ots obj0)) (\<lambda>obj.
     py_bind (operate T obj (text_attrs attrs) ''Sget_stats'') (\<lambda>st.
     py_bind (py_lift (status_text st)) (\<lambda>status.
     py_bind (assert_success do_assert status) (\<lambda>_.
     py_bind (py_lift (response_data st)) (\<lambda>data.
     py_return (if do_assert then Bare data else Tagged status data))))))"

definition simple_request :: "'s transport \<Rightarrow> string \<Rightarrow> string \<Rightarrow> string \<Rightarrow> bool \<Rightarrow> ('s, string) py" where
  "simple_request T obj attrs op do_assert =
     py_bind (operate T obj attrs op) (\<lambda>st.
     py_bind (py_lift (status_text st)) (\<lambda>status.
     py_bind (assert_success do_assert status) (\<lambda>_.
     py_return status)))"

definition clear_stats ::
  "sai_obj_type list \<Rightarrow> 's transport \<Rightarrow> string \<Rightarrow> pyval \<Rightarrow> bool \<Rightarrow> ('s, string) py" where
  "clear_stats ots T obj0 attrs do_assert =
     py_bind (py_lift (stats_obj ots obj0)) (\<lambda>obj.
       simple_request T obj (text_attrs attrs) ''Sclear_stats'' do_assert)"

section \<open>Flex counters\<close>

definition set_flex_counter_group ::
  "'s transport \<Rightarrow> string \<Rightarrow> bool \<Rightarrow> pyval \<Rightarrow> bool \<Rightarrow> bool \<Rightarrow> ('s, string) py" where
  "set_flex_counter_group T group_name enable poll_interval clear_on_read do_assert =
     (let attrs = [PStr ''FLEX_COUNTER_STATUS'', PStr (if enable then ''enable'' else ''disable''),
                   PStr ''STATS_MODE'',
                   PStr (if clear_on_read then ''STATS_MODE_READ_AND_CLEAR'' else ''STATS_MODE_READ''),
                   PStr ''POLL_INTERVAL'', poll_interval]
      in simple_request T group_name (dumps (PList (map dump_elem attrs))) ''Sset_counter_group'' do_assert)"

definition del_flex_counter_group :: "'s transport \<Rightarrow> string \<Rightarrow> bool \<Rightarrow> ('s, string) py" where
  "del_flex_counter_group T group_name do_assert =
     simple_request T group_name ''[]'' ''Ddel_counter_group'' do_assert"

text \<open>\<open>_get_sai_type_from_counter\<close>: the prefix up to and including \<open>_STAT\<close> or \<open>_ATTR\<close>.\<close>

definition sai_type_from_counter :: "string \<Rightarrow> string option" where
  "sai_type_from_counter counter =
     (let idx_stat = str_find counter ''_STAT_''; idx_attr = str_find counter ''_ATTR_'' in
      if idx_stat \<noteq> -1 then Some (take (nat (idx_stat + 5)) counter)
      else if idx_attr \<noteq> -1 then Some (take (nat (idx_attr + 5)) counter)
      else None)"

text \<open>The checks on the list of counters, and the list's name for syncd.\<close>

definition flex_id_list :: "string list \<Rightarrow> string res" where
  "flex_id_list counters = (case counters of
     [] \<Rightarrow> Err ValueError
   | c # _ \<Rightarrow> (case sai_type_from_counter c of
       None \<Rightarrow> Err ValueError
     | Some t \<Rightarrow>
         if \<not> list_all (\<lambda>c'. sai_type_from_counter c' = Some t) counters then Err ValueError
         else (case map_of sai_counter_type_to_id_list t of None \<Rightarrow> Err ValueError | Some l \<Rightarrow> Ok l)))"

definition start_flex_counter_poll ::
  "'s transport \<Rightarrow> string \<Rightarrow> string \<Rightarrow> string list \<Rightarrow> bool \<Rightarrow> ('s, string) py" where
  "start_flex_counter_poll T group_name oid counters do_assert =
     py_bind (py_lift (flex_id_list counters)) (\<lambda>id_list.
       simple_request T (group_name @ '':'' @ oid)
         (dumps (PList [PStr id_list, PStr (str_join '','' counters)])) ''Sstart_poll'' do_assert)"

definition stop_flex_counter_poll :: "'s transport \<Rightarrow> string \<Rightarrow> string \<Rightarrow> bool \<Rightarrow> ('s, string) py" where
  "stop_flex_counter_poll T group_name oid do_assert =
     simple_request T (group_name @ '':'' @ oid) ''[]'' ''Dstop_poll'' do_assert"

text \<open>\<open>key.removeprefix(p)\<close>.\<close>

definition remove_prefix :: "string \<Rightarrow> string \<Rightarrow> string" where
  "remove_prefix p s = (if starts_with s p then drop (length p) s else s)"

text \<open>
  \<open>for key in scan_iter(match): body\<close>: the next batch is only fetched when the previous one is
  consumed. The number of batches is up to the server; the fuel bounds it.
\<close>

fun scan_each ::
  "'e redis_env \<Rightarrow> int \<Rightarrow> string \<Rightarrow> (string \<Rightarrow> (('e, 'z) rclient_scheme, unit) py) \<Rightarrow> nat \<Rightarrow> int \<Rightarrow>
   (('e, 'z) rclient_scheme, unit) py" where
  "scan_each E db pat body 0 cursor = py_raise OutOfFuel"
| "scan_each E db pat body (Suc fuel) cursor =
     py_bind (on_env (rd_scan E db pat cursor)) (\<lambda>(keys, next).
     py_bind (py_iter body keys) (\<lambda>_.
     if next = 0 then py_return () else scan_each E db pat body fuel next))"

definition clear_flex_counters ::
  "'e redis_env \<Rightarrow> ('e, 'z) rclient_scheme transport \<Rightarrow> nat \<Rightarrow> (('e, 'z) rclient_scheme, unit) py" where
  "clear_flex_counters E T fuel =
     py_bind (scan_each E 5 ''FLEX_COUNTER_TABLE:*'' (\<lambda>key.
        case str_partition '':'' (remove_prefix ''FLEX_COUNTER_TABLE:'' key) of (group_name, _, oid) \<Rightarrow>
          py_bind (stop_flex_counter_poll T group_name oid True) (\<lambda>_. py_return ())) fuel 0) (\<lambda>_.
     py_bind (scan_each E 5 ''FLEX_COUNTER_GROUP_TABLE:*'' (\<lambda>key.
        py_bind (del_flex_counter_group T (remove_prefix ''FLEX_COUNTER_GROUP_TABLE:'' key) True)
          (\<lambda>_. py_return ())) fuel 0) (\<lambda>_.
     on_env (rd_flushdb E 2)))"

text \<open>\<open>dict(zip(counters, data))\<close>.\<close>

definition zip_dict :: "string list \<Rightarrow> 'v list \<Rightarrow> (string, 'v) dict" where
  "zip_dict ks vs = fold (\<lambda>(k, v). dict_set k v) (zip ks vs) []"

definition get_flex_counter ::
  "'e redis_env \<Rightarrow> string \<Rightarrow> string list \<Rightarrow> string \<Rightarrow>
   (('e, 'z) rclient_scheme, int \<times> (string, string option) dict) py" where
  "get_flex_counter E oid counters counter_table =
     (let counter = counter_table @ '':'' @ oid in
      py_bind (on_env (rd_exists E 2 counter)) (\<lambda>ex.
      if counters \<noteq> [] then
        py_bind (on_env (rd_hmget E 2 counter counters)) (\<lambda>data. py_return (ex, zip_dict counters data))
      else
        py_bind (on_env (rd_hgetall E 2 counter)) (\<lambda>data.
          py_return (ex, map (\<lambda>(k, v). (k, Some v)) data))))"

definition del_flex_counter :: "'e redis_env \<Rightarrow> string \<Rightarrow> string \<Rightarrow> (('e, 'z) rclient_scheme, int) py" where
  "del_flex_counter E oid counter_table = on_env (rd_delete E 2 (counter_table @ '':'' @ oid))"

section \<open>Warm reboot\<close>

definition await_state ::
  "'e redis_env \<Rightarrow> string \<Rightarrow> int \<Rightarrow> (('e, 'z) rclient_scheme, unit) py" where
  "await_state E wanted tout =
     py_bind (poll_for tout
       (py_bind (on_env (rd_hget E 6 ''WARM_RESTART_TABLE|warm-shutdown'' ''state'')) (\<lambda>state.
         py_return (if state = Some wanted then Some () else None)))
       (on_env (sleep_ms E 1000)))
     (\<lambda>r. case r of Some _ \<Rightarrow> py_return () | None \<Rightarrow> py_raise AssertionError)"

definition pre_shutdown :: "'e redis_env \<Rightarrow> redis_cfg \<Rightarrow> int \<Rightarrow> (('e, 'z) rclient_scheme, unit) py" where
  "pre_shutdown E cfg tout =
     py_bind (on_env (rd_publish E (asic_db cfg) (restart_query cfg)
       (dumps (PList [PStr ''PRE-SHUTDOWN'', PStr ''PRE-SHUTDOWN''])))) (\<lambda>_.
     await_state E ''pre-shutdown-succeeded'' tout)"

definition warm_shutdown :: "'e redis_env \<Rightarrow> redis_cfg \<Rightarrow> int \<Rightarrow> (('e, 'z) rclient_scheme, unit) py" where
  "warm_shutdown E cfg tout =
     py_bind (on_env (rd_hset E 6 ''WARM_RESTART_ENABLE_TABLE|syncd'' [(''enable'', PStr ''true'')])) (\<lambda>_.
     py_bind (on_env (rd_publish E (asic_db cfg) (restart_query cfg)
       (dumps (PList [PStr ''WARM'', PStr ''WARM''])))) (\<lambda>_.
     py_bind (await_state E ''warm-shutdown-succeeded'' tout) (\<lambda>_.
     on_env (rd_hdel E 6 ''WARM_RESTART_TABLE|warm-shutdown'' ''state''))))"

definition verify_restore_after_warm_shutdown ::
  "'e redis_env \<Rightarrow> ('e, 'z) rclient_scheme transport \<Rightarrow> nat \<Rightarrow> (('e, 'z) rclient_scheme, unit) py" where
  "verify_restore_after_warm_shutdown E T tout =
     py_bind (assert_syncd T) (\<lambda>_. on_env (sleep_ms E (1000 * tout)))"

section \<open>Availability and FDB flush\<close>

definition get_availability ::
  "sai_obj_type list \<Rightarrow> 's transport \<Rightarrow> string \<Rightarrow> string \<Rightarrow> pyval list option \<Rightarrow> bool \<Rightarrow>
   ('s, int option reply) py" where
  "get_availability ots T switch_oid object_type attrs do_assert =
     py_bind (py_assert (starts_with switch_oid ''oid:'')) (\<lambda>_.
     py_bind (py_lift (vid_to_type ots switch_oid)) (\<lambda>t.
     py_bind (py_assert (t = ''SAI_OBJECT_TYPE_SWITCH'')) (\<lambda>_.
     (let query = (case attrs of None \<Rightarrow> [] | Some xs \<Rightarrow> xs) @ [PStr ''SAI_OBJECT_TYPE'', PStr object_type] in
     py_bind (operate T switch_oid (dumps (PList query)) ''Sobject_type_get_availability_query'') (\<lambda>st.
     py_bind (py_lift (status_text st)) (\<lambda>status.
     py_bind (assert_success do_assert status) (\<lambda>_.
     py_bind (if status = success
              then py_lift (rbind (response_data st) (\<lambda>d. rbind (data_uint32 d) (\<lambda>n. Ok (Some n))))
              else py_return None) (\<lambda>data.
     py_return (if do_assert then Bare data else Tagged status data)))))))))"

definition flush_fdb_entries ::
  "'e redis_env \<Rightarrow> redis_cfg \<Rightarrow> sai_obj_type list \<Rightarrow> ('e, 'z) rclient_scheme transport \<Rightarrow>
   string \<Rightarrow> pyval \<Rightarrow> (('e, 'z) rclient_scheme, unit) py" where
  "flush_fdb_entries E cfg ots T obj0 attrs0 =
     py_bind (resolve_obj E cfg ots obj0) (\<lambda>obj.
     (let attrs = (if attrs0 = PNone
        then PList [PStr ''SAI_FDB_FLUSH_ATTR_ENTRY_TYPE'', PStr ''SAI_FDB_FLUSH_ENTRY_TYPE_ALL'']
        else attrs0) in
     py_bind (operate T obj (text_attrs attrs) ''Sflush'') (\<lambda>st.
     py_bind (py_lift (rbind (nth_res st 0) wire_decode)) (\<lambda>kind.
     py_bind (py_assert (kind = ''Sflushresponse'')) (\<lambda>_.
     py_bind (py_lift (status_text st)) (\<lambda>status.
     py_assert (status = success)))))))"

section \<open>Host interfaces\<close>

fun await_command ::
  "'e redis_env \<Rightarrow> redis_cfg \<Rightarrow> nat \<Rightarrow> string list \<Rightarrow> (('e, 'z) rclient_scheme, string list) py" where
  "await_command E cfg 0 status = py_return status"
| "await_command E cfg (Suc attempts) status =
     (if length status = 0 then
        py_bind (on_env (sleep_ms E 50)) (\<lambda>_.
        py_bind (on_env (rd_lrange E (asic_db cfg) ''SAI_CHALLENGER_CMD_STATUS_QUEUE'')) (\<lambda>st.
        await_command E cfg attempts st))
      else py_return status)"

definition remote_cmd_operate ::
  "'e redis_env \<Rightarrow> redis_cfg \<Rightarrow> string \<Rightarrow> pyval \<Rightarrow> (('e, 'z) rclient_scheme, string) py" where
  "remote_cmd_operate E cfg cmd args =
     py_bind (on_env (rd_delete E (asic_db cfg) ''SAI_CHALLENGER_CMD_QUEUE'')) (\<lambda>_.
     py_bind (on_env (rd_delete E (asic_db cfg) ''SAI_CHALLENGER_CMD_STATUS_QUEUE'')) (\<lambda>_.
     py_bind (on_env (rd_rpush E (asic_db cfg) ''SAI_CHALLENGER_CMD_QUEUE''
        (if args \<noteq> PNone then [cmd, text_attrs args] else [cmd]))) (\<lambda>_.
     py_bind (await_command E cfg default_attempts []) (\<lambda>status.
     py_bind (on_env (rd_delete E (asic_db cfg) ''SAI_CHALLENGER_CMD_STATUS_QUEUE'')) (\<lambda>_.
     (case status of s # _ \<Rightarrow> py_lift (decode_utf8 s) | [] \<Rightarrow> py_return ''err''))))))"

text \<open>The five \<open>remote_iface_*\<close> operations, which differ in the command and its argument.\<close>

definition remote_ok ::
  "'e redis_env \<Rightarrow> redis_cfg \<Rightarrow> string \<Rightarrow> pyval \<Rightarrow> (('e, 'z) rclient_scheme, bool) py" where
  "remote_ok E cfg cmd args =
     py_bind (py_assert (\<not> is_dut_mbr cfg)) (\<lambda>_.
     py_bind (remote_cmd_operate E cfg cmd args) (\<lambda>s. py_return (s = ''ok'')))"

definition remote_iface_exists ::
  "'e redis_env \<Rightarrow> redis_cfg \<Rightarrow> string \<Rightarrow> (('e, 'z) rclient_scheme, bool) py" where
  "remote_iface_exists E cfg iface = remote_ok E cfg ''iface_exists'' (PStr iface)"

definition remote_iface_is_up ::
  "'e redis_env \<Rightarrow> redis_cfg \<Rightarrow> string \<Rightarrow> (('e, 'z) rclient_scheme, bool) py" where
  "remote_iface_is_up E cfg iface = remote_ok E cfg ''iface_is_up'' (PStr iface)"

definition remote_iface_status_set ::
  "'e redis_env \<Rightarrow> redis_cfg \<Rightarrow> string \<Rightarrow> bool \<Rightarrow> (('e, 'z) rclient_scheme, bool) py" where
  "remote_iface_status_set E cfg iface status = remote_ok E cfg ''set_iface_status''
     (PDict [(''iface'', PStr iface), (''admin'', PStr (if status then ''up'' else ''down''))])"

definition remote_iface_agent_start ::
  "'e redis_env \<Rightarrow> redis_cfg \<Rightarrow> pyval \<Rightarrow> (('e, 'z) rclient_scheme, bool) py" where
  "remote_iface_agent_start E cfg ifaces = remote_ok E cfg ''start_nn_agent'' ifaces"

definition remote_iface_agent_stop ::
  "'e redis_env \<Rightarrow> redis_cfg \<Rightarrow> (('e, 'z) rclient_scheme, bool) py" where
  "remote_iface_agent_stop E cfg = remote_ok E cfg ''stop_nn_agent'' PNone"

section \<open>Object keys\<close>

fun group_oids :: "sai_obj_type list \<Rightarrow> string list \<Rightarrow> (string, string list) dict \<Rightarrow> (string, string list) dict res" where
  "group_oids ots [] acc = Ok acc"
| "group_oids ots (v # vs) acc =
     rbind (vid_type_value v) (\<lambda>n.
     rbind (obj_type_valued ots n) (\<lambda>t.
       group_oids ots vs (dict_set (ot_name t)
         ((case map_of acc (ot_name t) of None \<Rightarrow> [] | Some os \<Rightarrow> os) @ [v]) acc)))"

fun oids_of_type :: "sai_obj_type list \<Rightarrow> sai_obj_type \<Rightarrow> string list \<Rightarrow> string list res" where
  "oids_of_type ots t [] = Ok []"
| "oids_of_type ots t (v # vs) =
     rbind (vid_type_value v) (\<lambda>n.
     rbind (obj_type_valued ots n) (\<lambda>u.
     rbind (oids_of_type ots t vs) (\<lambda>os. Ok (if t = u then v # os else os))))"

definition get_object_key ::
  "'e redis_env \<Rightarrow> redis_cfg \<Rightarrow> sai_obj_type list \<Rightarrow> sai_obj_type option \<Rightarrow>
   (('e, 'z) rclient_scheme, (string, string list) dict) py" where
  "get_object_key E cfg ots obj_type =
     py_bind (on_env (rd_hgetall E (asic_db cfg) ''VIDTORID'')) (\<lambda>data.
     py_bind (py_lift (rmap (\<lambda>(k, _). decode_utf8 k) data)) (\<lambda>all_oids.
     py_lift (case obj_type of
       None \<Rightarrow> group_oids ots (sort all_oids) []
     | Some t \<Rightarrow> rbind (oids_of_type ots t all_oids) (\<lambda>os. Ok [(ot_name t, sort os)]))))"

section \<open>Log level and clean-up\<close>

definition set_loglevel ::
  "'e redis_env \<Rightarrow> string \<Rightarrow> string \<Rightarrow> (('e, 'z) rclient_scheme, unit) py" where
  "set_loglevel E api0 level0 =
     (let api = (if starts_with api0 ''SAI_API_'' then api0 else ''SAI_API_'' @ api0);
          level = (if starts_with level0 ''SAI_LOG_LEVEL_'' then level0 else ''SAI_LOG_LEVEL_'' @ level0) in
      py_bind (on_env (rd_sadd E 3 (api @ ''_KEY_SET'') api)) (\<lambda>_.
      py_bind (on_env (rd_hset E 3 (''_'' @ api @ '':'' @ api) [(''LOGLEVEL'', PStr level)])) (\<lambda>_.
      py_bind (on_env (rd_publish E 3 (api @ ''_CHANNEL'') ''G'')) (\<lambda>_.
      on_env (rd_publish E 3 (api @ ''_CHANNEL@3'') ''G'')))))"

definition cleanup ::
  "'e redis_env \<Rightarrow> redis_cfg \<Rightarrow> ('e, 'z) rclient_scheme transport \<Rightarrow> (('e, 'z) rclient_scheme, unit) py" where
  "cleanup E cfg T =
     (if is_dut_mbr cfg then assert_syncd T
      else
        py_bind (assert_process_running E (port cfg) (server_ip cfg) 10) (\<lambda>_.
        py_bind (on_env (rd_flushall E (asic_db cfg))) (\<lambda>_.
        py_bind (on_env (rd_hset E 3 ''syncd:syncd''
          [(''LOGLEVEL'', loglevel cfg), (''LOGOUTPUT'', PStr ''SYSLOG'')])) (\<lambda>_.
        py_bind (on_env (rd_shutdown E (asic_db cfg))) (\<lambda>_.
        py_bind (on_env (sleep_ms E 1000)) (\<lambda>_.
        py_bind (assert_process_running E (port cfg) (server_ip cfg) 10) (\<lambda>_.
        assert_syncd T)))))))"

end
