(* ===== verification/RedisFacts.thy ===== *)
theory RedisFacts imports RedisOps begin

text \<open>
  What holds of the Redis client: the shape and the cost of an exchange, the freshness of object
  IDs, the contract of a transport and what every inherited operation does under it.
\<close>

section \<open>Facts about the exchange\<close>

lemma redis_operate_three:
  assumes "redis_operate E cfg obj attrs op s = (Ok st, t)"
  shows "length st = 3 \<and> (\<forall>w \<in> set st. \<exists>b. w = Bytes b)"
  using assms
  by (auto simp: redis_operate_def py_bind_Ok_iff Let_def py_return_app split: prod.splits)

text \<open>
  The time a computation asks \<open>sleep\<close> to wait, for an environment that counts it: sleeping adds
  at most what was asked for, and the queue operations add nothing.
\<close>

definition clock_laws :: "'e redis_env \<Rightarrow> ('e \<Rightarrow> nat) \<Rightarrow> bool" where
  "clock_laws E clk \<longleftrightarrow>
     (\<forall>ms e. clk (snd (sleep_ms E ms e)) \<le> clk e + ms) \<and>
     (\<forall>db k e. clk (snd (rd_delete E db k e)) \<le> clk e) \<and>
     (\<forall>db k e. clk (snd (rd_lrange E db k e)) \<le> clk e) \<and>
     (\<forall>db k vs e. clk (snd (rd_lpush E db k vs e)) \<le> clk e) \<and>
     (\<forall>db c m e. clk (snd (rd_publish E db c m e)) \<le> clk e) \<and>
     (\<forall>db c e. clk (snd (rd_numsub E db c e)) \<le> clk e)"

definition takes :: "('e \<Rightarrow> nat) \<Rightarrow> nat \<Rightarrow> (('e, 'z) rclient_scheme, 'a) py \<Rightarrow> bool" where
  "takes clk k m \<longleftrightarrow> (\<forall>s. clk (env (snd (m s))) \<le> clk (env s) + k)"

named_theorems takes_intros

lemma takes_pure [takes_intros]:
  "takes clk 0 (py_return x)" "takes clk 0 (py_raise e)" "takes clk 0 (py_get f)"
  "takes clk 0 (py_lift r)" "takes clk 0 (py_assert b)"
  by (simp_all add: takes_def py_return_def py_raise_def py_get_def py_lift_def py_assert_def)

lemma takes_bind:
  assumes "takes clk i m" and "\<And>x. takes clk j (f x)"
  shows "takes clk (i + j) (py_bind m f)"
  unfolding takes_def
proof
  fix s
  obtain r t where m: "m s = (r, t)" by (cases "m s")
  then have le: "clk (env t) \<le> clk (env s) + i" using assms(1) by (metis snd_conv takes_def)
  show "clk (env (snd (py_bind m f s))) \<le> clk (env s) + (i + j)"
  proof (cases r)
    case (Ok x)
    have "clk (env (snd (f x t))) \<le> clk (env t) + j" using assms(2) by (simp add: takes_def)
    with m Ok le show ?thesis by (simp add: py_bind_def)
  next
    case (Err e)
    with m le show ?thesis by (simp add: py_bind_def)
  qed
qed

lemma takes_mono: "takes clk i m \<Longrightarrow> i \<le> j \<Longrightarrow> takes clk j m"
  unfolding takes_def by (meson add_left_mono order_trans)

lemma takes_bind0: "takes clk 0 m \<Longrightarrow> (\<And>x. takes clk j (f x)) \<Longrightarrow> takes clk j (py_bind m f)"
  using takes_bind [of clk 0 m j f] by simp

lemma takes_bind_last: "takes clk k m \<Longrightarrow> (\<And>x. takes clk 0 (f x)) \<Longrightarrow> takes clk k (py_bind m f)"
  using takes_bind [of clk k m 0 f] by simp

lemma takes_on_env: "(\<And>e. clk (snd (m e)) \<le> clk e + k) \<Longrightarrow> takes clk k (on_env m)"
  by (simp add: takes_def on_env_def split: prod.splits) (metis snd_conv)

lemma takes_queue_ops:
  assumes "clock_laws E clk"
  shows "takes clk 0 (on_env (rd_delete E db k))" "takes clk 0 (on_env (rd_lrange E db k))"
    "takes clk 0 (on_env (rd_lpush E db k vs))" "takes clk 0 (on_env (rd_publish E db c m))"
    "takes clk 0 (on_env (rd_numsub E db c))" "takes clk ms (on_env (sleep_ms E ms))"
  by (rule takes_on_env, use assms in \<open>simp add: clock_laws_def\<close>)+

lemma takes_check:
  "clock_laws E clk \<Longrightarrow> takes clk 0 (redis_check_syncd E cfg)"
  by (auto simp: redis_check_syncd_def Let_def intro!: takes_bind0 takes_queue_ops takes_pure)

lemma takes_await:
  assumes "clock_laws E clk"
  shows "takes clk (n * tout) (await_response E cfg tout n st)"
proof (induction n arbitrary: st)
  case (Suc n)
  show ?case
  proof (cases "length st < 3")
    case True
    then show ?thesis
      by simp (rule takes_bind0, rule takes_check [OF assms], rule takes_bind0, rule takes_pure,
        rule takes_bind, rule takes_queue_ops [OF assms], rule takes_bind0,
        rule takes_queue_ops [OF assms], rule Suc.IH)
  next
    case False
    then show ?thesis by (auto intro: takes_mono [OF takes_pure(1)])
  qed
qed (simp add: takes_pure)

text \<open>From a known channel, an exchange waits at most its attempts times its pause.\<close>

lemma takes_operate:
  assumes "clock_laws E clk" and "asic_channel s = Some c"
  shows "clk (env (snd (redis_operate E cfg obj attrs op s))) \<le>
    clk (env s) + (case wait_params (norm_key obj) op of (tout, n) \<Rightarrow> n * tout)"
proof -
  obtain tout n where w: "wait_params (norm_key obj) op = (tout, n)" by (cases "wait_params (norm_key obj) op")
  define body where "body =
     py_bind (on_env (rd_delete E (asic_db cfg) response_queue)) (\<lambda>_.
     py_bind (on_env (rd_lrange E (asic_db cfg) response_queue)) (\<lambda>st0.
     py_bind (py_assert (length st0 = 0)) (\<lambda>_.
     py_bind (on_env (rd_lpush E (asic_db cfg) ''ASIC_STATE_KEY_VALUE_OP_QUEUE'' [norm_key obj, attrs, op])) (\<lambda>_.
     py_bind (py_get asic_channel) (\<lambda>ch.
     py_bind (case ch of Some c \<Rightarrow> on_env (rd_publish E (asic_db cfg) c ''G'')
                | None \<Rightarrow> py_raise RedisError) (\<lambda>_.
     py_bind (on_env (rd_lrange E (asic_db cfg) response_queue)) (\<lambda>st1.
     py_bind (await_response E cfg tout n st1) (\<lambda>st.
     py_bind (on_env (rd_delete E (asic_db cfg) response_queue)) (\<lambda>_.
     py_bind (py_assert (length st = 3)) (\<lambda>_.
     (py_return (map Bytes st) :: (('a, 'b) rclient_scheme, wire list) py)))))))))))"
  have run: "redis_operate E cfg obj attrs op s = body s"
    using assms(2) w by (simp add: redis_operate_def body_def py_bind_app [of "py_get f" for f] py_get_app)
  have pub: "takes clk 0 (case ch of Some c \<Rightarrow> on_env (rd_publish E (asic_db cfg) c ''G'')
      | None \<Rightarrow> py_raise RedisError)" for ch
    using assms(1) by (auto split: option.splits intro: takes_queue_ops takes_pure)
  have "takes clk (n * tout) body"
    unfolding body_def
    by ((rule takes_bind0, (rule takes_queue_ops [OF assms(1)] takes_pure pub))+, rule takes_bind_last,
      rule takes_await [OF assms(1)], (intro takes_bind0 takes_queue_ops [OF assms(1)] takes_pure))
  with run w show ?thesis by (simp add: takes_def)
qed

section \<open>Delivery\<close>

text \<open>
  The exchanges of the waiting loop: the response \<open>st\<close> seen at first, and what a poll sees after
  a check of syncd and a pause, until a response is complete after \<open>k\<close> polls.
\<close>

inductive arrives ::
  "'e redis_env \<Rightarrow> redis_cfg \<Rightarrow> nat \<Rightarrow> string list \<Rightarrow> ('e, 'z) rclient_scheme \<Rightarrow> nat \<Rightarrow> string list \<Rightarrow>
   ('e, 'z) rclient_scheme \<Rightarrow> bool"
  for E :: "'e redis_env" and cfg :: redis_cfg and tout :: nat where
  here: "3 \<le> length st \<Longrightarrow> arrives E cfg tout st s 0 st s"
| later: "length st < 3 \<Longrightarrow> redis_check_syncd E cfg s = (Ok c, s1) \<Longrightarrow> chan_ok c \<Longrightarrow>
    on_env (sleep_ms E tout) s1 = (Ok (), s2) \<Longrightarrow>
    on_env (rd_lrange E (asic_db cfg) response_queue) s2 = (Ok st', s3) \<Longrightarrow>
    arrives E cfg tout st' s3 k st'' t \<Longrightarrow> arrives E cfg tout st s (Suc k) st'' t"

inductive_simps arrives_0: "arrives E cfg tout st s 0 st'' t"
inductive_simps arrives_Suc: "arrives E cfg tout st s (Suc k) st'' t"
inductive_cases arrives_sentE: "arrives E cfg tout st s k st'' t"

lemma arrives_complete: "arrives E cfg tout st s k st'' t \<Longrightarrow> 3 \<le> length st''"
  by (induction rule: arrives.induct) simp_all

text \<open>A response that completes within the attempts is what the loop returns.\<close>

lemma await_arrives:
  "arrives E cfg tout st s k st'' t \<Longrightarrow> k \<le> n \<Longrightarrow> await_response E cfg tout n st s = (Ok st'', t)"
proof (induction arbitrary: n rule: arrives.induct)
  case (here st s)
  then show ?case by (cases n) (simp_all add: py_return_app)
next
  case (later st s c s1 s2 st' s3 k st'' t)
  then obtain m where "n = Suc m" "k \<le> m" by (cases n) auto
  with later show ?case by (simp add: py_bind_app)
qed

text \<open>The steps of an exchange in which the server answers with \<open>resp\<close> after \<open>k\<close> polls.\<close>

definition redis_answers ::
  "'e redis_env \<Rightarrow> redis_cfg \<Rightarrow> string \<Rightarrow> string \<Rightarrow> string \<Rightarrow> string list \<Rightarrow> nat \<Rightarrow>
   ('e, 'z) rclient_scheme \<Rightarrow> ('e, 'z) rclient_scheme \<Rightarrow> bool" where
  "redis_answers E cfg key attrs op resp k s t \<longleftrightarrow>
     (\<exists>ch n1 s1 s2 s3 s4 st s5 s6 n2. asic_channel s = Some ch \<and>
       on_env (rd_delete E (asic_db cfg) response_queue) s = (Ok n1, s1) \<and>
       on_env (rd_lrange E (asic_db cfg) response_queue) s1 = (Ok [], s2) \<and>
       on_env (rd_lpush E (asic_db cfg) ''ASIC_STATE_KEY_VALUE_OP_QUEUE'' [key, attrs, op]) s2 = (Ok (), s3) \<and>
       on_env (rd_publish E (asic_db cfg) ch ''G'') s3 = (Ok (), s4) \<and>
       on_env (rd_lrange E (asic_db cfg) response_queue) s4 = (Ok st, s5) \<and>
       arrives E cfg (fst (wait_params key op)) st s5 k resp s6 \<and>
       on_env (rd_delete E (asic_db cfg) response_queue) s6 = (Ok n2, t))"

lemma redis_operate_delivers:
  assumes "redis_answers E cfg (norm_key obj) attrs op resp k s t" and "length resp = 3"
    and "k \<le> snd (wait_params (norm_key obj) op)"
  shows "redis_operate E cfg obj attrs op s = (Ok (map Bytes resp), t)"
proof -
  obtain tout n where w: "wait_params (norm_key obj) op = (tout, n)" by (cases "wait_params (norm_key obj) op")
  from assms(1) obtain ch n1 s1 s2 s3 s4 st s5 s6 n2 where steps: "asic_channel s = Some ch"
    "on_env (rd_delete E (asic_db cfg) response_queue) s = (Ok n1, s1)"
    "on_env (rd_lrange E (asic_db cfg) response_queue) s1 = (Ok [], s2)"
    "on_env (rd_lpush E (asic_db cfg) ''ASIC_STATE_KEY_VALUE_OP_QUEUE'' [norm_key obj, attrs, op]) s2 = (Ok (), s3)"
    "on_env (rd_publish E (asic_db cfg) ch ''G'') s3 = (Ok (), s4)"
    "on_env (rd_lrange E (asic_db cfg) response_queue) s4 = (Ok st, s5)"
    "arrives E cfg tout st s5 k resp s6"
    "on_env (rd_delete E (asic_db cfg) response_queue) s6 = (Ok n2, t)"
    unfolding redis_answers_def w by auto
  have "await_response E cfg tout n st s5 = (Ok resp, s6)"
    using await_arrives [OF steps(7)] assms(3) w by simp
  moreover have "asic_channel s3 = Some ch"
    using steps(1) on_env_channel [OF steps(2)] on_env_channel [OF steps(3)] on_env_channel [OF steps(4)] by simp
  ultimately show ?thesis
    using steps assms(2) w
    by (simp add: redis_operate_def Let_def py_bind_app py_get_app py_return_app del: on_env_app)
qed

section \<open>Fresh object IDs\<close>

text \<open>
  How the server treats \<open>VIDCOUNTER\<close>, by its documentation: \<open>GET\<close> reads it, \<open>SET\<close> stores it,
  \<open>INCR\<close> adds one (from zero when there is none) and returns the result.
\<close>

definition counter_laws :: "'e redis_env \<Rightarrow> int \<Rightarrow> ('e \<Rightarrow> int option) \<Rightarrow> bool" where
  "counter_laws E db cnt \<longleftrightarrow>
     (\<forall>e v e'. rd_get E db ''VIDCOUNTER'' e = (Ok v, e') \<longrightarrow>
        v = map_option int_str (cnt e) \<and> cnt e' = cnt e) \<and>
     (\<forall>e e'. rd_set E db ''VIDCOUNTER'' ''0'' e = (Ok (), e') \<longrightarrow> cnt e' = Some 0) \<and>
     (\<forall>e n e'. rd_incr E db ''VIDCOUNTER'' e = (Ok n, e') \<longrightarrow>
        n = (case cnt e of None \<Rightarrow> 0 | Some c \<Rightarrow> c) + 1 \<and> cnt e' = Some n)"

text \<open>The largest counter handed out so far; -1 when there is none.\<close>

definition counter_top :: "('e \<Rightarrow> int option) \<Rightarrow> ('e, 'z) rclient_scheme \<Rightarrow> int" where
  "counter_top cnt s = (case cnt (env s) of None \<Rightarrow> -1 | Some c \<Rightarrow> c)"

lemma alloc_vid_fresh:
  assumes laws: "counter_laws E (asic_db cfg) cnt"
    and run: "alloc_vid E cfg ots o1 s = (Ok vid, s')"
  shows "\<exists>t. as_obj_type ots o1 = Ok t \<and> vid = mk_vid t (counter_top cnt s') \<and>
    counter_top cnt s < counter_top cnt s'"
proof -
  from run obtain t sw where t: "as_obj_type ots o1 = Ok t" and sw: "switch_member ots = Ok sw"
    by (auto simp: alloc_vid_def py_bind_Ok_iff py_lift_app)
  have incr: "counter_top cnt u < n \<and> n = counter_top cnt u'"
    if "on_env (rd_incr E (asic_db cfg) ''VIDCOUNTER'') u = (Ok n, u')"
    for u u' :: "('a, 'b) rclient_scheme" and n
  proof -
    from that obtain e' where e: "rd_incr E (asic_db cfg) ''VIDCOUNTER'' (env u) = (Ok n, e')"
      and u': "u' = u\<lparr>env := e'\<rparr>"
      by (auto simp: on_env_def split: prod.splits)
    with laws have "n = (case cnt (env u) of None \<Rightarrow> 0 | Some c \<Rightarrow> c) + 1" "cnt e' = Some n"
      unfolding counter_laws_def by blast+
    with u' show ?thesis by (simp add: counter_top_def split: option.splits)
  qed
  show ?thesis
  proof (cases "t = sw")
    case False
    with run t sw obtain n where "on_env (rd_incr E (asic_db cfg) ''VIDCOUNTER'') s = (Ok n, s')"
      and "vid = mk_vid t n"
      by (auto simp: alloc_vid_def py_bind_Ok_iff py_return_app)
    with incr t show ?thesis by blast
  next
    case True
    with run t sw obtain v u where v: "on_env (rd_get E (asic_db cfg) ''VIDCOUNTER'') s = (Ok v, u)"
      by (auto simp: alloc_vid_def py_bind_Ok_iff)
    then obtain e' where "rd_get E (asic_db cfg) ''VIDCOUNTER'' (env s) = (Ok v, e')" "u = s\<lparr>env := e'\<rparr>"
      by (auto simp: on_env_def split: prod.splits)
    with laws have cu: "cnt (env u) = cnt (env s)" and vv: "v = map_option int_str (cnt (env s))"
      unfolding counter_laws_def by fastforce+
    show ?thesis
    proof (cases "v = None")
      case False
      with run t sw True v obtain n where "on_env (rd_incr E (asic_db cfg) ''VIDCOUNTER'') u = (Ok n, s')"
        and "vid = mk_vid t n"
        by (auto simp: alloc_vid_def py_bind_Ok_iff py_return_app)
      with incr [of u] t cu show ?thesis by (auto simp: counter_top_def)
    next
      case None: True
      with run t sw True v have "on_env (rd_set E (asic_db cfg) ''VIDCOUNTER'' ''0'') u = (Ok (), s')"
        and "vid = mk_vid t 0"
        by (auto simp: alloc_vid_def py_bind_Ok_iff py_return_app)
      moreover from this(1) obtain e2 where
        "rd_set E (asic_db cfg) ''VIDCOUNTER'' ''0'' (env u) = (Ok (), e2)" "s' = u\<lparr>env := e2\<rparr>"
        by (auto simp: on_env_def split: prod.splits)
      moreover from this(1) laws have "cnt e2 = Some 0" unfolding counter_laws_def by blast
      ultimately show ?thesis using t None vv by (auto simp: counter_top_def)
    qed
  qed
qed

lemma alloc_vids_increasing:
  assumes laws: "counter_laws E (asic_db cfg) cnt"
    and run: "py_map (alloc_vid E cfg ots) os s = (Ok vids, s')"
  shows "\<exists>ts cs. rmap (as_obj_type ots) os = Ok ts \<and> length cs = length ts \<and> vids = map2 mk_vid ts cs \<and>
    sorted_wrt (<) cs \<and> (\<forall>c \<in> set cs. counter_top cnt s < c \<and> c \<le> counter_top cnt s') \<and>
    counter_top cnt s \<le> counter_top cnt s'"
  using run
proof (induction os arbitrary: s vids)
  case Nil
  then show ?case by (auto simp: py_return_app)
next
  case (Cons o1 os)
  then obtain v u vs where v: "alloc_vid E cfg ots o1 s = (Ok v, u)"
    and vs: "py_map (alloc_vid E cfg ots) os u = (Ok vs, s')" and vids: "vids = v # vs"
    by (auto simp: py_bind_Ok_iff py_return_app)
  from alloc_vid_fresh [OF laws v] obtain t where t: "as_obj_type ots o1 = Ok t"
    "v = mk_vid t (counter_top cnt u)" "counter_top cnt s < counter_top cnt u" by blast
  from Cons.IH [OF vs] obtain ts cs where "rmap (as_obj_type ots) os = Ok ts"
    "length cs = length ts" "vs = map2 mk_vid ts cs" "sorted_wrt (<) cs"
    "\<forall>c \<in> set cs. counter_top cnt u < c \<and> c \<le> counter_top cnt s'"
    "counter_top cnt u \<le> counter_top cnt s'" by blast
  with t vids show ?case
    by (intro exI [of _ "t # ts"] exI [of _ "counter_top cnt u # cs"]) force
qed

lemma mk_vids_distinct:
  assumes "sorted_wrt (<) cs" and "length cs = length ts"
    and "\<forall>c \<in> set cs. 0 \<le> c \<and> c < 2 ^ 48"
  shows "distinct (map2 mk_vid ts cs)"
  using assms
proof (induction cs arbitrary: ts)
  case (Cons c cs)
  then obtain t us where ts: "ts = t # us" by (cases ts) auto
  have "mk_vid t c \<notin> set (map2 mk_vid us cs)"
  proof
    assume "mk_vid t c \<in> set (map2 mk_vid us cs)"
    then obtain u d where "d \<in> set cs" "mk_vid t c = mk_vid u d"
      by (auto dest: set_zip_rightD)
    moreover from this(1) Cons.prems have "c < d" "0 \<le> d" "d < 2 ^ 48" by auto
    ultimately show False using mk_vid_inj [of c d t u] Cons.prems by auto
  qed
  with Cons ts show ?case by simp
qed simp

section \<open>The contract of a transport\<close>

text \<open>
  Everything the inherited operations need to know of \<open>operate\<close>: a normal return has three
  elements. Under it they never index outside the response, and each of them is the exchange
  followed by a decision on its last element.
\<close>

definition judge :: "bool \<Rightarrow> wire list \<Rightarrow> string res" where
  "judge do_assert st = rbind (wire_decode (st ! 2)) (\<lambda>status.
     if do_assert \<longrightarrow> status = success then Ok status else Err AssertionError)"

lemma judge_asserted: "judge True st = Ok s \<Longrightarrow> s = success"
  by (auto simp: judge_def split: if_splits)

lemma judge_fails: "judge True st = Err e \<Longrightarrow> wire_decode (st ! 2) = Ok s \<Longrightarrow> s \<noteq> success \<and> e = AssertionError"
  by (auto simp: judge_def split: if_splits)

text \<open>The value of \<open>get\<close> and \<open>get_stats\<close>.\<close>

definition data_reply :: "bool \<Rightarrow> wire list \<Rightarrow> sai_data reply res" where
  "data_reply do_assert st = rbind (judge do_assert st) (\<lambda>status.
     rbind (wire_decode (st ! 1)) (\<lambda>txt.
     Ok (if do_assert then Bare (SaiData (Some txt)) else Tagged status (SaiData (Some txt)))))"

locale sai_transport =
  fixes T :: "('e, 'z) rclient_scheme transport"
  assumes three: "operate T obj attrs op s = (Ok st, t) \<Longrightarrow> length st = 3"
begin

lemma status_text_three: "operate T obj attrs op s = (Ok st, t) \<Longrightarrow> status_text st = wire_decode (st ! 2)"
  by (frule three) (simp add: status_text_def nth_res_def)

lemma status_judged:
  assumes "operate T obj attrs op s = (Ok st, t)"
  shows "py_bind (py_lift (status_text st)) (\<lambda>status.
           py_bind (assert_success do_assert status) (\<lambda>_. f status)) =
         py_bind (py_lift (judge do_assert st)) f"
  using status_text_three [OF assms]
  by (cases "wire_decode (st ! 2)") (auto simp: judge_def assert_success_def py_assert_def fun_eq_iff)

lemma simple_request_run:
  assumes "operate T obj attrs op s = (Ok st, t)"
  shows "simple_request T obj attrs op do_assert s = (judge do_assert st, t)"
  unfolding simple_request_def
  by (simp add: py_bind_app [of "operate T obj attrs op"] assms status_judged [OF assms] py_lift_app)

lemma simple_request_fails:
  "operate T obj attrs op s = (Err e, t) \<Longrightarrow> simple_request T obj attrs op do_assert s = (Err e, t)"
  by (simp add: simple_request_def py_bind_app)

lemma remove_run:
  assumes "resolve_obj E cfg ots o1 s = (Ok full, u)"
    and "operate T (str_replace '' '' [] full) ''{}'' ''Dremove'' u = (Ok st, t)"
  shows "remove E cfg ots T o1 do_assert s = (judge do_assert st, t)"
  unfolding remove_def
  by (simp add: py_bind_app [of "resolve_obj E cfg ots o1"] assms(1)
      py_bind_app [of "operate T (str_replace '' '' [] full) ''{}'' ''Dremove''"] assms(2)
      status_judged [OF assms(2)] py_lift_app)

lemma set_attr_run:
  assumes "resolve_obj E cfg ots o1 s = (Ok full, u)"
    and "operate T full (text_attrs attr) ''Sset'' u = (Ok st, t)"
  shows "set_attr E cfg ots T o1 attr do_assert s = (judge do_assert st, t)"
  unfolding set_attr_def
  by (simp add: py_bind_app [of "resolve_obj E cfg ots o1"] assms(1)
      py_bind_app [of "operate T full (text_attrs attr) ''Sset''"] assms(2)
      status_judged [OF assms(2)] py_lift_app)

lemma get_attrs_run:
  assumes "resolve_obj E cfg ots o1 s = (Ok full, u)"
    and "operate T full (text_attrs attrs) ''Sget'' u = (Ok st, t)"
  shows "get_attrs E cfg ots T o1 attrs do_assert s = (data_reply do_assert st, t)"
proof -
  have "response_data st = rbind (wire_decode (st ! 1)) (\<lambda>txt. Ok (SaiData (Some txt)))"
    using three [OF assms(2)] by (simp add: response_data_def nth_res_def)
  then show ?thesis
    unfolding get_attrs_def data_reply_def
    by (cases "judge do_assert st"; cases "wire_decode (st ! 1)")
       (simp_all add: py_bind_app [of "resolve_obj E cfg ots o1"] assms(1)
        py_bind_app [of "operate T full (text_attrs attrs) ''Sget''"] assms(2)
        status_judged [OF assms(2)] py_lift_app py_return_app py_raise_app)
qed

lemma get_stats_run:
  assumes "stats_obj ots o1 = Ok full"
    and "operate T full (text_attrs attrs) ''Sget_stats'' s = (Ok st, t)"
  shows "get_stats ots T o1 attrs do_assert s = (data_reply do_assert st, t)"
proof -
  have "response_data st = rbind (wire_decode (st ! 1)) (\<lambda>txt. Ok (SaiData (Some txt)))"
    using three [OF assms(2)] by (simp add: response_data_def nth_res_def)
  then show ?thesis
    unfolding get_stats_def data_reply_def
    by (cases "judge do_assert st"; cases "wire_decode (st ! 1)")
       (simp_all add: assms(1)
        py_bind_app [of "operate T full (text_attrs attrs) ''Sget_stats''"] assms(2)
        status_judged [OF assms(2)] py_lift_app py_return_app py_raise_app)
qed

lemma create_run:
  assumes "create_target E cfg ots o1 s = (Ok (obj, vid), u)"
    and "create_attrs attrs = Ok txt"
    and "operate T obj txt ''Screate'' u = (Ok st, t)"
  shows "create E cfg ots T o1 attrs do_assert s =
    (rbind (judge do_assert st) (\<lambda>status. Ok (if do_assert then Bare vid else Tagged status vid)), t)"
  unfolding create_def
  by (cases "judge do_assert st")
     (simp_all add: py_bind_app [of "create_target E cfg ots o1"] assms(1,2)
      py_bind_app [of "operate T obj txt ''Screate''"] assms(3)
      status_judged [OF assms(3)] py_lift_app py_return_app py_raise_app)

text \<open>The bulk operations read the per-entry statuses of the second part.\<close>

lemma bulk_remove_run:
  assumes "bulk_type o1 = Ok ty"
    and "operate T (ty @ '':'' @ int_str (int (length keys)))
      (dumps (PList (flat_pairs (map (\<lambda>k. (text_key k, [])) keys)))) ''Dbulkremove'' s = (Ok st, t)"
    and "wire_decode (st ! 1) = Ok txt" and "loads txt = Ok (PList vs)"
  shows "bulk_remove T o1 keys do_assert s =
    (rbind (judge do_assert st) (\<lambda>status. Ok (status, evens vs)), t)"
proof -
  have st: "length st = 3" by (rule three [OF assms(2)])
  then have "bulk_response st = rbind (wire_decode (st ! 2)) (\<lambda>status. Ok (status, evens vs))"
    using assms(3,4) by (simp add: bulk_response_def nth_res_def elements_def status_text_def)
  with assms show ?thesis
    unfolding bulk_remove_def
    by (cases "wire_decode (st ! 2)")
       (simp_all add: py_bind_app [of "operate T a b c" for a b c] judge_def assert_success_def
        py_assert_def py_lift_app py_return_app py_raise_app)
qed

end

interpretation redis_tr: sai_transport "redis_transport E cfg" for E cfg
  by unfold_locales (simp add: redis_transport_def redis_operate_three)

section \<open>Targets\<close>

lemma resolve_obj_key:
  "starts_with obj ''SAI_OBJECT_TYPE_'' \<Longrightarrow> resolve_obj E cfg ots obj s = (Ok obj, s)"
  by (auto simp: resolve_obj_def py_return_app starts_with_iff)

lemma resolve_obj_prefix:
  "resolve_obj E cfg ots obj s = (Ok full, t) \<Longrightarrow> starts_with full ''SAI_OBJECT_TYPE_''"
  by (auto simp: resolve_obj_def py_bind_Ok_iff py_return_app)

text \<open>An OID syncd does not know is refused before anything is sent.\<close>

lemma resolve_obj_unknown:
  assumes "starts_with oid ''oid:''"
    and "rd_hget E (asic_db cfg) ''VIDTORID'' oid (env s) = (Ok None, e)"
  shows "resolve_obj E cfg ots oid s = (Err AssertionError, s\<lparr>env := e\<rparr>)"
  using assms by (simp add: resolve_obj_def vid_to_rid_def py_simps chan_ok_def py_assert_app)

lemma create_target_key:
  assumes "CHR '':'' \<notin> set ty" and "val_ok key"
  shows "create_target E cfg ots (OStr (ty @ '':'' @ dumps key)) s = (Ok (ty @ '':'' @ dumps key, key), s)"
proof -
  have "str_split1 '':'' (ty @ '':'' @ dumps key) = [ty, dumps key]"
    using str_split1_single [OF assms(1)] by simp
  moreover have "str_in '':'' (ty @ '':'' @ dumps key)" by simp
  ultimately show ?thesis
    using json_codec.dec_enc [OF assms(2)]
    by (simp add: create_target_def nth_res_def py_return_app del: str_in.simps dumps_with.simps)
qed

section \<open>Bulk requests\<close>

lemma evens_flat_pairs: "evens (flat_pairs ps) = map (\<lambda>(k, _). PStr k) ps"
  by (induction ps rule: flat_pairs.induct) simp_all

lemma flat_pairs_append: "flat_pairs (ps @ qs) = flat_pairs ps @ flat_pairs qs"
  by (induction ps rule: flat_pairs.induct) simp_all

text \<open>The serialised attributes, and the parser of the format \<open>a=v|a=v|...\<close>.\<close>

definition bulk_attr_text :: "(string \<times> string) list \<Rightarrow> string" where
  "bulk_attr_text ps = str_join ''|'' (map (\<lambda>(a, v). a @ ''='' @ v) ps)"

definition bulk_attr_parse :: "string \<Rightarrow> (string \<times> string) list res" where
  "bulk_attr_parse s =
     (if s = [] then Ok []
      else rmap (\<lambda>p. case str_partition ''='' p of (a, sep, v) \<Rightarrow>
             if sep = [] then Err ValueError else Ok (a, v)) (str_split ''|'' s))"

lemma bulk_attr_loop_pairs:
  "data \<noteq> [] \<Longrightarrow> bulk_attr_loop True data (flat_pairs ps) =
   Ok (data @ concat (map (\<lambda>(a, v). ''|'' @ a @ ''='' @ v) ps))"
  by (induction ps arbitrary: data rule: flat_pairs.induct) simp_all

lemma str_join_append: "str_join p ((x @ y) # xs) = x @ str_join p (y # xs)"
  by (cases xs) simp_all

lemma str_join_nonempty: "x \<noteq> [] \<Longrightarrow> str_join p (x # xs) \<noteq> []"
  by (cases xs) simp_all

lemma concat_join: "x @ concat (map (\<lambda>y. p @ f y) ys) = str_join p (x # map f ys)"
proof (induction ys arbitrary: x)
  case (Cons y ys)
  have "str_join p ((p @ f y) # map f ys) = p @ str_join p (f y # map f ys)"
    by (rule str_join_append)
  with Cons [of "p @ f y"] show ?case by simp
qed simp

lemma bulk_attr_serialize_pairs: "bulk_attr_serialize (PList (flat_pairs ps)) = Ok (bulk_attr_text ps)"
proof (cases ps)
  case (Cons p qs)
  obtain a v where p: "p = (a, v)" by (cases p)
  have "(\<lambda>(a, v). ''|'' @ a @ ''='' @ v) = (\<lambda>y. ''|'' @ (case y of (a, v) \<Rightarrow> a @ ''='' @ v))"
    by (auto simp: fun_eq_iff)
  with Cons p show ?thesis
    using concat_join [of "a @ ''='' @ v" "''|''" "\<lambda>(a, v). a @ ''='' @ v" qs]
    by (simp add: bulk_attr_serialize_def elements_def bulk_attr_loop_pairs bulk_attr_text_def)
qed (simp add: bulk_attr_serialize_def elements_def bulk_attr_text_def)

definition bulk_attr_ok :: "(string \<times> string) list \<Rightarrow> bool" where
  "bulk_attr_ok ps = list_all (\<lambda>(a, v). CHR ''='' \<notin> set a \<and> CHR ''|'' \<notin> set a \<and> CHR ''|'' \<notin> set v) ps"

lemma bulk_attr_parse_text:
  assumes "bulk_attr_ok ps"
  shows "bulk_attr_parse (bulk_attr_text ps) = Ok ps"
proof (cases "ps = []")
  case False
  let ?f = "\<lambda>(a, v). a @ ''='' @ v"
  have "list_all (\<lambda>x. CHR ''|'' \<notin> set x) (map ?f ps)"
    using assms by (auto simp: bulk_attr_ok_def list_all_iff)
  with False have split: "str_split ''|'' (bulk_attr_text ps) = map ?f ps"
    unfolding bulk_attr_text_def by (intro str_split_join) simp_all
  have "rmap (\<lambda>p. case str_partition ''='' p of (a, sep, v) \<Rightarrow>
      if sep = [] then Err ValueError else Ok (a, v)) (map ?f ps) = Ok ps"
    using assms
    by (induction ps) (auto simp: bulk_attr_ok_def str_partition_def str_cut_single)
  moreover have "bulk_attr_text ps \<noteq> []"
    using False by (cases ps) (auto simp: bulk_attr_text_def str_join_nonempty)
  ultimately show ?thesis by (simp add: bulk_attr_parse_def split)
qed (simp add: bulk_attr_text_def bulk_attr_parse_def)

interpretation bulk_codec: codec bulk_attr_text bulk_attr_parse bulk_attr_ok
  by unfold_locales (rule bulk_attr_parse_text)

lemma bulk_create_keys:
  assumes "bulk_create E cfg ots T o1 keys attrs n do_assert s = (Ok (status, outs, sts), t)"
  shows "length outs = (case keys of Some (k # ks) \<Rightarrow> length (k # ks) | _ \<Rightarrow> nat n) \<and>
    (do_assert \<longrightarrow> status = success)"
  using assms
  by (auto simp: bulk_create_def py_bind_Ok_iff Let_def py_return_app assert_success_def
      dest!: py_map_length split: option.splits list.splits prod.splits if_splits)

end
