(* ===== verification/ZmqClient.thy ===== *)
theory ZmqClient imports RedisFacts begin

text \<open>
  \<open>common/sai_client/sai_zmq_client/sai_zmq_client.py\<close>: the client that sends requests over a
  ZeroMQ socket and keeps the rest of the Redis client. It overrides \<open>operate\<close>, \<open>cleanup\<close>,
  \<open>deinit\<close> and the liveness checks; the operations of \<open>RedisClient\<close> and \<open>RedisOps\<close> run on its
  transport unchanged. The sockets and the file system are a parameter.
\<close>

section \<open>State, configuration and sockets\<close>

text \<open>\<open>zmq_recv\<close> may raise \<open>ZmqAgain\<close> (a timeout), \<open>ZmqError\<close> or a decoding error.\<close>

record 'e zmq_env =
  zmq_context :: "('e, unit) py"
  zmq_socket :: "string \<Rightarrow> ('e, unit) py"
  zmq_close :: "('e, unit) py"
  zmq_destroy :: "('e, unit) py"
  zmq_timeouts :: "int \<Rightarrow> ('e, unit) py"
  zmq_send :: "string \<Rightarrow> ('e, unit) py"
  zmq_recv :: "('e, string) py"
  tcp_connect :: "string \<Rightarrow> int \<Rightarrow> ('e, unit) py"
  path_exists :: "string \<Rightarrow> ('e, bool) py"

text \<open>Whether \<open>_req\<close> and \<open>_zmq_ctx\<close> hold an object or \<open>None\<close>.\<close>

record 'e zclient = "'e rclient" +
  req_open :: bool
  ctx_open :: bool

record zmq_cfg =
  zmq_endpoint :: string
  zmq_timeout_ms :: int

definition zmq_init_cfg :: "(string, pyval) dict \<Rightarrow> zmq_cfg res" where
  "zmq_init_cfg cfg =
     rbind (case map_of cfg ''zmq_endpoint'' of
              None \<Rightarrow> Ok ''tcp://127.0.0.1:5555''
            | Some (PStr s) \<Rightarrow> Ok s
            | Some _ \<Rightarrow> Err (Unmodelled ''endpoint'')) (\<lambda>ep.
     rbind (case map_of cfg ''zmq_timeout_ms'' of None \<Rightarrow> Ok 60000 | Some v \<Rightarrow> py_int_of v) (\<lambda>ms.
     Ok \<lparr>zmq_endpoint = ep, zmq_timeout_ms = ms\<rparr>))"

definition close_req_socket :: "'e zmq_env \<Rightarrow> (('e, 'z) zclient_scheme, unit) py" where
  "close_req_socket Z =
     py_bind (py_get req_open) (\<lambda>b.
     if b then py_bind (on_env (zmq_close Z)) (\<lambda>_. py_modify (\<lambda>s. s\<lparr>req_open := False\<rparr>))
     else py_return ())"

definition open_req_socket :: "'e zmq_env \<Rightarrow> zmq_cfg \<Rightarrow> (('e, 'z) zclient_scheme, unit) py" where
  "open_req_socket Z zc =
     py_bind (close_req_socket Z) (\<lambda>_.
     py_bind (py_get ctx_open) (\<lambda>c.
     py_bind (if c then py_return ()
              else py_bind (on_env (zmq_context Z)) (\<lambda>_. py_modify (\<lambda>s. s\<lparr>ctx_open := True\<rparr>))) (\<lambda>_.
     py_bind (on_env (zmq_socket Z (zmq_endpoint zc))) (\<lambda>_.
     py_modify (\<lambda>s. s\<lparr>req_open := True\<rparr>)))))"

definition zmq_deinit :: "'e zmq_env \<Rightarrow> (('e, 'z) zclient_scheme, unit) py" where
  "zmq_deinit Z =
     py_bind (close_req_socket Z) (\<lambda>_.
     py_bind (py_get ctx_open) (\<lambda>c.
     if c then py_bind (on_env (zmq_destroy Z)) (\<lambda>_. py_modify (\<lambda>s. s\<lparr>ctx_open := False\<rparr>))
     else py_return ()))"

section \<open>Liveness\<close>

text \<open>\<open>s.rsplit(c, 1)\<close> for one character: the parts around its last occurrence.\<close>

definition str_rsplit1 :: "char \<Rightarrow> string \<Rightarrow> string list" where
  "str_rsplit1 c s = (case str_cut [c] (rev s) of None \<Rightarrow> [s] | Some (a, b) \<Rightarrow> [rev b, rev a])"

text \<open>\<open>host, port = ...\<close>: unpacking anything but two parts is a \<open>ValueError\<close>.\<close>

definition two_parts :: "string list \<Rightarrow> (string \<times> string) res" where
  "two_parts xs = (case xs of [a, b] \<Rightarrow> Ok (a, b) | _ \<Rightarrow> Err ValueError)"

definition tcp_host_port :: "string \<Rightarrow> (string \<times> string) res" where
  "tcp_host_port rest =
     rbind (if starts_with rest ''['' then two_parts (str_split1 '']:'' (drop 1 rest))
            else two_parts (str_rsplit1 (CHR '':'') rest)) (\<lambda>(host, p).
     Ok (if host \<in> {''*'', ''0.0.0.0'', ''::''} then ''127.0.0.1'' else host, p))"

definition peer_reachable :: "'e zmq_env \<Rightarrow> zmq_cfg \<Rightarrow> (('e, 'z) zclient_scheme, bool) py" where
  "peer_reachable Z zc =
     (let ep = zmq_endpoint zc in
      py_catch
        (if starts_with ep ''tcp://'' then
           py_bind (py_lift (tcp_host_port (drop 6 ep))) (\<lambda>(host, p).
           py_bind (py_lift (py_int 10 p)) (\<lambda>n.
           py_bind (on_env (tcp_connect Z host n)) (\<lambda>_. py_return True)))
         else if starts_with ep ''ipc://'' then on_env (path_exists Z (drop 6 ep))
         else py_return False)
        (\<lambda>e. e = OSError \<or> e = ValueError)
        (py_return False))"

definition zmq_check_syncd :: "'e zmq_env \<Rightarrow> zmq_cfg \<Rightarrow> (('e, 'z) zclient_scheme, string option) py" where
  "zmq_check_syncd Z zc =
     py_bind (peer_reachable Z zc) (\<lambda>b. py_return (if b then Some (zmq_endpoint zc) else None))"

definition zmq_assert_syncd ::
  "'e redis_env \<Rightarrow> 'e zmq_env \<Rightarrow> zmq_cfg \<Rightarrow> (('e, 'z) zclient_scheme, unit) py" where
  "zmq_assert_syncd E Z zc = assert_syncd_with E (zmq_check_syncd Z zc) 30"

section \<open>The exchange\<close>

definition attrs_to_fv_list :: "string \<Rightarrow> string list res" where
  "attrs_to_fv_list attrs = rbind (loads attrs) (\<lambda>data. Ok (case data of
     PList items \<Rightarrow> map (\<lambda>item. case item of PStr s \<Rightarrow> s | _ \<Rightarrow> dumps item) items
   | _ \<Rightarrow> []))"

definition reply_as_redis_status :: "pyval list \<Rightarrow> wire list res" where
  "reply_as_redis_status reply =
     rbind (nth_res reply 0) (\<lambda>sai_status.
     rbind (nth_res reply 1) (\<lambda>resp_op.
     rbind (as_str TypeError resp_op) (\<lambda>rop.
     rbind (decode_utf8 (CHR ''S'' # rop)) (\<lambda>kind.
     rbind (case sai_status of
              PStr s \<Rightarrow> rbind (decode_utf8 s) (\<lambda>b. Ok (Bytes b))
            | v \<Rightarrow> Ok (Obj v)) (\<lambda>w.
     Ok [Bytes kind, Bytes (dumps (PList (drop 2 reply))), w])))))"

definition req_rep ::
  "'e zmq_env \<Rightarrow> zmq_cfg \<Rightarrow> string list \<Rightarrow> int \<Rightarrow> (('e, 'z) zclient_scheme, pyval list option) py" where
  "req_rep Z zc payload timeout_ms =
     py_bind (py_get req_open) (\<lambda>b.
     py_bind (if b then on_env (zmq_timeouts Z timeout_ms) else py_raise AttributeError) (\<lambda>_.
     py_bind (py_handle
       (py_bind (on_env (zmq_send Z (dumps_with True (PList (map PStr payload))))) (\<lambda>_.
        py_bind (on_env (zmq_recv Z)) (\<lambda>txt. py_return (Some txt))))
       (\<lambda>e. if e = ZmqAgain then py_bind (open_req_socket Z zc) (\<lambda>_. py_return None)
            else if e = ZmqError then
              py_bind (zmq_check_syncd Z zc) (\<lambda>c.
              py_bind (py_assert (chan_ok c)) (\<lambda>_.
              py_bind (open_req_socket Z zc) (\<lambda>_. py_raise ZmqError)))
            else py_raise e)) (\<lambda>got.
     case got of
       None \<Rightarrow> py_return None
     | Some txt \<Rightarrow> py_bind (py_lift (loads txt)) (\<lambda>reply. case reply of
         PList xs \<Rightarrow> py_return (Some xs) | _ \<Rightarrow> py_raise AssertionError))))"

definition zmq_cmd :: "string \<Rightarrow> string" where
  "zmq_cmd op = (case op of c # r \<Rightarrow> if c = CHR ''S'' \<or> c = CHR ''D'' then r else op | [] \<Rightarrow> [])"

definition zmq_timeout :: "zmq_cfg \<Rightarrow> string \<Rightarrow> string \<Rightarrow> int" where
  "zmq_timeout zc obj cmd =
     (if starts_with obj ''SAI_OBJECT_TYPE_SWITCH'' \<and> cmd = ''create''
      then max (zmq_timeout_ms zc) 180000 else zmq_timeout_ms zc)"

definition zmq_operate ::
  "'e redis_env \<Rightarrow> 'e zmq_env \<Rightarrow> zmq_cfg \<Rightarrow> string \<Rightarrow> string \<Rightarrow> string \<Rightarrow> (('e, 'z) zclient_scheme, wire list) py" where
  "zmq_operate E Z zc obj0 attrs op =
     py_bind (py_get asic_channel) (\<lambda>ch0.
     py_bind (if ch0 = None then zmq_assert_syncd E Z zc else py_return ()) (\<lambda>_.
     (let obj = norm_key obj0; cmd = zmq_cmd op in
     py_bind (py_lift (attrs_to_fv_list attrs)) (\<lambda>fvs.
     py_bind (req_rep Z zc (obj # cmd # fvs) (zmq_timeout zc obj cmd)) (\<lambda>got. case got of
       None \<Rightarrow> py_raise AssertionError
     | Some reply \<Rightarrow>
         py_bind (py_assert (length reply \<ge> 2)) (\<lambda>_.
         py_lift (reply_as_redis_status reply)))))))"

definition zmq_transport ::
  "'e redis_env \<Rightarrow> 'e zmq_env \<Rightarrow> zmq_cfg \<Rightarrow> ('e, 'z) zclient_scheme transport" where
  "zmq_transport E Z zc = \<lparr>operate = zmq_operate E Z zc, assert_syncd = zmq_assert_syncd E Z zc\<rparr>"

definition zmq_cleanup ::
  "'e redis_env \<Rightarrow> redis_cfg \<Rightarrow> 'e zmq_env \<Rightarrow> zmq_cfg \<Rightarrow> (('e, 'z) zclient_scheme, unit) py" where
  "zmq_cleanup E cfg Z zc =
     py_bind (cleanup E cfg (zmq_transport E Z zc)) (\<lambda>_. open_req_socket Z zc)"

section \<open>Facts\<close>

lemma decode_utf8_same: "decode_utf8 s = Ok t \<Longrightarrow> t = s"
  by simp

lemma reply_as_redis_status_three: "reply_as_redis_status reply = Ok st \<Longrightarrow> length st = 3"
  by (auto simp: reply_as_redis_status_def)

lemma zmq_operate_three:
  assumes "zmq_operate E Z zc obj attrs op s = (Ok st, t)"
  shows "length st = 3"
  using assms
  by (auto simp: zmq_operate_def py_bind_Ok_iff Let_def py_lift_app py_raise_app
      dest: reply_as_redis_status_three split: option.splits)

interpretation zmq_tr: sai_transport "zmq_transport E Z zc" for E Z zc
  by unfold_locales (simp add: zmq_transport_def zmq_operate_three)

text \<open>
  The response Redis delivers for a status, an operation and field-value strings, and the ZMQ
  reply with the same content.
\<close>

definition redis_reply :: "string \<Rightarrow> string \<Rightarrow> string list \<Rightarrow> wire list" where
  "redis_reply status rop fvs = [Bytes (CHR ''S'' # rop), Bytes (dumps (PList (map PStr fvs))), Bytes status]"

definition zmq_reply :: "string \<Rightarrow> string \<Rightarrow> string list \<Rightarrow> pyval list" where
  "zmq_reply status rop fvs = PStr status # PStr rop # map PStr fvs"

abbreviation ascii :: "string \<Rightarrow> bool" where
  "ascii s \<equiv> list_all (\<lambda>c. (of_char c :: nat) < 128) s"

lemma decode_utf8_ascii: "ascii s \<Longrightarrow> decode_utf8 s = Ok s"
  by (simp add: decode_utf8_def)

lemma reply_as_redis_status_reply:
  assumes "ascii status" and "ascii rop"
  shows "reply_as_redis_status (zmq_reply status rop fvs) = Ok (redis_reply status rop fvs)"
  using assms decode_utf8_ascii [of status] decode_utf8_ascii [of "CHR ''S'' # rop"]
  by (simp add: reply_as_redis_status_def zmq_reply_def redis_reply_def nth_res_def del: dumps_with.simps)

text \<open>What the socket delivers is what \<open>req_rep\<close> returns.\<close>

lemma vals_ok_strings: "vals_ok (map PStr xs)"
  by (induction xs) simp_all

lemma req_rep_delivers:
  assumes "req_open s" and "zmq_timeouts Z ms (env s) = (Ok (), e1)"
    and "zmq_send Z (dumps_with True (PList (map PStr payload))) e1 = (Ok (), e2)"
    and "zmq_recv Z e2 = (Ok (dumps_with c (PList reply)), e3)" and "vals_ok reply"
  shows "req_rep Z zc payload ms s = (Ok (Some reply), s\<lparr>env := e3\<rparr>)"
proof -
  have "loads (dumps_with c (PList reply)) = Ok (PList reply)"
    using assms(5) by (simp add: loads_dumps_with del: dumps_with.simps)
  with assms show ?thesis by (simp add: req_rep_def py_simps del: dumps_with.simps)
qed

lemma open_req_socket_open:
  "open_req_socket Z zc s = (Ok u, t) \<Longrightarrow> req_open t"
  by (auto simp: open_req_socket_def py_bind_Ok_iff py_modify_app)

text \<open>A timeout is an \<open>AssertionError\<close> of the operation, after a new socket has been opened.\<close>

lemma req_rep_timeout:
  assumes "req_open s" and "zmq_timeouts Z ms (env s) = (Ok (), e1)"
    and "zmq_send Z (dumps_with True (PList (map PStr payload))) e1 = (Ok (), e2)"
    and "zmq_recv Z e2 = (Err ZmqAgain, e3)"
    and "open_req_socket Z zc (s\<lparr>env := e3\<rparr>) = (Ok (), t)"
  shows "req_rep Z zc payload ms s = (Ok None, t) \<and> req_open t"
  using assms open_req_socket_open [OF assms(5)]
  by (simp add: req_rep_def py_simps del: dumps_with.simps)

lemma peer_reachable_catches:
  "peer_reachable Z zc s = (Err e, t) \<Longrightarrow> e \<noteq> OSError \<and> e \<noteq> ValueError"
  by (auto simp: peer_reachable_def Let_def py_catch_app py_return_app split: prod.splits res.splits if_splits)

lemma zmq_timeout_bounds:
  "zmq_timeout_ms zc \<le> zmq_timeout zc obj cmd \<and>
   (zmq_timeout_ms zc \<le> 180000 \<longrightarrow> zmq_timeout zc obj cmd \<le> 180000)"
  by (simp add: zmq_timeout_def)

section \<open>Delivery over ZMQ\<close>

lemma map_dump_strings: "map (\<lambda>item. case item of PStr s \<Rightarrow> s | _ \<Rightarrow> dumps item) (map PStr xs) = xs"
  by (induction xs) simp_all

text \<open>A list of strings that was made text for Redis is sent as the list itself.\<close>

lemma attrs_to_fv_list_strings: "attrs_to_fv_list (dumps_with c (PList (map PStr xs))) = Ok xs"
  using loads_dumps_with [of "PList (map PStr xs)" c]
  by (simp add: attrs_to_fv_list_def vals_ok_strings comp_def del: dumps_with.simps)

lemma zmq_operate_delivers:
  assumes "asic_channel s = Some ch" and "req_open s"
    and "zmq_timeouts Z (zmq_timeout zc (norm_key obj) (zmq_cmd op)) (env s) = (Ok (), e1)"
    and "zmq_send Z (dumps_with True (PList (map PStr (norm_key obj # zmq_cmd op # xs)))) e1 = (Ok (), e2)"
    and "zmq_recv Z e2 = (Ok (dumps_with c (PList (zmq_reply status rop fvs))), e3)"
    and "ascii status" and "ascii rop"
  shows "zmq_operate E Z zc obj (dumps_with c' (PList (map PStr xs))) op s =
    (Ok (redis_reply status rop fvs), s\<lparr>env := e3\<rparr>)"
proof -
  have ok: "vals_ok (zmq_reply status rop fvs)"
    by (simp add: zmq_reply_def vals_ok_strings)
  have rr: "req_rep Z zc (norm_key obj # zmq_cmd op # xs) (zmq_timeout zc (norm_key obj) (zmq_cmd op)) s =
      (Ok (Some (zmq_reply status rop fvs)), s\<lparr>env := e3\<rparr>)"
    by (rule req_rep_delivers [OF assms(2-5) ok])
  have len: "2 \<le> length (zmq_reply status rop fvs)" by (simp add: zmq_reply_def)
  show ?thesis
    unfolding zmq_operate_def Let_def attrs_to_fv_list_strings
    using assms(1) len
    by (simp add: py_bind_app py_get_app py_return_app py_lift_app rr
        reply_as_redis_status_reply [OF assms(6,7)])
qed

end
