(* ===== verification/SaiCore.thy ===== *)
theory SaiCore imports ZmqClient begin

text \<open>
  The class \<open>Sai\<close> of \<open>common/sai.py\<close>: the registry of aliases, the reading of attributes by
  their metadata type with the second request a \<open>BUFFER_OVERFLOW\<close> asks for, and the discovery
  of the objects a switch creates by itself. The client it drives is a record of operations,
  instantiated below with the Redis and the ZMQ client.
\<close>

section \<open>The client interface\<close>

text \<open>\<open>c_sleep\<close> is \<open>time.sleep\<close>, in milliseconds, on the client's clock.\<close>

record 'c sai_client =
  c_create :: "objref \<Rightarrow> pyval \<Rightarrow> bool \<Rightarrow> ('c, pyval reply) py"
  c_remove :: "string \<Rightarrow> bool \<Rightarrow> ('c, string) py"
  c_set :: "string \<Rightarrow> pyval \<Rightarrow> bool \<Rightarrow> ('c, string) py"
  c_get :: "string \<Rightarrow> pyval \<Rightarrow> bool \<Rightarrow> ('c, sai_data reply) py"
  c_vid_to_type :: "string \<Rightarrow> ('c, string) py"
  c_bulk_create :: "objref \<Rightarrow> pyval list option \<Rightarrow> pyval list \<Rightarrow> int \<Rightarrow> bool \<Rightarrow>
    ('c, string \<times> string list \<times> pyval list) py"
  c_bulk_remove :: "objref \<Rightarrow> pyval list \<Rightarrow> bool \<Rightarrow> ('c, string \<times> pyval list) py"
  c_bulk_set :: "objref \<Rightarrow> pyval list \<Rightarrow> pyval list \<Rightarrow> bool \<Rightarrow> ('c, string \<times> pyval list) py"
  c_flush_fdb :: "string \<Rightarrow> pyval \<Rightarrow> ('c, unit) py"
  c_sleep :: "nat \<Rightarrow> ('c, unit) py"
  c_cleanup :: "('c, unit) py"
  c_pre_shutdown :: "int \<Rightarrow> ('c, unit) py"
  c_warm_shutdown :: "int \<Rightarrow> ('c, unit) py"
  c_verify_restore :: "nat \<Rightarrow> ('c, unit) py"

text \<open>The operations the Redis client class provides, on a transport.\<close>

definition rpc_sai_client ::
  "'e redis_env \<Rightarrow> redis_cfg \<Rightarrow> sai_obj_type list \<Rightarrow> ('e, 'z) rclient_scheme transport \<Rightarrow>
   (('e, 'z) rclient_scheme, unit) py \<Rightarrow> ('e, 'z) rclient_scheme sai_client" where
  "rpc_sai_client E cfg ots T clean =
     \<lparr>c_create = create E cfg ots T,
      c_remove = remove E cfg ots T,
      c_set = set_attr E cfg ots T,
      c_get = get_attrs E cfg ots T,
      c_vid_to_type = (\<lambda>vid. py_lift (vid_to_type ots vid)),
      c_bulk_create = bulk_create E cfg ots T,
      c_bulk_remove = bulk_remove T,
      c_bulk_set = bulk_set T,
      c_flush_fdb = flush_fdb_entries E cfg ots T,
      c_sleep = (\<lambda>ms. on_env (sleep_ms E ms)),
      c_cleanup = clean,
      c_pre_shutdown = pre_shutdown E cfg,
      c_warm_shutdown = warm_shutdown E cfg,
      c_verify_restore = verify_restore_after_warm_shutdown E T\<rparr>"

definition redis_sai_client ::
  "'e redis_env \<Rightarrow> redis_cfg \<Rightarrow> sai_obj_type list \<Rightarrow> ('e, 'z) rclient_scheme sai_client" where
  "redis_sai_client E cfg ots =
     rpc_sai_client E cfg ots (redis_transport E cfg) (cleanup E cfg (redis_transport E cfg))"

definition zmq_sai_client ::
  "'e redis_env \<Rightarrow> redis_cfg \<Rightarrow> 'e zmq_env \<Rightarrow> zmq_cfg \<Rightarrow> sai_obj_type list \<Rightarrow>
   ('e, 'z) zclient_scheme sai_client" where
  "zmq_sai_client E cfg Z zc ots =
     rpc_sai_client E cfg ots (zmq_transport E Z zc) (zmq_cleanup E cfg Z zc)"

section \<open>State\<close>

text \<open>An entry of \<open>objects_registry\<close>; exactly one of \<open>oid\<close> and \<open>key\<close> is normally not \<open>None\<close>.\<close>

record entry =
  e_type :: pyval
  e_oid :: pyval
  e_key :: pyval

record 'c sai =
  objects_registry :: "(string, entry) dict"
  switch_oid :: pyval
  rec2vid :: "(string, pyval) dict"
  client :: 'c

definition on_client :: "('c, 'a) py \<Rightarrow> (('c, 'z) sai_scheme, 'a) py" where
  "on_client m = (\<lambda>s. case m (client s) of (r, c) \<Rightarrow> (r, s\<lparr>client := c\<rparr>))"

lemma on_client_app [py_simps]: "on_client m s = (case m (client s) of (r, c) \<Rightarrow> (r, s\<lparr>client := c\<rparr>))"
  by (simp add: on_client_def)

lemma py_inv_on_client [inv_intros]:
  "(\<And>s c. I s \<Longrightarrow> I (s\<lparr>client := c\<rparr>)) \<Longrightarrow> py_inv I (on_client m)"
  by (auto simp: py_inv_def on_client_def split: prod.splits)

definition create_alias :: "string \<Rightarrow> pyval \<Rightarrow> pyval \<Rightarrow> pyval \<Rightarrow> (('c, 'z) sai_scheme, unit) py" where
  "create_alias alias obj_type oid key = py_modify (\<lambda>s.
     s\<lparr>objects_registry := dict_set alias \<lparr>e_type = obj_type, e_oid = oid, e_key = key\<rparr> (objects_registry s)\<rparr>)"

definition remove_alias :: "string \<Rightarrow> (('c, 'z) sai_scheme, unit) py" where
  "remove_alias alias = py_modify (\<lambda>s. s\<lparr>objects_registry := dict_del alias (objects_registry s)\<rparr>)"

text \<open>The setter of the property \<open>switch_oid\<close>.\<close>

definition set_switch_oid :: "pyval \<Rightarrow> (('c, 'z) sai_scheme, unit) py" where
  "set_switch_oid value =
     py_bind (create_alias ''SWITCH_ID'' (PStr ''SAI_OBJECT_TYPE_SWITCH'') value PNone) (\<lambda>_.
     py_modify (\<lambda>s. s\<lparr>switch_oid := value\<rparr>))"

text \<open>\<open>Sai.cleanup\<close>; \<open>dut\<close> is the clean-up of the device under test, when one is configured.\<close>

definition sai_cleanup ::
  "'c sai_client \<Rightarrow> (('c, 'z) sai_scheme, unit) py option \<Rightarrow> (('c, 'z) sai_scheme, unit) py" where
  "sai_cleanup cl dut =
     py_bind (case dut of Some d \<Rightarrow> d | None \<Rightarrow> py_return ()) (\<lambda>_.
     py_bind (on_client (c_cleanup cl)) (\<lambda>_.
     py_modify (\<lambda>s. s\<lparr>objects_registry := [], rec2vid := []\<rparr>)))"

definition perform_warm_reboot :: "'c sai_client \<Rightarrow> int \<Rightarrow> int \<Rightarrow> nat \<Rightarrow> (('c, 'z) sai_scheme, unit) py" where
  "perform_warm_reboot cl pre_tout warm_tout after_warm_tout =
     py_bind (on_client (c_pre_shutdown cl pre_tout)) (\<lambda>_.
     py_bind (on_client (c_warm_shutdown cl warm_tout)) (\<lambda>_.
     on_client (c_verify_restore cl after_warm_tout)))"

section \<open>Metadata\<close>

text \<open>
  \<open>Sai.metadata\<close> is the content of \<open>/etc/sai/sai.json\<close>, read once; the parameter \<open>meta\<close> is
  that content, or \<open>None\<close> when the file cannot be opened.
\<close>

fun find_item :: "string \<Rightarrow> pyval list \<Rightarrow> pyval option res" where
  "find_item t [] = Ok None"
| "find_item t (item # is) = (case item of
     PDict kvs \<Rightarrow> if PStr t \<in> set (map snd kvs) then Ok (Some item) else find_item t is
   | _ \<Rightarrow> Err AttributeError)"

definition type_text :: "objref \<Rightarrow> string res" where
  "type_text o1 = (case o1 of
     OType t \<Rightarrow> Ok (''SAI_OBJECT_TYPE_'' @ ot_name t)
   | OStr s \<Rightarrow> if starts_with s ''SAI_OBJECT_TYPE_'' then Ok s else Err AssertionError)"

definition get_meta :: "pyval option \<Rightarrow> objref option \<Rightarrow> pyval option res" where
  "get_meta meta obj_type = (case meta of
     None \<Rightarrow> Ok None
   | Some m \<Rightarrow> (case obj_type of
       None \<Rightarrow> Ok (Some m)
     | Some o1 \<Rightarrow> rbind (type_text o1) (\<lambda>t. rbind (elements m) (find_item t))))"

text \<open>\<open>v['k']\<close>.\<close>

definition py_item :: "string \<Rightarrow> pyval \<Rightarrow> pyval res" where
  "py_item k v = (case v of
     PDict kvs \<Rightarrow> (case map_of kvs k of Some x \<Rightarrow> Ok x | None \<Rightarrow> Err KeyError)
   | _ \<Rightarrow> Err TypeError)"

definition attr_name_type :: "pyval \<Rightarrow> (pyval \<times> pyval) res" where
  "attr_name_type a =
     rbind (py_item ''name'' a) (\<lambda>n.
     rbind (py_item ''properties'' a) (\<lambda>p.
     rbind (py_item ''type'' p) (\<lambda>t. Ok (n, t))))"

definition get_obj_attrs :: "pyval option \<Rightarrow> objref option \<Rightarrow> (pyval \<times> pyval) list res" where
  "get_obj_attrs meta o1 = rbind (get_meta meta o1) (\<lambda>m. case m of
     None \<Rightarrow> Ok []
   | Some item \<Rightarrow> rbind (py_item ''attributes'' item) (\<lambda>as. rbind (elements as) (rmap attr_name_type)))"

text \<open>\<open>PNone\<close> when the attribute is not there.\<close>

definition get_obj_attr_type :: "pyval option \<Rightarrow> objref option \<Rightarrow> pyval \<Rightarrow> pyval res" where
  "get_obj_attr_type meta o1 attr = rbind (get_obj_attrs meta o1) (\<lambda>as.
     Ok (case map_of as attr of Some t \<Rightarrow> t | None \<Rightarrow> PNone))"

section \<open>Get by type\<close>

definition buffer_overflow :: string where
  "buffer_overflow = ''SAI_STATUS_BUFFER_OVERFLOW''"

definition unsupported_types :: "string list" where
  "unsupported_types =
    [''sai_port_eye_values_list_t'', ''sai_prbs_rx_state_t'',
     ''sai_port_err_status_list_t'', ''sai_fabric_port_reachability_t'',
     ''sai_port_lane_latch_status_list_t'', ''sai_latch_status_t'',
     ''sai_port_frequency_offset_ppm_list_t'', ''sai_port_snr_list_t'',
     ''sai_acl_chain_list_t'', ''sai_port_pam4_eye_values_list_t'',
     ''sai_prbs_per_lane_rx_state_list_t'', ''sai_prbs_per_lane_bit_error_rate_list_t'',
     ''sai_prbs_per_lane_rx_status_list_t'', ''sai_pointer_t'',
     ''sai_uint16_range_t'', ''sai_uint8_range_t'', ''sai_timespec_t'']"

text \<open>\<open>status, data = self.get(obj, [attr, v], do_assert)\<close>: two elements, so the client's \<open>get\<close>.\<close>

definition get_pair :: "'c sai_client \<Rightarrow> bool \<Rightarrow> string \<Rightarrow> pyval \<Rightarrow> string \<Rightarrow> ('c, string \<times> sai_data) py" where
  "get_pair cl do_assert obj attr v =
     py_bind (c_get cl obj (PList [attr, PStr v]) do_assert) (\<lambda>r. py_lift (untag r))"

text \<open>The request, and the second one with the size the overflow reports.\<close>

definition get_sized ::
  "'c sai_client \<Rightarrow> bool \<Rightarrow> string \<Rightarrow> pyval \<Rightarrow> string \<Rightarrow> (sai_data \<Rightarrow> string res) \<Rightarrow>
   ('c, string \<times> sai_data) py" where
  "get_sized cl do_assert obj attr first resize =
     py_bind (get_pair cl do_assert obj attr first) (\<lambda>(status, data).
     if status = buffer_overflow then
       py_bind (py_lift (resize data)) (\<lambda>v. get_pair cl do_assert obj attr v)
     else py_return (status, data))"

text \<open>\<open>data.to_json()[1].split(":")[1]\<close> as a number.\<close>

definition acl_length :: "sai_data \<Rightarrow> int res" where
  "acl_length data =
     rbind (to_json data) (\<lambda>j.
     rbind (py_index j 1) (\<lambda>v.
     rbind (as_str AttributeError v) (\<lambda>s.
     rbind (nth_res (str_split '':'' s) 1) (py_int 10))))"

text \<open>\<open>json.loads(data.to_json()[1])["count"]\<close>; a list is built with it, so it must be an integer.\<close>

definition json_count :: "sai_data \<Rightarrow> int res" where
  "json_count data =
     rbind (to_json data) (\<lambda>j.
     rbind (py_index j 1) (\<lambda>v.
     rbind (as_str TypeError v) (\<lambda>s.
     rbind (loads s) (\<lambda>w.
     rbind (py_item ''count'' w) (\<lambda>n. case n of
       PInt i \<Rightarrow> Ok i | PBool b \<Rightarrow> Err (Unmodelled ''count'') | _ \<Rightarrow> Err TypeError)))))"

definition list_types :: "string list" where
  "list_types = [''sai_s32_list_t'', ''sai_u32_list_t'', ''sai_s16_list_t'', ''sai_u16_list_t'',
     ''sai_s8_list_t'', ''sai_u8_list_t'', ''sai_vlan_list_t'']"

text \<open>What is asked for an attribute of a type: the placeholder, and how to size a second request.\<close>

datatype ask =
    Once string
  | Sized string "sai_data \<Rightarrow> string res"
  | Unsupported
  | Unknown

definition sized_list :: "string \<Rightarrow> ask" where
  "sized_list elem = Sized (''1:'' @ elem) (\<lambda>d. rbind (data_uint32 d) (\<lambda>n. Ok (make_list n elem)))"

definition sized_json :: "(int \<Rightarrow> string) \<Rightarrow> ask" where
  "sized_json mk = Sized (mk 1) (\<lambda>d. rbind (json_count d) (\<lambda>n. Ok (mk n)))"

definition ask_for :: "string \<Rightarrow> ask" where
  "ask_for t =
     (if t = ''sai_object_list_t'' then sized_list ''oid:0x0''
      else if t \<in> set list_types then sized_list ''0''
      else if t = ''sai_acl_capability_t'' then
        Sized (make_acl_list 1) (\<lambda>d. rbind (acl_length d) (\<lambda>n. Ok (make_acl_list n)))
      else if t = ''sai_acl_resource_list_t'' then sized_json make_acl_resource_list
      else if t = ''sai_map_list_t'' then sized_json make_map_list
      else if t = ''sai_qos_map_list_t'' then sized_json make_qos_map_list
      else if t = ''sai_system_port_config_list_t'' then sized_json make_system_port_config_list
      else if t = ''sai_object_id_t'' then Once ''oid:0x0''
      else if t = ''bool'' then Once ''true''
      else if t = ''sai_mac_t'' then Once ''00:00:00:00:00:00''
      else if t = ''sai_ip_address_t'' then Once ''0.0.0.0''
      else if t = ''sai_ip4_t'' then Once ''0.0.0.0&mask:0.0.0.0''
      else if t = ''sai_ip6_t'' then Once ''::0.0.0.0&mask:0:0:0:0:0:0:0:0''
      else if t = ''sai_u32_range_t'' \<or> t = ''sai_s32_range_t'' then Once ''0,0''
      else if t \<in> set unsupported_types then Unsupported
      else if starts_with t ''sai_'' \<or> t = [] \<or> t = ''char'' then Once []
      else Unknown)"

definition get_by_type ::
  "'c sai_client \<Rightarrow> string \<Rightarrow> pyval \<Rightarrow> pyval \<Rightarrow> bool \<Rightarrow> ('c, string \<times> sai_data option) py" where
  "get_by_type cl obj attr attr_type do_assert = (case attr_type of
     PStr t \<Rightarrow> (case ask_for t of
         Once v \<Rightarrow> py_bind (get_pair cl do_assert obj attr v) (\<lambda>(s, d). py_return (s, Some d))
       | Sized v resize \<Rightarrow>
           py_bind (get_sized cl do_assert obj attr v resize) (\<lambda>(s, d). py_return (s, Some d))
       | Unsupported \<Rightarrow> py_return (''SAI-C internal failure. Unsupported type '' @ t, None)
       | Unknown \<Rightarrow> py_raise AssertionError)
   | _ \<Rightarrow> py_raise AttributeError)"

text \<open>
  \<open>Sai.get\<close>: a single attribute is read by its metadata type, otherwise the client is asked.
\<close>

definition sai_get ::
  "'c sai_client \<Rightarrow> pyval option \<Rightarrow> string \<Rightarrow> pyval list \<Rightarrow> bool \<Rightarrow> ('c, sai_data option reply) py" where
  "sai_get cl meta obj attrs do_assert = (case attrs of
     [attr] \<Rightarrow>
       py_bind (c_vid_to_type cl obj) (\<lambda>t.
       py_bind (py_lift (get_obj_attr_type meta (Some (OStr t)) attr)) (\<lambda>attr_type.
       py_bind (get_by_type cl obj attr attr_type False) (\<lambda>(status, data).
       if do_assert then
         py_bind (py_assert (status = success)) (\<lambda>_. py_return (Bare data))
       else py_return (Tagged status data))))
   | _ \<Rightarrow> py_bind (c_get cl obj (PList attrs) do_assert) (\<lambda>r. py_return (case r of
             Bare d \<Rightarrow> Bare (Some d) | Tagged s d \<Rightarrow> Tagged s (Some d))))"

definition sai_set :: "'c sai_client \<Rightarrow> string \<Rightarrow> pyval list \<Rightarrow> bool \<Rightarrow> ('c, string) py" where
  "sai_set cl obj attr do_assert =
     py_bind (py_assert (length attr = 2)) (\<lambda>_. c_set cl obj (PList attr) do_assert)"

text \<open>A method call on the value of a bare reply; \<open>None\<close> has none of SaiData's methods.\<close>

definition bare :: "'a reply \<Rightarrow> 'a res" where
  "bare r = (case r of Bare x \<Rightarrow> Ok x | Tagged _ _ \<Rightarrow> Err AttributeError)"

definition on_data :: "(sai_data \<Rightarrow> 'a res) \<Rightarrow> sai_data option \<Rightarrow> 'a res" where
  "on_data f d = (case d of None \<Rightarrow> Err AttributeError | Some x \<Rightarrow> f x)"

text \<open>\<open>self.get(obj, attrs).m()\<close>.\<close>

definition get_then ::
  "'c sai_client \<Rightarrow> pyval option \<Rightarrow> string \<Rightarrow> pyval list \<Rightarrow> (sai_data \<Rightarrow> 'a res) \<Rightarrow> ('c, 'a) py" where
  "get_then cl meta obj attrs f =
     py_bind (sai_get cl meta obj attrs True) (\<lambda>r. py_lift (rbind (bare r) (on_data f)))"

text \<open>\<open>status, data = self.get(obj, attrs, False)\<close>.\<close>

definition get_tagged ::
  "'c sai_client \<Rightarrow> pyval option \<Rightarrow> string \<Rightarrow> pyval list \<Rightarrow> ('c, string \<times> sai_data option) py" where
  "get_tagged cl meta obj attrs =
     py_bind (sai_get cl meta obj attrs False) (\<lambda>r. py_lift (untag r))"

definition get_list :: "'c sai_client \<Rightarrow> pyval option \<Rightarrow> string \<Rightarrow> string \<Rightarrow> string \<Rightarrow> ('c, string list) py" where
  "get_list cl meta obj attr v =
     py_bind (get_tagged cl meta obj [PStr attr, PStr (''1:'' @ v)]) (\<lambda>(status, data).
     if status = buffer_overflow then
       py_bind (py_lift (on_data data_uint32 data)) (\<lambda>n.
         get_then cl meta obj [PStr attr, PStr (make_list n v)] (data_to_list 1))
     else
       py_bind (py_assert (status = success)) (\<lambda>_.
       py_bind (py_lift (on_data (data_to_list 1) data)) (\<lambda>xs.
       py_bind (py_assert (length xs \<le> 1)) (\<lambda>_.
       py_return xs))))"

text \<open>\<open>assert_status_success\<close>: a test is skipped or expected to fail by an exception of pytest.\<close>

definition assert_status_success :: "string \<Rightarrow> bool \<Rightarrow> bool \<Rightarrow> unit res" where
  "assert_status_success status skip_not_supported skip_not_implemented =
     (if skip_not_supported \<and> status \<in> {''SAI_STATUS_NOT_SUPPORTED'', ''SAI_STATUS_ATTR_NOT_SUPPORTED_0''}
      then Err Skipped
      else if skip_not_implemented \<and>
        status \<in> {''SAI_STATUS_NOT_IMPLEMENTED'', ''SAI_STATUS_ATTR_NOT_IMPLEMENTED_0''}
      then Err Skipped
      else if starts_with status ''SAI-C internal failure'' then Err XFailed
      else rassert (status = success))"

section \<open>Discovery\<close>

text \<open>\<open>f"PREFIX{idx}"\<close> aliases of a list of objects, numbered from \<open>i\<close>.\<close>

fun alias_numbered :: "string \<Rightarrow> pyval \<Rightarrow> nat \<Rightarrow> string list \<Rightarrow> (('c, 'z) sai_scheme, unit) py" where
  "alias_numbered pfx ty i [] = py_return ()"
| "alias_numbered pfx ty i (oid # oids) =
     py_bind (create_alias (pfx @ int_str (int i)) ty (PStr oid) PNone) (\<lambda>_.
     alias_numbered pfx ty (Suc i) oids)"

text \<open>The body of the loop over the ports: the \<open>continue\<close>s leave it.\<close>

definition discover_port :: "'c sai_client \<Rightarrow> pyval option \<Rightarrow> nat \<Rightarrow> string \<Rightarrow> (('c, 'z) sai_scheme, unit) py" where
  "discover_port cl meta idx oid =
     py_bind (create_alias (''PORT_'' @ int_str (int idx)) (PStr ''SAI_OBJECT_TYPE_PORT'') (PStr oid) PNone) (\<lambda>_.
     py_bind (on_client (get_tagged cl meta oid [PStr ''SAI_PORT_ATTR_TYPE''])) (\<lambda>(status, data).
     py_bind (if status = success then py_lift (rbind (on_data data_value data) (\<lambda>v.
                Ok (v \<noteq> ''SAI_PORT_TYPE_LOGICAL''))) else py_return False) (\<lambda>skip.
     if skip then py_return ()
     else
       py_bind (on_client (get_tagged cl meta oid [PStr ''SAI_PORT_ATTR_HW_LANE_LIST''])) (\<lambda>(status, data).
       if status \<noteq> success then py_return ()
       else
         py_bind (py_lift (rbind (on_data (data_to_list 1) data) (\<lambda>ls. nth_res ls 0))) (\<lambda>lane.
         create_alias (''port'' @ lane) (PStr ''SAI_OBJECT_TYPE_PORT'') (PStr oid) PNone)))))"

fun discover_ports :: "'c sai_client \<Rightarrow> pyval option \<Rightarrow> nat \<Rightarrow> string list \<Rightarrow> (('c, 'z) sai_scheme, unit) py" where
  "discover_ports cl meta i [] = py_return ()"
| "discover_ports cl meta i (oid # oids) =
     py_bind (discover_port cl meta i oid) (\<lambda>_. discover_ports cl meta (Suc i) oids)"

text \<open>An OID used as an object: it must be a string.\<close>

definition oid_obj :: "pyval \<Rightarrow> string res" where
  "oid_obj v = as_str AttributeError v"

definition objects_discovery :: "'c sai_client \<Rightarrow> pyval option \<Rightarrow> (('c, 'z) sai_scheme, unit) py" where
  "objects_discovery cl meta =
     py_bind (py_get switch_oid) (\<lambda>sw0.
     py_bind (py_lift (oid_obj sw0)) (\<lambda>sw.
     py_bind (on_client (get_then cl meta sw
       [PStr ''SAI_SWITCH_ATTR_DEFAULT_1Q_BRIDGE_ID'', PStr ''oid:0x0''] (data_oid 1))) (\<lambda>br0.
     py_bind (create_alias ''DEFAULT_1Q_BRIDGE_ID'' (PStr ''SAI_OBJECT_TYPE_BRIDGE'') br0 PNone) (\<lambda>_.
     py_bind (on_client (get_then cl meta sw
       [PStr ''SAI_SWITCH_ATTR_DEFAULT_VLAN_ID'', PStr ''oid:0x0''] (data_oid 1))) (\<lambda>vl.
     py_bind (create_alias ''DEFAULT_VLAN_ID'' (PStr ''SAI_OBJECT_TYPE_VLAN'') vl PNone) (\<lambda>_.
     py_bind (on_client (get_then cl meta sw
       [PStr ''SAI_SWITCH_ATTR_DEFAULT_VIRTUAL_ROUTER_ID'', PStr ''oid:0x0''] (data_oid 1))) (\<lambda>vr.
     py_bind (create_alias ''DEFAULT_VIRTUAL_ROUTER_ID'' (PStr ''SAI_OBJECT_TYPE_VIRTUAL_ROUTER'') vr PNone) (\<lambda>_.
     py_bind (on_client (get_then cl meta sw
       [PStr ''SAI_SWITCH_ATTR_NUMBER_OF_ACTIVE_PORTS'', PStr []] data_uint32)) (\<lambda>port_num.
     if port_num > 0 then
       py_bind (on_client (get_then cl meta sw
         [PStr ''SAI_SWITCH_ATTR_PORT_LIST'', PStr (make_list port_num ''oid:0x0'')] (data_oids 1))) (\<lambda>port_oids.
       py_bind (discover_ports cl meta 0 port_oids) (\<lambda>_.
       py_bind (py_lift (oid_obj br0)) (\<lambda>br.
       py_bind (on_client (get_tagged cl meta br
         [PStr ''SAI_BRIDGE_ATTR_PORT_LIST'', PStr ''1:oid:0x0''])) (\<lambda>(status, data).
       py_bind (py_lift (on_data data_uint32 data)) (\<lambda>bport_num.
       py_bind (py_assert (status = buffer_overflow)) (\<lambda>_.
       py_bind (py_assert (bport_num > 0)) (\<lambda>_.
       py_bind (on_client (get_then cl meta br
         [PStr ''SAI_BRIDGE_ATTR_PORT_LIST'', PStr (make_list bport_num ''oid:0x0'')] (data_oids 1))) (\<lambda>bp_oids.
       alias_numbered ''BRIDGE_PORT_'' (PStr ''SAI_OBJECT_TYPE_BRIDGE_PORT'') 0 bp_oids))))))))
     else py_return ())))))))))"

section \<open>The contract of a client\<close>

text \<open>
  What \<open>Sai\<close> relies on: the form of a reply follows \<open>do_assert\<close>, and an operation that asserted
  success reports success. No unpacking of a reply can fail under it.
\<close>

locale sai_crud =
  fixes cl :: "'c sai_client"
  assumes create_bare: "c_create cl o1 attrs True c = (Ok r, d) \<Longrightarrow> \<exists>v. r = Bare v"
    and create_tagged: "c_create cl o1 attrs False c = (Ok r, d) \<Longrightarrow> \<exists>s v. r = Tagged s v"
    and get_is_bare: "c_get cl obj attrs True c = (Ok q, d) \<Longrightarrow> \<exists>v. q = Bare v"
    and get_is_tagged: "c_get cl obj attrs False c = (Ok q, d) \<Longrightarrow> \<exists>s v. q = Tagged s v"
    and remove_ok: "c_remove cl obj True c = (Ok st, d) \<Longrightarrow> st = success"
    and set_ok: "c_set cl obj attrs True c = (Ok st, d) \<Longrightarrow> st = success"
begin

lemma get_pair_run:
  assumes "c_get cl obj (PList [attr, PStr v]) False c = (Ok q, d)"
  shows "\<exists>s x. q = Tagged s x \<and> get_pair cl False obj attr v c = (Ok (s, x), d)"
  using get_is_tagged [OF assms] assms by (auto simp: get_pair_def py_simps)

lemma sai_get_True:
  assumes "sai_get cl meta obj attrs True c = (Ok r, d)"
  shows "\<exists>x. r = Bare x"
proof (cases "\<exists>a. attrs = [a]")
  case True
  with assms show ?thesis
    by (auto simp: sai_get_def py_bind_Ok_iff py_return_app)
next
  case False
  then have "sai_get cl meta obj attrs True =
      py_bind (c_get cl obj (PList attrs) True) (\<lambda>r. py_return (case r of
             Bare d \<Rightarrow> Bare (Some d) | Tagged s d \<Rightarrow> Tagged s (Some d)))"
    by (auto simp: sai_get_def split: list.splits)
  with assms show ?thesis
    by (auto simp: py_bind_Ok_iff py_return_app dest: get_is_bare)
qed

lemma sai_get_False:
  assumes "sai_get cl meta obj attrs False c = (Ok r, d)"
  shows "\<exists>s x. r = Tagged s x"
proof (cases "\<exists>a. attrs = [a]")
  case True
  with assms show ?thesis
    by (auto simp: sai_get_def py_bind_Ok_iff py_return_app)
next
  case False
  then have "sai_get cl meta obj attrs False =
      py_bind (c_get cl obj (PList attrs) False) (\<lambda>r. py_return (case r of
             Bare d \<Rightarrow> Bare (Some d) | Tagged s d \<Rightarrow> Tagged s (Some d)))"
    by (auto simp: sai_get_def split: list.splits)
  with assms show ?thesis
    by (auto simp: py_bind_Ok_iff py_return_app dest: get_is_tagged)
qed

lemma sai_set_ok: "sai_set cl obj attr True c = (Ok st, d) \<Longrightarrow> st = success \<and> length attr = 2"
  by (auto simp: sai_set_def py_bind_Ok_iff dest: set_ok)

end

lemma status_judge_True: "assert_success True status s = (Ok u, t) \<Longrightarrow> status = success"
  by (auto simp: assert_success_def)

interpretation rpc_crud: sai_crud "rpc_sai_client E cfg ots T clean" for E cfg ots T clean
proof unfold_locales
  show "\<exists>v. r = Bare v"
    if "c_create (rpc_sai_client E cfg ots T clean) o1 attrs True c = (Ok r, d)" for o1 attrs c r d
    using that by (auto simp: rpc_sai_client_def create_def py_bind_Ok_iff py_return_app split: prod.splits)
  show "\<exists>s v. r = Tagged s v"
    if "c_create (rpc_sai_client E cfg ots T clean) o1 attrs False c = (Ok r, d)" for o1 attrs c r d
    using that by (auto simp: rpc_sai_client_def create_def py_bind_Ok_iff py_return_app split: prod.splits)
  show "\<exists>v. q = Bare v"
    if "c_get (rpc_sai_client E cfg ots T clean) obj attrs True c = (Ok q, d)" for obj attrs c q d
    using that by (auto simp: rpc_sai_client_def get_attrs_def py_bind_Ok_iff py_return_app)
  show "\<exists>s v. q = Tagged s v"
    if "c_get (rpc_sai_client E cfg ots T clean) obj attrs False c = (Ok q, d)" for obj attrs c q d
    using that by (auto simp: rpc_sai_client_def get_attrs_def py_bind_Ok_iff py_return_app)
  show "st = success"
    if "c_remove (rpc_sai_client E cfg ots T clean) obj True c = (Ok st, d)" for obj c st d
    using that by (auto simp: rpc_sai_client_def remove_def py_bind_Ok_iff py_return_app assert_success_def)
  show "st = success"
    if "c_set (rpc_sai_client E cfg ots T clean) obj attrs True c = (Ok st, d)" for obj attrs c st d
    using that by (auto simp: rpc_sai_client_def set_attr_def py_bind_Ok_iff py_return_app assert_success_def)
qed

section \<open>Reading a list of unknown length\<close>

text \<open>
  A server that holds the list \<open>xs\<close> as the value of an attribute: a request with too few places
  is answered with the number of elements and \<open>BUFFER_OVERFLOW\<close>, any other with the list.
\<close>

definition list_answer :: "string \<Rightarrow> string list \<Rightarrow> string \<Rightarrow> string \<times> sai_data" where
  "list_answer attr xs v =
     (case split_counted v of
        Ok ps \<Rightarrow> if length ps < length xs then (buffer_overflow, reply_data attr (int_str (int (length xs))))
                else (success, reply_data attr (counted xs))
      | Err e \<Rightarrow> (''SAI_STATUS_FAILURE'', reply_data attr []))"

definition serves_list :: "'c sai_client \<Rightarrow> string \<Rightarrow> string \<Rightarrow> string list \<Rightarrow> 'c \<Rightarrow> bool" where
  "serves_list cl obj attr xs c \<longleftrightarrow>
     (\<forall>v do_assert. c_get cl obj (PList [PStr attr, PStr v]) do_assert c =
        (case list_answer attr xs v of (status, data) \<Rightarrow>
           if do_assert then (if status = success then Ok (Bare data) else Err AssertionError)
           else Ok (Tagged status data), c))"

lemma split_counted_one:
  assumes "CHR '','' \<notin> set e"
  shows "split_counted (''1:'' @ e) = Ok [e]"
proof -
  have "char_of (49::nat) = CHR ''1''" by (rule char_eqI) simp
  then have "make_list 1 e = ''1:'' @ e"
    by (simp add: make_list_def int_str_def nat_digits.simps digit_char_def)
  with split_counted_make_list [of 1 e] assms show ?thesis by simp
qed

lemma overflow_neq: "buffer_overflow \<noteq> success"
  by (simp add: buffer_overflow_def success_def)

lemma data_uint32_count: "data_uint32 (reply_data attr (int_str (int n))) = Ok (int n)"
proof -
  have dig: "str_isdigit (int_str (int n))" by (simp add: int_str_isdigit)
  have "str_lower (int_str (int n)) \<notin> {''true'', ''false''}"
  proof -
    obtain d ds where ds: "nat_digits 10 n = digit_char d # ds" and d: "d < 10"
      by (rule nat_digits_Cons [of 10 n]) auto
    have "lower_char (digit_char d) = digit_char d" using d by (intro lower_digit) simp
    moreover have "digit_char d \<noteq> CHR ''t'' \<and> digit_char d \<noteq> CHR ''f''"
      using of_char_digit_char [of d] d by auto
    ultimately show ?thesis by (auto simp: int_str_def ds str_lower_def)
  qed
  with dig show ?thesis by (simp add: data_uint32_def data_value_reply py_int_dec)
qed

lemma get_list_complete:
  assumes "serves_list cl obj attr xs c" and "CHR '','' \<notin> set v"
    and "list_all (\<lambda>x. CHR '','' \<notin> set x) xs"
  shows "get_list cl meta obj attr v c = (Ok xs, c)"
proof -
  have one: "split_counted (CHR ''1'' # CHR '':'' # v) = Ok [v]"
    using split_counted_one [OF assms(2)] by simp
  have get: "c_get cl obj (PList [PStr attr, PStr w]) b c =
        (case list_answer attr xs w of (status, data) \<Rightarrow>
           if b then (if status = success then Ok (Bare data) else Err AssertionError)
           else Ok (Tagged status data), c)" for w b
    using assms(1) unfolding serves_list_def by blast
  have list: "data_to_list 1 (reply_data attr (counted xs)) = Ok xs"
    using counted_codec.dec_enc [OF assms(3)] by (simp add: data_to_list_reply del: One_nat_def)
  show ?thesis
  proof (cases "1 < length xs")
    case False
    then show ?thesis
      using list overflow_neq
      by (simp add: get_list_def get_tagged_def sai_get_def py_simps get list_answer_def one
          on_data_def py_assert_app)
  next
    case True
    then have "split_counted (make_list (int (length xs)) v) = Ok (replicate (length xs) v)"
      using split_counted_make_list [of "int (length xs)" v] assms(2) by simp
    with True show ?thesis
      using list overflow_neq
      by (simp add: get_list_def get_tagged_def get_then_def sai_get_def py_simps get list_answer_def one
          on_data_def py_assert_app data_uint32_count bare_def)
  qed
qed

text \<open>The same protocol for the object lists that \<open>get_by_type\<close> reads.\<close>

lemma get_by_type_list_complete:
  assumes "serves_list cl obj attr xs c"
  shows "get_by_type cl obj (PStr attr) (PStr ''sai_object_list_t'') False c =
    (Ok (success, Some (reply_data attr (counted xs))), c)"
proof -
  have one: "split_counted (''1:'' @ ''oid:0x0'') = Ok [''oid:0x0'']"
    by (rule split_counted_one) simp
  have get: "c_get cl obj (PList [PStr attr, PStr w]) b c =
        (case list_answer attr xs w of (status, data) \<Rightarrow>
           if b then (if status = success then Ok (Bare data) else Err AssertionError)
           else Ok (Tagged status data), c)" for w b
    using assms(1) unfolding serves_list_def by blast
  have many: "split_counted (make_list (int (length xs)) ''oid:0x0'') =
      Ok (replicate (length xs) ''oid:0x0'')" if "1 < length xs"
    using split_counted_make_list [of "int (length xs)" "''oid:0x0''"] that by simp
  show ?thesis
    using overflow_neq one many
    by (cases "1 < length xs")
       (simp_all add: get_by_type_def ask_for_def sized_list_def get_sized_def get_pair_def py_simps get
        list_answer_def data_uint32_count)
qed

end
