(* ===== verification/CommandProcessor.thy ===== *)
theory CommandProcessor imports SaiCore begin

text \<open>
  The class \<open>CommandProcessor\<close> of \<open>common/sai.py\<close>: commands as data, with references
  (\<open>$NAME\<close>) to objects created before, and \<open>Sai.process_commands\<close>, which runs a list of
  commands or removes, in reverse order, what the list creates.
\<close>

section \<open>References\<close>

type_synonym registry = "(string, entry) dict"

text \<open>\<open>obj['oid'] if obj['oid'] is not None else obj['key']\<close>.\<close>

definition entry_value :: "entry \<Rightarrow> pyval" where
  "entry_value e = (if e_oid e \<noteq> PNone then e_oid e else e_key e)"

text \<open>\<open>_substitute_from_object_registry\<close>, with its optional default.\<close>

definition substitute_ref :: "registry \<Rightarrow> pyval \<Rightarrow> entry option \<Rightarrow> entry res" where
  "substitute_ref reg v dflt = (case v of
     PStr (c # name) \<Rightarrow>
       if c = CHR ''$'' then (case map_of reg name of
           Some e \<Rightarrow> Ok e
         | None \<Rightarrow> (case dflt of Some e \<Rightarrow> Ok e | None \<Rightarrow> Err SubstitutionError))
       else Err SubstitutionError
   | _ \<Rightarrow> Err SubstitutionError)"

text \<open>The \<open>try\<close> around it: a value that is no known reference stays.\<close>

definition subst_value :: "registry \<Rightarrow> pyval \<Rightarrow> pyval" where
  "subst_value reg v = (case substitute_ref reg v None of Ok e \<Rightarrow> entry_value e | Err _ \<Rightarrow> v)"

text \<open>A name as a dictionary key: lists and dictionaries cannot be one.\<close>

definition name_lookup :: "registry \<Rightarrow> pyval \<Rightarrow> entry option res" where
  "name_lookup reg name = (case name of
     PStr s \<Rightarrow> Ok (map_of reg s)
   | PList _ \<Rightarrow> Err TypeError
   | PDict _ \<Rightarrow> Err TypeError
   | _ \<Rightarrow> Ok None)"

type_synonym command = "(string, pyval) dict"

text \<open>\<open>command.get(k)\<close> and \<open>command.get(k, default)\<close>.\<close>

definition cmd_get :: "command \<Rightarrow> string \<Rightarrow> pyval \<Rightarrow> pyval" where
  "cmd_get cmd k dflt = (case map_of cmd k of Some v \<Rightarrow> v | None \<Rightarrow> dflt)"

text \<open>
  The command after substitution: \<open>type\<close>, \<open>key\<close>, \<open>attributes\<close> (none when the command's are
  empty), and the remaining entries copied.
\<close>

record sub_command =
  sc_type :: pyval
  sc_key :: pyval
  sc_attrs :: "pyval list"
  sc_rest :: command

definition subst_key :: "registry \<Rightarrow> pyval \<Rightarrow> pyval" where
  "subst_key reg key = (case key of
     PDict kvs \<Rightarrow> PDict (map (\<lambda>(k, v). (k, subst_value reg v)) kvs)
   | _ \<Rightarrow> key)"

definition substitute_command :: "registry \<Rightarrow> command \<Rightarrow> sub_command res" where
  "substitute_command reg cmd =
     rbind (name_lookup reg (cmd_get cmd ''name'' PNone)) (\<lambda>found.
     (let key0 = cmd_get cmd ''key'' (case found of Some e \<Rightarrow> e_key e | None \<Rightarrow> PNone);
          key1 = (if key0 = PNone
                  then cmd_get cmd ''oid'' (case found of Some e \<Rightarrow> e_oid e | None \<Rightarrow> PNone)
                  else key0);
          attrs = cmd_get cmd ''attributes'' (PList []) in
      rbind (if truthy attrs then elements attrs else Ok []) (\<lambda>as.
      Ok \<lparr>sc_type = cmd_get cmd ''type'' (case found of Some e \<Rightarrow> e_type e | None \<Rightarrow> PNone),
          sc_key = subst_key reg key1,
          sc_attrs = map (subst_value reg) as,
          sc_rest = filter (\<lambda>(k, _). k \<notin> {''key'', ''attributes''}) cmd\<rparr>)))"

section \<open>One command\<close>

datatype cmd_result =
    Created pyval
  | Removed string
  | Got "sai_data option list"
  | SetDone string

text \<open>
  \<open>obj_id\<close>, and whether the object has no key: only the type, a type and a key, or an OID. The
  type is a string; concatenating or passing on anything else is a \<open>TypeError\<close>.
\<close>

definition command_target :: "pyval \<Rightarrow> pyval \<Rightarrow> string res" where
  "command_target obj_type obj_key = (case obj_key of
     PNone \<Rightarrow> as_str TypeError obj_type
   | PDict kvs \<Rightarrow> rbind (as_str TypeError obj_type) (\<lambda>t. Ok (t @ '':'' @ dumps obj_key))
   | PStr k \<Rightarrow> if starts_with k ''oid:0x'' then Ok k else Err AssertionError
   | _ \<Rightarrow> Err AssertionError)"

definition register_created :: "string \<Rightarrow> pyval \<Rightarrow> pyval \<Rightarrow> pyval \<Rightarrow> (('c, 'z) sai_scheme, unit) py" where
  "register_created name obj_type obj_key obj = py_modify (\<lambda>s. s\<lparr>objects_registry :=
     dict_set name (if obj_key = PNone then \<lparr>e_type = obj_type, e_oid = obj, e_key = PNone\<rparr>
                    else \<lparr>e_type = obj_type, e_oid = PNone, e_key = obj\<rparr>) (objects_registry s)\<rparr>)"

text \<open>\<open>del self.objects_registry[store_name]\<close>.\<close>

definition unregister :: "string \<Rightarrow> (('c, 'z) sai_scheme, unit) py" where
  "unregister name =
     py_bind (py_get objects_registry) (\<lambda>reg.
     if name \<in> fst ` set reg
     then py_modify (\<lambda>s. s\<lparr>objects_registry := dict_del name (objects_registry s)\<rparr>)
     else py_raise KeyError)"

text \<open>A bare reply as an object.\<close>

definition created_obj :: "pyval reply \<Rightarrow> pyval res" where
  "created_obj r = (case r of Bare v \<Rightarrow> Ok v | Tagged _ _ \<Rightarrow> Err (Unmodelled ''pair''))"

text \<open>The body of the loop of \<open>get\<close>.\<close>

definition get_one :: "'c sai_client \<Rightarrow> pyval option \<Rightarrow> string \<Rightarrow> string \<Rightarrow> pyval \<Rightarrow> ('c, sai_data option) py" where
  "get_one cl meta obj_type obj_id attr =
     py_bind (py_lift (get_obj_attr_type meta (Some (OStr obj_type)) attr)) (\<lambda>attr_type.
     py_bind (get_by_type cl obj_id attr attr_type False) (\<lambda>(status, data).
     py_bind (py_assert (status = success)) (\<lambda>_. py_return data)))"

text \<open>The branches on the operation, for the command after substitution.\<close>

definition run_operation ::
  "'c sai_client \<Rightarrow> pyval option \<Rightarrow> string \<Rightarrow> pyval \<Rightarrow> sub_command \<Rightarrow> string \<Rightarrow>
   (('c, 'z) sai_scheme, cmd_result) py" where
  "run_operation cl meta name op sc obj_id =
     (if op = PStr ''create'' then
        py_bind (on_client (c_create cl (OStr obj_id) (PList (sc_attrs sc)) True)) (\<lambda>r.
        py_bind (py_lift (created_obj r)) (\<lambda>obj.
        py_bind (register_created name (sc_type sc) (sc_key sc) obj) (\<lambda>_.
        py_return (Created obj))))
      else if op = PStr ''remove'' then
        py_finally
          (py_bind (on_client (c_remove cl obj_id True)) (\<lambda>st. py_return (Removed st)))
          (unregister name)
      else if op = PStr ''get'' then
        py_bind (on_client (c_vid_to_type cl obj_id)) (\<lambda>t.
        py_bind (py_map (\<lambda>a. on_client (get_one cl meta t obj_id a)) (sc_attrs sc)) (\<lambda>ds.
        py_return (Got ds)))
      else if op = PStr ''set'' then
        py_bind (on_client (sai_set cl obj_id (sc_attrs sc) True)) (\<lambda>st. py_return (SetDone st))
      else py_raise AssertionError)"

text \<open>\<open>store_name\<close> has passed \<open>assert store_name\<close>; a name that is not a string is outside the model.\<close>

definition name_key :: "pyval \<Rightarrow> string res" where
  "name_key name = (case name of
     PStr s \<Rightarrow> Ok s
   | PList _ \<Rightarrow> Err TypeError
   | PDict _ \<Rightarrow> Err TypeError
   | _ \<Rightarrow> Err (Unmodelled ''entry name''))"

definition process_command ::
  "'c sai_client \<Rightarrow> pyval option \<Rightarrow> command \<Rightarrow> (('c, 'z) sai_scheme, cmd_result) py" where
  "process_command cl meta cmd =
     (let name0 = cmd_get cmd ''name'' PNone; op = cmd_get cmd ''op'' PNone in
      py_bind (py_assert (truthy name0)) (\<lambda>_.
      py_bind (py_assert (truthy op)) (\<lambda>_.
      py_bind (py_lift (name_key name0)) (\<lambda>name.
      py_bind (py_get objects_registry) (\<lambda>reg.
      py_bind (py_assert (op \<in> {PStr ''set'', PStr ''get'', PStr ''remove''} \<longrightarrow> map_of reg name \<noteq> None)) (\<lambda>_.
      py_bind (py_lift (substitute_command reg cmd)) (\<lambda>sc.
      py_bind (py_assert (truthy (sc_type sc))) (\<lambda>_.
      py_bind (py_lift (command_target (sc_type sc) (sc_key sc))) (\<lambda>obj_id.
      run_operation cl meta name op sc obj_id)))))))))"

section \<open>Lists of commands\<close>

definition cleanup_command :: "command \<Rightarrow> command" where
  "cleanup_command cmd =
     [(''name'', cmd_get cmd ''name'' PNone), (''key'', cmd_get cmd ''key'' PNone), (''op'', PStr ''remove'')]"

text \<open>The commands that remove what a list creates: the reversed loop; \<open>command['op']\<close> must exist.\<close>

fun cleanup_of :: "command list \<Rightarrow> command list res" where
  "cleanup_of [] = Ok []"
| "cleanup_of (cmd # cmds) =
     rbind (dict_getitem cmd ''op'') (\<lambda>op.
     rbind (cleanup_of cmds) (\<lambda>rest.
       Ok (if op = PStr ''create'' then cleanup_command cmd # rest else rest)))"

text \<open>\<open>process_commands\<close>, consumed to its end.\<close>

definition process_commands ::
  "'c sai_client \<Rightarrow> pyval option \<Rightarrow> command list \<Rightarrow> bool \<Rightarrow> (('c, 'z) sai_scheme, cmd_result list) py" where
  "process_commands cl meta cmds clean =
     (if clean then
        py_bind (py_lift (cleanup_of (rev cmds))) (\<lambda>cs. py_map (process_command cl meta) cs)
      else py_map (process_command cl meta) cmds)"


section \<open>Facts about references\<close>

lemma subst_value_known:
  "map_of reg name = Some e \<Longrightarrow> subst_value reg (PStr (CHR ''$'' # name)) = entry_value e"
  by (simp add: subst_value_def substitute_ref_def)

lemma subst_value_unknown:
  "map_of reg name = None \<Longrightarrow> subst_value reg (PStr (CHR ''$'' # name)) = PStr (CHR ''$'' # name)"
  by (simp add: subst_value_def substitute_ref_def)

text \<open>Anything that is not a reference stays as it is.\<close>

lemma subst_value_plain:
  assumes "\<forall>name. v \<noteq> PStr (CHR ''$'' # name)"
  shows "subst_value reg v = v"
proof (cases v)
  case (PStr s)
  with assms show ?thesis by (cases s) (auto simp: subst_value_def substitute_ref_def)
qed (simp_all add: subst_value_def substitute_ref_def)

lemma subst_value_cases:
  "subst_value reg v = v \<or> (\<exists>name e. v = PStr (CHR ''$'' # name) \<and> map_of reg name = Some e \<and>
     subst_value reg v = entry_value e)"
proof (cases "\<exists>name. v = PStr (CHR ''$'' # name)")
  case True
  then show ?thesis by (auto simp: subst_value_def substitute_ref_def split: option.splits)
next
  case False
  then show ?thesis using subst_value_plain by blast
qed

lemma substitute_command_attrs:
  assumes "substitute_command reg cmd = Ok sc" and "map_of cmd ''attributes'' = Some (PList as)"
  shows "sc_attrs sc = map (subst_value reg) as"
  using assms
  by (cases "as = []")
     (auto simp: substitute_command_def cmd_get_def Let_def elements_def)

lemma substitute_command_key:
  assumes "substitute_command reg cmd = Ok sc" and "map_of cmd ''key'' = Some (PDict kvs)"
  shows "sc_key sc = PDict (map (\<lambda>(k, v). (k, subst_value reg v)) kvs)"
  using assms by (auto simp: substitute_command_def cmd_get_def Let_def subst_key_def)

text \<open>An entry created without a key is addressed by its OID.\<close>

lemma substitute_command_oid:
  assumes "substitute_command reg cmd = Ok sc" and "map_of cmd ''name'' = Some (PStr name)"
    and "map_of reg name = Some e" and "e_key e = PNone"
    and "cmd_get cmd ''key'' PNone = PNone" and "map_of cmd ''oid'' = None"
    and "e_oid e = PStr oid"
  shows "sc_key sc = PStr oid"
  using assms
  by (auto simp: substitute_command_def cmd_get_def Let_def subst_key_def name_lookup_def
      split: option.splits)

section \<open>Facts about one command\<close>

text \<open>The result of a command whose guards pass.\<close>

lemma process_command_run:
  assumes "map_of cmd ''name'' = Some (PStr name)" and "name \<noteq> []"
    and "map_of cmd ''op'' = Some op" and "truthy op"
    and "op \<in> {PStr ''set'', PStr ''get'', PStr ''remove''} \<Longrightarrow> map_of (objects_registry s) name \<noteq> None"
    and "substitute_command (objects_registry s) cmd = Ok sc" and "truthy (sc_type sc)"
    and "command_target (sc_type sc) (sc_key sc) = Ok obj_id"
  shows "process_command cl meta cmd s = run_operation cl meta name op sc obj_id s"
  using assms
  by (simp add: process_command_def cmd_get_def name_key_def Let_def
      py_bind_app [of "py_get f" for f] py_get_app)

text \<open>An unknown name is refused by every operation but \<open>create\<close>, and nothing happens.\<close>

lemma process_command_unknown:
  assumes "map_of cmd ''name'' = Some (PStr name)" and "name \<noteq> []"
    and "map_of cmd ''op'' = Some op" and "op \<in> {PStr ''set'', PStr ''get'', PStr ''remove''}"
    and "map_of (objects_registry s) name = None"
  shows "process_command cl meta cmd s = (Err AssertionError, s)"
proof -
  have "truthy op" using assms(4) by auto
  with assms show ?thesis
    by (auto simp: process_command_def cmd_get_def name_key_def Let_def
        py_bind_app [of "py_get f" for f] py_get_app py_raise_app)
qed

lemma run_remove:
  assumes "name \<in> fst ` set (objects_registry s)"
  shows "run_operation cl meta name (PStr ''remove'') sc obj_id s =
    (case c_remove cl obj_id True (client s) of
       (r, c) \<Rightarrow> (rbind r (\<lambda>st. Ok (Removed st)),
                  s\<lparr>client := c, objects_registry := dict_del name (objects_registry s)\<rparr>))"
proof -
  obtain r c where rc: "c_remove cl obj_id True (client s) = (r, c)" by (cases "c_remove cl obj_id True (client s)")
  with assms show ?thesis
    by (cases r) (simp_all add: run_operation_def unregister_def py_simps)
qed

lemma run_create:
  assumes "c_create cl (OStr obj_id) (PList (sc_attrs sc)) True (client s) = (Ok (Bare obj), c)"
  shows "run_operation cl meta name (PStr ''create'') sc obj_id s =
    (Ok (Created obj), s\<lparr>client := c, objects_registry := dict_set name
       (if sc_key sc = PNone then \<lparr>e_type = sc_type sc, e_oid = obj, e_key = PNone\<rparr>
        else \<lparr>e_type = sc_type sc, e_oid = PNone, e_key = obj\<rparr>) (objects_registry s)\<rparr>)"
  using assms by (simp add: run_operation_def register_created_def created_obj_def py_simps)

text \<open>A failed creation registers nothing.\<close>

lemma run_create_fails:
  assumes "c_create cl (OStr obj_id) (PList (sc_attrs sc)) True (client s) = (Err e, c)"
  shows "run_operation cl meta name (PStr ''create'') sc obj_id s = (Err e, s\<lparr>client := c\<rparr>)"
  using assms by (simp add: run_operation_def py_simps)

lemma py_map_on_client_registry:
  "py_inv (\<lambda>s. objects_registry s = reg) (py_map (\<lambda>a. on_client (f a)) xs)"
  by (intro inv_intros) simp

text \<open>How every command changes the registry: at most at its own name.\<close>

lemma run_operation_other:
  assumes "other \<noteq> name"
  shows "py_inv (\<lambda>s. map_of (objects_registry s) other = v) (run_operation cl meta name op sc obj_id)"
proof -
  have upd: "py_inv (\<lambda>s. map_of (objects_registry s) other = v)
      (py_modify (\<lambda>s. s\<lparr>objects_registry := dict_set name e (objects_registry s)\<rparr>))" for e
    using assms by (intro py_inv_modify) simp
  have del: "py_inv (\<lambda>s. map_of (objects_registry s) other = v) (unregister name)"
    unfolding unregister_def using assms by (intro inv_intros py_inv_modify) simp
  have onc: "py_inv (\<lambda>s. map_of (objects_registry s) other = v) (on_client m)"
    for m :: "('a, 'c) py"
    by (intro inv_intros) simp
  show ?thesis
    unfolding run_operation_def register_created_def
    by (intro inv_intros upd del; simp)
qed

lemma process_command_other:
  assumes "PStr other \<noteq> cmd_get cmd ''name'' PNone"
  shows "py_inv (\<lambda>s. map_of (objects_registry s) other = v) (process_command cl meta cmd)"
proof -
  have key: "name_key (cmd_get cmd ''name'' PNone) = Ok name \<Longrightarrow> other \<noteq> name" for name
    using assms by (auto simp: name_key_def split: pyval.splits)
  show ?thesis
  proof (cases "name_key (cmd_get cmd ''name'' PNone)")
    case (Ok name)
    then show ?thesis
      unfolding process_command_def Let_def
      by (simp, intro inv_intros run_operation_other key)
  next
    case (Err e)
    then show ?thesis
      unfolding process_command_def Let_def by (simp, intro inv_intros)
  qed
qed

section \<open>Facts about lists of commands\<close>

text \<open>The commands of the clean-up, in order: the creations, last first.\<close>

lemma cleanup_of_map:
  "list_all (\<lambda>c. map_of c ''op'' \<noteq> None) cmds \<Longrightarrow>
   cleanup_of cmds = Ok (map cleanup_command (filter (\<lambda>c. map_of c ''op'' = Some (PStr ''create'')) cmds))"
proof (induction cmds)
  case (Cons c cmds)
  then obtain v where "map_of c ''op'' = Some v" by auto
  with Cons show ?case by (simp add: dict_getitem_def)
qed simp

lemma cmd_get_cleanup [simp]:
  "cmd_get (cleanup_command cmd) ''name'' PNone = cmd_get cmd ''name'' PNone"
  "cmd_get (cleanup_command cmd) ''op'' PNone = PStr ''remove''"
  by (simp_all add: cleanup_command_def cmd_get_def)

text \<open>A removal that returns has taken its name out of the registry.\<close>

lemma process_remove_gone:
  assumes "process_command cl meta cmd s = (Ok r, t)" and "cmd_get cmd ''op'' PNone = PStr ''remove''"
  shows "\<exists>name. cmd_get cmd ''name'' PNone = PStr name \<and> map_of (objects_registry t) name = None"
proof -
  obtain name where name: "name_key (cmd_get cmd ''name'' PNone) = Ok name"
    using assms(1) by (cases "name_key (cmd_get cmd ''name'' PNone)")
      (auto simp: process_command_def Let_def py_assert_def py_raise_app split: if_splits)
  then have nm: "cmd_get cmd ''name'' PNone = PStr name"
    by (auto simp: name_key_def split: pyval.splits)
  have "\<exists>sc obj_id. run_operation cl meta name (PStr ''remove'') sc obj_id s = (Ok r, t)"
    using assms(1) name
    by (simp add: process_command_def Let_def assms(2) py_bind_Ok_iff py_get_app py_lift_app) blast
  then obtain sc obj_id where run: "run_operation cl meta name (PStr ''remove'') sc obj_id s = (Ok r, t)"
    by blast
  note nm
  moreover from run have "map_of (objects_registry t) name = None"
    by (auto simp: run_operation_def py_finally_app unregister_def py_bind_app py_get_app py_modify_app
        py_raise_app split: prod.splits res.splits if_splits)
  ultimately show ?thesis by blast
qed

lemma processes_gone:
  assumes "py_map (process_command cl meta) cs s = (Ok rs, t)"
    and "list_all (\<lambda>c. cmd_get c ''op'' PNone = PStr ''remove'') cs"
    and "PStr name \<in> (\<lambda>c. cmd_get c ''name'' PNone) ` set cs \<or> map_of (objects_registry s) name = None"
  shows "map_of (objects_registry t) name = None"
  using assms
proof (induction cs arbitrary: s rs)
  case Nil
  then show ?case by (simp add: py_return_app)
next
  case (Cons c cs)
  then obtain r u rs' where r: "process_command cl meta c s = (Ok r, u)"
    and rest: "py_map (process_command cl meta) cs u = (Ok rs', t)"
    by (auto simp: py_bind_Ok_iff py_return_app)
  from Cons.prems(2) have op: "cmd_get c ''op'' PNone = PStr ''remove''" by simp
  have "PStr name \<in> (\<lambda>c. cmd_get c ''name'' PNone) ` set cs \<or> map_of (objects_registry u) name = None"
  proof (cases "cmd_get c ''name'' PNone = PStr name")
    case True
    with process_remove_gone [OF r op] show ?thesis by auto
  next
    case False
    then have "map_of (objects_registry u) name = map_of (objects_registry s) name"
      using py_invD [OF process_command_other [of name c "map_of (objects_registry s) name" cl meta] _ r]
      by auto
    with False Cons.prems(3) show ?thesis by auto
  qed
  with Cons.IH [OF rest] Cons.prems(2) show ?case by simp
qed

text \<open>The names that are not those of the commands keep their entries.\<close>

lemma processes_other:
  assumes "\<forall>c \<in> set cs. cmd_get c ''name'' PNone \<noteq> PStr name"
  shows "py_inv (\<lambda>s. map_of (objects_registry s) name = v) (py_map (process_command cl meta) cs)"
  using assms
proof (induction cs)
  case (Cons c cs)
  then have ne: "PStr name \<noteq> cmd_get c ''name'' PNone" by auto
  with Cons show ?case by (simp, intro py_inv_bind [OF process_command_other [OF ne]] py_inv_bind py_inv_return) simp
qed (auto intro: inv_intros)

lemma cleanup_of_ops: "cleanup_of cmds = Ok cs \<Longrightarrow> list_all (\<lambda>c. map_of c ''op'' \<noteq> None) cmds"
  by (induction cmds arbitrary: cs) auto

lemma cmd_get_name: "cmd_get c ''name'' PNone = PStr name \<longleftrightarrow> map_of c ''name'' = Some (PStr name)"
  by (auto simp: cmd_get_def split: option.splits)

lemma cleanup_registry:
  assumes "process_commands cl meta cmds True s = (Ok rs, t)"
  shows "map_of (objects_registry t) name =
    (if \<exists>c \<in> set cmds. map_of c ''op'' = Some (PStr ''create'') \<and> map_of c ''name'' = Some (PStr name)
     then None else map_of (objects_registry s) name)"
proof -
  from assms obtain cs where cs: "cleanup_of (rev cmds) = Ok cs"
    and run: "py_map (process_command cl meta) cs s = (Ok rs, t)"
    by (auto simp: process_commands_def py_bind_Ok_iff py_lift_app)
  let ?cr = "filter (\<lambda>c. map_of c ''op'' = Some (PStr ''create'')) (rev cmds)"
  have eq: "cs = map cleanup_command ?cr"
    using cleanup_of_map [OF cleanup_of_ops [OF cs]] cs by simp
  have ops: "list_all (\<lambda>c. cmd_get c ''op'' PNone = PStr ''remove'') cs"
    unfolding eq by (simp add: list_all_iff)
  show ?thesis
  proof (cases "\<exists>c \<in> set cmds. map_of c ''op'' = Some (PStr ''create'') \<and> map_of c ''name'' = Some (PStr name)")
    case True
    then have "PStr name \<in> (\<lambda>c. cmd_get c ''name'' PNone) ` set cs"
      unfolding eq by (force simp: cmd_get_name [symmetric])
    with processes_gone [OF run ops] True show ?thesis by simp
  next
    case False
    then have "\<forall>c \<in> set cmds. map_of c ''op'' = Some (PStr ''create'') \<longrightarrow> cmd_get c ''name'' PNone \<noteq> PStr name"
      by (simp add: cmd_get_name)
    then have "\<forall>c \<in> set cs. cmd_get c ''name'' PNone \<noteq> PStr name"
      unfolding eq by simp
    from py_invD [OF processes_other [OF this] refl run] False show ?thesis by auto
  qed
qed

lemma remove_known:
  assumes "map_of (objects_registry s) name = Some e" and "e_key e = PNone" and "e_oid e = PStr oid"
    and "starts_with oid ''oid:0x''" and "e_type e = PStr ty" and "ty \<noteq> []" and "name \<noteq> []"
  shows "process_command cl meta [(''name'', PStr name), (''op'', PStr ''remove'')] s =
    (case c_remove cl oid True (client s) of
       (r, c) \<Rightarrow> (rbind r (\<lambda>st. Ok (Removed st)),
                  s\<lparr>client := c, objects_registry := dict_del name (objects_registry s)\<rparr>))"
proof -
  let ?cmd = "[(''name'', PStr name), (''op'', PStr ''remove'')]"
  have sub: "substitute_command (objects_registry s) ?cmd =
      Ok \<lparr>sc_type = PStr ty, sc_key = PStr oid, sc_attrs = [], sc_rest = ?cmd\<rparr>"
    using assms by (simp add: substitute_command_def cmd_get_def name_lookup_def Let_def subst_key_def)
  have "process_command cl meta ?cmd s = run_operation cl meta name (PStr ''remove'')
      \<lparr>sc_type = PStr ty, sc_key = PStr oid, sc_attrs = [], sc_rest = ?cmd\<rparr> oid s"
    by (rule process_command_run) (use assms sub in \<open>simp_all add: command_target_def\<close>)
  moreover have "name \<in> fst ` set (objects_registry s)"
    using map_of_SomeD [OF assms(1)] by force
  ultimately show ?thesis by (simp add: run_remove)
qed

lemma create_fresh:
  assumes "map_of (objects_registry s) name = None" and "name \<noteq> []" and "ty \<noteq> []"
    and "\<And>q d. c_create cl (OStr ty) (PList (map (subst_value (objects_registry s)) as)) True (client s) = (Ok q, d) \<Longrightarrow>
      \<exists>v. q = Bare v"
  shows "process_command cl meta [(''name'', PStr name), (''op'', PStr ''create''), (''type'', PStr ty),
      (''attributes'', PList as)] s =
    (case c_create cl (OStr ty) (PList (map (subst_value (objects_registry s)) as)) True (client s) of
       (Ok q, c) \<Rightarrow> (Ok (Created (reply_val q)), s\<lparr>client := c,
          objects_registry := objects_registry s @ [(name, \<lparr>e_type = PStr ty, e_oid = reply_val q, e_key = PNone\<rparr>)]\<rparr>)
     | (Err e, c) \<Rightarrow> (Err e, s\<lparr>client := c\<rparr>))"
proof -
  let ?cmd = "[(''name'', PStr name), (''op'', PStr ''create''), (''type'', PStr ty), (''attributes'', PList as)]"
  let ?as = "map (subst_value (objects_registry s)) as"
  let ?sc = "\<lparr>sc_type = PStr ty, sc_key = PNone, sc_attrs = ?as, sc_rest = [(''name'', PStr name),
      (''op'', PStr ''create''), (''type'', PStr ty)]\<rparr>"
  have sub: "substitute_command (objects_registry s) ?cmd = Ok ?sc"
    using assms(1) by (cases "as = []")
      (simp_all add: substitute_command_def cmd_get_def name_lookup_def Let_def subst_key_def elements_def)
  have run: "process_command cl meta ?cmd s = run_operation cl meta name (PStr ''create'') ?sc ty s"
    by (rule process_command_run) (use assms sub in \<open>simp_all add: command_target_def\<close>)
  have new: "name \<notin> fst ` set (objects_registry s)" using assms(1) by (simp add: map_of_eq_None_iff)
  show ?thesis
  proof (cases "c_create cl (OStr ty) (PList ?as) True (client s)")
    case (Pair r c)
    show ?thesis
    proof (cases r)
      case (Err e)
      with Pair run show ?thesis by (simp add: run_create_fails)
    next
      case (Ok q)
      with assms(4) Pair obtain v where "q = Bare v" by blast
      with Pair Ok run show ?thesis by (simp add: run_create dict_set_new [OF new])
    qed
  qed
qed

section \<open>Well-formed registries\<close>

text \<open>
  Well-formed registries: no name twice, every entry has a type and is either an object or a key. The
  switch alias of \<open>Sai.__init__\<close> and every command keep to it, whatever the client answers.
\<close>

definition entry_ok :: "entry \<Rightarrow> bool" where
  "entry_ok e \<longleftrightarrow> truthy (e_type e) \<and> (e_oid e = PNone \<or> e_key e = PNone)"

definition registry_ok :: "(string, entry) dict \<Rightarrow> bool" where
  "registry_ok reg \<longleftrightarrow> dict_ok reg \<and> (\<forall>e \<in> snd ` set reg. entry_ok e)"

lemma registry_ok_set: "registry_ok reg \<Longrightarrow> entry_ok e \<Longrightarrow> registry_ok (dict_set n e reg)"
proof -
  assume r: "registry_ok reg" and e: "entry_ok e"
  have "set (dict_set n e reg) \<subseteq> insert (n, e) (set reg)"
    by (induction reg) (auto split: if_splits)
  with r e show ?thesis by (force simp: registry_ok_def dict_ok_set)
qed

lemma registry_ok_del: "registry_ok reg \<Longrightarrow> registry_ok (dict_del n reg)"
proof -
  assume r: "registry_ok reg"
  have "set (dict_del n reg) \<subseteq> set reg"
    by (induction reg) (auto simp: dict_del_def)
  with r show ?thesis by (force simp: registry_ok_def dict_ok_del)
qed

lemma operation_keeps_ok:
  assumes "truthy (sc_type sc)"
  shows "py_inv (\<lambda>s. registry_ok (objects_registry s)) (run_operation cl meta name op sc obj_id)"
proof -
  have onc: "py_inv (\<lambda>s. registry_ok (objects_registry s)) (on_client m)" for m :: "('a, 'c) py"
    by (intro inv_intros) simp
  have reg: "py_inv (\<lambda>s. registry_ok (objects_registry s)) (register_created name (sc_type sc) (sc_key sc) v)" for v
    unfolding register_created_def using assms
    by (intro py_inv_modify) (auto simp: entry_ok_def intro!: registry_ok_set)
  have del: "py_inv (\<lambda>s. registry_ok (objects_registry s)) (unregister name)"
    unfolding unregister_def by (intro inv_intros py_inv_modify) (simp add: registry_ok_del)
  show ?thesis
    unfolding run_operation_def by (intro inv_intros reg del; simp)
qed

lemma command_keeps_ok: "py_inv (\<lambda>s. registry_ok (objects_registry s)) (process_command cl meta cmd)"
proof -
  have guard: "py_inv (\<lambda>s. registry_ok (objects_registry s))
      (py_bind (py_assert (truthy (sc_type sc))) (\<lambda>_.
       py_bind (py_lift (command_target (sc_type sc) (sc_key sc))) (\<lambda>obj_id.
       run_operation cl meta name op sc obj_id)))" for name op sc
    using operation_keeps_ok [of sc cl meta name op]
    by (cases "truthy (sc_type sc)") (auto intro!: inv_intros)
  show ?thesis
    unfolding process_command_def Let_def by (intro inv_intros guard)
qed

lemma commands_keep_ok: "py_inv (\<lambda>s. registry_ok (objects_registry s)) (process_commands cl meta cmds clean)"
  unfolding process_commands_def by (intro inv_intros command_keeps_ok)

end
