(* ===== verification/RecPlayer.thy ===== *)
theory RecPlayer imports CommandProcessor begin

text \<open>
  Playing back a recording of sairedis (\<open>Sai.apply_rec\<close> of \<open>common/sai.py\<close>): reading the
  records, rewriting the recorded object IDs to the ones of this run (\<open>rec2vid\<close>), and one
  operation per action. The aliases the player creates for known object types are here too.
\<close>

section \<open>Reading the file\<close>

text \<open>One line; the file is given as its lines. Line numbers start at one.\<close>

definition parse_line :: "string \<Rightarrow> string list list" where
  "parse_line line =
     (case map (\<lambda>token. str_split ''|'' (str_strip token)) (str_split ''||'' (str_strip line)) of
        [] \<Rightarrow> []
      | tokens # rest \<Rightarrow> drop 1 tokens # rest)"

definition parse_rec :: "string list \<Rightarrow> (nat \<times> string list list) list" where
  "parse_rec lines = zip [1..<Suc (length lines)] (map parse_line lines)"

section \<open>Keys\<close>

definition rec_lookup :: "string \<Rightarrow> (('c, 'z) sai_scheme, pyval) py" where
  "rec_lookup oid = py_bind (py_get rec2vid) (\<lambda>m. py_lift (dict_getitem m oid))"

definition rec_store :: "string \<Rightarrow> pyval \<Rightarrow> (('c, 'z) sai_scheme, unit) py" where
  "rec_store oid v = py_modify (\<lambda>s. s\<lparr>rec2vid := dict_set oid v (rec2vid s)\<rparr>)"

text \<open>\<open>rec2vid.pop(oid)\<close>.\<close>

definition rec_pop :: "string \<Rightarrow> (('c, 'z) sai_scheme, pyval) py" where
  "rec_pop oid =
     py_bind (rec_lookup oid) (\<lambda>v.
     py_bind (py_modify (\<lambda>s. s\<lparr>rec2vid := dict_del oid (rec2vid s)\<rparr>)) (\<lambda>_. py_return v))"

definition update_oid_key :: "string \<Rightarrow> string \<Rightarrow> (('c, 'z) sai_scheme, string) py" where
  "update_oid_key action key =
     (let key_list = str_split1 '':'' key in
      py_bind (py_lift (nth_res key_list 1)) (\<lambda>vid0.
      if action \<in> {''c'', ''C''} then py_return (hd key_list)
      else
        py_bind (if action \<in> {''g'', ''s'', ''S''} then rec_lookup vid0
                 else if action \<in> {''r'', ''R''} then rec_pop vid0
                 else py_return (PStr vid0)) (\<lambda>v.
        py_bind (py_lift (as_str TypeError v)) (\<lambda>vid.
        py_return (hd key_list @ '':'' @ vid)))))"

text \<open>Every quoted part with an OID in it is replaced, wherever it occurs.\<close>

fun replace_oids :: "string list \<Rightarrow> string \<Rightarrow> (('c, 'z) sai_scheme, string) py" where
  "replace_oids [] new_key = py_return new_key"
| "replace_oids (oid # oids) new_key =
     py_bind (rec_lookup oid) (\<lambda>v.
     py_bind (py_lift (as_str TypeError v)) (\<lambda>new_oid.
     replace_oids oids (str_replace oid new_oid new_key)))"

definition update_entry_key_oids :: "string \<Rightarrow> (('c, 'z) sai_scheme, string) py" where
  "update_entry_key_oids key =
     replace_oids (filter (str_in ''oid:'') (str_split [quote_ch] key)) key"

definition update_key :: "string \<Rightarrow> string \<Rightarrow> (('c, 'z) sai_scheme, string) py" where
  "update_key action key =
     (if str_in ''{'' key then update_entry_key_oids key else update_oid_key action key)"

section \<open>Attributes\<close>

text \<open>\<open>attrs += attr.split('=')\<close> over the fields of a record.\<close>

definition split_attrs :: "string list \<Rightarrow> string list" where
  "split_attrs fs = concat (map (str_split ''='') fs)"

text \<open>
  Replacing the OIDs at the odd positions; \<open>keep_null\<close> says whether \<open>oid:0x0\<close> stays as it is.
\<close>

fun update_attr_oids :: "bool \<Rightarrow> string list \<Rightarrow> (('c, 'z) sai_scheme, pyval list) py" where
  "update_attr_oids keep_null [] = py_return []"
| "update_attr_oids keep_null [a] = py_return [PStr a]"
| "update_attr_oids keep_null (a # v # rest) =
     py_bind (if str_in ''oid:'' v \<and> \<not> (keep_null \<and> v = ''oid:0x0'') then rec_lookup v
              else py_return (PStr v)) (\<lambda>w.
     py_bind (update_attr_oids keep_null rest) (\<lambda>ws. py_return (PStr a # w # ws)))"

text \<open>\<open>get_attr_by_name\<close>: the value after the name, \<open>None\<close> when the name is not there.\<close>

fun get_attr_by_name :: "string \<Rightarrow> pyval list \<Rightarrow> pyval res" where
  "get_attr_by_name name [] = Ok PNone"
| "get_attr_by_name name [a] = (if a = PStr name then Err IndexError else Ok PNone)"
| "get_attr_by_name name (a # v # rest) = (if a = PStr name then Ok v else get_attr_by_name name rest)"

section \<open>Aliases\<close>

definition islower_char :: "char \<Rightarrow> bool" where
  "islower_char c = (let n = (of_char c :: nat) in
     97 \<le> n \<and> n \<le> 122 \<or> n \<in> {170, 181, 186} \<or> 223 \<le> n \<and> n \<noteq> 247)"

text \<open>\<open>get_alias_by_key\<close>: the first lower-case alias of the object; the empty string if none.\<close>

fun alias_by_key :: "pyval \<Rightarrow> registry \<Rightarrow> string res" where
  "alias_by_key k [] = Ok []"
| "alias_by_key k ((name, e) # reg) =
     (if py_eq (e_oid e) k \<or> py_eq (e_key e) k then
        (case name of [] \<Rightarrow> Err IndexError
         | c # _ \<Rightarrow> if islower_char c then Ok name else alias_by_key k reg)
      else alias_by_key k reg)"

definition get_alias_by_key :: "pyval \<Rightarrow> (('c, 'z) sai_scheme, string) py" where
  "get_alias_by_key k = py_bind (py_get objects_registry) (\<lambda>reg. py_lift (alias_by_key k reg))"

definition remove_rec_alias :: "pyval \<Rightarrow> (('c, 'z) sai_scheme, unit) py" where
  "remove_rec_alias k = py_bind (get_alias_by_key k) remove_alias"

text \<open>A value inside an f-string.\<close>

definition py_format :: "pyval \<Rightarrow> string res" where
  "py_format v = (case v of
     PStr s \<Rightarrow> Ok s
   | PNone \<Rightarrow> Ok ''None''
   | PInt n \<Rightarrow> Ok (int_str n)
   | PBool b \<Rightarrow> Ok (if b then ''True'' else ''False'')
   | _ \<Rightarrow> Err (Unmodelled ''format''))"

definition create_rec_alias ::
  "'c sai_client \<Rightarrow> pyval option \<Rightarrow> string \<Rightarrow> pyval list \<Rightarrow> pyval \<Rightarrow> (('c, 'z) sai_scheme, unit) py" where
  "create_rec_alias cl meta obj_type attrs key =
     (if obj_type = ''SAI_OBJECT_TYPE_SWITCH'' then
        py_bind (create_alias ''switch'' (PStr obj_type) key PNone) (\<lambda>_. objects_discovery cl meta)
      else if obj_type = ''SAI_OBJECT_TYPE_PORT'' then
        py_bind (py_lift (
          rbind (get_attr_by_name ''SAI_PORT_ATTR_HW_LANE_LIST'' attrs) (\<lambda>v.
          rbind (as_str AttributeError v) (\<lambda>s.
          rbind (nth_res (str_split '':'' s) 1) (\<lambda>ls. nth_res (str_split '','' ls) 0))))) (\<lambda>lane.
        create_alias (''port'' @ lane) (PStr obj_type) key PNone)
      else if obj_type = ''SAI_OBJECT_TYPE_VLAN'' then
        py_bind (py_lift (rbind (get_attr_by_name ''SAI_VLAN_ATTR_VLAN_ID'' attrs) py_format)) (\<lambda>vlan_id.
        create_alias (''vlan'' @ vlan_id) (PStr obj_type) key PNone)
      else if obj_type = ''SAI_OBJECT_TYPE_LAG_MEMBER'' then
        py_bind (py_lift (get_attr_by_name ''SAI_LAG_MEMBER_ATTR_PORT_ID'' attrs)) (\<lambda>port_oid.
        py_bind (get_alias_by_key port_oid) (\<lambda>port_alias.
        create_alias (''lag_mbr_'' @ port_alias) (PStr obj_type) key PNone))
      else if obj_type = ''SAI_OBJECT_TYPE_ROUTER_INTERFACE'' then
        py_bind (py_lift (get_attr_by_name ''SAI_ROUTER_INTERFACE_ATTR_PORT_ID'' attrs)) (\<lambda>port_oid.
        if truthy port_oid then
          py_bind (get_alias_by_key port_oid) (\<lambda>port_alias.
          create_alias (''rif_'' @ port_alias) (PStr obj_type) key PNone)
        else
          py_bind (py_lift (get_attr_by_name ''SAI_ROUTER_INTERFACE_ATTR_VLAN_ID'' attrs)) (\<lambda>vlan_oid.
          if truthy vlan_oid then
            py_bind (get_alias_by_key vlan_oid) (\<lambda>vlan_alias.
            create_alias (''rif_vlan'' @ vlan_alias) (PStr obj_type) key PNone)
          else py_return ()))
      else if obj_type = ''SAI_OBJECT_TYPE_ROUTE_ENTRY'' then
        py_bind (py_lift (get_attr_by_name ''SAI_ROUTE_ENTRY_ATTR_NEXT_HOP_ID'' attrs)) (\<lambda>nh_oid.
        if truthy nh_oid \<and> nh_oid \<noteq> PStr ''oid:0x0'' then
          py_bind (py_lift (as_str TypeError nh_oid)) (\<lambda>nh.
          py_bind (on_client (c_vid_to_type cl nh)) (\<lambda>nh_type.
          if nh_type = ''SAI_OBJECT_TYPE_ROUTER_INTERFACE'' then
            py_bind (get_alias_by_key nh_oid) (\<lambda>rif_alias.
            create_alias (''route_'' @ rif_alias) (PStr obj_type) PNone key)
          else py_return ()))
        else py_return ())
      else py_return ())"

section \<open>Actions on one object\<close>

text \<open>\<open>_process_create_command\<close>.\<close>

definition process_create ::
  "'c sai_client \<Rightarrow> pyval option \<Rightarrow> string list \<Rightarrow> (('c, 'z) sai_scheme, string) py" where
  "process_create cl meta rec =
     py_bind (update_attr_oids False (split_attrs (drop 2 rec))) (\<lambda>attrs.
     py_bind (py_lift (nth_res rec 0)) (\<lambda>action.
     py_bind (py_lift (nth_res rec 1)) (\<lambda>recorded.
     py_bind (update_key action recorded) (\<lambda>obj_key.
     py_bind (on_client (c_create cl (OStr obj_key) (PList attrs) False)) (\<lambda>r.
     py_bind (py_lift (untag r)) (\<lambda>(status, key).
     if status \<noteq> success then py_return status
     else
       py_bind (py_lift (py_str_in ''{'' key)) (\<lambda>brace.
       py_bind (if brace then py_return ()
                else py_bind (py_lift (nth_res (str_split1 '':'' recorded) 1)) (\<lambda>oid. rec_store oid key)) (\<lambda>_.
       py_bind (create_rec_alias cl meta (hd (str_split '':'' obj_key)) attrs key) (\<lambda>_.
       py_return status)))))))))"

text \<open>\<open>_process_set_command\<close>.\<close>

definition process_set :: "'c sai_client \<Rightarrow> string list \<Rightarrow> (('c, 'z) sai_scheme, unit) py" where
  "process_set cl rec =
     py_bind (py_lift (nth_res rec 2)) (\<lambda>field.
     (let data = str_split ''='' field in
     py_bind (py_lift (nth_res data 1)) (\<lambda>v.
     py_bind (if str_in ''oid:'' v then rec_lookup v else py_return (PStr v)) (\<lambda>w.
     py_bind (py_lift (nth_res rec 0)) (\<lambda>action.
     py_bind (py_lift (nth_res rec 1)) (\<lambda>recorded.
     py_bind (update_key action recorded) (\<lambda>obj.
     py_bind (on_client (sai_set cl obj ((map PStr data)[1 := w]) True)) (\<lambda>_. py_return ()))))))))"

text \<open>\<open>_process_remove_command\<close>.\<close>

definition process_remove :: "'c sai_client \<Rightarrow> string list \<Rightarrow> (('c, 'z) sai_scheme, unit) py" where
  "process_remove cl rec =
     py_bind (py_lift (nth_res rec 0)) (\<lambda>action.
     py_bind (py_lift (nth_res rec 1)) (\<lambda>recorded.
     py_bind (update_key action recorded) (\<lambda>obj_key.
     py_bind (on_client (c_remove cl obj_key True)) (\<lambda>_.
     remove_rec_alias (PStr obj_key)))))"

text \<open>The OIDs of a response, at its odd positions.\<close>

fun collect_oids :: "sai_data \<Rightarrow> pyval \<Rightarrow> nat list \<Rightarrow> pyval list \<Rightarrow> pyval list res" where
  "collect_oids data j [] oids = Ok oids"
| "collect_oids data j (i # is) oids =
     rbind (py_index j i) (\<lambda>v.
     rbind (py_str_in '':oid:'' v) (\<lambda>many.
     if many then rbind (data_oids i data) (\<lambda>os. collect_oids data j is (oids @ map PStr os))
     else
       rbind (py_str_in ''oid:'' v) (\<lambda>one.
       if one then rbind (data_oid i data) (\<lambda>x. collect_oids data j is (oids @ [x]))
       else collect_oids data j is oids)))"

definition py_len :: "pyval \<Rightarrow> nat res" where
  "py_len v = (case v of
     PList xs \<Rightarrow> Ok (length xs) | PStr s \<Rightarrow> Ok (length s) | PDict kvs \<Rightarrow> Ok (length kvs) | _ \<Rightarrow> Err TypeError)"

definition odd_positions :: "nat \<Rightarrow> nat list" where
  "odd_positions n = filter odd [0..<n]"

text \<open>\<open>_process_get_command\<close>, with the list of OIDs it extends.\<close>

definition process_get ::
  "'c sai_client \<Rightarrow> pyval option \<Rightarrow> string list \<Rightarrow> pyval list \<Rightarrow> (('c, 'z) sai_scheme, string \<times> pyval list) py" where
  "process_get cl meta rec oids =
     py_bind (py_lift (nth_res rec 0)) (\<lambda>action.
     py_bind (py_lift (nth_res rec 1)) (\<lambda>recorded.
     py_bind (update_key action recorded) (\<lambda>obj.
     py_bind (on_client (get_tagged cl meta obj (map PStr (split_attrs (drop 2 rec))))) (\<lambda>(status, data).
     if status = success then
       py_bind (py_lift (
         rbind (on_data to_json data) (\<lambda>j.
         rbind (py_len j) (\<lambda>n.
         on_data (\<lambda>d. collect_oids d j (odd_positions n) oids) data)))) (\<lambda>oids'.
       py_return (status, oids'))
     else py_return (status, oids)))))"

text \<open>The OIDs a recorded response lists.\<close>

fun recorded_oids :: "string list \<Rightarrow> string list" where
  "recorded_oids [] = []"
| "recorded_oids [a] = []"
| "recorded_oids (a # v # rest) =
     (if str_in '':oid:'' v then str_split '','' (drop (nat (str_find v '':'' + 1)) v)
      else if str_in ''oid:'' v then [v] else []) @ recorded_oids rest"

text \<open>\<open>_process_get_response_command\<close>: the list of OIDs is empty afterwards.\<close>

definition process_get_response ::
  "string list \<Rightarrow> pyval list \<Rightarrow> (('c, 'z) sai_scheme, unit) py" where
  "process_get_response rec oids =
     (let g_oids = recorded_oids (split_attrs (drop 2 rec)) in
      py_bind (py_assert (length oids = length g_oids)) (\<lambda>_.
      py_modify (\<lambda>s. s\<lparr>rec2vid := fold (\<lambda>(k, v). dict_set k v) (zip g_oids oids) (rec2vid s)\<rparr>)))"

text \<open>\<open>_process_expected_failure_command\<close>; \<open>None\<close> when no status is known yet.\<close>

definition process_expected_failure :: "string list \<Rightarrow> string option \<Rightarrow> unit res" where
  "process_expected_failure rec status =
     rbind (nth_res rec 1) (\<lambda>wanted. rassert (status \<in> {Some wanted, Some success}))"

section \<open>Bulk actions\<close>

text \<open>
  The key of an entry of a bulk record: rewritten, without its type, and parsed when it is a
  structure. The rewriting of an OID to be created gives the type alone.
\<close>

definition bulk_key :: "string \<Rightarrow> string \<Rightarrow> string \<Rightarrow> (('c, 'z) sai_scheme, pyval) py" where
  "bulk_key action obj_type recorded =
     py_bind (update_key action (obj_type @ '':'' @ recorded)) (\<lambda>key.
     py_bind (py_lift (if str_in '':'' key then nth_res (str_split1 '':'' key) 1 else Ok key)) (\<lambda>k.
     if starts_with k ''{'' then py_lift (loads k) else py_return (PStr k)))"

fun is_dict :: "pyval \<Rightarrow> bool" where
  "is_dict (PDict _) = True"
| "is_dict _ = False"

definition bulk_entry ::
  "string \<Rightarrow> string \<Rightarrow> string list \<Rightarrow> (('c, 'z) sai_scheme, pyval \<times> pyval) py" where
  "bulk_entry action obj_type entry =
     py_bind (update_attr_oids True (split_attrs (drop 1 entry))) (\<lambda>attrs.
     py_bind (py_lift (nth_res entry 0)) (\<lambda>recorded.
     py_bind (bulk_key action obj_type recorded) (\<lambda>key.
     py_return (key, PList attrs))))"

text \<open>The OIDs created for the entries of the record.\<close>

fun store_new_keys :: "string list list \<Rightarrow> string list \<Rightarrow> (('c, 'z) sai_scheme, unit) py" where
  "store_new_keys entries [] = py_return ()"
| "store_new_keys [] (k # ks) = (if str_in ''oid:'' k then py_raise IndexError else store_new_keys [] ks)"
| "store_new_keys (e # es) (k # ks) =
     py_bind (if str_in ''oid:'' k
              then py_bind (py_lift (nth_res e 0)) (\<lambda>recorded. rec_store recorded (PStr k))
              else py_return ()) (\<lambda>_.
     store_new_keys es ks)"

definition list_elems :: "pyval \<Rightarrow> pyval list" where
  "list_elems v = (case v of PList xs \<Rightarrow> xs | _ \<Rightarrow> [])"

text \<open>\<open>_process_bulk_create_command\<close>; without entries the variable \<open>key\<close> is unbound.\<close>

definition process_bulk_create ::
  "'c sai_client \<Rightarrow> pyval option \<Rightarrow> string list list \<Rightarrow> (('c, 'z) sai_scheme, unit) py" where
  "process_bulk_create cl meta record =
     py_bind (py_lift (nth_res record 0)) (\<lambda>head.
     py_bind (py_lift (nth_res head 0)) (\<lambda>action.
     py_bind (py_lift (nth_res head 1)) (\<lambda>obj_type.
     py_bind (py_map (bulk_entry action obj_type) (drop 1 record)) (\<lambda>entries.
     if entries = [] then py_raise NameError
     else
       (let keys = map fst entries; attrs = map snd entries in
       py_bind
         (if is_dict (last keys) then
            py_bind (on_client (c_bulk_create cl (OStr obj_type) (Some keys) attrs 0 True)) (\<lambda>_. py_return ())
          else
            py_bind (on_client (c_bulk_create cl (OStr obj_type) None attrs (int (length record) - 1) True)) (\<lambda>(_, new_keys, _).
            store_new_keys (drop 1 record) new_keys)) (\<lambda>_.
       py_iter (\<lambda>(k, as). create_rec_alias cl meta obj_type (list_elems as) k) entries))))))"

definition bulk_set_entry ::
  "string \<Rightarrow> string \<Rightarrow> string list \<Rightarrow> (('c, 'z) sai_scheme, pyval \<times> pyval) py" where
  "bulk_set_entry action obj_type entry =
     py_bind (py_lift (nth_res entry 1)) (\<lambda>field.
     (let attr = str_split ''='' field in
     py_bind (py_lift (nth_res attr 1)) (\<lambda>v.
     py_bind (if str_in ''oid:'' v \<and> v \<noteq> ''oid:0x0'' then rec_lookup v else py_return (PStr v)) (\<lambda>w.
     py_bind (py_lift (nth_res entry 0)) (\<lambda>recorded.
     py_bind (bulk_key action obj_type recorded) (\<lambda>key.
     py_return (key, PList ((map PStr attr)[1 := w]))))))))"

text \<open>\<open>_process_bulk_set_command\<close>.\<close>

definition process_bulk_set :: "'c sai_client \<Rightarrow> string list list \<Rightarrow> (('c, 'z) sai_scheme, unit) py" where
  "process_bulk_set cl record =
     py_bind (py_lift (nth_res record 0)) (\<lambda>head.
     py_bind (py_lift (nth_res head 0)) (\<lambda>action.
     py_bind (py_lift (nth_res head 1)) (\<lambda>obj_type.
     py_bind (py_map (bulk_set_entry action obj_type) (drop 1 record)) (\<lambda>entries.
     py_bind (on_client (c_bulk_set cl (OStr obj_type) (map fst entries) (map snd entries) True)) (\<lambda>_.
     py_return ())))))"

text \<open>\<open>_process_bulk_remove_command\<close>.\<close>

definition process_bulk_remove :: "'c sai_client \<Rightarrow> string list list \<Rightarrow> (('c, 'z) sai_scheme, unit) py" where
  "process_bulk_remove cl record =
     py_bind (py_lift (nth_res record 0)) (\<lambda>head.
     py_bind (py_lift (nth_res head 0)) (\<lambda>action.
     py_bind (py_lift (nth_res head 1)) (\<lambda>obj_type.
     py_bind (py_map (\<lambda>entry. py_bind (py_lift (nth_res entry 0)) (bulk_key action obj_type)) (drop 1 record)) (\<lambda>keys.
     py_bind (on_client (c_bulk_remove cl (OStr obj_type) keys True)) (\<lambda>_.
     py_iter remove_rec_alias keys)))))"

section \<open>The player\<close>

text \<open>What the loop carries: the status of the last action that has one, and the OIDs read.\<close>

type_synonym player = "string option \<times> pyval list"

definition play_record ::
  "'c sai_client \<Rightarrow> pyval option \<Rightarrow> string list list \<Rightarrow> player \<Rightarrow> (('c, 'z) sai_scheme, player) py" where
  "play_record cl meta record p =
     (case p of (status, oids) \<Rightarrow>
     py_bind (py_lift (nth_res record 0)) (\<lambda>rec.
     py_bind (py_lift (nth_res rec 1)) (\<lambda>target.
     if target \<noteq> [] \<and> \<not> starts_with target ''SAI_'' then py_return p
     else
       (let action = hd rec in
        if action = ''c'' then py_bind (process_create cl meta rec) (\<lambda>st. py_return (Some st, oids))
        else if action = ''C'' then py_bind (process_bulk_create cl meta record) (\<lambda>_. py_return p)
        else if action = ''s'' then py_bind (process_set cl rec) (\<lambda>_. py_return p)
        else if action = ''S'' then py_bind (process_bulk_set cl record) (\<lambda>_. py_return p)
        else if action = ''r'' then py_bind (process_remove cl rec) (\<lambda>_. py_return p)
        else if action = ''R'' then py_bind (process_bulk_remove cl record) (\<lambda>_. py_return p)
        else if action = ''g'' then
          py_bind (process_get cl meta rec oids) (\<lambda>(st, oids'). py_return (Some st, oids'))
        else if action = ''G'' then py_bind (process_get_response rec oids) (\<lambda>_. py_return (status, []))
        else if action = ''E'' then py_bind (py_lift (process_expected_failure rec status)) (\<lambda>_. py_return p)
        else py_return p))))"

fun play_records ::
  "'c sai_client \<Rightarrow> pyval option \<Rightarrow> (nat \<times> string list list) list \<Rightarrow> player \<Rightarrow> (('c, 'z) sai_scheme, player) py" where
  "play_records cl meta [] p = py_return p"
| "play_records cl meta ((cnt, record) # records) p =
     py_bind (play_record cl meta record p) (play_records cl meta records)"

definition apply_rec ::
  "'c sai_client \<Rightarrow> pyval option \<Rightarrow> (('c, 'z) sai_scheme, unit) py option \<Rightarrow> string list \<Rightarrow>
   (('c, 'z) sai_scheme, unit) py" where
  "apply_rec cl meta dut lines =
     py_bind (sai_cleanup cl dut) (\<lambda>_.
     py_bind (play_records cl meta (parse_rec lines) (None, [])) (\<lambda>_. py_return ()))"

section \<open>Facts about reading\<close>

lemma parse_rec_lines: "map fst (parse_rec lines) = [1..<Suc (length lines)] \<and> map snd (parse_rec lines) = map parse_line lines"
  by (simp add: parse_rec_def del: upt_Suc)

text \<open>A separator of two bars is found after a text that has none and does not end in a bar.\<close>

lemma str_cut_bars:
  "\<not> str_in ''||'' p \<Longrightarrow> p \<noteq> [] \<Longrightarrow> last p \<noteq> CHR ''|'' \<Longrightarrow>
   str_cut ''||'' (p @ CHR ''|'' # CHR ''|'' # rest) = Some (p, rest)"
proof (induction p)
  case (Cons c p)
  show ?case
  proof (cases p)
    case Nil
    with Cons.prems show ?thesis by simp
  next
    case (Cons d q)
    with Cons.prems have "\<not> starts_with (c # d # q @ CHR ''|'' # CHR ''|'' # rest) ''||''"
      by (auto simp: starts_with_iff)
    with Cons Cons.IH Cons.prems show ?thesis by simp
  qed
qed simp

definition piece_ok :: "string \<Rightarrow> bool" where
  "piece_ok p = (p \<noteq> [] \<and> \<not> str_in ''||'' p \<and> last p \<noteq> CHR ''|'')"

lemma str_split_bars:
  "ps \<noteq> [] \<Longrightarrow> list_all piece_ok ps \<Longrightarrow> str_split ''||'' (str_join ''||'' ps) = ps"
proof (induction ps rule: induct_list012)
  case (2 x)
  then show ?case by (simp add: str_split_None str_cut_None piece_ok_def)
next
  case (3 x y zs)
  then have "str_cut ''||'' (str_join ''||'' (x # y # zs)) = Some (x, str_join ''||'' (y # zs))"
    by (simp add: str_cut_bars piece_ok_def)
  with 3 show ?case by (simp add: str_split_Some)
qed simp

text \<open>A field: not empty, no bar, no white space.\<close>

definition field_ok :: "string \<Rightarrow> bool" where
  "field_ok t = (t \<noteq> [] \<and> CHR ''|'' \<notin> set t \<and> list_all (\<lambda>c. \<not> is_space c) t)"

lemma str_in_bars_append:
  "CHR ''|'' \<notin> set x \<Longrightarrow> y \<noteq> [] \<Longrightarrow> hd y \<noteq> CHR ''|'' \<Longrightarrow>
   str_in ''||'' (x @ CHR ''|'' # y) \<longleftrightarrow> str_in ''||'' y"
proof (induction x)
  case Nil
  then show ?case by (cases y) auto
qed auto

lemma str_in_bars_field: "CHR ''|'' \<notin> set x \<Longrightarrow> \<not> str_in ''||'' x"
  by (induction x) auto

lemma str_join_hd: "x \<noteq> [] \<Longrightarrow> str_join p (x # xs) \<noteq> [] \<and> hd (str_join p (x # xs)) = hd x"
  by (cases xs) auto

lemma joined_fields_ok:
  assumes "ts \<noteq> []" and "list_all field_ok ts"
  shows "piece_ok (str_join ''|'' ts) \<and> list_all (\<lambda>c. \<not> is_space c) (str_join ''|'' ts)"
  using assms
proof (induction ts rule: induct_list012)
  case (2 x)
  then have "last x \<noteq> CHR ''|''" by (auto simp: field_ok_def dest: last_in_set)
  with 2 show ?case by (simp add: piece_ok_def field_ok_def str_in_bars_field)
next
  case (3 x y zs)
  have x: "field_ok x" "field_ok y" and rest: "piece_ok (str_join ''|'' (y # zs))"
    "list_all (\<lambda>c. \<not> is_space c) (str_join ''|'' (y # zs))"
    using 3 by simp_all
  have "hd (str_join ''|'' (y # zs)) \<noteq> CHR ''|''" "str_join ''|'' (y # zs) \<noteq> []"
    using str_join_hd [of y "''|''" zs] x(2) by (metis field_ok_def hd_in_set)+
  with x rest have "\<not> str_in ''||'' (x @ CHR ''|'' # str_join ''|'' (y # zs))"
    by (subst str_in_bars_append) (simp_all add: field_ok_def piece_ok_def)
  with x rest show ?case by (simp add: piece_ok_def field_ok_def is_space_def)
qed simp

text \<open>A record as it is written: a time stamp and the groups of fields.\<close>

definition print_line :: "string \<Rightarrow> string list list \<Rightarrow> string" where
  "print_line ts groups = str_join ''||'' (map (str_join ''|'') ((ts # hd groups) # tl groups))"

definition record_ok :: "string list list \<Rightarrow> bool" where
  "record_ok groups = (groups \<noteq> [] \<and> list_all (\<lambda>g. g \<noteq> [] \<and> list_all field_ok g) groups)"

lemma parse_print_line:
  assumes "field_ok ts" and "record_ok groups"
  shows "parse_line (print_line ts groups) = groups"
proof -
  let ?gs = "(ts # hd groups) # tl groups"
  have gs: "list_all (\<lambda>g. g \<noteq> [] \<and> list_all field_ok g) ?gs"
    using assms by (cases groups) (auto simp: record_ok_def)
  have each: "piece_ok (str_join ''|'' g) \<and> list_all (\<lambda>c. \<not> is_space c) (str_join ''|'' g)"
    if "g \<in> set ?gs" for g
  proof -
    have "g \<noteq> []" "list_all field_ok g" using gs that by (auto simp: list_all_iff)
    then show ?thesis by (rule joined_fields_ok)
  qed
  then have pieces: "list_all piece_ok (map (str_join ''|'') ?gs)"
    and clean: "list_all (\<lambda>p. list_all (\<lambda>c. \<not> is_space c) p) (map (str_join ''|'') ?gs)"
    unfolding list_all_iff set_map by blast+
  have strip: "str_strip (str_join ''|'' g) = str_join ''|'' g \<and> str_split ''|'' (str_join ''|'' g) = g"
    if "g \<in> set ?gs" for g
  proof -
    have "g \<noteq> []" "list_all field_ok g" using gs that by (auto simp: list_all_iff)
    then show ?thesis
      using joined_fields_ok [of g] str_split_join [of g "CHR ''|''"]
      by (auto simp: str_strip_id list_all_iff field_ok_def)
  qed
  have "list_all (\<lambda>c. \<not> is_space c) (str_join ''||'' ps)"
    if "list_all (\<lambda>p. list_all (\<lambda>c. \<not> is_space c) p) ps" for ps
    using that by (induction ps rule: induct_list012) (simp_all add: is_space_def)
  with clean have "str_strip (print_line ts groups) = print_line ts groups"
    unfolding print_line_def by (intro str_strip_id) blast
  moreover have "str_split ''||'' (print_line ts groups) = map (str_join ''|'') ?gs"
    unfolding print_line_def using pieces by (intro str_split_bars) simp_all
  moreover have "map (\<lambda>token. str_split ''|'' (str_strip token)) (map (str_join ''|'') ?gs) = ?gs"
    using strip by (auto simp: map_idI)
  ultimately show ?thesis
    using assms(2) by (cases groups) (simp_all add: parse_line_def record_ok_def)
qed

interpretation record_codec: codec "print_line ts" "\<lambda>l. Ok (parse_line l)"
  "\<lambda>groups. field_ok ts \<and> record_ok groups" for ts
  by unfold_locales (simp add: parse_print_line)

section \<open>Facts about keys\<close>

lemma update_oid_key_create:
  assumes "CHR '':'' \<notin> set ty" and "action \<in> {''c'', ''C''}"
  shows "update_oid_key action (ty @ '':'' @ oid) s = (Ok ty, s)"
  using assms str_split1_single [OF assms(1), of oid]
  by (auto simp: update_oid_key_def Let_def nth_res_def py_return_app)

lemma update_oid_key_use:
  assumes "CHR '':'' \<notin> set ty" and "action \<in> {''g'', ''s'', ''S''}"
    and "map_of (rec2vid s) oid = Some (PStr vid)"
  shows "update_oid_key action (ty @ '':'' @ oid) s = (Ok (ty @ '':'' @ vid), s)"
  using assms str_split1_single [OF assms(1), of oid]
  by (auto simp: update_oid_key_def Let_def nth_res_def rec_lookup_def dict_getitem_def py_simps)

lemma update_oid_key_remove:
  assumes "CHR '':'' \<notin> set ty" and "action \<in> {''r'', ''R''}"
    and "map_of (rec2vid s) oid = Some (PStr vid)"
  shows "update_oid_key action (ty @ '':'' @ oid) s =
    (Ok (ty @ '':'' @ vid), s\<lparr>rec2vid := dict_del oid (rec2vid s)\<rparr>)"
  using assms str_split1_single [OF assms(1), of oid]
  by (auto simp: update_oid_key_def Let_def nth_res_def rec_lookup_def rec_pop_def dict_getitem_def py_simps)

lemma update_oid_key_missing:
  assumes "CHR '':'' \<notin> set ty" and "action \<in> {''g'', ''s'', ''S'', ''r'', ''R''}"
    and "map_of (rec2vid s) oid = None"
  shows "update_oid_key action (ty @ '':'' @ oid) s = (Err KeyError, s)"
  using assms str_split1_single [OF assms(1), of oid]
  by (auto simp: update_oid_key_def Let_def nth_res_def rec_lookup_def rec_pop_def dict_getitem_def py_simps)

section \<open>Facts about responses\<close>

lemma fold_dict_set_other:
  "k \<notin> set ks \<Longrightarrow> map_of (fold (\<lambda>(k, v). dict_set k v) (zip ks vs) m) k = map_of m k"
  by (induction ks vs arbitrary: m rule: list_induct2') auto

lemma fold_dict_set_nth:
  "distinct ks \<Longrightarrow> length ks = length vs \<Longrightarrow> i < length ks \<Longrightarrow>
   map_of (fold (\<lambda>(k, v). dict_set k v) (zip ks vs) m) (ks ! i) = Some (vs ! i)"
proof (induction ks vs arbitrary: m i rule: list_induct2')
  case (4 k ks v vs)
  then show ?case by (cases i) (auto simp: fold_dict_set_other)
qed auto

section \<open>Facts about aliases\<close>

lemma alias_by_key_none:
  "\<forall>(name, e) \<in> set reg. \<not> py_eq (e_oid e) k \<and> \<not> py_eq (e_key e) k \<Longrightarrow> alias_by_key k reg = Ok []"
  by (induction k reg rule: alias_by_key.induct) auto

lemma alias_by_key_mem:
  "alias_by_key k reg = Ok name \<Longrightarrow> name \<noteq> [] \<Longrightarrow>
   \<exists>e. (name, e) \<in> set reg \<and> (py_eq (e_oid e) k \<or> py_eq (e_key e) k)"
  by (induction k reg rule: alias_by_key.induct) (auto split: if_splits list.splits)

lemma play_record_ignored:
  assumes "target \<noteq> []" and "\<not> starts_with target ''SAI_''"
  shows "play_record cl meta ((action # target # fs) # groups) p s = (Ok p, s)"
  using assms by (cases p) (simp add: play_record_def nth_res_def py_return_app)

end
