(* ===== verification/Npu.thy ===== *)
theory Npu imports RecPlayer begin

text \<open>
  The class \<open>SaiNpu\<close> of \<open>common/sai_npu.py\<close>: bringing a switch up, its default bridge, VLAN and
  virtual router, its ports and bridge ports (as found, or re-created from an SKU), the FDB, VLAN
  member and route helpers, and the warm reboot with its checks. The host-interface data plane
  (PTF) is not modelled.
\<close>

section \<open>State\<close>

record 'c npu = "'c sai" +
  dot1q_br_oid :: string
  default_vlan_oid :: string
  default_vlan_id :: string
  default_vrf_oid :: string
  port_oids :: "string list"
  dot1q_bp_oids :: "string list"
  sku_config :: "pyval option"

definition null_oid :: string where
  "null_oid = ''oid:0x0''"

text \<open>The fields \<open>SaiNpu.__init__\<close> sets, on a client.\<close>

definition npu_init_state :: "'c \<Rightarrow> 'c npu" where
  "npu_init_state c =
     \<lparr>objects_registry = dict_set ''SWITCH_ID''
        \<lparr>e_type = PStr ''SAI_OBJECT_TYPE_SWITCH'', e_oid = PStr null_oid, e_key = PNone\<rparr> [],
      switch_oid = PStr null_oid, rec2vid = [], client = c,
      dot1q_br_oid = null_oid, default_vlan_oid = null_oid, default_vlan_id = ''0'',
      default_vrf_oid = null_oid, port_oids = [], dot1q_bp_oids = [], sku_config = None\<rparr>"

text \<open>OIDs are strings; an answer in another form is outside the model.\<close>

definition text_oid :: "sai_data \<Rightarrow> string res" where
  "text_oid d = rbind (data_oid 1 d) (as_str (Unmodelled ''oid''))"

definition created_oid :: "pyval reply \<Rightarrow> string res" where
  "created_oid r = rbind (created_obj r) (as_str (Unmodelled ''oid''))"

text \<open>\<open>self.get(obj, [attr]).f()\<close>.\<close>

definition npu_get ::
  "'c sai_client \<Rightarrow> pyval option \<Rightarrow> string \<Rightarrow> string \<Rightarrow> (sai_data \<Rightarrow> 'a res) \<Rightarrow> (('c, 'z) sai_scheme, 'a) py" where
  "npu_get cl meta obj attr f = on_client (get_then cl meta obj [PStr attr] f)"

definition npu_set :: "'c sai_client \<Rightarrow> string \<Rightarrow> string \<Rightarrow> string \<Rightarrow> (('c, 'z) sai_scheme, unit) py" where
  "npu_set cl obj attr v =
     py_bind (on_client (sai_set cl obj [PStr attr, PStr v] True)) (\<lambda>_. py_return ())"

definition npu_remove :: "'c sai_client \<Rightarrow> string \<Rightarrow> (('c, 'z) sai_scheme, unit) py" where
  "npu_remove cl obj = py_bind (on_client (c_remove cl obj True)) (\<lambda>_. py_return ())"

text \<open>\<open>self.create(SaiObjType.X, attrs)\<close>; \<open>SaiObjType.X\<close> must exist.\<close>

definition obj_member :: "sai_obj_type list \<Rightarrow> string \<Rightarrow> sai_obj_type res" where
  "obj_member ots n = (case obj_type_named ots n of Ok t \<Rightarrow> Ok t | Err _ \<Rightarrow> Err AttributeError)"

definition npu_create ::
  "'c sai_client \<Rightarrow> sai_obj_type list \<Rightarrow> string \<Rightarrow> pyval list \<Rightarrow> (('c, 'z) sai_scheme, string) py" where
  "npu_create cl ots ty attrs =
     py_bind (py_lift (obj_member ots ty)) (\<lambda>t.
     py_bind (on_client (c_create cl (OType t) (PList attrs) True)) (\<lambda>r.
     py_lift (created_oid r)))"

definition switch_obj :: "(('c, 'z) sai_scheme, string) py" where
  "switch_obj = py_bind (py_get switch_oid) (\<lambda>v. py_lift (oid_obj v))"

section \<open>Entry keys\<close>

definition entry_key :: "string \<Rightarrow> (string \<times> pyval) list \<Rightarrow> string" where
  "entry_key ty members = ty @ '':'' @ dumps (PDict members)"

definition route_entry_key :: "pyval \<Rightarrow> string \<Rightarrow> string \<Rightarrow> string" where
  "route_entry_key sw vr_oid pfx = entry_key ''SAI_OBJECT_TYPE_ROUTE_ENTRY''
     [(''dest'', PStr pfx), (''switch_id'', sw), (''vr'', PStr vr_oid)]"

definition neighbor_entry_key :: "pyval \<Rightarrow> string \<Rightarrow> string \<Rightarrow> string" where
  "neighbor_entry_key sw rif_oid ip = entry_key ''SAI_OBJECT_TYPE_NEIGHBOR_ENTRY''
     [(''ip_address'', PStr ip), (''rif_id'', PStr rif_oid), (''switch_id'', sw)]"

definition ipmc_entry_key :: "pyval \<Rightarrow> string \<Rightarrow> string \<Rightarrow> string \<Rightarrow> int \<Rightarrow> string" where
  "ipmc_entry_key sw vr_oid src_ip dst_ip entry_type = entry_key ''SAI_OBJECT_TYPE_IPMC_ENTRY''
     [(''switch_id'', sw), (''vr_id'', PStr vr_oid), (''type'', PStr (int_str entry_type)),
      (''destination'', PStr dst_ip), (''source'', PStr src_ip)]"

definition fdb_entry_key :: "pyval \<Rightarrow> string \<Rightarrow> string \<Rightarrow> string" where
  "fdb_entry_key sw vlan_oid mac = entry_key ''SAI_OBJECT_TYPE_FDB_ENTRY''
     [(''bvid'', PStr vlan_oid), (''mac'', PStr mac), (''switch_id'', sw)]"

definition my_sid_entry_key :: "pyval \<Rightarrow> string \<Rightarrow> string \<Rightarrow> int \<Rightarrow> int \<Rightarrow> int \<Rightarrow> int \<Rightarrow> string" where
  "my_sid_entry_key sw vr_oid sid locator_block_len locator_node_len function_len args_len =
     entry_key ''SAI_OBJECT_TYPE_MY_SID_ENTRY''
     [(''switch_id'', sw), (''vr_id'', PStr vr_oid),
      (''locator_block_len'', PStr (int_str locator_block_len)),
      (''locator_node_len'', PStr (int_str locator_node_len)),
      (''function_len'', PStr (int_str function_len)),
      (''args_len'', PStr (int_str args_len)), (''sid'', PStr sid)]"

section \<open>FDB, VLAN members, bridge ports, routes\<close>

definition create_fdb ::
  "'c sai_client \<Rightarrow> string \<Rightarrow> string \<Rightarrow> string \<Rightarrow> string \<Rightarrow> string \<Rightarrow> bool \<Rightarrow> (('c, 'z) sai_scheme, pyval reply) py" where
  "create_fdb cl vlan_oid mac bp_oid entry_type action do_assert =
     py_bind (py_get switch_oid) (\<lambda>sw.
     on_client (c_create cl (OStr (fdb_entry_key sw vlan_oid mac))
       (PList [PStr ''SAI_FDB_ENTRY_ATTR_TYPE'', PStr entry_type,
               PStr ''SAI_FDB_ENTRY_ATTR_BRIDGE_PORT_ID'', PStr bp_oid,
               PStr ''SAI_FDB_ENTRY_ATTR_PACKET_ACTION'', PStr action]) do_assert))"

definition remove_fdb :: "'c sai_client \<Rightarrow> string \<Rightarrow> string \<Rightarrow> bool \<Rightarrow> (('c, 'z) sai_scheme, string) py" where
  "remove_fdb cl vlan_oid mac do_assert =
     py_bind (py_get switch_oid) (\<lambda>sw. on_client (c_remove cl (fdb_entry_key sw vlan_oid mac) do_assert))"

definition create_vlan_member ::
  "'c sai_client \<Rightarrow> sai_obj_type list \<Rightarrow> string \<Rightarrow> string \<Rightarrow> string \<Rightarrow> (('c, 'z) sai_scheme, string) py" where
  "create_vlan_member cl ots vlan_oid bp_oid tagging_mode = npu_create cl ots ''VLAN_MEMBER''
     [PStr ''SAI_VLAN_MEMBER_ATTR_VLAN_ID'', PStr vlan_oid,
      PStr ''SAI_VLAN_MEMBER_ATTR_BRIDGE_PORT_ID'', PStr bp_oid,
      PStr ''SAI_VLAN_MEMBER_ATTR_VLAN_TAGGING_MODE'', PStr tagging_mode]"

text \<open>The members are asked one by one until one is on the bridge port.\<close>

fun find_vlan_member ::
  "'c sai_client \<Rightarrow> pyval option \<Rightarrow> string \<Rightarrow> string list \<Rightarrow> (('c, 'z) sai_scheme, string option) py" where
  "find_vlan_member cl meta bp_oid [] = py_return None"
| "find_vlan_member cl meta bp_oid (m # ms) =
     py_bind (npu_get cl meta m ''SAI_VLAN_MEMBER_ATTR_BRIDGE_PORT_ID'' text_oid) (\<lambda>oid.
     if oid = bp_oid then py_return (Some m) else find_vlan_member cl meta bp_oid ms)"

definition get_vlan_member ::
  "'c sai_client \<Rightarrow> pyval option \<Rightarrow> string \<Rightarrow> string \<Rightarrow> (('c, 'z) sai_scheme, string option) py" where
  "get_vlan_member cl meta vlan_oid bp_oid =
     py_bind (npu_get cl meta vlan_oid ''SAI_VLAN_ATTR_MEMBER_LIST'' (data_to_list 1))
       (find_vlan_member cl meta bp_oid)"

definition remove_vlan_member ::
  "'c sai_client \<Rightarrow> pyval option \<Rightarrow> string \<Rightarrow> string \<Rightarrow> (('c, 'z) sai_scheme, unit) py" where
  "remove_vlan_member cl meta vlan_oid bp_oid =
     py_bind (get_vlan_member cl meta vlan_oid bp_oid) (\<lambda>m. case m of
       Some oid \<Rightarrow> py_bind (py_assert (oid \<noteq> [])) (\<lambda>_. npu_remove cl oid)
     | None \<Rightarrow> py_raise AssertionError)"

text \<open>Disable, flush the dynamic FDB entries of the port, remove.\<close>

definition remove_bridge_port :: "'c sai_client \<Rightarrow> string \<Rightarrow> (('c, 'z) sai_scheme, unit) py" where
  "remove_bridge_port cl bp_oid =
     py_bind (npu_set cl bp_oid ''SAI_BRIDGE_PORT_ATTR_ADMIN_STATE'' ''false'') (\<lambda>_.
     py_bind switch_obj (\<lambda>sw.
     py_bind (on_client (c_flush_fdb cl sw
       (PList [PStr ''SAI_FDB_FLUSH_ATTR_ENTRY_TYPE'', PStr ''SAI_FDB_FLUSH_ENTRY_TYPE_DYNAMIC'',
               PStr ''SAI_FDB_FLUSH_ATTR_BRIDGE_PORT_ID'', PStr bp_oid]))) (\<lambda>_.
     npu_remove cl bp_oid)))"

text \<open>\<open>nh_oid\<close> is empty when there is none, like \<open>None\<close>.\<close>

definition create_route ::
  "'c sai_client \<Rightarrow> string \<Rightarrow> string \<Rightarrow> string \<Rightarrow> pyval list \<Rightarrow> (('c, 'z) sai_scheme, unit) py" where
  "create_route cl dest vrf_oid nh_oid opt_attr =
     py_bind (py_get switch_oid) (\<lambda>sw.
     py_bind (on_client (c_create cl (OStr (route_entry_key sw vrf_oid dest))
       (PList ((if nh_oid \<noteq> [] then [PStr ''SAI_ROUTE_ENTRY_ATTR_NEXT_HOP_ID'', PStr nh_oid] else []) @ opt_attr))
       True)) (\<lambda>_. py_return ()))"

definition remove_route :: "'c sai_client \<Rightarrow> string \<Rightarrow> string \<Rightarrow> (('c, 'z) sai_scheme, unit) py" where
  "remove_route cl dest vrf_oid =
     py_bind (py_get switch_oid) (\<lambda>sw. npu_remove cl (route_entry_key sw vrf_oid dest))"

section \<open>Ports\<close>

text \<open>\<open>assert_port_oper_up(port_oid, tout=15)\<close>: \<open>tout\<close> probes, a second apart.\<close>

definition assert_port_oper_up ::
  "'c sai_client \<Rightarrow> pyval option \<Rightarrow> string \<Rightarrow> int \<Rightarrow> (('c, 'z) sai_scheme, unit) py" where
  "assert_port_oper_up cl meta port_oid tout =
     py_bind (poll_for (tout - 1)
       (py_bind (npu_get cl meta port_oid ''SAI_PORT_ATTR_OPER_STATUS'' data_value) (\<lambda>v.
         py_return (if v = ''SAI_PORT_OPER_STATUS_UP'' then Some () else None)))
       (on_client (c_sleep cl 1000)))
     (\<lambda>r. case r of Some _ \<Rightarrow> py_return () | None \<Rightarrow> py_raise AssertionError)"

text \<open>The tear-down of one port and its bridge port, by position.\<close>

definition remove_port_at :: "'c sai_client \<Rightarrow> pyval option \<Rightarrow> nat \<Rightarrow> (('c, 'z) npu_scheme, unit) py" where
  "remove_port_at cl meta idx =
     py_bind (py_get default_vlan_oid) (\<lambda>vlan.
     py_bind (py_get dot1q_bp_oids) (\<lambda>bps.
     py_bind (py_lift (nth_res bps idx)) (\<lambda>bp.
     py_bind (get_vlan_member cl meta vlan bp) (\<lambda>m.
     py_bind (case m of Some oid \<Rightarrow> if oid \<noteq> [] then npu_remove cl oid else py_return ()
              | None \<Rightarrow> py_return ()) (\<lambda>_.
     py_bind (remove_bridge_port cl bp) (\<lambda>_.
     py_bind (py_get port_oids) (\<lambda>ports.
     py_bind (py_lift (nth_res ports idx)) (\<lambda>port.
     py_bind (on_client (get_tagged cl meta port [PStr ''SAI_PORT_ATTR_PORT_SERDES_ID''])) (\<lambda>(status, data).
     py_bind (if status = success then py_lift (on_data text_oid data) else py_return null_oid) (\<lambda>serdes.
     py_bind (if serdes \<noteq> null_oid then npu_remove cl serdes else py_return ()) (\<lambda>_.
     npu_remove cl port)))))))))))"

definition count_char :: "char \<Rightarrow> string \<Rightarrow> nat" where
  "count_char c s = length (filter (\<lambda>x. x = c) s)"

text \<open>\<open>port[k] if k in port else sku[k]\<close> and the same with \<open>sku.get(k, d)\<close>.\<close>

definition sku_field :: "string \<Rightarrow> pyval \<Rightarrow> pyval res \<Rightarrow> pyval res" where
  "sku_field k p otherwise = rbind (py_str_in k p) (\<lambda>b. if b then py_item k p else otherwise)"

definition dict_default :: "string \<Rightarrow> string \<Rightarrow> pyval \<Rightarrow> pyval res" where
  "dict_default k d v = (case v of
     PDict kvs \<Rightarrow> Ok (case map_of kvs k of Some x \<Rightarrow> x | None \<Rightarrow> PStr d) | _ \<Rightarrow> Err AttributeError)"

text \<open>The attributes of a port of the SKU.\<close>

definition sku_port_attrs :: "string \<Rightarrow> pyval \<Rightarrow> pyval \<Rightarrow> pyval list res" where
  "sku_port_attrs vlan_id sku p =
     rbind (py_item ''lanes'' p) (\<lambda>lanes0.
     rbind (as_str AttributeError lanes0) (\<lambda>lanes.
     rbind (sku_field ''speed'' p (py_item ''speed'' sku)) (\<lambda>speed.
     rbind (sku_field ''autoneg'' p (dict_default ''autoneg'' ''off'' sku)) (\<lambda>autoneg.
     rbind (sku_field ''fec'' p (dict_default ''fec'' ''none'' sku)) (\<lambda>fec0.
     rbind (as_str AttributeError fec0) (\<lambda>fec.
     Ok [PStr ''SAI_PORT_ATTR_ADMIN_STATE'', PStr ''true'',
         PStr ''SAI_PORT_ATTR_PORT_VLAN_ID'', PStr vlan_id,
         PStr ''SAI_PORT_ATTR_MTU'', PStr ''1514'',
         PStr ''SAI_PORT_ATTR_HW_LANE_LIST'',
         PStr (int_str (int (count_char (CHR '','') lanes + 1)) @ '':'' @ lanes),
         PStr ''SAI_PORT_ATTR_SPEED'', speed,
         PStr ''SAI_PORT_ATTR_AUTO_NEG_MODE'', PStr (if autoneg = PStr ''on'' then ''true'' else ''false''),
         PStr ''SAI_PORT_ATTR_FEC_MODE'', PStr (''SAI_PORT_FEC_MODE_'' @ str_upper fec)]))))))"

definition create_sku_port ::
  "'c sai_client \<Rightarrow> sai_obj_type list \<Rightarrow> pyval \<Rightarrow> pyval \<Rightarrow> (('c, 'z) npu_scheme, unit) py" where
  "create_sku_port cl ots sku p =
     py_bind (py_get default_vlan_id) (\<lambda>vlan_id.
     py_bind (py_lift (sku_port_attrs vlan_id sku p)) (\<lambda>attrs.
     py_bind (npu_create cl ots ''PORT'' attrs) (\<lambda>oid.
     py_modify (\<lambda>s. s\<lparr>port_oids := port_oids s @ [oid]\<rparr>))))"

definition create_bridge_port ::
  "'c sai_client \<Rightarrow> sai_obj_type list \<Rightarrow> string \<Rightarrow> (('c, 'z) npu_scheme, unit) py" where
  "create_bridge_port cl ots port_oid =
     py_bind (npu_create cl ots ''BRIDGE_PORT''
       [PStr ''SAI_BRIDGE_PORT_ATTR_TYPE'', PStr ''SAI_BRIDGE_PORT_TYPE_PORT'',
        PStr ''SAI_BRIDGE_PORT_ATTR_PORT_ID'', PStr port_oid,
        PStr ''SAI_BRIDGE_PORT_ATTR_ADMIN_STATE'', PStr ''true'']) (\<lambda>oid.
     py_modify (\<lambda>s. s\<lparr>dot1q_bp_oids := dot1q_bp_oids s @ [oid]\<rparr>))"

definition set_sku_mode ::
  "'c sai_client \<Rightarrow> sai_obj_type list \<Rightarrow> pyval option \<Rightarrow> pyval \<Rightarrow> (('c, 'z) npu_scheme, unit) py" where
  "set_sku_mode cl ots meta sku =
     py_bind (py_get (\<lambda>s. length (dot1q_bp_oids s))) (\<lambda>num_ports.
     py_bind (py_iter (remove_port_at cl meta) [0..<num_ports]) (\<lambda>_.
     py_bind (py_modify (\<lambda>s. s\<lparr>port_oids := [], dot1q_bp_oids := []\<rparr>)) (\<lambda>_.
     py_bind (py_lift (rbind (py_item ''port'' sku) elements)) (\<lambda>ports.
     py_bind (py_iter (create_sku_port cl ots sku) ports) (\<lambda>_.
     py_bind switch_obj (\<lambda>sw.
     py_bind (npu_get cl meta sw ''SAI_SWITCH_ATTR_PORT_LIST'' (\<lambda>_. Ok ())) (\<lambda>_.
     py_bind (py_get port_oids) (\<lambda>new_ports.
     py_bind (py_iter (create_bridge_port cl ots) new_ports) (\<lambda>_.
     py_bind (py_get default_vlan_oid) (\<lambda>vlan.
     py_bind (npu_get cl meta vlan ''SAI_VLAN_ATTR_MEMBER_LIST'' (data_to_list 1)) (\<lambda>members.
     py_bind (py_map (\<lambda>m. npu_get cl meta m ''SAI_VLAN_MEMBER_ATTR_BRIDGE_PORT_ID'' text_oid) members) (\<lambda>vlan_bps.
     py_bind (py_get dot1q_bp_oids) (\<lambda>bps.
     py_iter (\<lambda>oid. if oid \<in> set vlan_bps then py_return ()
        else py_bind (create_vlan_member cl ots vlan oid ''SAI_VLAN_TAGGING_MODE_UNTAGGED'') (\<lambda>_. py_return ()))
       bps)))))))))))))"

section \<open>Bringing the switch up\<close>

text \<open>
  The SKU file: \<open>None\<close> when no SKU is configured, \<open>Some None\<close> when its file cannot be read. Any
  failure to read or parse it is an \<open>AssertionError\<close>.
\<close>

definition load_sku :: "string option option \<Rightarrow> pyval option \<Rightarrow> pyval option res" where
  "load_sku file current = (case file of
     None \<Rightarrow> Ok current
   | Some None \<Rightarrow> Err AssertionError
   | Some (Some txt) \<Rightarrow> (case loads txt of Ok v \<Rightarrow> Ok (Some v) | Err _ \<Rightarrow> Err AssertionError))"

text \<open>An OID of the switch that must exist.\<close>

definition default_oid ::
  "'c sai_client \<Rightarrow> pyval option \<Rightarrow> string \<Rightarrow> string \<Rightarrow> (string \<Rightarrow> ('c, 'z) npu_scheme \<Rightarrow> ('c, 'z) npu_scheme) \<Rightarrow>
   (('c, 'z) npu_scheme, string) py" where
  "default_oid cl meta sw attr store =
     py_bind (npu_get cl meta sw attr text_oid) (\<lambda>oid.
     py_bind (py_modify (store oid)) (\<lambda>_.
     py_bind (py_assert (oid \<noteq> null_oid)) (\<lambda>_. py_return oid)))"

text \<open>The bridge ports that the default VLAN lacks are added.\<close>

definition join_default_vlan ::
  "'c sai_client \<Rightarrow> sai_obj_type list \<Rightarrow> pyval option \<Rightarrow> string \<Rightarrow> (('c, 'z) npu_scheme, unit) py" where
  "join_default_vlan cl ots meta bp_oid =
     py_bind (py_get default_vlan_oid) (\<lambda>vlan.
     py_bind (get_vlan_member cl meta vlan bp_oid) (\<lambda>m.
     if m = None then
       py_bind (create_vlan_member cl ots vlan bp_oid ''SAI_VLAN_TAGGING_MODE_UNTAGGED'') (\<lambda>_. py_return ())
     else py_return ()))"

definition init_ports ::
  "'c sai_client \<Rightarrow> sai_obj_type list \<Rightarrow> pyval option \<Rightarrow> string \<Rightarrow> string \<Rightarrow> (('c, 'z) npu_scheme, unit) py" where
  "init_ports cl ots meta sw br =
     py_bind (npu_get cl meta sw ''SAI_SWITCH_ATTR_PORT_LIST'' (data_to_list 1)) (\<lambda>ports.
     py_bind (py_modify (\<lambda>s. s\<lparr>port_oids := ports\<rparr>)) (\<lambda>_.
     py_bind (npu_get cl meta br ''SAI_BRIDGE_ATTR_PORT_LIST'' (data_to_list 1)) (\<lambda>bps.
     py_bind (py_modify (\<lambda>s. s\<lparr>dot1q_bp_oids := bps\<rparr>)) (\<lambda>_.
     py_bind (py_assert (length bps > 0)) (\<lambda>_.
     py_bind (py_assert (starts_with (hd bps) ''oid:'')) (\<lambda>_.
     py_bind (py_get sku_config) (\<lambda>sku.
     if sku = None then py_iter (join_default_vlan cl ots meta) bps else py_return ())))))))"

definition wait_port_up ::
  "'c sai_client \<Rightarrow> pyval option \<Rightarrow> string \<Rightarrow> string \<Rightarrow> (('c, 'z) npu_scheme, unit) py" where
  "wait_port_up cl meta cpu_port_oid port_oid =
     py_bind (npu_get cl meta port_oid ''SAI_PORT_ATTR_ADMIN_STATE'' data_value) (\<lambda>admin_state.
     if port_oid \<noteq> cpu_port_oid \<and> admin_state = ''true'' then assert_port_oper_up cl meta port_oid 15
     else py_return ())"

definition npu_init ::
  "'c sai_client \<Rightarrow> sai_obj_type list \<Rightarrow> pyval option \<Rightarrow> string option option \<Rightarrow> bool \<Rightarrow> pyval list \<Rightarrow>
   (('c, 'z) npu_scheme, unit) py" where
  "npu_init cl ots meta sku_file run_traffic attr =
     py_bind (py_get sku_config) (\<lambda>sku0.
     py_bind (py_lift (load_sku sku_file sku0)) (\<lambda>sku.
     py_bind (py_modify (\<lambda>s. s\<lparr>sku_config := sku\<rparr>)) (\<lambda>_.
     py_bind (npu_create cl ots ''SWITCH'' (attr @ [PStr ''SAI_SWITCH_ATTR_INIT_SWITCH'', PStr ''true''])) (\<lambda>sw.
     py_bind (set_switch_oid (PStr sw)) (\<lambda>_.
     py_bind (rec_store sw (PStr sw)) (\<lambda>_.
     py_bind (default_oid cl meta sw ''SAI_SWITCH_ATTR_DEFAULT_1Q_BRIDGE_ID'' (\<lambda>o1 s. s\<lparr>dot1q_br_oid := o1\<rparr>)) (\<lambda>br.
     py_bind (default_oid cl meta sw ''SAI_SWITCH_ATTR_DEFAULT_VLAN_ID'' (\<lambda>o1 s. s\<lparr>default_vlan_oid := o1\<rparr>)) (\<lambda>vlan.
     py_bind (npu_get cl meta vlan ''SAI_VLAN_ATTR_VLAN_ID'' data_value) (\<lambda>vlan_id.
     py_bind (py_modify (\<lambda>s. s\<lparr>default_vlan_id := vlan_id\<rparr>)) (\<lambda>_.
     py_bind (py_assert (vlan_id \<noteq> ''0'')) (\<lambda>_.
     py_bind (default_oid cl meta sw ''SAI_SWITCH_ATTR_DEFAULT_VIRTUAL_ROUTER_ID'' (\<lambda>o1 s. s\<lparr>default_vrf_oid := o1\<rparr>)) (\<lambda>_.
     py_bind (npu_get cl meta sw ''SAI_SWITCH_ATTR_NUMBER_OF_ACTIVE_PORTS'' data_uint32) (\<lambda>port_num.
     py_bind (if port_num > 0 then init_ports cl ots meta sw br else py_return ()) (\<lambda>_.
     py_bind (case sku of Some cfg \<Rightarrow> set_sku_mode cl ots meta cfg | None \<Rightarrow> py_return ()) (\<lambda>_.
     if run_traffic then
       py_bind (npu_get cl meta sw ''SAI_SWITCH_ATTR_CPU_PORT'' text_oid) (\<lambda>cpu.
       py_bind (py_get port_oids) (\<lambda>ports.
       py_iter (wait_port_up cl meta cpu) ports))
     else py_return ())))))))))))))))"

definition npu_cleanup ::
  "'c sai_client \<Rightarrow> (('c, 'z) npu_scheme, unit) py option \<Rightarrow> (('c, 'z) npu_scheme, unit) py" where
  "npu_cleanup cl dut =
     py_bind (sai_cleanup cl dut) (\<lambda>_. py_modify (\<lambda>s. s\<lparr>port_oids := [], dot1q_bp_oids := []\<rparr>))"

definition npu_reset ::
  "'c sai_client \<Rightarrow> sai_obj_type list \<Rightarrow> pyval option \<Rightarrow> (('c, 'z) npu_scheme, unit) py option \<Rightarrow>
   string option option \<Rightarrow> bool \<Rightarrow> (('c, 'z) npu_scheme, unit) py" where
  "npu_reset cl ots meta dut sku_file run_traffic =
     py_bind (npu_cleanup cl dut) (\<lambda>_. npu_init cl ots meta sku_file run_traffic [])"

section \<open>Warm reboot\<close>

text \<open>The value read again must be the one remembered.\<close>

definition same_as ::
  "(('c, 'z) npu_scheme, 'a) py \<Rightarrow> (('c, 'z) npu_scheme \<Rightarrow> 'a) \<Rightarrow> (('c, 'z) npu_scheme, unit) py" where
  "same_as m f = py_bind m (\<lambda>v. py_bind (py_get f) (\<lambda>w. py_assert (v = w)))"

definition verify_warm_boot :: "'c sai_client \<Rightarrow> pyval option \<Rightarrow> (('c, 'z) npu_scheme, unit) py" where
  "verify_warm_boot cl meta =
     py_bind switch_obj (\<lambda>sw.
     py_bind (npu_get cl meta sw ''SAI_SWITCH_ATTR_TYPE'' data_value) (\<lambda>ty.
     py_bind (py_assert (ty = ''SAI_SWITCH_TYPE_NPU'')) (\<lambda>_.
     py_bind (same_as (npu_get cl meta sw ''SAI_SWITCH_ATTR_DEFAULT_1Q_BRIDGE_ID'' text_oid) dot1q_br_oid) (\<lambda>_.
     py_bind (same_as (npu_get cl meta sw ''SAI_SWITCH_ATTR_DEFAULT_VLAN_ID'' text_oid) default_vlan_oid) (\<lambda>_.
     py_bind (py_get default_vlan_oid) (\<lambda>vlan.
     py_bind (same_as (npu_get cl meta vlan ''SAI_VLAN_ATTR_VLAN_ID'' data_value) default_vlan_id) (\<lambda>_.
     py_bind (same_as (npu_get cl meta sw ''SAI_SWITCH_ATTR_DEFAULT_VIRTUAL_ROUTER_ID'' text_oid) default_vrf_oid) (\<lambda>_.
     py_bind (same_as (npu_get cl meta sw ''SAI_SWITCH_ATTR_PORT_LIST'' (data_to_list 1)) port_oids) (\<lambda>_.
     py_bind (py_get dot1q_br_oid) (\<lambda>br.
     same_as (npu_get cl meta br ''SAI_BRIDGE_ATTR_PORT_LIST'' (data_to_list 1)) dot1q_bp_oids))))))))))"

definition set_learning :: "'c sai_client \<Rightarrow> string \<Rightarrow> (('c, 'z) npu_scheme, unit) py" where
  "set_learning cl mode =
     py_bind (py_get dot1q_bp_oids) (\<lambda>bps.
     py_iter (\<lambda>bp. npu_set cl bp ''SAI_BRIDGE_PORT_ATTR_FDB_LEARNING_MODE'' mode) bps)"

definition npu_warm_reboot ::
  "'c sai_client \<Rightarrow> pyval option \<Rightarrow> int \<Rightarrow> int \<Rightarrow> nat \<Rightarrow> (('c, 'z) npu_scheme, unit) py" where
  "npu_warm_reboot cl meta pre_tout warm_tout after_warm_tout =
     py_bind switch_obj (\<lambda>sw.
     py_bind (npu_get cl meta sw ''SAI_SWITCH_ATTR_FDB_AGING_TIME'' data_value) (\<lambda>aging.
     py_bind (npu_set cl sw ''SAI_SWITCH_ATTR_FDB_AGING_TIME'' ''0'') (\<lambda>_.
     py_bind (set_learning cl ''SAI_BRIDGE_PORT_FDB_LEARNING_MODE_DISABLE'') (\<lambda>_.
     py_bind (perform_warm_reboot cl pre_tout warm_tout after_warm_tout) (\<lambda>_.
     py_bind (verify_warm_boot cl meta) (\<lambda>_.
     py_bind (set_learning cl ''SAI_BRIDGE_PORT_FDB_LEARNING_MODE_HW'') (\<lambda>_.
     npu_set cl sw ''SAI_SWITCH_ATTR_FDB_AGING_TIME'' aging)))))))"

section \<open>Replacing inside delimited text\<close>

lemma str_in_sep: "c \<notin> set p \<Longrightarrow> str_in p (a @ c # b) \<longleftrightarrow> str_in p a \<or> str_in p b"
proof (induction a)
  case Nil
  then show ?case by (cases p) auto
next
  case (Cons d a)
  have "starts_with (d # a @ c # b) p \<longleftrightarrow> starts_with (d # a) p"
  proof -
    have "starts_with (x @ c # b) p = starts_with x p" for x
      using Cons.prems
    proof (induction p arbitrary: x)
      case (Cons e p)
      then show ?case by (cases x) auto
    qed simp
    from this [of "d # a"] show ?thesis by simp
  qed
  with Cons show ?case by simp
qed

lemma str_cut_sep:
  "c \<notin> set p \<Longrightarrow> p \<noteq> [] \<Longrightarrow> str_cut p (a @ c # b) =
     (case str_cut p a of Some (x, y) \<Rightarrow> Some (x, y @ c # b)
      | None \<Rightarrow> map_option (\<lambda>(x, y). (a @ c # x, y)) (str_cut p b))"
proof (induction a)
  case Nil
  then show ?case by (cases p) (auto split: option.splits)
next
  case (Cons d a)
  have sw: "starts_with (x @ c # b) p = starts_with x p" for x
    using Cons.prems(1)
  proof (induction p arbitrary: x)
    case (Cons e p)
    then show ?case by (cases x) auto
  qed simp
  show ?case
  proof (cases "starts_with (d # a) p")
    case True
    then have "length p \<le> length (d # a)" by (rule starts_with_length)
    then have "drop (length p) (d # a @ c # b) = drop (length p) (d # a) @ c # b"
      using drop_append [of "length p" "d # a" "c # b"] by simp
    with True Cons.prems sw [of "d # a"] show ?thesis by simp
  next
    case False
    with Cons sw [of "d # a"] show ?thesis
      by (auto split: option.splits simp: option.map_comp comp_def case_prod_unfold)
  qed
qed

lemma str_replace_sep:
  "c \<notin> set p \<Longrightarrow> p \<noteq> [] \<Longrightarrow> str_replace p q (a @ c # b) = str_replace p q a @ c # str_replace p q b"
proof (induction "length a" arbitrary: a rule: less_induct)
  case less
  show ?case
  proof (cases "str_cut p a")
    case (Some xy)
    then obtain x y where xy: "str_cut p a = Some (x, y)" by (cases xy) auto
    then have "str_replace p q (y @ c # b) = str_replace p q y @ c # str_replace p q b"
      using less str_cut_shorter by blast
    with less.prems xy show ?thesis by (simp add: str_cut_sep str_replace_Some)
  next
    case None
    then have a: "str_replace p q a = a" by (rule str_replace_None)
    show ?thesis
    proof (cases "str_cut p b")
      case None2: None
      with None less.prems a show ?thesis by (simp add: str_cut_sep str_replace_None)
    next
      case (Some xy)
      with None less.prems a show ?thesis
        by (cases xy) (simp add: str_cut_sep str_replace_Some)
    qed
  qed
qed

lemma str_replace_no_char: "c \<in> set p \<Longrightarrow> c \<notin> set s \<Longrightarrow> str_replace p q s = s"
  by (intro str_replace_absent) (auto simp: str_in_iff)

lemma str_in_no_char: "c \<in> set p \<Longrightarrow> c \<notin> set s \<Longrightarrow> \<not> str_in p s"
  by (auto simp: str_in_iff)

text \<open>Addresses, prefixes and OIDs: printable, without quotes, backslashes, spaces or underscores.\<close>

definition plain_char :: "char \<Rightarrow> bool" where
  "plain_char c = (let n = (of_char c :: nat) in
     33 \<le> n \<and> n \<le> 126 \<and> c \<noteq> quote_ch \<and> c \<noteq> bslash \<and> c \<noteq> CHR ''_'')"

definition plain :: "string \<Rightarrow> bool" where
  "plain s = list_all plain_char s"

lemma plain_facts:
  assumes "plain s"
  shows "CHR ''_'' \<notin> set s" "CHR '' '' \<notin> set s" "dumps_str s = quote_ch # s @ [quote_ch]"
proof -
  show "CHR ''_'' \<notin> set s" "CHR '' '' \<notin> set s"
    using assms by (auto simp: plain_def plain_char_def list_all_iff)
  have "esc_char c = [c]" if "plain_char c" for c
    using that by (simp add: plain_char_def esc_char_def Let_def)
  then have "concat (map esc_char s) = s" using assms by (induction s) (simp_all add: plain_def)
  then show "dumps_str s = quote_ch # s @ [quote_ch]" by (simp add: dumps_str_def)
qed

text \<open>Text as its parts between quotes.\<close>

definition quoted :: "string list \<Rightarrow> string" where
  "quoted segs = str_join [quote_ch] segs"

lemma str_replace_quoted:
  assumes "quote_ch \<notin> set p" and "p \<noteq> []" and "segs \<noteq> []"
  shows "str_replace p q (quoted segs) = quoted (map (str_replace p q) segs)"
  using assms(3) unfolding quoted_def
proof (induction segs rule: induct_list012)
  case (3 x y zs)
  with assms(1,2) show ?case by (simp add: str_replace_sep)
qed simp_all

lemma str_in_quoted:
  assumes "quote_ch \<notin> set p" and "segs \<noteq> []"
  shows "str_in p (quoted segs) \<longleftrightarrow> (\<exists>x \<in> set segs. str_in p x)"
  using assms(2) unfolding quoted_def
proof (induction segs rule: induct_list012)
  case (3 x y zs)
  with assms(1) show ?case by (simp add: str_in_sep)
qed simp_all

text \<open>Plain values are not touched by the rewriting, whose patterns are spaces or have underscores.\<close>

lemma plain_replace:
  assumes "plain v"
  shows "str_replace '' '' q v = v" "str_replace ''bv_id'' q v = v" "str_replace ''mac_address'' q v = v"
    "str_replace ''ip_address'' q v = v" "str_replace ''rif_id'' q v = v"
    "\<not> str_in ''bv_id'' v" "\<not> str_in ''ip_address'' v"
  using str_replace_no_char [of "CHR ''_''" _ v q] str_replace_no_char [of "CHR '' ''" _ v q]
    str_in_no_char [of "CHR ''_''" _ v] plain_facts(1,2) [OF assms] by simp_all

lemma neighbor_entry_key_quoted:
  assumes "plain sw" and "plain rif_oid" and "plain ip"
  shows "neighbor_entry_key (PStr sw) rif_oid ip = quoted
    [''SAI_OBJECT_TYPE_NEIGHBOR_ENTRY:{'', ''ip_address'', '': '', ip, '', '', ''rif_id'', '': '', rif_oid,
     '', '', ''switch_id'', '': '', sw, ''}'']"
proof -
  have "dumps_str ''ip_address'' = quote_ch # ''ip_address'' @ [quote_ch]"
    "dumps_str ''rif_id'' = quote_ch # ''rif_id'' @ [quote_ch]"
    "dumps_str ''switch_id'' = quote_ch # ''switch_id'' @ [quote_ch]"
    by (simp_all add: dumps_str_def esc_char_def Let_def)
  then show ?thesis
    using assms by (simp add: neighbor_entry_key_def entry_key_def quoted_def key_sep_def item_sep_def
        plain_facts(3))
qed

lemma norm_key_neighbor:
  assumes "plain sw" and "plain rif_oid" and "plain ip"
  shows "norm_key (neighbor_entry_key (PStr sw) rif_oid ip) =
    ''SAI_OBJECT_TYPE_NEIGHBOR_ENTRY:'' @ dumps_with True
      (PDict [(''ip'', PStr ip), (''rif'', PStr rif_oid), (''switch_id'', PStr sw)])"
proof -
  note plain_replace [OF assms(1), simp] plain_replace [OF assms(2), simp] plain_replace [OF assms(3), simp]
  have sp: "str_replace '' '' [] '': '' = '':''" "str_replace '' '' [] '', '' = '',''"
    by (simp_all add: str_replace_char)
  have r1: "str_replace '' '' [] (neighbor_entry_key (PStr sw) rif_oid ip) = quoted
    [''SAI_OBJECT_TYPE_NEIGHBOR_ENTRY:{'', ''ip_address'', '':'', ip, '','', ''rif_id'', '':'', rif_oid,
     '','', ''switch_id'', '':'', sw, ''}'']"
    by (simp add: neighbor_entry_key_quoted assms str_replace_quoted str_replace_absent sp)
  have n1: "\<not> str_in ''bv_id'' (quoted
    [''SAI_OBJECT_TYPE_NEIGHBOR_ENTRY:{'', ''ip_address'', '':'', ip, '','', ''rif_id'', '':'', rif_oid,
     '','', ''switch_id'', '':'', sw, ''}''])"
    by (simp add: str_in_quoted)
  have n2: "str_in ''ip_address'' (quoted
    [''SAI_OBJECT_TYPE_NEIGHBOR_ENTRY:{'', ''ip_address'', '':'', ip, '','', ''rif_id'', '':'', rif_oid,
     '','', ''switch_id'', '':'', sw, ''}''])"
    by (simp add: str_in_quoted)
  have ip: "str_replace ''ip_address'' ''ip'' ''ip_address'' = ''ip''"
    "str_replace ''rif_id'' ''rif'' ''rif_id'' = ''rif''"
    by (simp_all add: str_replace.simps)
  have r2: "str_replace ''rif_id'' ''rif'' (str_replace ''ip_address'' ''ip'' (quoted
    [''SAI_OBJECT_TYPE_NEIGHBOR_ENTRY:{'', ''ip_address'', '':'', ip, '','', ''rif_id'', '':'', rif_oid,
     '','', ''switch_id'', '':'', sw, ''}''])) = quoted
    [''SAI_OBJECT_TYPE_NEIGHBOR_ENTRY:{'', ''ip'', '':'', ip, '','', ''rif'', '':'', rif_oid,
     '','', ''switch_id'', '':'', sw, ''}'']"
    by (simp add: str_replace_quoted ip str_replace_absent)
  have "dumps_str ''ip'' = quote_ch # ''ip'' @ [quote_ch]"
    "dumps_str ''rif'' = quote_ch # ''rif'' @ [quote_ch]"
    "dumps_str ''switch_id'' = quote_ch # ''switch_id'' @ [quote_ch]"
    by (simp_all add: dumps_str_def esc_char_def Let_def)
  then have "quoted
    [''SAI_OBJECT_TYPE_NEIGHBOR_ENTRY:{'', ''ip'', '':'', ip, '','', ''rif'', '':'', rif_oid,
     '','', ''switch_id'', '':'', sw, ''}''] = ''SAI_OBJECT_TYPE_NEIGHBOR_ENTRY:'' @ dumps_with True
      (PDict [(''ip'', PStr ip), (''rif'', PStr rif_oid), (''switch_id'', PStr sw)])"
    using assms by (simp add: quoted_def key_sep_def item_sep_def plain_facts(3))
  with r1 n1 n2 r2 show ?thesis by (simp add: norm_key_def Let_def)
qed


section \<open>Facts about the switch\<close>

text \<open>The key of an entry is what a successful creation returns.\<close>

lemma entry_key_target:
  assumes "CHR '':'' \<notin> set ty" and "val_ok (PDict members)"
  shows "create_target E cfg ots (OStr (entry_key ty members)) s =
    (Ok (entry_key ty members, PDict members), s)"
  unfolding entry_key_def by (rule create_target_key [OF assms])

lemma assert_port_oper_up_iff:
  "(\<exists>t. assert_port_oper_up cl meta port_oid tout s = (Ok (), t)) \<longleftrightarrow>
   0 < tout \<and> answers_within
     (py_bind (npu_get cl meta port_oid ''SAI_PORT_ATTR_OPER_STATUS'' data_value) (\<lambda>v.
         py_return (if v = ''SAI_PORT_OPER_STATUS_UP'' then Some () else None)))
     (on_client (c_sleep cl 1000)) (nat (tout - 1)) s"
proof -
  let ?probe = "py_bind (npu_get cl meta port_oid ''SAI_PORT_ATTR_OPER_STATUS'' data_value) (\<lambda>v.
         py_return (if v = ''SAI_PORT_OPER_STATUS_UP'' then Some () else None))"
  let ?poll = "poll_for (tout - 1) ?probe (on_client (c_sleep cl 1000))"
  have "(\<exists>t. assert_port_oper_up cl meta port_oid tout s = (Ok (), t)) \<longleftrightarrow>
      (\<exists>x t. ?poll s = (Ok (Some x), t))"
    by (auto simp: assert_port_oper_up_def py_bind_Ok_iff py_return_app py_raise_app split: option.splits)
  then show ?thesis using poll_for_iff [of "tout - 1" ?probe "on_client (c_sleep cl 1000)" s] by simp
qed

lemma on_client_Ok:
  "on_client m s = (Ok x, t) \<longleftrightarrow> (\<exists>c. m (client s) = (Ok x, c) \<and> t = s\<lparr>client := c\<rparr>)"
  by (auto simp: on_client_def split: prod.splits)

lemma npu_set_Ok:
  assumes "npu_set cl obj attr v s = (Ok u, t)"
  shows "\<exists>st c. c_set cl obj (PList [PStr attr, PStr v]) True (client s) = (Ok st, c) \<and> t = s\<lparr>client := c\<rparr>"
  using assms by (auto simp: npu_set_def sai_set_def py_bind_Ok_iff on_client_Ok py_return_app)

lemma npu_remove_Ok:
  assumes "npu_remove cl obj s = (Ok u, t)"
  shows "\<exists>st c. c_remove cl obj True (client s) = (Ok st, c) \<and> t = s\<lparr>client := c\<rparr>"
  using assms by (auto simp: npu_remove_def py_bind_Ok_iff on_client_Ok py_return_app)

lemma switch_obj_Ok: "switch_obj s = (Ok sw, t) \<longleftrightarrow> switch_oid s = PStr sw \<and> t = s"
  by (auto simp: switch_obj_def oid_obj_def py_bind_Ok_iff py_get_app py_lift_app)

lemma remove_bridge_port_steps:
  assumes "remove_bridge_port cl bp s = (Ok (), t)"
  shows "\<exists>sw st1 c1 u c2 st2 c3. switch_oid s = PStr sw \<and>
    c_set cl bp (PList [PStr ''SAI_BRIDGE_PORT_ATTR_ADMIN_STATE'', PStr ''false'']) True (client s) = (Ok st1, c1) \<and>
    c_flush_fdb cl sw (PList [PStr ''SAI_FDB_FLUSH_ATTR_ENTRY_TYPE'', PStr ''SAI_FDB_FLUSH_ENTRY_TYPE_DYNAMIC'',
      PStr ''SAI_FDB_FLUSH_ATTR_BRIDGE_PORT_ID'', PStr bp]) c1 = (Ok u, c2) \<and>
    c_remove cl bp True c2 = (Ok st2, c3) \<and> t = s\<lparr>client := c3\<rparr>"
proof -
  from assms obtain u1 s1 sw u2 s2 where
    set: "npu_set cl bp ''SAI_BRIDGE_PORT_ATTR_ADMIN_STATE'' ''false'' s = (Ok u1, s1)"
    and sw: "switch_oid s1 = PStr sw"
    and flush: "on_client (c_flush_fdb cl sw
       (PList [PStr ''SAI_FDB_FLUSH_ATTR_ENTRY_TYPE'', PStr ''SAI_FDB_FLUSH_ENTRY_TYPE_DYNAMIC'',
               PStr ''SAI_FDB_FLUSH_ATTR_BRIDGE_PORT_ID'', PStr bp])) s1 = (Ok u2, s2)"
    and rem: "npu_remove cl bp s2 = (Ok (), t)"
    unfolding remove_bridge_port_def py_bind_Ok_iff switch_obj_Ok by blast
  from npu_set_Ok [OF set] obtain st1 c1 where 1: "c_set cl bp
      (PList [PStr ''SAI_BRIDGE_PORT_ATTR_ADMIN_STATE'', PStr ''false'']) True (client s) = (Ok st1, c1)"
    "s1 = s\<lparr>client := c1\<rparr>" by blast
  from flush obtain c2 where 2: "c_flush_fdb cl sw
       (PList [PStr ''SAI_FDB_FLUSH_ATTR_ENTRY_TYPE'', PStr ''SAI_FDB_FLUSH_ENTRY_TYPE_DYNAMIC'',
               PStr ''SAI_FDB_FLUSH_ATTR_BRIDGE_PORT_ID'', PStr bp]) (client s1) = (Ok u2, c2)"
    "s2 = s1\<lparr>client := c2\<rparr>" by (auto simp: on_client_Ok)
  from npu_remove_Ok [OF rem] obtain st2 c3 where 3:
    "c_remove cl bp True (client s2) = (Ok st2, c3)" "t = s2\<lparr>client := c3\<rparr>" by blast
  from 1 2 3 sw show ?thesis by auto
qed

text \<open>What the steps of the SKU re-creation do to the lists of ports.\<close>

lemma npu_create_lists:
  "npu_create cl ots ty attrs s = (r, t) \<Longrightarrow> port_oids t = port_oids s \<and> dot1q_bp_oids t = dot1q_bp_oids s"
proof -
  assume run: "npu_create cl ots ty attrs s = (r, t)"
  have "py_inv (\<lambda>u. port_oids u = port_oids s \<and> dot1q_bp_oids u = dot1q_bp_oids s) (npu_create cl ots ty attrs)"
    unfolding npu_create_def by (intro inv_intros) simp
  from py_invD [OF this _ run] show ?thesis by simp
qed

lemma create_sku_ports_length:
  "py_iter (create_sku_port cl ots sku) ps s = (Ok u, t) \<Longrightarrow>
   length (port_oids t) = length (port_oids s) + length ps \<and> dot1q_bp_oids t = dot1q_bp_oids s"
proof (induction ps arbitrary: s)
  case Nil
  then show ?case by (simp add: py_return_app)
next
  case (Cons p ps)
  then obtain v where "create_sku_port cl ots sku p s = (Ok (), v)"
    and rest: "py_iter (create_sku_port cl ots sku) ps v = (Ok u, t)"
    by (auto simp: py_bind_Ok_iff)
  then have "length (port_oids v) = Suc (length (port_oids s)) \<and> dot1q_bp_oids v = dot1q_bp_oids s"
    by (auto simp: create_sku_port_def py_bind_Ok_iff py_get_app py_lift_app py_modify_app
        dest!: npu_create_lists)
  with Cons.IH [OF rest] show ?case by simp
qed

lemma create_bridge_ports_length:
  "py_iter (create_bridge_port cl ots) ps s = (Ok u, t) \<Longrightarrow>
   length (dot1q_bp_oids t) = length (dot1q_bp_oids s) + length ps \<and> port_oids t = port_oids s"
proof (induction ps arbitrary: s)
  case Nil
  then show ?case by (simp add: py_return_app)
next
  case (Cons p ps)
  then obtain v where "create_bridge_port cl ots p s = (Ok (), v)"
    and rest: "py_iter (create_bridge_port cl ots) ps v = (Ok u, t)"
    by (auto simp: py_bind_Ok_iff)
  then have "length (dot1q_bp_oids v) = Suc (length (dot1q_bp_oids s)) \<and> port_oids v = port_oids s"
    by (auto simp: create_bridge_port_def py_bind_Ok_iff py_modify_app dest!: npu_create_lists)
  with Cons.IH [OF rest] show ?case by simp
qed

lemma py_inv_lists:
  assumes "py_inv (\<lambda>u. port_oids u = p \<and> dot1q_bp_oids u = b) m" and "m s = (r, t)"
    and "port_oids s = p" and "dot1q_bp_oids s = b"
  shows "port_oids t = p \<and> dot1q_bp_oids t = b"
  using py_invD [OF assms(1) _ assms(2)] assms(3,4) by simp

lemma npu_get_lists: "py_inv (\<lambda>u. port_oids u = p \<and> dot1q_bp_oids u = b) (npu_get cl meta obj attr f)"
  unfolding npu_get_def by (intro inv_intros) simp

lemma npu_create_keeps:
  "py_inv (\<lambda>u. port_oids u = p \<and> dot1q_bp_oids u = b) (npu_create cl ots ty attrs)"
  unfolding npu_create_def by (intro inv_intros) simp

lemma set_sku_mode_ports:
  assumes "set_sku_mode cl ots meta sku s = (Ok (), t)"
  shows "\<exists>ports. rbind (py_item ''port'' sku) elements = Ok ports \<and>
    length (port_oids t) = length ports \<and> length (dot1q_bp_oids t) = length ports"
proof -
  from assms obtain n s1 s2 ports s3 sw s4 s5 vlan members s6 vlan_bps s7 where
    remove: "py_iter (remove_port_at cl meta) [0..<n] s = (Ok (), s1)"
    and clear: "s2 = s1\<lparr>port_oids := [], dot1q_bp_oids := []\<rparr>"
    and ports: "rbind (py_item ''port'' sku) elements = Ok ports"
    and create: "py_iter (create_sku_port cl ots sku) ports s2 = (Ok (), s3)"
    and refresh: "npu_get cl meta sw ''SAI_SWITCH_ATTR_PORT_LIST'' (\<lambda>_. Ok ()) s3 = (Ok (), s4)"
    and bridge: "py_iter (create_bridge_port cl ots) (port_oids s4) s4 = (Ok (), s5)"
    and mem: "npu_get cl meta vlan ''SAI_VLAN_ATTR_MEMBER_LIST'' (data_to_list 1) s5 = (Ok members, s6)"
    and bps: "py_map (\<lambda>m. npu_get cl meta m ''SAI_VLAN_MEMBER_ATTR_BRIDGE_PORT_ID'' text_oid) members s6 = (Ok vlan_bps, s7)"
    and join: "py_iter (\<lambda>oid. if oid \<in> set vlan_bps then py_return ()
        else py_bind (create_vlan_member cl ots vlan oid ''SAI_VLAN_TAGGING_MODE_UNTAGGED'') (\<lambda>_. py_return ()))
       (dot1q_bp_oids s7) s7 = (Ok (), t)"
    unfolding set_sku_mode_def py_bind_Ok_iff switch_obj_Ok py_get_app py_lift_app py_modify_app by auto
  let ?keeps = "\<lambda>s t :: ('a, 'b) npu_scheme. port_oids t = port_oids s \<and> dot1q_bp_oids t = dot1q_bp_oids s"
  from py_inv_lists [OF npu_get_lists refresh] have k1: "?keeps s3 s4" by blast
  from py_inv_lists [OF npu_get_lists mem] have k2: "?keeps s5 s6" by blast
  from py_inv_lists [OF py_inv_map [OF npu_get_lists] bps] have k3: "?keeps s6 s7" by blast
  have "py_inv (\<lambda>u. port_oids u = p \<and> dot1q_bp_oids u = b) (if oid \<in> set vlan_bps then py_return ()
      else py_bind (create_vlan_member cl ots vlan oid ''SAI_VLAN_TAGGING_MODE_UNTAGGED'') (\<lambda>_. py_return ()))"
    for p b oid
    unfolding create_vlan_member_def by (intro inv_intros npu_create_keeps)
  from py_inv_lists [OF py_inv_iter [OF this] join] have k4: "?keeps s7 t" by blast
  from create_sku_ports_length [OF create] clear
  have "length (port_oids s3) = length ports" "dot1q_bp_oids s3 = []" by simp_all
  with create_bridge_ports_length [OF bridge] k1 k2 k3 k4 ports show ?thesis by auto
qed

end
