(* ===== verification/Topology.thy ===== *)
theory Topology imports Npu begin

text \<open>
  The topology builders of \<open>topologies/\<close>: \<open>SaiPtfTopologyMixin\<close> of \<open>sai_ptf_topology.py\<close>, which
  lays out bridge ports, LAGs, VLANs, router interfaces and default routes in four layouts and
  tears them down, and the set-up and tear-down of \<open>dc_t1.py\<close>. Named attributes (\<open>port0\<close>, \<open>lag1_bp\<close>, ...)
  are a dictionary.
\<close>

section \<open>State\<close>

datatype topo_layout = L2_basic | L2_advanced | L3_basic | L3_advanced

definition layout_of :: "string \<Rightarrow> topo_layout res" where
  "layout_of s =
     (if s = ''l2_basic'' then Ok L2_basic else if s = ''l2_advanced'' then Ok L2_advanced
      else if s = ''l3_basic'' then Ok L3_basic else if s = ''l3_advanced'' then Ok L3_advanced
      else Err ValueError)"

text \<open>A saved member of the default VLAN: its port, later its bridge port, and its tagging mode.\<close>

record 'c topo = "'c npu" +
  layout :: topo_layout
  topo_vrf :: string
  named :: "(string, string) dict"
  def_bridge_port_list :: "string list"
  def_lag_list :: "string list"
  def_lag_member_list :: "string list"
  def_vlan_list :: "string list"
  def_vlan_member_list :: "string list"
  def_rif_list :: "string list"
  saved_members :: "(string \<times> string) list"

text \<open>\<open>setattr(self, name, oid)\<close> and \<open>getattr(self, name)\<close>.\<close>

definition set_named :: "string \<Rightarrow> string \<Rightarrow> (('c, 'z) topo_scheme, unit) py" where
  "set_named n oid = py_modify (\<lambda>s. s\<lparr>named := dict_set n oid (named s)\<rparr>)"

definition get_named :: "string \<Rightarrow> (('c, 'z) topo_scheme, string) py" where
  "get_named n = py_bind (py_get named) (\<lambda>d. py_lift (case map_of d n of Some v \<Rightarrow> Ok v | None \<Rightarrow> Err AttributeError))"

definition num_name :: "string \<Rightarrow> nat \<Rightarrow> string" where
  "num_name pfx i = pfx @ int_str (int i)"

section \<open>Building blocks\<close>

definition bridge_port_attrs :: "string \<Rightarrow> pyval list" where
  "bridge_port_attrs port_oid =
     [PStr ''SAI_BRIDGE_PORT_ATTR_TYPE'', PStr ''SAI_BRIDGE_PORT_TYPE_PORT'',
      PStr ''SAI_BRIDGE_PORT_ATTR_PORT_ID'', PStr port_oid,
      PStr ''SAI_BRIDGE_PORT_ATTR_ADMIN_STATE'', PStr ''true'']"

definition create_topo_bp :: "'c sai_client \<Rightarrow> sai_obj_type list \<Rightarrow> nat \<Rightarrow> (('c, 'z) topo_scheme, unit) py" where
  "create_topo_bp cl ots i =
     py_bind (get_named (num_name ''port'' i)) (\<lambda>port.
     py_bind (npu_create cl ots ''BRIDGE_PORT'' (bridge_port_attrs port)) (\<lambda>bp.
     py_bind (set_named (num_name ''port'' i @ ''_bp'') bp) (\<lambda>_.
     py_modify (\<lambda>s. s\<lparr>def_bridge_port_list := def_bridge_port_list s @ [bp]\<rparr>))))"

definition create_bridge_ports :: "'c sai_client \<Rightarrow> sai_obj_type list \<Rightarrow> nat list \<Rightarrow> (('c, 'z) topo_scheme, unit) py" where
  "create_bridge_ports cl ots ports = py_iter (create_topo_bp cl ots) ports"

definition create_lag_member ::
  "'c sai_client \<Rightarrow> sai_obj_type list \<Rightarrow> nat \<Rightarrow> string \<Rightarrow> nat \<Rightarrow> (('c, 'z) topo_scheme, unit) py" where
  "create_lag_member cl ots lag_index lag_oid i =
     py_bind (get_named (num_name ''port'' i)) (\<lambda>port.
     py_bind (npu_create cl ots ''LAG_MEMBER''
       [PStr ''SAI_LAG_MEMBER_ATTR_LAG_ID'', PStr lag_oid,
        PStr ''SAI_LAG_MEMBER_ATTR_PORT_ID'', PStr port]) (\<lambda>lm.
     py_bind (set_named (num_name (num_name ''lag'' lag_index @ ''_member'') i) lm) (\<lambda>_.
     py_modify (\<lambda>s. s\<lparr>def_lag_member_list := def_lag_member_list s @ [lm]\<rparr>))))"

definition create_lag_with_members ::
  "'c sai_client \<Rightarrow> sai_obj_type list \<Rightarrow> nat \<Rightarrow> nat list \<Rightarrow> (('c, 'z) topo_scheme, unit) py" where
  "create_lag_with_members cl ots lag_index ports =
     py_bind (npu_create cl ots ''LAG'' []) (\<lambda>lag_oid.
     py_bind (set_named (num_name ''lag'' lag_index) lag_oid) (\<lambda>_.
     py_bind (py_modify (\<lambda>s. s\<lparr>def_lag_list := def_lag_list s @ [lag_oid]\<rparr>)) (\<lambda>_.
     py_bind (npu_create cl ots ''BRIDGE_PORT'' (bridge_port_attrs lag_oid)) (\<lambda>lag_bp.
     py_bind (set_named (num_name ''lag'' lag_index @ ''_bp'') lag_bp) (\<lambda>_.
     py_bind (py_modify (\<lambda>s. s\<lparr>def_bridge_port_list := def_bridge_port_list s @ [lag_bp]\<rparr>)) (\<lambda>_.
     py_iter (create_lag_member cl ots lag_index lag_oid) ports))))))"

definition tagging_mode :: "string \<Rightarrow> string res" where
  "tagging_mode tag =
     (if starts_with tag ''SAI_VLAN_TAGGING_MODE_'' then Ok tag
      else if str_lower tag = ''untagged'' then Ok ''SAI_VLAN_TAGGING_MODE_UNTAGGED''
      else if str_lower tag = ''tagged'' then Ok ''SAI_VLAN_TAGGING_MODE_TAGGED''
      else Err ValueError)"

text \<open>The members of a VLAN, numbered from \<open>idx\<close>.\<close>

fun add_vlan_members ::
  "'c sai_client \<Rightarrow> sai_obj_type list \<Rightarrow> nat \<Rightarrow> string \<Rightarrow> nat \<Rightarrow> (string \<times> string) list \<Rightarrow>
   (('c, 'z) topo_scheme, unit) py" where
  "add_vlan_members cl ots vlan_id vlan_oid idx [] = py_return ()"
| "add_vlan_members cl ots vlan_id vlan_oid idx ((bp_oid, tag) # ms) =
     py_bind (py_lift (tagging_mode tag)) (\<lambda>mode.
     py_bind (create_vlan_member cl ots vlan_oid bp_oid mode) (\<lambda>vm.
     py_bind (set_named (num_name (num_name ''vlan'' vlan_id @ ''_member'') idx) vm) (\<lambda>_.
     py_bind (py_modify (\<lambda>s. s\<lparr>def_vlan_member_list := def_vlan_member_list s @ [vm]\<rparr>)) (\<lambda>_.
     add_vlan_members cl ots vlan_id vlan_oid (Suc idx) ms))))"

text \<open>The members are a dictionary: a bridge port named twice keeps its first place and last mode.\<close>

definition dict_of :: "(string \<times> string) list \<Rightarrow> (string, string) dict" where
  "dict_of ms = fold (\<lambda>(k, v). dict_set k v) ms []"

definition create_vlan_with_members ::
  "'c sai_client \<Rightarrow> sai_obj_type list \<Rightarrow> nat \<Rightarrow> (string \<times> string) list \<Rightarrow> (('c, 'z) topo_scheme, unit) py" where
  "create_vlan_with_members cl ots vlan_id members =
     py_bind (npu_create cl ots ''VLAN'' [PStr ''SAI_VLAN_ATTR_VLAN_ID'', PStr (int_str (int vlan_id))]) (\<lambda>vlan_oid.
     py_bind (set_named (num_name ''vlan'' vlan_id) vlan_oid) (\<lambda>_.
     py_bind (py_modify (\<lambda>s. s\<lparr>def_vlan_list := def_vlan_list s @ [vlan_oid]\<rparr>)) (\<lambda>_.
     add_vlan_members cl ots vlan_id vlan_oid 0 (dict_of members))))"

text \<open>A router interface: its kind, the number of its port, LAG or VLAN, and an optional VRF.\<close>

record rif_config =
  rif_type :: string
  port_or_vlan :: nat
  rif_vrf :: "string option"

definition rif_attrs :: "string \<Rightarrow> string \<Rightarrow> string \<Rightarrow> string \<Rightarrow> pyval list" where
  "rif_attrs vrf kind attr oid =
     [PStr ''SAI_ROUTER_INTERFACE_ATTR_VIRTUAL_ROUTER_ID'', PStr vrf,
      PStr ''SAI_ROUTER_INTERFACE_ATTR_TYPE'', PStr kind, PStr attr, PStr oid]"

definition create_rif :: "'c sai_client \<Rightarrow> sai_obj_type list \<Rightarrow> rif_config \<Rightarrow> (('c, 'z) topo_scheme, unit) py" where
  "create_rif cl ots cfg =
     py_bind (py_get topo_vrf) (\<lambda>vrf0.
     (let vrf = (case rif_vrf cfg of None \<Rightarrow> vrf0 | Some v \<Rightarrow> v) in
     py_bind
       (if rif_type cfg = ''vlan'' then
          py_return (num_name ''vlan'' (port_or_vlan cfg), ''SAI_ROUTER_INTERFACE_TYPE_VLAN'',
                     ''SAI_ROUTER_INTERFACE_ATTR_VLAN_ID'')
        else if rif_type cfg = ''lag'' then
          py_return (num_name ''lag'' (port_or_vlan cfg), ''SAI_ROUTER_INTERFACE_TYPE_PORT'',
                     ''SAI_ROUTER_INTERFACE_ATTR_PORT_ID'')
        else if rif_type cfg = ''port'' then
          py_return (num_name ''port'' (port_or_vlan cfg), ''SAI_ROUTER_INTERFACE_TYPE_PORT'',
                     ''SAI_ROUTER_INTERFACE_ATTR_PORT_ID'')
        else py_raise ValueError) (\<lambda>(n, kind, attr).
     py_bind (get_named n) (\<lambda>oid.
     py_bind (npu_create cl ots ''ROUTER_INTERFACE'' (rif_attrs vrf kind attr oid)) (\<lambda>rif.
     py_bind (set_named (n @ ''_rif'') rif) (\<lambda>_.
     py_modify (\<lambda>s. s\<lparr>def_rif_list := def_rif_list s @ [rif]\<rparr>)))))))"

definition create_routing_interfaces ::
  "'c sai_client \<Rightarrow> sai_obj_type list \<Rightarrow> rif_config list \<Rightarrow> (('c, 'z) topo_scheme, unit) py" where
  "create_routing_interfaces cl ots cfgs = py_iter (create_rif cl ots) cfgs"

definition drop_action :: "pyval list" where
  "drop_action = [PStr ''SAI_ROUTE_ENTRY_ATTR_PACKET_ACTION'', PStr ''SAI_PACKET_ACTION_DROP'']"

definition create_default_routes :: "'c sai_client \<Rightarrow> (('c, 'z) topo_scheme, unit) py" where
  "create_default_routes cl =
     py_bind (py_get topo_vrf) (\<lambda>vrf.
     py_bind (create_route cl ''0.0.0.0/0'' vrf [] drop_action) (\<lambda>_.
     create_route cl ''::/0'' vrf [] drop_action))"

definition destroy_default_routes :: "'c sai_client \<Rightarrow> (('c, 'z) topo_scheme, unit) py" where
  "destroy_default_routes cl =
     py_bind (py_get topo_vrf) (\<lambda>vrf.
     py_bind (remove_route cl ''0.0.0.0/0'' vrf) (\<lambda>_.
     remove_route cl ''::/0'' vrf))"

section \<open>Defaults\<close>

text \<open>For every port, the bridge port at its position is removed.\<close>

definition remove_default_bridge_ports :: "'c sai_client \<Rightarrow> (('c, 'z) topo_scheme, unit) py" where
  "remove_default_bridge_ports cl =
     py_bind (py_get port_oids) (\<lambda>ports.
     py_iter (\<lambda>i. py_bind (py_get dot1q_bp_oids) (\<lambda>bps.
        py_bind (py_lift (nth_res bps i)) (remove_bridge_port cl))) [0..<length ports])"

definition save_member ::
  "'c sai_client \<Rightarrow> pyval option \<Rightarrow> string \<Rightarrow> (('c, 'z) topo_scheme, unit) py" where
  "save_member cl meta mbr =
     py_bind (npu_get cl meta mbr ''SAI_VLAN_MEMBER_ATTR_BRIDGE_PORT_ID'' text_oid) (\<lambda>bp.
     py_bind (npu_get cl meta bp ''SAI_BRIDGE_PORT_ATTR_PORT_ID'' text_oid) (\<lambda>port.
     py_bind (npu_get cl meta mbr ''SAI_VLAN_MEMBER_ATTR_VLAN_TAGGING_MODE'' data_value) (\<lambda>tag.
     py_bind (py_modify (\<lambda>s. s\<lparr>saved_members := saved_members s @ [(port, tag)]\<rparr>)) (\<lambda>_.
     npu_remove cl mbr))))"

definition remove_default_vlan_members ::
  "'c sai_client \<Rightarrow> pyval option \<Rightarrow> (('c, 'z) topo_scheme, unit) py" where
  "remove_default_vlan_members cl meta =
     py_bind (py_get default_vlan_oid) (\<lambda>vlan.
     py_bind (on_client (get_list cl meta vlan ''SAI_VLAN_ATTR_MEMBER_LIST'' ''oid:0x0'')) (\<lambda>mbrs.
     py_bind (py_modify (\<lambda>s. s\<lparr>saved_members := []\<rparr>)) (\<lambda>_.
     py_iter (save_member cl meta) mbrs)))"

text \<open>A bridge port for every saved member; the record then names the bridge port.\<close>

definition restore_default_bridge_ports ::
  "'c sai_client \<Rightarrow> sai_obj_type list \<Rightarrow> pyval option \<Rightarrow> (('c, 'z) topo_scheme, unit) py" where
  "restore_default_bridge_ports cl ots meta =
     py_bind (py_get saved_members) (\<lambda>saved.
     py_bind (py_iter (\<lambda>i.
        py_bind (npu_create cl ots ''BRIDGE_PORT'' (bridge_port_attrs (fst (saved ! i)))) (\<lambda>bp.
        py_modify (\<lambda>s. s\<lparr>saved_members := (saved_members s)[i := (bp, snd (saved ! i))]\<rparr>)))
       [0..<length saved]) (\<lambda>_.
     py_bind (py_get dot1q_br_oid) (\<lambda>br.
     py_bind (npu_get cl meta br ''SAI_BRIDGE_ATTR_PORT_LIST'' (data_to_list 1)) (\<lambda>bps.
     py_modify (\<lambda>s. s\<lparr>dot1q_bp_oids := bps\<rparr>)))))"

definition restore_default_vlan_members ::
  "'c sai_client \<Rightarrow> sai_obj_type list \<Rightarrow> (('c, 'z) topo_scheme, unit) py" where
  "restore_default_vlan_members cl ots =
     py_bind (py_get saved_members) (\<lambda>saved.
     py_iter (\<lambda>(bp, tag). py_bind (py_get default_vlan_oid) (\<lambda>vlan.
        py_bind (create_vlan_member cl ots vlan bp tag) (\<lambda>_. py_return ()))) saved)"

section \<open>Set-up\<close>

definition named_set :: "'c sai_client \<Rightarrow> string \<Rightarrow> string \<Rightarrow> string \<Rightarrow> (('c, 'z) topo_scheme, unit) py" where
  "named_set cl n attr v = py_bind (get_named n) (\<lambda>oid. npu_set cl oid attr v)"

definition setup_l2_basic :: "'c sai_client \<Rightarrow> sai_obj_type list \<Rightarrow> (('c, 'z) topo_scheme, unit) py" where
  "setup_l2_basic cl ots =
     py_bind (create_bridge_ports cl ots [0, 1, 2, 3]) (\<lambda>_.
     py_bind (get_named ''port0_bp'') (\<lambda>p0.
     py_bind (get_named ''port1_bp'') (\<lambda>p1.
     py_bind (create_vlan_with_members cl ots 10 [(p0, ''untagged''), (p1, ''tagged'')]) (\<lambda>_.
     py_bind (get_named ''port2_bp'') (\<lambda>p2.
     py_bind (get_named ''port3_bp'') (\<lambda>p3.
     py_bind (create_vlan_with_members cl ots 20 [(p2, ''untagged''), (p3, ''tagged'')]) (\<lambda>_.
     py_bind (named_set cl ''port0'' ''SAI_PORT_ATTR_PORT_VLAN_ID'' ''10'') (\<lambda>_.
     named_set cl ''port2'' ''SAI_PORT_ATTR_PORT_VLAN_ID'' ''20''))))))))"

definition join_vlan ::
  "'c sai_client \<Rightarrow> sai_obj_type list \<Rightarrow> string \<Rightarrow> string \<Rightarrow> string \<Rightarrow> (('c, 'z) topo_scheme, string) py" where
  "join_vlan cl ots vlan_name bp_name member_name =
     py_bind (get_named vlan_name) (\<lambda>vlan.
     py_bind (get_named bp_name) (\<lambda>bp.
     py_bind (py_lift (tagging_mode ''untagged'')) (\<lambda>mode.
     py_bind (create_vlan_member cl ots vlan bp mode) (\<lambda>vm.
     py_bind (set_named member_name vm) (\<lambda>_. py_return vm)))))"

definition setup_l2_advanced :: "'c sai_client \<Rightarrow> sai_obj_type list \<Rightarrow> (('c, 'z) topo_scheme, unit) py" where
  "setup_l2_advanced cl ots =
     py_bind (create_lag_with_members cl ots 1 [4, 5, 6]) (\<lambda>_.
     py_bind (create_lag_with_members cl ots 2 [7, 8, 9]) (\<lambda>_.
     py_bind (join_vlan cl ots ''vlan10'' ''lag1_bp'' ''vlan10_member2'') (\<lambda>vm1.
     py_bind (join_vlan cl ots ''vlan20'' ''lag2_bp'' ''vlan20_member2'') (\<lambda>vm2.
     py_bind (py_modify (\<lambda>s. s\<lparr>def_vlan_member_list := def_vlan_member_list s @ [vm1, vm2]\<rparr>)) (\<lambda>_.
     named_set cl ''lag1'' ''SAI_LAG_ATTR_PORT_VLAN_ID'' ''10'')))))"

definition rif_cfg :: "string \<Rightarrow> nat \<Rightarrow> rif_config" where
  "rif_cfg t i = \<lparr>rif_type = t, port_or_vlan = i, rif_vrf = None\<rparr>"

definition setup_l3_basic :: "'c sai_client \<Rightarrow> sai_obj_type list \<Rightarrow> (('c, 'z) topo_scheme, unit) py" where
  "setup_l3_basic cl ots =
     py_bind (create_routing_interfaces cl ots (map (rif_cfg ''port'') [10, 11, 12, 13])) (\<lambda>_.
     create_default_routes cl)"

definition setup_l3_advanced :: "'c sai_client \<Rightarrow> sai_obj_type list \<Rightarrow> (('c, 'z) topo_scheme, unit) py" where
  "setup_l3_advanced cl ots =
     py_bind (create_bridge_ports cl ots [20, 21]) (\<lambda>_.
     py_bind (create_lag_with_members cl ots 3 [14, 15, 16]) (\<lambda>_.
     py_bind (create_lag_with_members cl ots 4 [17, 18, 19]) (\<lambda>_.
     py_bind (create_lag_with_members cl ots 5 [22, 23]) (\<lambda>_.
     py_bind (get_named ''port20_bp'') (\<lambda>p20.
     py_bind (get_named ''port21_bp'') (\<lambda>p21.
     py_bind (get_named ''lag5_bp'') (\<lambda>l5.
     py_bind (create_vlan_with_members cl ots 30 [(p20, ''untagged''), (p21, ''tagged''), (l5, ''untagged'')]) (\<lambda>_.
     create_routing_interfaces cl ots [rif_cfg ''vlan'' 30, rif_cfg ''lag'' 3, rif_cfg ''lag'' 4]))))))))"

definition create_sai_helper_topology ::
  "'c sai_client \<Rightarrow> sai_obj_type list \<Rightarrow> (('c, 'z) topo_scheme, unit) py" where
  "create_sai_helper_topology cl ots =
     py_bind (setup_l2_basic cl ots) (\<lambda>_.
     py_bind (py_get layout) (\<lambda>l.
     if l = L2_basic then py_return ()
     else
       py_bind (setup_l2_advanced cl ots) (\<lambda>_.
       if l = L2_advanced then py_return ()
       else
         py_bind (setup_l3_basic cl ots) (\<lambda>_.
         if l = L3_basic then py_return () else setup_l3_advanced cl ots))))"

fun name_ports :: "nat \<Rightarrow> string list \<Rightarrow> (string, string) dict \<Rightarrow> (string, string) dict" where
  "name_ports i [] d = d"
| "name_ports i (p # ps) d = name_ports (Suc i) ps (dict_set (num_name ''port'' i) p d)"

text \<open>\<open>setup(layout)\<close>; with fewer than 24 ports the test is skipped.\<close>

definition topo_setup ::
  "'c sai_client \<Rightarrow> sai_obj_type list \<Rightarrow> pyval option \<Rightarrow> string option \<Rightarrow> (('c, 'z) topo_scheme, unit) py" where
  "topo_setup cl ots meta which =
     py_bind (py_get layout) (\<lambda>l0.
     py_bind (py_lift (case which of None \<Rightarrow> Ok l0 | Some w \<Rightarrow> layout_of w)) (\<lambda>l.
     py_bind (py_modify (\<lambda>s. s\<lparr>layout := l, def_bridge_port_list := [], def_lag_list := [],
        def_lag_member_list := [], def_vlan_list := [], def_vlan_member_list := [], def_rif_list := [],
        saved_members := [], topo_vrf := default_vrf_oid s\<rparr>)) (\<lambda>_.
     py_bind (py_get port_oids) (\<lambda>ports.
     if length ports < 24 then py_raise Skipped
     else
       py_bind (py_modify (\<lambda>s. s\<lparr>named := name_ports 0 (take 24 ports) (named s)\<rparr>)) (\<lambda>_.
       py_bind (remove_default_vlan_members cl meta) (\<lambda>_.
       py_bind (remove_default_bridge_ports cl) (\<lambda>_.
       create_sai_helper_topology cl ots)))))))"

section \<open>Tear-down\<close>

definition destroy_bridge_ports :: "'c sai_client \<Rightarrow> (('c, 'z) topo_scheme, unit) py" where
  "destroy_bridge_ports cl =
     py_bind (py_get def_bridge_port_list) (\<lambda>l.
     py_bind (py_iter (remove_bridge_port cl) (rev l)) (\<lambda>_.
     py_modify (\<lambda>s. s\<lparr>def_bridge_port_list := []\<rparr>)))"

definition destroy_lags_with_members :: "'c sai_client \<Rightarrow> (('c, 'z) topo_scheme, unit) py" where
  "destroy_lags_with_members cl =
     py_bind (py_get def_lag_member_list) (\<lambda>l.
     py_bind (py_iter (npu_remove cl) l) (\<lambda>_.
     py_bind (py_modify (\<lambda>s. s\<lparr>def_lag_member_list := []\<rparr>)) (\<lambda>_.
     py_bind (py_get def_lag_list) (\<lambda>m.
     py_bind (py_iter (npu_remove cl) m) (\<lambda>_.
     py_modify (\<lambda>s. s\<lparr>def_lag_list := []\<rparr>))))))"

definition destroy_vlans_with_members :: "'c sai_client \<Rightarrow> (('c, 'z) topo_scheme, unit) py" where
  "destroy_vlans_with_members cl =
     py_bind (py_get def_vlan_member_list) (\<lambda>l.
     py_bind (py_iter (npu_remove cl) l) (\<lambda>_.
     py_bind (py_modify (\<lambda>s. s\<lparr>def_vlan_member_list := []\<rparr>)) (\<lambda>_.
     py_bind (py_get def_vlan_list) (\<lambda>m.
     py_bind (py_iter (npu_remove cl) m) (\<lambda>_.
     py_modify (\<lambda>s. s\<lparr>def_vlan_list := []\<rparr>))))))"

definition destroy_routing_interfaces :: "'c sai_client \<Rightarrow> (('c, 'z) topo_scheme, unit) py" where
  "destroy_routing_interfaces cl =
     py_bind (py_get def_rif_list) (\<lambda>l.
     py_bind (py_iter (npu_remove cl) (rev l)) (\<lambda>_.
     py_modify (\<lambda>s. s\<lparr>def_rif_list := []\<rparr>)))"

definition destroy_topology :: "'c sai_client \<Rightarrow> (('c, 'z) topo_scheme, unit) py" where
  "destroy_topology cl =
     py_bind (py_get layout) (\<lambda>l.
     py_bind (if l \<in> {L3_basic, L3_advanced} then destroy_default_routes cl else py_return ()) (\<lambda>_.
     py_bind (destroy_routing_interfaces cl) (\<lambda>_.
     py_bind (destroy_vlans_with_members cl) (\<lambda>_.
     py_bind (destroy_bridge_ports cl) (\<lambda>_.
     destroy_lags_with_members cl)))))"

definition topo_teardown ::
  "'c sai_client \<Rightarrow> sai_obj_type list \<Rightarrow> pyval option \<Rightarrow> (('c, 'z) topo_scheme, unit) py" where
  "topo_teardown cl ots meta =
     py_bind (named_set cl ''port2'' ''SAI_PORT_ATTR_PORT_VLAN_ID'' ''0'') (\<lambda>_.
     py_bind (named_set cl ''port0'' ''SAI_PORT_ATTR_PORT_VLAN_ID'' ''0'') (\<lambda>_.
     py_bind (py_get layout) (\<lambda>l.
     py_bind (if l \<noteq> L2_basic then named_set cl ''lag1'' ''SAI_LAG_ATTR_PORT_VLAN_ID'' ''0'' else py_return ()) (\<lambda>_.
     py_bind (destroy_topology cl) (\<lambda>_.
     py_bind (restore_default_bridge_ports cl ots meta) (\<lambda>_.
     restore_default_vlan_members cl ots))))))"

text \<open>\<open>_cpu_queue(idx)\<close>: the OID of a queue of the CPU port.\<close>

definition cpu_queue :: "'c sai_client \<Rightarrow> pyval option \<Rightarrow> nat \<Rightarrow> (('c, 'z) topo_scheme, string) py" where
  "cpu_queue cl meta idx =
     py_bind switch_obj (\<lambda>sw.
     py_bind (on_client (get_tagged cl meta sw [PStr ''SAI_SWITCH_ATTR_CPU_PORT'', PStr ''oid:0x0''])) (\<lambda>(_, data).
     py_bind (py_lift (on_data text_oid data)) (\<lambda>cpu_port.
     py_bind (on_client (get_list cl meta cpu_port ''SAI_PORT_ATTR_QOS_QUEUE_LIST'' ''oid:0x0'')) (\<lambda>queues.
     py_lift (nth_res queues idx)))))"

text \<open>\<open>config(npu)\<close>: the tear-down runs whatever the body of the \<open>with\<close> does.\<close>

definition with_topology ::
  "'c sai_client \<Rightarrow> sai_obj_type list \<Rightarrow> pyval option \<Rightarrow> (('c, 'z) topo_scheme, 'a) py \<Rightarrow> (('c, 'z) topo_scheme, 'a) py" where
  "with_topology cl ots meta body =
     py_bind (topo_setup cl ots meta None) (\<lambda>_. py_finally body (topo_teardown cl ots meta))"

section \<open>dc_t1\<close>

definition dc_t1_remove_bp :: "'c sai_client \<Rightarrow> pyval option \<Rightarrow> string \<Rightarrow> (('c, 'z) npu_scheme, unit) py" where
  "dc_t1_remove_bp cl meta oid =
     py_bind (on_client (get_then cl meta oid
       [PStr ''SAI_BRIDGE_PORT_ATTR_TYPE'', PStr ''SAI_BRIDGE_PORT_TYPE_PORT''] data_value)) (\<lambda>t.
     if t = ''SAI_BRIDGE_PORT_TYPE_PORT'' then remove_bridge_port cl oid else py_return ())"

definition forward_action :: "pyval list" where
  "forward_action = [PStr ''SAI_ROUTE_ENTRY_ATTR_PACKET_ACTION'', PStr ''SAI_PACKET_ACTION_FORWARD'']"

text \<open>The part before the \<open>yield\<close>: the loopback interface and the CPU port are the result.\<close>

definition dc_t1_setup ::
  "'c sai_client \<Rightarrow> sai_obj_type list \<Rightarrow> pyval option \<Rightarrow> (('c, 'z) npu_scheme, string \<times> string) py" where
  "dc_t1_setup cl ots meta =
     py_bind (py_get default_vrf_oid) (\<lambda>vrf.
     py_bind (npu_create cl ots ''ROUTER_INTERFACE''
       [PStr ''SAI_ROUTER_INTERFACE_ATTR_VIRTUAL_ROUTER_ID'', PStr vrf,
        PStr ''SAI_ROUTER_INTERFACE_ATTR_TYPE'', PStr ''SAI_ROUTER_INTERFACE_TYPE_LOOPBACK'',
        PStr ''SAI_ROUTER_INTERFACE_ATTR_MTU'', PStr ''9100'']) (\<lambda>lo_rif.
     py_bind switch_obj (\<lambda>sw.
     py_bind (on_client (get_then cl meta sw [PStr ''SAI_SWITCH_ATTR_CPU_PORT'', PStr ''oid:0x0''] text_oid)) (\<lambda>cpu.
     py_bind (py_get port_oids) (\<lambda>ports.
     py_bind (py_iter (\<lambda>oid. py_bind (on_client (get_then cl meta oid
        [PStr ''SAI_PORT_ATTR_HW_LANE_LIST'', PStr ''8:0,0,0,0,0,0,0,0''] (data_to_list 1))) (\<lambda>_. py_return ())) ports) (\<lambda>_.
     py_bind (py_get default_vlan_oid) (\<lambda>vlan.
     py_bind (on_client (get_list cl meta vlan ''SAI_VLAN_ATTR_MEMBER_LIST'' ''oid:0x0'')) (\<lambda>mbrs.
     py_bind (py_iter (npu_remove cl) mbrs) (\<lambda>_.
     py_bind (py_get dot1q_br_oid) (\<lambda>br.
     py_bind (on_client (get_list cl meta br ''SAI_BRIDGE_ATTR_PORT_LIST'' ''oid:0x0'')) (\<lambda>bps.
     py_bind (py_iter (dc_t1_remove_bp cl meta) bps) (\<lambda>_.
     py_bind (py_modify (\<lambda>s. s\<lparr>dot1q_bp_oids := []\<rparr>)) (\<lambda>_.
     py_bind (create_route cl ''0.0.0.0/0'' vrf [] drop_action) (\<lambda>_.
     py_bind (create_route cl ''::/0'' vrf [] drop_action) (\<lambda>_.
     py_bind (create_route cl ''fe80::5054:ff:fe12:3456/128'' vrf cpu forward_action) (\<lambda>_.
     py_bind (create_route cl ''fe80::/10'' vrf cpu forward_action) (\<lambda>_.
     py_return (lo_rif, cpu))))))))))))))))))"

definition dc_t1_restore_bp :: "'c sai_client \<Rightarrow> sai_obj_type list \<Rightarrow> string \<Rightarrow> (('c, 'z) npu_scheme, unit) py" where
  "dc_t1_restore_bp cl ots p =
     py_bind (npu_create cl ots ''BRIDGE_PORT'' (bridge_port_attrs p)) (\<lambda>bp.
     py_modify (\<lambda>s. s\<lparr>dot1q_bp_oids := dot1q_bp_oids s @ [bp]\<rparr>))"

definition dc_t1_restore_member ::
  "'c sai_client \<Rightarrow> sai_obj_type list \<Rightarrow> string list \<Rightarrow> nat \<Rightarrow> (('c, 'z) npu_scheme, unit) py" where
  "dc_t1_restore_member cl ots ports i =
     py_bind (py_get default_vlan_oid) (\<lambda>vlan.
     py_bind (py_get dot1q_bp_oids) (\<lambda>bps.
     py_bind (py_lift (nth_res bps i)) (\<lambda>bp.
     py_bind (create_vlan_member cl ots vlan bp ''SAI_VLAN_TAGGING_MODE_UNTAGGED'') (\<lambda>_.
     py_bind (py_get default_vlan_id) (\<lambda>vlan_id.
     npu_set cl (ports ! i) ''SAI_PORT_ATTR_PORT_VLAN_ID'' vlan_id)))))"

text \<open>The part after the \<open>yield\<close>.\<close>

definition dc_t1_teardown ::
  "'c sai_client \<Rightarrow> sai_obj_type list \<Rightarrow> string \<Rightarrow> (('c, 'z) npu_scheme, unit) py" where
  "dc_t1_teardown cl ots lo_rif =
     py_bind (py_get default_vrf_oid) (\<lambda>vrf.
     py_bind (remove_route cl ''fe80::/10'' vrf) (\<lambda>_.
     py_bind (remove_route cl ''fe80::5054:ff:fe12:3456/128'' vrf) (\<lambda>_.
     py_bind (remove_route cl ''::/0'' vrf) (\<lambda>_.
     py_bind (remove_route cl ''0.0.0.0/0'' vrf) (\<lambda>_.
     py_bind (py_get port_oids) (\<lambda>ports.
     py_bind (py_iter (dc_t1_restore_bp cl ots) ports) (\<lambda>_.
     py_bind (py_iter (dc_t1_restore_member cl ots ports) [0..<length ports]) (\<lambda>_.
     npu_remove cl lo_rif))))))))"

end
