(* ===== verification/TopologyAudit.thy ===== *)
theory TopologyAudit imports Topology begin

text \<open>
  What the topology builders leave behind: the number of objects of every layout, and the balance
  of creations and removals. A client is audited when it counts, for every OID and key, how often
  it was created less how often it was removed; \<open>traced\<close> turns any client into an audited one.
\<close>

section \<open>Audited clients\<close>

type_synonym balance = "string \<Rightarrow> int"

definition bump :: "string \<Rightarrow> int \<Rightarrow> balance \<Rightarrow> balance" where
  "bump k n b = b(k := b k + n)"

text \<open>What a successful creation counts: the key that was given or the OID that came back.\<close>

definition count_created :: "objref \<Rightarrow> pyval reply \<Rightarrow> balance \<Rightarrow> balance" where
  "count_created obj r b = (case obj of
     OStr k \<Rightarrow> bump k 1 b
   | OType t \<Rightarrow> (case created_oid r of Ok oid \<Rightarrow> bump oid 1 b | Err _ \<Rightarrow> b))"

definition beside :: "('c, 'a) py \<Rightarrow> ('c \<times> 'b, 'a) py" where
  "beside m = (\<lambda>(c, b). case m c of (r, c') \<Rightarrow> (r, (c', b)))"

definition counting :: "('a \<Rightarrow> balance \<Rightarrow> balance) \<Rightarrow> ('c, 'a) py \<Rightarrow> ('c \<times> balance, 'a) py" where
  "counting f m = (\<lambda>(c, b). case m c of
     (Ok x, c') \<Rightarrow> (Ok x, (c', f x b)) | (Err e, c') \<Rightarrow> (Err e, (c', b)))"

definition traced :: "'c sai_client \<Rightarrow> ('c \<times> balance) sai_client" where
  "traced cl =
     \<lparr>c_create = (\<lambda>obj attrs b. counting (count_created obj) (c_create cl obj attrs b)),
      c_remove = (\<lambda>obj b. counting (\<lambda>_. bump obj (-1)) (c_remove cl obj b)),
      c_set = (\<lambda>obj a b. beside (c_set cl obj a b)),
      c_get = (\<lambda>obj a b. beside (c_get cl obj a b)),
      c_vid_to_type = (\<lambda>v. beside (c_vid_to_type cl v)),
      c_bulk_create = (\<lambda>o1 ks vs n b. beside (c_bulk_create cl o1 ks vs n b)),
      c_bulk_remove = (\<lambda>o1 ks b. beside (c_bulk_remove cl o1 ks b)),
      c_bulk_set = (\<lambda>o1 ks vs b. beside (c_bulk_set cl o1 ks vs b)),
      c_flush_fdb = (\<lambda>o1 a. beside (c_flush_fdb cl o1 a)),
      c_sleep = (\<lambda>n. beside (c_sleep cl n)),
      c_cleanup = beside (c_cleanup cl),
      c_pre_shutdown = (\<lambda>n. beside (c_pre_shutdown cl n)),
      c_warm_shutdown = (\<lambda>n. beside (c_warm_shutdown cl n)),
      c_verify_restore = (\<lambda>n. beside (c_verify_restore cl n))\<rparr>"

lemma beside_keeps: "beside m c = (r, c') \<Longrightarrow> snd c' = snd c"
  by (auto simp: beside_def split: prod.splits)

lemma counting_Ok: "counting f m c = (Ok x, c') \<Longrightarrow> snd c' = f x (snd c)"
  by (auto simp: counting_def split: prod.splits res.splits)

section \<open>The saved objects\<close>

datatype topo_list = BridgePorts | Lags | LagMembers | Vlans | VlanMembers | Rifs

fun saved_list :: "topo_list \<Rightarrow> ('c, 'z) topo_scheme \<Rightarrow> string list" where
  "saved_list BridgePorts s = def_bridge_port_list s"
| "saved_list Lags s = def_lag_list s"
| "saved_list LagMembers s = def_lag_member_list s"
| "saved_list Vlans s = def_vlan_list s"
| "saved_list VlanMembers s = def_vlan_member_list s"
| "saved_list Rifs s = def_rif_list s"

definition all_saved :: "('c, 'z) topo_scheme \<Rightarrow> string list" where
  "all_saved s = concat (map (\<lambda>l. saved_list l s) [BridgePorts, Lags, LagMembers, Vlans, VlanMembers, Rifs])"

lemma all_saved_app:
  "all_saved s = def_bridge_port_list s @ def_lag_list s @ def_lag_member_list s @ def_vlan_list s @
     def_vlan_member_list s @ def_rif_list s"
  by (simp add: all_saved_def)

text \<open>The balance that is not explained by the saved lists.\<close>

definition unsaved :: "('c \<Rightarrow> balance) \<Rightarrow> ('c, 'z) topo_scheme \<Rightarrow> balance" where
  "unsaved bal s k = bal (client s) k - int (count_list (all_saved s) k)"

text \<open>
  \<open>builds bal d r m\<close>: a normal return of \<open>m\<close> keeps the layout, the switch and the virtual router,
  makes every saved list longer by \<open>d\<close>, and changes the unexplained balance by \<open>r\<close> (of the switch
  and the virtual router).
\<close>

definition frame :: "('c, 'z) topo_scheme \<Rightarrow> pyval \<times> string \<times> topo_layout" where
  "frame s = (switch_oid s, topo_vrf s, layout s)"

text \<open>Exactly, but for the VLAN members: a bridge port that appears twice joins a VLAN once.\<close>

definition grown :: "nat \<Rightarrow> topo_list \<Rightarrow> ('c, 'z) topo_scheme \<Rightarrow> ('c, 'z) topo_scheme \<Rightarrow> bool" where
  "grown n l s t \<longleftrightarrow> length (saved_list l t) \<le> length (saved_list l s) + n \<and>
     (l \<noteq> VlanMembers \<longrightarrow> length (saved_list l t) = length (saved_list l s) + n)"

lemma grown_trans: "grown m l s u \<Longrightarrow> grown n l u t \<Longrightarrow> grown (m + n) l s t"
  by (auto simp: grown_def)

lemma grown_mono: "grown m l s t \<Longrightarrow> m \<le> n \<Longrightarrow> (l \<noteq> VlanMembers \<longrightarrow> m = n) \<Longrightarrow> grown n l s t"
  by (auto simp: grown_def)

lemma grown_same: "saved_list l t = saved_list l s \<Longrightarrow> grown 0 l s t"
  by (simp add: grown_def)

lemma grown_refl [simp]: "grown 0 l s s"
  by (simp add: grown_def)

definition builds ::
  "('c \<Rightarrow> balance) \<Rightarrow> (topo_list \<Rightarrow> nat) \<Rightarrow> (pyval \<times> string \<times> topo_layout \<Rightarrow> balance) \<Rightarrow>
   (('c, 'z) topo_scheme, 'a) py \<Rightarrow> bool" where
  "builds bal d r m \<longleftrightarrow> (\<forall>s x t. m s = (Ok x, t) \<longrightarrow> frame t = frame s \<and>
     (\<forall>l. grown (d l) l s t) \<and> (\<forall>k. unsaved bal t k = unsaved bal s k + r (frame s) k))"

abbreviation builds0 :: "('c \<Rightarrow> balance) \<Rightarrow> (('c, 'z) topo_scheme, 'a) py \<Rightarrow> bool" where
  "builds0 bal m \<equiv> builds bal (\<lambda>_. 0) (\<lambda>_ _. 0) m"

lemma buildsD:
  assumes "builds bal d r m" and "m s = (Ok x, t)"
  shows "frame t = frame s" and "grown (d l) l s t"
    and "unsaved bal t k = unsaved bal s k + r (frame s) k"
  using assms by (auto simp: builds_def)

lemma builds_bind:
  assumes "builds bal d1 r1 m" and "\<And>x. builds bal d2 r2 (f x)"
  shows "builds bal (\<lambda>l. d1 l + d2 l) (\<lambda>v k. r1 v k + r2 v k) (py_bind m f)"
  unfolding builds_def
proof (intro allI impI)
  fix s x t assume "py_bind m f s = (Ok x, t)"
  then obtain y u where m: "m s = (Ok y, u)" and f: "f y u = (Ok x, t)"
    by (auto simp: py_bind_Ok_iff)
  show "frame t = frame s \<and> (\<forall>l. grown (d1 l + d2 l) l s t) \<and>
     (\<forall>k. unsaved bal t k = unsaved bal s k + (r1 (frame s) k + r2 (frame s) k))"
    using buildsD [OF assms(1) m] buildsD [OF assms(2) f] by (auto intro: grown_trans)
qed

lemma builds_weaken: "builds bal d' r' m \<Longrightarrow> d' = d \<Longrightarrow> r' = r \<Longrightarrow> builds bal d r m"
  by simp

lemma builds_mono:
  "builds bal d' r m \<Longrightarrow> (\<And>l. d' l \<le> d l \<and> (l \<noteq> VlanMembers \<longrightarrow> d' l = d l)) \<Longrightarrow> builds bal d r m"
  unfolding builds_def using grown_mono by blast

lemma builds_bind0: "builds0 bal m \<Longrightarrow> (\<And>x. builds bal d r (f x)) \<Longrightarrow> builds bal d r (py_bind m f)"
  by (rule builds_weaken [OF builds_bind]) auto

lemma builds_last0: "builds bal d r m \<Longrightarrow> (\<And>x. builds0 bal (f x)) \<Longrightarrow> builds bal d r (py_bind m f)"
  by (rule builds_weaken [OF builds_bind]) auto

lemma builds_iter:
  assumes "\<And>x. builds bal d r (f x)"
  shows "builds bal (\<lambda>l. length xs * d l) (\<lambda>v k. int (length xs) * r v k) (py_iter f xs)"
proof (induction xs)
  case Nil
  show ?case by (auto simp: builds_def py_return_app)
next
  case (Cons a xs)
  have "builds bal (\<lambda>l. d l + length xs * d l) (\<lambda>v k. r v k + int (length xs) * r v k)
      (py_bind (f a) (\<lambda>_. py_iter f xs))"
    by (rule builds_bind [OF assms Cons.IH])
  then show ?case by (simp add: algebra_simps)
qed

lemma builds_return [intro]: "builds0 bal (py_return x)"
  by (simp add: builds_def py_return_app)

lemma builds_raise [intro]: "builds bal d r (py_raise e)"
  by (simp add: builds_def py_raise_app)

lemma builds_lift [intro]: "builds0 bal (py_lift x)"
  by (simp add: builds_def py_lift_app)

lemma builds_get [intro]: "builds0 bal (py_get f)"
  by (simp add: builds_def py_get_app)

lemma builds_set_named [intro]:
  fixes bal :: "'c \<Rightarrow> balance"
  shows "builds0 bal (set_named n oid :: (('c, 'z) topo_scheme, unit) py)"
  unfolding builds_def
proof (intro allI impI conjI)
  fix s t :: "('c, 'z) topo_scheme" and x l k assume "set_named n oid s = (Ok x, t)"
  then have t: "t = s\<lparr>named := dict_set n oid (named s)\<rparr>" by (auto simp: set_named_def py_modify_app)
  show "frame t = frame s" by (simp add: t frame_def)
  show "grown 0 l s t" by (rule grown_same, cases l) (simp_all add: t)
  show "unsaved bal t k = unsaved bal s k + 0" by (simp add: t unsaved_def all_saved_app)
qed

lemma builds_get_named [intro]: "builds0 bal (get_named n)"
  unfolding get_named_def by (intro builds_bind0 builds_get builds_lift)

section \<open>Effects on the client\<close>

text \<open>\<open>effect bal e m\<close>: a normal return of \<open>m\<close> changes nothing but the client, its balance by \<open>e\<close>.\<close>

definition effect :: "('c \<Rightarrow> balance) \<Rightarrow> ('a \<Rightarrow> balance) \<Rightarrow> (('c, 'z) sai_scheme, 'a) py \<Rightarrow> bool" where
  "effect bal e m \<longleftrightarrow> (\<forall>s x t. m s = (Ok x, t) \<longrightarrow>
     (\<exists>c. t = s\<lparr>client := c\<rparr> \<and> (\<forall>k. bal c k = bal (client s) k + e x k)))"

abbreviation one_of :: "string \<Rightarrow> balance" where
  "one_of oid \<equiv> (\<lambda>k. if k = oid then 1 else 0)"

definition neutral :: "('c \<Rightarrow> balance) \<Rightarrow> ('c, 'a) py \<Rightarrow> bool" where
  "neutral bal m \<longleftrightarrow> (\<forall>c x c'. m c = (Ok x, c') \<longrightarrow> bal c' = bal c)"

lemma neutral_bind: "neutral bal m \<Longrightarrow> (\<And>x. neutral bal (f x)) \<Longrightarrow> neutral bal (py_bind m f)"
  unfolding neutral_def py_bind_Ok_iff by metis

lemma neutral_lift: "neutral bal (py_lift r)"
  by (simp add: neutral_def py_lift_app)

lemma neutral_return: "neutral bal (py_return x)"
  by (simp add: neutral_def py_return_app)

lemma neutral_raise: "neutral bal (py_raise e)"
  by (simp add: neutral_def py_raise_app)

lemma neutral_assert: "neutral bal (py_assert b)"
  by (simp add: neutral_def)

lemmas neutral_intros = neutral_bind neutral_lift neutral_return neutral_raise neutral_assert

lemma effect_neutral: "neutral bal m \<Longrightarrow> effect bal (\<lambda>_ _. 0) (on_client m)"
  by (fastforce simp: effect_def neutral_def on_client_Ok)

lemma effect_bind:
  assumes "effect bal e1 m" and "\<And>x. effect bal (\<lambda>y k. e y k - e1 x k) (f x)"
  shows "effect bal e (py_bind m f)"
  unfolding effect_def
proof (intro allI impI)
  fix s x t assume "py_bind m f s = (Ok x, t)"
  then obtain y u where m: "m s = (Ok y, u)" and f: "f y u = (Ok x, t)"
    by (auto simp: py_bind_Ok_iff)
  from m assms(1) obtain c where c: "u = s\<lparr>client := c\<rparr>" "\<forall>k. bal c k = bal (client s) k + e1 y k"
    unfolding effect_def by blast
  from f assms(2) obtain c' where "t = u\<lparr>client := c'\<rparr>"
    "\<forall>k. bal c' k = bal (client u) k + (e x k - e1 y k)" unfolding effect_def by blast
  with c show "\<exists>c. t = s\<lparr>client := c\<rparr> \<and> (\<forall>k. bal c k = bal (client s) k + e x k)"
    by (intro exI [of _ c']) simp
qed

lemma effect_bind0: "effect bal (\<lambda>_ _. 0) m \<Longrightarrow> (\<And>x. effect bal e (f x)) \<Longrightarrow> effect bal e (py_bind m f)"
  by (rule effect_bind [where ?e1.0 = "\<lambda>_ _. 0"]) simp_all

lemma client_self: "\<exists>c. s = s\<lparr>client := c\<rparr> \<and> (\<forall>k. bal c k = bal (client s) k)"
  by (rule exI [of _ "client s"]) simp

lemma effect_unit: "effect bal (\<lambda>_. e) m \<Longrightarrow> effect bal (\<lambda>_. e) (py_bind m (\<lambda>_. py_return x))"
  by (rule effect_bind [where ?e1.0 = "\<lambda>_. e"]) (auto simp: effect_def py_return_app client_self)

lemma effect_get: "effect bal (\<lambda>_ _. 0) (py_get f)"
  by (auto simp: effect_def py_get_app client_self)

lemma effect_lift: "effect bal (\<lambda>_ _. 0) (py_lift r)"
  by (auto simp: effect_def py_lift_app client_self)

lemma effect_switch: "effect bal (\<lambda>_ _. 0) switch_obj"
  unfolding switch_obj_def by (intro effect_bind0 effect_get effect_lift)

lemma effect_builds:
  fixes bal :: "'c \<Rightarrow> balance" and m :: "(('c, 'z) topo_scheme, 'a) py"
  assumes "effect bal (\<lambda>_. e) m"
  shows "builds bal (\<lambda>_. 0) (\<lambda>_. e) m"
  unfolding builds_def
proof (intro allI impI)
  fix s t :: "('c, 'z) topo_scheme" and x assume "m s = (Ok x, t)"
  with assms obtain c where t: "t = s\<lparr>client := c\<rparr>" and c: "\<forall>k. bal c k = bal (client s) k + e k"
    unfolding effect_def by blast
  have "saved_list l t = saved_list l s" for l by (cases l) (simp_all add: t)
  then have "\<forall>l. grown 0 l s t" by (simp add: grown_same)
  then show "frame t = frame s \<and> (\<forall>l. grown 0 l s t) \<and> (\<forall>k. unsaved bal t k = unsaved bal s k + e k)"
    using c by (simp add: t frame_def unsaved_def all_saved_app)
qed

text \<open>A list entry that records an OID.\<close>

definition saves :: "topo_list \<Rightarrow> string \<Rightarrow> (('c, 'z) topo_scheme, unit) py \<Rightarrow> bool" where
  "saves l oid m \<longleftrightarrow> (\<forall>s. \<exists>t. m s = (Ok (), t) \<and> frame t = frame s \<and> client t = client s \<and>
     (\<forall>l'. length (saved_list l' t) = length (saved_list l' s) + (if l' = l then 1 else 0)) \<and>
     (\<forall>k. count_list (all_saved t) k = count_list (all_saved s) k + (if k = oid then 1 else 0)))"

lemma saved_list_cases: "(\<forall>l. P l) \<longleftrightarrow>
    P BridgePorts \<and> P Lags \<and> P LagMembers \<and> P Vlans \<and> P VlanMembers \<and> P Rifs"
  by (metis topo_list.exhaust)

lemma saves_modify:
  "saves BridgePorts oid (py_modify (\<lambda>s. s\<lparr>def_bridge_port_list := def_bridge_port_list s @ [oid]\<rparr>))"
  "saves Lags oid (py_modify (\<lambda>s. s\<lparr>def_lag_list := def_lag_list s @ [oid]\<rparr>))"
  "saves LagMembers oid (py_modify (\<lambda>s. s\<lparr>def_lag_member_list := def_lag_member_list s @ [oid]\<rparr>))"
  "saves Vlans oid (py_modify (\<lambda>s. s\<lparr>def_vlan_list := def_vlan_list s @ [oid]\<rparr>))"
  "saves VlanMembers oid (py_modify (\<lambda>s. s\<lparr>def_vlan_member_list := def_vlan_member_list s @ [oid]\<rparr>))"
  "saves Rifs oid (py_modify (\<lambda>s. s\<lparr>def_rif_list := def_rif_list s @ [oid]\<rparr>))"
  by (simp_all add: saves_def py_modify_app frame_def all_saved_app saved_list_cases)

lemma builds_save:
  fixes bal :: "'c \<Rightarrow> balance" and m :: "(('c, 'z) topo_scheme, string) py"
  assumes m: "effect bal (\<lambda>oid. one_of oid) m" and a: "\<And>oid. saves l oid (a oid)"
    and rest: "\<And>oid. builds bal d r (rest oid)"
  shows "builds bal (\<lambda>l'. (if l' = l then 1 else 0) + d l') r
    (py_bind m (\<lambda>oid. py_bind (set_named n oid) (\<lambda>_. py_bind (a oid) (\<lambda>_. rest oid))))"
  unfolding builds_def
proof (intro allI impI)
  fix s t :: "('c, 'z) topo_scheme" and x
  assume "py_bind m (\<lambda>oid. py_bind (set_named n oid) (\<lambda>_. py_bind (a oid) (\<lambda>_. rest oid))) s = (Ok x, t)"
  then obtain oid u where u: "m s = (Ok oid, u)"
    and u': "py_bind (a oid) (\<lambda>_. rest oid) (u\<lparr>named := dict_set n oid (named u)\<rparr>) = (Ok x, t)"
    by (auto simp: py_bind_Ok_iff set_named_def py_modify_app)
  from u m obtain c where c: "u = s\<lparr>client := c\<rparr>" "\<forall>k. bal c k = bal (client s) k + one_of oid k"
    unfolding effect_def by blast
  let ?v = "u\<lparr>named := dict_set n oid (named u)\<rparr>"
  from a [of oid] obtain w where w: "a oid ?v = (Ok (), w)" "frame w = frame ?v" "client w = client ?v"
    "\<forall>l'. length (saved_list l' w) = length (saved_list l' ?v) + (if l' = l then 1 else 0)"
    "\<forall>k. count_list (all_saved w) k = count_list (all_saved ?v) k + (if k = oid then 1 else 0)"
    unfolding saves_def by blast
  have f: "frame ?v = frame s" and sl: "\<And>l'. saved_list l' ?v = saved_list l' s"
    and al: "all_saved ?v = all_saved s"
    by (simp_all add: c frame_def all_saved_app) (case_tac l', simp_all)
  have un: "unsaved bal w k = unsaved bal s k" for k
    using c w(3,5) unfolding unsaved_def al by simp
  from u' w(1) have r: "rest oid w = (Ok x, t)" by (auto simp: py_bind_Ok_iff)
  have g: "grown (if l' = l then 1 else 0) l' s w" for l'
    using w(4) by (simp add: grown_def sl)
  have "\<And>l'. grown ((if l' = l then 1 else 0) + d l') l' s t"
    using grown_trans [OF g buildsD(2) [OF rest r]] by blast
  with buildsD [OF rest r] show "frame t = frame s \<and>
     (\<forall>l'. grown ((if l' = l then 1 else 0) + d l') l' s t) \<and>
     (\<forall>k. unsaved bal t k = unsaved bal s k + r (frame s) k)"
    using w(2) by (simp only: f un) simp
qed

lemma unit_bind: "py_bind m (\<lambda>_. py_return ()) = m"
proof -
  have "(\<lambda>_. py_return ()) = (py_return :: unit \<Rightarrow> ('a, unit) py)" by (rule ext) simp
  then show ?thesis by simp
qed

lemma builds_save_last:
  assumes "effect bal (\<lambda>oid. one_of oid) m" and "\<And>oid. saves l oid (a oid)"
  shows "builds bal (\<lambda>l'. if l' = l then 1 else 0) (\<lambda>_ _. 0)
    (py_bind m (\<lambda>oid. py_bind (set_named n oid) (\<lambda>_. a oid)))"
proof -
  have "(\<lambda>oid. py_bind (set_named n oid) (\<lambda>_. a oid)) =
      (\<lambda>oid. py_bind (set_named n oid) (\<lambda>_. py_bind (a oid) (\<lambda>_. py_return ())))"
    by (simp add: unit_bind)
  then show ?thesis
    using builds_save [OF assms builds_return [where x = "()"], where n = n] by simp
qed

section \<open>Removing what was saved\<close>

definition drops :: "('c \<Rightarrow> balance) \<Rightarrow> topo_list set \<Rightarrow> (('c, 'z) topo_scheme, 'a) py \<Rightarrow> bool" where
  "drops bal L m \<longleftrightarrow> (\<forall>s x t. m s = (Ok x, t) \<longrightarrow> frame t = frame s \<and>
     (\<forall>l. saved_list l t = (if l \<in> L then [] else saved_list l s)) \<and>
     (\<forall>k. unsaved bal t k = unsaved bal s k))"

lemma drops_bind:
  assumes "drops bal L m" and "\<And>x. drops bal M (f x)"
  shows "drops bal (L \<union> M) (py_bind m f)"
  unfolding drops_def
proof (intro allI impI)
  fix s x t assume "py_bind m f s = (Ok x, t)"
  then obtain y u where "m s = (Ok y, u)" and "f y u = (Ok x, t)"
    by (auto simp: py_bind_Ok_iff)
  with assms show "frame t = frame s \<and> (\<forall>l. saved_list l t = (if l \<in> L \<union> M then [] else saved_list l s)) \<and>
     (\<forall>k. unsaved bal t k = unsaved bal s k)"
    unfolding drops_def by (metis Un_iff)
qed

lemma drops_return: "drops bal {} (py_return x)"
  by (simp add: drops_def py_return_app)

lemma effect_iter:
  assumes "\<And>x. effect bal (\<lambda>_ k. - one_of x k) (f x)"
  shows "effect bal (\<lambda>_ k. - int (count_list xs k)) (py_iter f xs)"
proof (induction xs)
  case Nil
  show ?case by (auto simp: effect_def py_return_app client_self)
next
  case (Cons x xs)
  have "effect bal (\<lambda>_ k. - int (count_list (x # xs) k)) (py_bind (f x) (\<lambda>_. py_iter f xs))"
  proof (rule effect_bind [OF assms])
    have "(\<lambda>k. - int (count_list (x # xs) k) - - one_of x k) = (\<lambda>k. - int (count_list xs k))" by (rule ext) simp
    then show "effect bal (\<lambda>_ k. - int (count_list (x # xs) k) - - one_of x k) (py_iter f xs)"
      using Cons.IH by (simp only:)
  qed
  then show ?case by (simp only: py_iter.simps)
qed

definition clears :: "topo_list \<Rightarrow> (('c, 'z) topo_scheme \<Rightarrow> ('c, 'z) topo_scheme) \<Rightarrow> bool" where
  "clears l f \<longleftrightarrow> (\<forall>s. frame (f s) = frame s \<and> client (f s) = client s \<and>
     (\<forall>l'. saved_list l' (f s) = (if l' = l then [] else saved_list l' s)) \<and>
     (\<forall>k. count_list (all_saved s) k = count_list (all_saved (f s)) k + count_list (saved_list l s) k))"

lemma clears_modify:
  "clears BridgePorts (\<lambda>s. s\<lparr>def_bridge_port_list := []\<rparr>)"
  "clears Lags (\<lambda>s. s\<lparr>def_lag_list := []\<rparr>)"
  "clears LagMembers (\<lambda>s. s\<lparr>def_lag_member_list := []\<rparr>)"
  "clears Vlans (\<lambda>s. s\<lparr>def_vlan_list := []\<rparr>)"
  "clears VlanMembers (\<lambda>s. s\<lparr>def_vlan_member_list := []\<rparr>)"
  "clears Rifs (\<lambda>s. s\<lparr>def_rif_list := []\<rparr>)"
  by (simp_all add: clears_def frame_def all_saved_app saved_list_cases)

lemma drops_saved:
  fixes bal :: "'c \<Rightarrow> balance" and rest :: "(('c, 'z) topo_scheme, 'a) py"
  assumes rm: "\<And>x. effect bal (\<lambda>_ k. - one_of x k) (rm x :: (('c, 'z) topo_scheme, unit) py)"
    and h: "\<And>xs k. count_list (h xs) k = count_list xs k"
    and g: "\<And>s. g s = saved_list l s" and c: "clears l f" and rest: "drops bal L rest"
  shows "drops bal (insert l L)
    (py_bind (py_get g) (\<lambda>xs. py_bind (py_iter rm (h xs)) (\<lambda>_. py_bind (py_modify f) (\<lambda>_. rest))))"
proof -
  have "drops bal {l} (py_bind (py_get g) (\<lambda>xs. py_bind (py_iter rm (h xs)) (\<lambda>_. py_modify f)))"
    unfolding drops_def
  proof (intro allI impI)
    fix s t :: "('c, 'z) topo_scheme" and x
    assume "py_bind (py_get g) (\<lambda>xs. py_bind (py_iter rm (h xs)) (\<lambda>_. py_modify f)) s = (Ok x, t)"
    then obtain u y where u: "py_iter rm (h (saved_list l s)) s = (Ok y, u)" and t: "t = f u"
      by (auto simp: py_bind_Ok_iff py_get_app py_modify_app g)
    from u effect_iter [OF rm, of "h (saved_list l s)"] obtain c' where u: "u = s\<lparr>client := c'\<rparr>"
      and b: "\<forall>k. bal c' k = bal (client s) k - int (count_list (saved_list l s) k)"
      unfolding effect_def h by fastforce
    have sl: "saved_list l' u = saved_list l' s" for l' by (cases l') (simp_all add: u)
    have al: "all_saved u = all_saved s" by (simp add: u all_saved_app)
    from c have f: "frame t = frame u" "client t = client u"
      "\<forall>l'. saved_list l' t = (if l' = l then [] else saved_list l' u)"
      "\<forall>k. count_list (all_saved u) k = count_list (all_saved t) k + count_list (saved_list l u) k"
      unfolding clears_def t by blast+
    have ct: "client t = c'" using f(2) u by simp
    have "unsaved bal t k = unsaved bal s k" for k
    proof -
      have "count_list (all_saved s) k = count_list (all_saved t) k + count_list (saved_list l s) k"
        using f(4) unfolding al sl by blast
      moreover have "bal (client t) k = bal (client s) k - int (count_list (saved_list l s) k)"
        using b unfolding ct by blast
      ultimately show ?thesis unfolding unsaved_def by linarith
    qed
    moreover have "frame t = frame s" using f(1) by (simp add: u frame_def)
    ultimately show "frame t = frame s \<and> (\<forall>l'. saved_list l' t = (if l' \<in> {l} then [] else saved_list l' s)) \<and>
       (\<forall>k. unsaved bal t k = unsaved bal s k)"
      using f(3) by (simp add: sl)
  qed
  from drops_bind [OF this rest] show ?thesis by (simp add: py_bind_assoc)
qed

lemma drops_saved_last:
  fixes bal :: "'c \<Rightarrow> balance"
  assumes rm: "\<And>x. effect bal (\<lambda>_ k. - one_of x k) (rm x :: (('c, 'z) topo_scheme, unit) py)"
    and h: "\<And>xs k. count_list (h xs) k = count_list xs k"
    and g: "\<And>s. g s = saved_list l s" and c: "clears l f"
  shows "drops bal {l} (py_bind (py_get g) (\<lambda>xs. py_bind (py_iter rm (h xs)) (\<lambda>_. py_modify f)))"
  using drops_saved [where h = h, OF rm h g c drops_return [where x = "()"]] by (simp only: unit_bind)

text \<open>The keys of the two default routes.\<close>

definition route_balance :: "pyval \<times> string \<times> topo_layout \<Rightarrow> balance" where
  "route_balance v k = one_of (route_entry_key (fst v) (fst (snd v)) ''0.0.0.0/0'') k +
     one_of (route_entry_key (fst v) (fst (snd v)) ''::/0'') k"

text \<open>
  What each layout adds to the saved lists. The table of the module lists the same objects but for the
  bridge ports of \<open>lag3\<close> and \<open>lag4\<close>: the code makes one for every LAG.
\<close>

fun layout_size :: "topo_layout \<Rightarrow> topo_list \<Rightarrow> nat" where
  "layout_size L2_basic l = (case l of BridgePorts \<Rightarrow> 4 | Lags \<Rightarrow> 0 | LagMembers \<Rightarrow> 0 | Vlans \<Rightarrow> 2
     | VlanMembers \<Rightarrow> 4 | Rifs \<Rightarrow> 0)"
| "layout_size L2_advanced l = (case l of BridgePorts \<Rightarrow> 6 | Lags \<Rightarrow> 2 | LagMembers \<Rightarrow> 6 | Vlans \<Rightarrow> 2
     | VlanMembers \<Rightarrow> 6 | Rifs \<Rightarrow> 0)"
| "layout_size L3_basic l = (case l of BridgePorts \<Rightarrow> 6 | Lags \<Rightarrow> 2 | LagMembers \<Rightarrow> 6 | Vlans \<Rightarrow> 2
     | VlanMembers \<Rightarrow> 6 | Rifs \<Rightarrow> 4)"
| "layout_size L3_advanced l = (case l of BridgePorts \<Rightarrow> 11 | Lags \<Rightarrow> 5 | LagMembers \<Rightarrow> 14 | Vlans \<Rightarrow> 3
     | VlanMembers \<Rightarrow> 9 | Rifs \<Rightarrow> 7)"

definition has_routes :: "topo_layout \<Rightarrow> bool" where
  "has_routes l \<longleftrightarrow> l \<in> {L3_basic, L3_advanced}"

lemma dict_of_length: "length (dict_of ms) \<le> length ms"
proof -
  have "length (fold (\<lambda>(k, v). dict_set k v) ms d) \<le> length ms + length d" for d :: "(string, string) dict"
  proof (induction ms arbitrary: d)
    case (Cons m ms)
    have "length (dict_set k v d) \<le> Suc (length d)" for k v by (induction d) auto
    with Cons [of "dict_set (fst m) (snd m) d"] show ?case by (cases m) (fastforce intro: le_trans)
  qed simp
  from this [of "[]"] show ?thesis by (simp add: dict_of_def)
qed

section \<open>The builders on an audited client\<close>

locale audited =
  fixes cl :: "'c sai_client" and bal :: "'c \<Rightarrow> balance"
  assumes created_type: "\<And>ty a c r c' oid. c_create cl (OType ty) a True c = (Ok r, c') \<Longrightarrow>
      created_oid r = Ok oid \<Longrightarrow> bal c' = bump oid 1 (bal c)"
    and created_key: "\<And>k a c r c'. c_create cl (OStr k) a True c = (Ok r, c') \<Longrightarrow> bal c' = bump k 1 (bal c)"
    and removed: "\<And>k c r c'. c_remove cl k True c = (Ok r, c') \<Longrightarrow> bal c' = bump k (-1) (bal c)"
    and neutral_set: "\<And>k a b. neutral bal (c_set cl k a b)"
    and neutral_flush: "\<And>k a. neutral bal (c_flush_fdb cl k a)"
begin

lemma create_effect: "effect bal (\<lambda>oid. one_of oid) (npu_create cl ots ty attrs)"
  unfolding effect_def
proof (intro allI impI)
  fix s x t assume "npu_create cl ots ty attrs s = (Ok x, t)"
  then obtain u r c where "c_create cl (OType u) (PList attrs) True (client s) = (Ok r, c)"
    and r: "created_oid r = Ok x" and t: "t = s\<lparr>client := c\<rparr>"
    by (auto simp: npu_create_def py_bind_Ok_iff py_lift_app on_client_Ok)
  from created_type [OF this(1) r] t
  show "\<exists>c. t = s\<lparr>client := c\<rparr> \<and> (\<forall>k. bal c k = bal (client s) k + one_of x k)"
    by (intro exI [of _ c]) (simp add: bump_def)
qed

lemma member_effect: "effect bal (\<lambda>oid. one_of oid) (create_vlan_member cl ots v b m)"
  unfolding create_vlan_member_def by (rule create_effect)

lemma remove_effect: "effect bal (\<lambda>_ k. - one_of obj k) (npu_remove cl obj)"
  unfolding npu_remove_def
proof (rule effect_unit, unfold effect_def, intro allI impI)
  fix s x t assume "on_client (c_remove cl obj True) s = (Ok x, t)"
  then obtain c where "c_remove cl obj True (client s) = (Ok x, c)" and t: "t = s\<lparr>client := c\<rparr>"
    by (auto simp: on_client_Ok)
  from removed [OF this(1)] t
  show "\<exists>c. t = s\<lparr>client := c\<rparr> \<and> (\<forall>k. bal c k = bal (client s) k + - one_of obj k)"
    by (intro exI [of _ c]) (simp add: bump_def)
qed

lemma set_effect: "effect bal (\<lambda>_ _. 0) (npu_set cl obj a v)"
  unfolding npu_set_def sai_set_def
  by (intro effect_unit effect_neutral neutral_intros neutral_set)

lemma bridge_port_effect: "effect bal (\<lambda>_ k. - one_of bp k) (remove_bridge_port cl bp)"
  unfolding remove_bridge_port_def
  by (intro effect_bind0 effect_switch set_effect effect_neutral neutral_flush remove_effect)

lemma builds_set: "builds0 bal (npu_set cl obj a v)"
  by (intro effect_builds set_effect)

lemma builds_named_set: "builds0 bal (named_set cl n a v)"
  unfolding named_set_def by (intro builds_bind0 builds_get_named builds_set)

lemma bp_builds: "builds bal (\<lambda>l. if l = BridgePorts then 1 else 0) (\<lambda>_ _. 0) (create_topo_bp cl ots i)"
  unfolding create_topo_bp_def
  by (intro builds_bind0 builds_get_named builds_save_last create_effect saves_modify)

lemma lag_member_builds:
  "builds bal (\<lambda>l. if l = LagMembers then 1 else 0) (\<lambda>_ _. 0) (create_lag_member cl ots n lag i)"
  unfolding create_lag_member_def
  by (intro builds_bind0 builds_get_named builds_save_last create_effect saves_modify)

lemma bps_builds:
  "builds bal (\<lambda>l. if l = BridgePorts then length ps else 0) (\<lambda>_ _. 0) (create_bridge_ports cl ots ps)"
  unfolding create_bridge_ports_def
  by (rule builds_weaken [OF builds_iter [OF bp_builds]]) auto

lemma lag_builds:
  "builds bal (\<lambda>l. (if l = Lags then 1 else 0) + (if l = BridgePorts then 1 else 0) +
     (if l = LagMembers then length ps else 0)) (\<lambda>_ _. 0) (create_lag_with_members cl ots n ps)"
  unfolding create_lag_with_members_def
  by (rule builds_weaken [OF builds_save [OF create_effect saves_modify(2)
        builds_save [OF create_effect saves_modify(1) builds_iter [OF lag_member_builds]]]]) auto

lemma vlan_members_build:
  "builds bal (\<lambda>l. if l = VlanMembers then length ms else 0) (\<lambda>_ _. 0) (add_vlan_members cl ots n v i ms)"
proof (induction ms arbitrary: i)
  case Nil
  show ?case by (rule builds_mono [where d' = "\<lambda>_. 0"]) (auto intro: builds_return)
next
  case (Cons m ms)
  obtain bp tag where m: "m = (bp, tag)" by (cases m)
  show ?case unfolding m add_vlan_members.simps
    by (rule builds_bind0 [OF builds_lift], rule builds_weaken [OF builds_save [OF member_effect saves_modify(5) Cons.IH]])
      auto
qed

lemma vlan_builds:
  "builds bal (\<lambda>l. (if l = Vlans then 1 else 0) + (if l = VlanMembers then length (dict_of ms) else 0)) (\<lambda>_ _. 0)
     (create_vlan_with_members cl ots n ms)"
  unfolding create_vlan_with_members_def
  by (rule builds_weaken [OF builds_save [OF create_effect saves_modify(4) vlan_members_build]]) auto

lemma rif_builds: "builds bal (\<lambda>l. if l = Rifs then 1 else 0) (\<lambda>_ _. 0) (create_rif cl ots cfg)"
  unfolding create_rif_def Let_def
  by (rule builds_bind0 [OF builds_get], rule builds_bind0)
    (auto intro!: builds_return builds_raise builds_bind0 builds_get_named builds_save_last create_effect saves_modify)

lemma rifs_build: "builds bal (\<lambda>l. if l = Rifs then length cfgs else 0) (\<lambda>_ _. 0)
    (create_routing_interfaces cl ots cfgs)"
  unfolding create_routing_interfaces_def
  by (rule builds_weaken [OF builds_iter [OF rif_builds]]) auto

lemma vlan_builds_le:
  "length ms = n \<Longrightarrow> builds bal (\<lambda>l. (if l = Vlans then 1 else 0) + (if l = VlanMembers then n else 0)) (\<lambda>_ _. 0)
     (create_vlan_with_members cl ots i ms)"
  by (rule builds_mono [OF vlan_builds]) (use dict_of_length [of ms] in auto)

lemma route_run:
  assumes "create_route cl dest v nh a s = (Ok x, t)"
  obtains c where "t = s\<lparr>client := c\<rparr>"
    and "bal c = bump (route_entry_key (switch_oid s) v dest) 1 (bal (client s))"
proof -
  from assms obtain r c where "t = s\<lparr>client := c\<rparr>"
    and "c_create cl (OStr (route_entry_key (switch_oid s) v dest))
       (PList ((if nh \<noteq> [] then [PStr ''SAI_ROUTE_ENTRY_ATTR_NEXT_HOP_ID'', PStr nh] else []) @ a)) True (client s) = (Ok r, c)"
    by (auto simp: create_route_def py_bind_Ok_iff py_get_app py_return_app on_client_Ok)
  with created_key that show thesis by blast
qed

lemma routes_build: "builds bal (\<lambda>_. 0) route_balance (create_default_routes cl)"
  unfolding builds_def
proof (intro allI impI)
  fix s t :: "('c, 'z) topo_scheme" and x assume "create_default_routes cl s = (Ok x, t)"
  then obtain y u where u: "create_route cl ''0.0.0.0/0'' (topo_vrf s) [] drop_action s = (Ok y, u)"
    and t: "create_route cl ''::/0'' (topo_vrf s) [] drop_action u = (Ok x, t)"
    by (auto simp: create_default_routes_def py_bind_Ok_iff py_get_app)
  obtain c where c: "u = s\<lparr>client := c\<rparr>"
    "bal c = bump (route_entry_key (switch_oid s) (topo_vrf s) ''0.0.0.0/0'') 1 (bal (client s))"
    by (rule route_run [OF u])
  obtain c' where c': "t = u\<lparr>client := c'\<rparr>"
    "bal c' = bump (route_entry_key (switch_oid u) (topo_vrf s) ''::/0'') 1 (bal (client u))"
    by (rule route_run [OF t])
  have "saved_list l t = saved_list l s" for l by (cases l) (simp_all add: c c')
  moreover have "all_saved t = all_saved s" by (simp add: c c' all_saved_app)
  ultimately show "frame t = frame s \<and> (\<forall>l. grown 0 l s t) \<and>
      (\<forall>k. unsaved bal t k = unsaved bal s k + route_balance (frame s) k)"
    by (simp add: grown_same unsaved_def frame_def route_balance_def c c' bump_def)
qed

lemma unroutes:
  assumes "destroy_default_routes cl s = (Ok x, t)"
  shows "frame t = frame s" and "saved_list l t = saved_list l s"
    and "unsaved bal t k = unsaved bal s k - route_balance (frame s) k"
proof -
  from assms obtain y u where u: "npu_remove cl (route_entry_key (switch_oid s) (topo_vrf s) ''0.0.0.0/0'') s = (Ok y, u)"
    and t: "npu_remove cl (route_entry_key (switch_oid u) (topo_vrf s) ''::/0'') u = (Ok x, t)"
    by (auto simp: destroy_default_routes_def remove_route_def py_bind_Ok_iff py_get_app)
  from u remove_effect obtain c where c: "u = s\<lparr>client := c\<rparr>"
    "\<forall>k. bal c k = bal (client s) k + - one_of (route_entry_key (switch_oid s) (topo_vrf s) ''0.0.0.0/0'') k"
    unfolding effect_def by blast
  from t remove_effect obtain c' where c': "t = u\<lparr>client := c'\<rparr>"
    "\<forall>k. bal c' k = bal (client u) k + - one_of (route_entry_key (switch_oid u) (topo_vrf s) ''::/0'') k"
    unfolding effect_def by blast
  show "frame t = frame s" by (simp add: c c' frame_def)
  show sl: "saved_list l t = saved_list l s" for l by (cases l) (simp_all add: c c')
  show "unsaved bal t k = unsaved bal s k - route_balance (frame s) k"
    using c(2) c'(2) by (simp add: unsaved_def all_saved_app frame_def route_balance_def c(1) c'(1))
qed

lemma l2_basic_builds: "builds bal (layout_size L2_basic) (\<lambda>_ _. 0) (setup_l2_basic cl ots)"
proof -
  let ?v = "\<lambda>l. (if l = Vlans then 1 else 0) + (if l = VlanMembers then 2 else 0 :: nat)"
  have "builds bal (\<lambda>l. (if l = BridgePorts then length [0::nat, 1, 2, 3] else 0) + (?v l + ?v l))
      (\<lambda>v k. 0 + (0 + 0)) (setup_l2_basic cl ots :: (('c, 'z) topo_scheme, unit) py)"
    unfolding setup_l2_basic_def
    by (intro builds_bind [OF bps_builds] builds_bind0 [OF builds_get_named] builds_bind [OF vlan_builds_le]
        builds_last0 [OF vlan_builds_le] builds_bind0 [OF builds_named_set] builds_named_set) simp_all
  then show ?thesis by (rule builds_weaken) (auto split: topo_list.splits)
qed

lemma join_run:
  assumes "join_vlan cl ots v b m s = (Ok vm, t)"
  shows "frame t = frame s" and "saved_list l t = saved_list l s"
    and "bal (client t) k = bal (client s) k + one_of vm k"
proof -
  from assms obtain vlan bp mode u where u: "create_vlan_member cl ots vlan bp mode s = (Ok vm, u)"
    and t: "t = u\<lparr>named := dict_set m vm (named u)\<rparr>"
    by (auto simp: join_vlan_def get_named_def py_bind_Ok_iff py_get_app py_lift_app set_named_def
        py_modify_app py_return_app)
  from u member_effect obtain c where c: "u = s\<lparr>client := c\<rparr>" "\<forall>k. bal c k = bal (client s) k + one_of vm k"
    unfolding effect_def by blast
  show "frame t = frame s" by (simp add: t c frame_def)
  show "saved_list l t = saved_list l s" by (cases l) (simp_all add: t c)
  show "bal (client t) k = bal (client s) k + one_of vm k" using c by (simp add: t)
qed

lemma join_two_builds:
  "builds bal (\<lambda>l. if l = VlanMembers then 2 else 0) (\<lambda>_ _. 0)
    (py_bind (join_vlan cl ots v b m) (\<lambda>vm1. py_bind (join_vlan cl ots v' b' m') (\<lambda>vm2.
     py_modify (\<lambda>s. s\<lparr>def_vlan_member_list := def_vlan_member_list s @ [vm1, vm2]\<rparr>))))"
  unfolding builds_def
proof (intro allI impI)
  fix s t :: "('c, 'z) topo_scheme" and x
  assume "py_bind (join_vlan cl ots v b m) (\<lambda>vm1. py_bind (join_vlan cl ots v' b' m') (\<lambda>vm2.
     py_modify (\<lambda>s. s\<lparr>def_vlan_member_list := def_vlan_member_list s @ [vm1, vm2]\<rparr>))) s = (Ok x, t)"
  then obtain vm1 u vm2 w where u: "join_vlan cl ots v b m s = (Ok vm1, u)"
    and w: "join_vlan cl ots v' b' m' u = (Ok vm2, w)"
    and t: "t = w\<lparr>def_vlan_member_list := def_vlan_member_list w @ [vm1, vm2]\<rparr>"
    by (auto simp: py_bind_Ok_iff py_modify_app)
  have sl: "saved_list l w = saved_list l s" for l
    using join_run(2) [OF u] join_run(2) [OF w] by simp
  have al: "all_saved w = all_saved s" unfolding all_saved_def by (simp only: sl)
  have b: "bal (client t) k = bal (client s) k + one_of vm1 k + one_of vm2 k" for k
    using join_run(3) [OF u] join_run(3) [OF w] by (simp add: t)
  have c: "count_list (all_saved t) k = count_list (all_saved w) k + count_list [vm1, vm2] k" for k
    by (simp add: t all_saved_app)
  have g: "grown (if l = VlanMembers then 2 else 0) l s t" for l
    unfolding grown_def sl [symmetric] by (cases l) (simp_all add: t)
  have "unsaved bal t k = unsaved bal s k" for k
    unfolding unsaved_def b c al by simp
  moreover have "frame t = frame s" using join_run(1) [OF u] join_run(1) [OF w] by (simp add: t frame_def)
  ultimately show "frame t = frame s \<and> (\<forall>l. grown (if l = VlanMembers then 2 else 0) l s t) \<and>
      (\<forall>k. unsaved bal t k = unsaved bal s k + 0)" using g by simp
qed

lemma l2_advanced_builds:
  "builds bal (\<lambda>l. layout_size L2_advanced l - layout_size L2_basic l) (\<lambda>_ _. 0) (setup_l2_advanced cl ots)"
proof -
  let ?lag = "\<lambda>l. (if l = Lags then 1 else 0) + (if l = BridgePorts then 1 else 0) +
     (if l = LagMembers then length [4::nat, 5, 6] else 0)"
  have eq: "setup_l2_advanced cl ots =
     py_bind (create_lag_with_members cl ots 1 [4, 5, 6]) (\<lambda>_.
     py_bind (create_lag_with_members cl ots 2 [7, 8, 9]) (\<lambda>_.
     py_bind (py_bind (join_vlan cl ots ''vlan10'' ''lag1_bp'' ''vlan10_member2'') (\<lambda>vm1.
       py_bind (join_vlan cl ots ''vlan20'' ''lag2_bp'' ''vlan20_member2'') (\<lambda>vm2.
       py_modify (\<lambda>s. s\<lparr>def_vlan_member_list := def_vlan_member_list s @ [vm1, vm2]\<rparr>)))) (\<lambda>_.
     named_set cl ''lag1'' ''SAI_LAG_ATTR_PORT_VLAN_ID'' ''10'')))"
    by (simp only: setup_l2_advanced_def py_bind_assoc)
  have "builds bal (\<lambda>l. ?lag l + (?lag l + (if l = VlanMembers then 2 else 0))) (\<lambda>v k. 0 + (0 + 0))
      (setup_l2_advanced cl ots :: (('c, 'z) topo_scheme, unit) py)"
    unfolding eq
    by (intro builds_bind builds_last0 [OF join_two_builds] builds_named_set lag_builds [THEN builds_weaken]) auto
  then show ?thesis by (rule builds_weaken) (auto split: topo_list.splits)
qed

lemma l3_basic_builds:
  "builds bal (\<lambda>l. if l = Rifs then 4 else 0) route_balance (setup_l3_basic cl ots)"
  unfolding setup_l3_basic_def
  by (rule builds_weaken [OF builds_bind [OF rifs_build routes_build]]) auto

lemma l3_advanced_builds:
  "builds bal (\<lambda>l. layout_size L3_advanced l - layout_size L3_basic l) (\<lambda>_ _. 0) (setup_l3_advanced cl ots)"
proof -
  let ?lag = "\<lambda>n l. (if l = Lags then 1 else 0) + (if l = BridgePorts then 1 else 0) +
     (if l = LagMembers then n else 0 :: nat)"
  let ?v = "\<lambda>l. (if l = Vlans then 1 else 0) + (if l = VlanMembers then 3 else 0 :: nat)"
  have "builds bal (\<lambda>l. (if l = BridgePorts then length [20::nat, 21] else 0) +
      (?lag 3 l + (?lag 3 l + (?lag 2 l + (?v l + (if l = Rifs then 3 else 0)))))) (\<lambda>v k. 0 + (0 + (0 + (0 + (0 + 0)))))
      (setup_l3_advanced cl ots :: (('c, 'z) topo_scheme, unit) py)"
    unfolding setup_l3_advanced_def
    by (intro builds_bind [OF bps_builds] builds_bind [OF lag_builds [THEN builds_weaken]]
        builds_bind0 [OF builds_get_named] builds_bind [OF vlan_builds_le] rifs_build [THEN builds_weaken]) auto
  then show ?thesis by (rule builds_weaken) (auto split: topo_list.splits)
qed

lemma topology_builds:
  fixes s t :: "('c, 'z) topo_scheme"
  assumes "create_sai_helper_topology cl ots s = (Ok x, t)"
  shows "frame t = frame s" and "grown (layout_size (layout s) l) l s t"
    and "unsaved bal t k = unsaved bal s k + (if has_routes (layout s) then route_balance (frame s) k else 0)"
proof -
  let ?d = "\<lambda>L l. layout_size L l"
  let ?P = "frame t = frame s \<and> (\<forall>l. grown (?d (layout s) l) l s t) \<and>
     (\<forall>k. unsaved bal t k = unsaved bal s k + (if has_routes (layout s) then route_balance (frame s) k else 0))"
  from assms obtain y1 s1 where s1: "setup_l2_basic cl ots s = (Ok y1, s1)"
    and r1: "(if layout s1 = L2_basic then py_return () else py_bind (setup_l2_advanced cl ots) (\<lambda>_.
       if layout s1 = L2_advanced then py_return () else py_bind (setup_l3_basic cl ots) (\<lambda>_.
       if layout s1 = L3_basic then py_return () else setup_l3_advanced cl ots))) s1 = (Ok x, t)"
    by (auto simp: create_sai_helper_topology_def py_bind_Ok_iff py_get_app)
  note b1 = buildsD [OF l2_basic_builds s1]
  have l1: "layout s1 = layout s" using b1(1) by (simp add: frame_def)
  have ?P
  proof (cases "layout s = L2_basic")
    case True
    with r1 l1 have "t = s1" by (simp add: py_return_app)
    with b1 True show ?thesis by (simp add: has_routes_def)
  next
    case n1: False
    with r1 [unfolded l1] obtain y2 s2 where s2: "setup_l2_advanced cl ots s1 = (Ok y2, s2)"
      and r2: "(if layout s = L2_advanced then py_return () else py_bind (setup_l3_basic cl ots) (\<lambda>_.
       if layout s = L3_basic then py_return () else setup_l3_advanced cl ots)) s2 = (Ok x, t)"
      by (auto simp: py_bind_Ok_iff)
    note b2 = buildsD [OF l2_advanced_builds s2]
    have g2: "grown (?d L2_advanced l) l s s2" for l
      using grown_trans [OF b1(2) b2(2), of l] by (cases l) (simp_all add: numeral_2_eq_2)
    have u2: "unsaved bal s2 k = unsaved bal s k" for k using b1(3) b2(3) by simp
    show ?thesis
    proof (cases "layout s = L2_advanced")
      case True
      with r2 have "t = s2" by (simp add: py_return_app)
      with b1(1) b2(1) g2 u2 True show ?thesis by (simp add: has_routes_def)
    next
      case n2: False
      with r2 obtain y3 s3 where s3: "setup_l3_basic cl ots s2 = (Ok y3, s3)"
        and r3: "(if layout s = L3_basic then py_return () else setup_l3_advanced cl ots) s3 = (Ok x, t)"
        by (auto simp: py_bind_Ok_iff)
      note b3 = buildsD [OF l3_basic_builds s3]
      have g3: "grown (?d L3_basic l) l s s3" for l
        using grown_trans [OF g2 b3(2), of l] by (cases l) simp_all
      have f3: "frame s3 = frame s" using b1(1) b2(1) b3(1) by simp
      have u3: "unsaved bal s3 k = unsaved bal s k + route_balance (frame s) k" for k
        using u2 b3(3) b1(1) b2(1) by simp
      show ?thesis
      proof (cases "layout s = L3_basic")
        case True
        with r3 have "t = s3" by (simp add: py_return_app)
        with f3 g3 u3 True show ?thesis by (simp add: has_routes_def)
      next
        case n3: False
        with n1 n2 have L: "layout s = L3_advanced" by (cases "layout s") auto
        from r3 n3 have "setup_l3_advanced cl ots s3 = (Ok x, t)" by simp
        note b4 = buildsD [OF l3_advanced_builds this]
        have "grown (?d L3_advanced l) l s t" for l
          using grown_trans [OF g3 b4(2), of l] by (cases l) simp_all
        with b4(1,3) f3 u3 L show ?thesis by (simp add: has_routes_def)
      qed
    qed
  qed
  then show "frame t = frame s" and "grown (layout_size (layout s) l) l s t"
    and "unsaved bal t k = unsaved bal s k + (if has_routes (layout s) then route_balance (frame s) k else 0)"
    by auto
qed

lemma lists_dropped:
  fixes s t :: "('c, 'z) topo_scheme"
  assumes "py_bind (destroy_routing_interfaces cl) (\<lambda>_. py_bind (destroy_vlans_with_members cl) (\<lambda>_.
     py_bind (destroy_bridge_ports cl) (\<lambda>_. destroy_lags_with_members cl))) s = (Ok x, t)"
  shows "frame t = frame s" and "all_saved t = []" and "unsaved bal t k = unsaved bal s k"
proof -
  have c: "count_list (rev xs) k = count_list xs k" for xs :: "string list" and k by simp
  have "drops bal ({Rifs} \<union> ({VlanMembers, Vlans} \<union> ({BridgePorts} \<union> {LagMembers, Lags})))
    (py_bind (destroy_routing_interfaces cl) (\<lambda>_. py_bind (destroy_vlans_with_members cl) (\<lambda>_.
     py_bind (destroy_bridge_ports cl) (\<lambda>_. destroy_lags_with_members cl))) :: (('c, 'z) topo_scheme, unit) py)"
    unfolding destroy_routing_interfaces_def destroy_vlans_with_members_def destroy_bridge_ports_def
      destroy_lags_with_members_def
    by (intro drops_bind drops_saved_last [where h = rev] drops_saved [where h = "\<lambda>x. x"]
        drops_saved_last [where h = "\<lambda>x. x"] remove_effect bridge_port_effect clears_modify c)
      simp_all
  with assms show "frame t = frame s" and "unsaved bal t k = unsaved bal s k"
    and "all_saved t = []"
    unfolding drops_def all_saved_def by auto
qed

lemma topology_destroyed:
  fixes s t :: "('c, 'z) topo_scheme"
  assumes "destroy_topology cl s = (Ok x, t)"
  shows "all_saved t = []"
    and "unsaved bal t k = unsaved bal s k - (if has_routes (layout s) then route_balance (frame s) k else 0)"
proof -
  from assms obtain y u where
    u: "(if has_routes (layout s) then destroy_default_routes cl else py_return ()) s = (Ok y, u)"
    and t: "py_bind (destroy_routing_interfaces cl) (\<lambda>_. py_bind (destroy_vlans_with_members cl) (\<lambda>_.
     py_bind (destroy_bridge_ports cl) (\<lambda>_. destroy_lags_with_members cl))) u = (Ok x, t)"
    unfolding destroy_topology_def has_routes_def py_bind_Ok_iff py_get_app by auto
  have "unsaved bal u k = unsaved bal s k - (if has_routes (layout s) then route_balance (frame s) k else 0)"
    using u unroutes(3) by (cases "has_routes (layout s)") (auto simp: py_return_app)
  with lists_dropped [OF t] show "all_saved t = []" and
    "unsaved bal t k = unsaved bal s k - (if has_routes (layout s) then route_balance (frame s) k else 0)"
    by simp_all
qed

lemma built_and_destroyed:
  assumes "create_sai_helper_topology cl ots s = (Ok x, t)" and "destroy_topology cl t = (Ok y, u)"
    and "all_saved s = []"
  shows "all_saved u = []" and "bal (client u) = bal (client s)"
proof -
  have f: "frame t = frame s" by (rule topology_builds(1) [OF assms(1)])
  then have l: "layout t = layout s" by (simp add: frame_def)
  show a: "all_saved u = []" by (rule topology_destroyed(1) [OF assms(2)])
  have "unsaved bal u k = unsaved bal s k" for k
    using topology_builds(3) [OF assms(1)] topology_destroyed(2) [OF assms(2)] unfolding l f by simp
  with a assms(3) show "bal (client u) = bal (client s)" by (intro ext) (simp add: unsaved_def)
qed

end

interpretation traced_audit: audited "traced cl" snd for cl :: "'c sai_client"
proof unfold_locales
  fix ty a c r c' oid
  assume "c_create (traced cl) (OType ty) a True c = (Ok r, c')" and "created_oid r = Ok oid"
  then show "snd c' = bump oid 1 (snd c)" by (simp add: traced_def count_created_def counting_Ok)
next
  fix k a c r c' assume "c_create (traced cl) (OStr k) a True c = (Ok r, c')"
  then show "snd c' = bump k 1 (snd c)" by (simp add: traced_def count_created_def counting_Ok)
next
  fix k c r c' assume "c_remove (traced cl) k True c = (Ok r, c')"
  then show "snd c' = bump k (-1) (snd c)" by (simp add: traced_def counting_Ok)
next
  show "neutral snd (c_set (traced cl) k a b)" for k a b
    by (simp add: neutral_def traced_def beside_keeps)
next
  show "neutral snd (c_flush_fdb (traced cl) k a)" for k a
    by (simp add: neutral_def traced_def beside_keeps)
qed

section \<open>The tear-down returns\<close>

text \<open>A client that refuses neither a removal, nor a setting, nor a flush.\<close>

definition obliging :: "'c sai_client \<Rightarrow> bool" where
  "obliging cl \<longleftrightarrow> (\<forall>k c. \<exists>x d. c_remove cl k True c = (Ok x, d)) \<and>
     (\<forall>k a c. \<exists>x d. c_set cl k a True c = (Ok x, d)) \<and>
     (\<forall>k a c. \<exists>x d. c_flush_fdb cl k a c = (Ok x, d))"

definition has_switch :: "('c, 'z) sai_scheme \<Rightarrow> bool" where
  "has_switch s \<longleftrightarrow> (\<exists>sw. switch_oid s = PStr sw)"

lemma total_on_client:
  "(\<And>c. \<exists>x d. m c = (Ok x, d)) \<Longrightarrow> py_total has_switch (on_client m)"
  unfolding py_total_def on_client_Ok has_switch_def by fastforce

lemma total_npu_remove: "obliging cl \<Longrightarrow> py_total has_switch (npu_remove cl obj)"
  unfolding npu_remove_def by (intro total_intros total_on_client) (simp add: obliging_def)

lemma total_npu_set: "obliging cl \<Longrightarrow> py_total has_switch (npu_set cl obj a v)"
  unfolding npu_set_def sai_set_def by (intro total_intros total_on_client) (simp add: obliging_def)

lemma total_switch_obj: "py_total has_switch switch_obj"
  by (auto simp: py_total_def has_switch_def switch_obj_Ok)

lemma total_remove_bridge_port: "obliging cl \<Longrightarrow> py_total has_switch (remove_bridge_port cl bp)"
  unfolding remove_bridge_port_def
  by (intro total_intros total_npu_set total_switch_obj total_npu_remove total_on_client) (simp_all add: obliging_def)

lemma total_destroy_topology: 
  assumes "obliging cl"
  shows "py_total has_switch (destroy_topology cl)"
  unfolding destroy_topology_def destroy_default_routes_def destroy_routing_interfaces_def remove_route_def
    destroy_vlans_with_members_def destroy_bridge_ports_def destroy_lags_with_members_def
  by (intro total_intros total_npu_remove total_remove_bridge_port py_total_modify assms; simp add: has_switch_def)

lemma destroy_returns: "obliging cl \<Longrightarrow> has_switch s \<Longrightarrow> \<exists>u. destroy_topology cl s = (Ok (), u)"
  using py_totalD [OF total_destroy_topology] by fastforce

lemma counting_returns: "m (fst c) = (Ok x, d) \<Longrightarrow> counting f m c = (Ok x, (d, f x (snd c)))"
  by (cases c) (simp add: counting_def)

lemma beside_returns: "m (fst c) = (Ok x, d) \<Longrightarrow> beside m c = (Ok x, (d, snd c))"
  by (cases c) (simp add: beside_def)

lemma obliging_traced:
  fixes cl :: "'c sai_client"
  assumes "obliging cl"
  shows "obliging (traced cl)"
  unfolding obliging_def
proof (intro conjI allI)
  fix k a and c :: "'c \<times> balance"
  from assms obtain x d where "c_remove cl k True (fst c) = (Ok x, d)" unfolding obliging_def by blast
  from counting_returns [where m = "c_remove cl k True", OF this] show "\<exists>x d. c_remove (traced cl) k True c = (Ok x, d)" by (simp add: traced_def)
  from assms obtain x d where "c_set cl k a True (fst c) = (Ok x, d)" unfolding obliging_def by blast
  from beside_returns [where m = "c_set cl k a True", OF this] show "\<exists>x d. c_set (traced cl) k a True c = (Ok x, d)" by (simp add: traced_def)
  from assms obtain x d where "c_flush_fdb cl k a (fst c) = (Ok x, d)" unfolding obliging_def by blast
  from beside_returns [where m = "c_flush_fdb cl k a", OF this] show "\<exists>x d. c_flush_fdb (traced cl) k a c = (Ok x, d)" by (simp add: traced_def)
qed

end
