(* ===== verification/Playback.thy ===== *)
theory Playback imports RecPlayer begin

text \<open>
  A playback as a whole (\<open>Sai.apply_rec\<close> of \<open>common/sai.py\<close>): what of the state before it matters to it, and
  what of it no recording changes.
\<close>

section \<open>What no record changes\<close>

text \<open>
  The player never stores \<open>switch_oid\<close>, not even for a recorded switch: \<open>objects_discovery\<close> reads the
  one of before.
\<close>

abbreviation same_switch :: "pyval \<Rightarrow> ('c, 'z) sai_scheme \<Rightarrow> bool" where
  "same_switch v s \<equiv> switch_oid s = v"

lemma switch_on_client [inv_intros]: "py_inv (same_switch v) (on_client m)"
  by (rule py_inv_on_client) simp

lemma switch_create_alias [inv_intros]: "py_inv (same_switch v) (create_alias n ty oid key)"
  unfolding create_alias_def by (rule py_inv_modify) simp

lemma switch_remove_alias [inv_intros]: "py_inv (same_switch v) (remove_alias n)"
  unfolding remove_alias_def by (rule py_inv_modify) simp

lemma switch_rec_lookup [inv_intros]: "py_inv (same_switch v) (rec_lookup oid)"
  unfolding rec_lookup_def by (intro inv_intros)

lemma switch_rec_store [inv_intros]: "py_inv (same_switch v) (rec_store oid w)"
  unfolding rec_store_def by (rule py_inv_modify) simp

lemma switch_rec_pop [inv_intros]: "py_inv (same_switch v) (rec_pop oid)"
  unfolding rec_pop_def by (intro inv_intros py_inv_modify) simp_all

lemma switch_replace_oids [inv_intros]: "py_inv (same_switch v) (replace_oids oids key)"
  by (induction oids arbitrary: key) (auto intro!: inv_intros)

lemma switch_update_key [inv_intros]: "py_inv (same_switch v) (update_key action key)"
  unfolding update_key_def update_entry_key_oids_def update_oid_key_def Let_def by (intro inv_intros)

lemma switch_attr_oids [inv_intros]: "py_inv (same_switch v) (update_attr_oids b as)"
  by (induction b as rule: update_attr_oids.induct) (auto intro!: inv_intros)

lemma switch_alias_by_key [inv_intros]: "py_inv (same_switch v) (get_alias_by_key k)"
  unfolding get_alias_by_key_def by (intro inv_intros)

lemma switch_discover_ports [inv_intros]: "py_inv (same_switch v) (discover_ports cl meta i oids)"
  by (induction oids arbitrary: i)
    (auto simp: discover_port_def intro!: inv_intros split: prod.splits)

lemma switch_alias_numbered [inv_intros]: "py_inv (same_switch v) (alias_numbered p ty i oids)"
  by (induction oids arbitrary: i) (auto intro!: inv_intros)

lemma switch_discovery [inv_intros]: "py_inv (same_switch v) (objects_discovery cl meta)"
  unfolding objects_discovery_def by (auto intro!: inv_intros split: prod.splits)

lemma switch_rec_alias [inv_intros]: "py_inv (same_switch v) (create_rec_alias cl meta ty as key)"
  unfolding create_rec_alias_def by (intro inv_intros)

lemma switch_remove_rec_alias [inv_intros]: "py_inv (same_switch v) (remove_rec_alias k)"
  unfolding remove_rec_alias_def by (intro inv_intros)

lemma switch_bulk_key [inv_intros]: "py_inv (same_switch v) (bulk_key action ty recorded)"
  unfolding bulk_key_def by (intro inv_intros)

lemma switch_store_new_keys [inv_intros]: "py_inv (same_switch v) (store_new_keys es ks)"
  by (induction es ks rule: store_new_keys.induct) (auto intro!: inv_intros)

lemma switch_process [inv_intros]:
  "py_inv (same_switch v) (process_create cl meta rec)" "py_inv (same_switch v) (process_set cl rec)"
  "py_inv (same_switch v) (process_remove cl rec)" "py_inv (same_switch v) (process_get cl meta rec oids)"
  "py_inv (same_switch v) (process_get_response rec oids)"
  unfolding process_create_def process_set_def process_remove_def process_get_def process_get_response_def Let_def
  by (auto intro!: inv_intros py_inv_modify split: prod.splits)

lemma switch_process_bulk [inv_intros]:
  "py_inv (same_switch v) (process_bulk_create cl meta record)" "py_inv (same_switch v) (process_bulk_set cl record)"
  "py_inv (same_switch v) (process_bulk_remove cl record)"
  unfolding process_bulk_create_def process_bulk_set_def process_bulk_remove_def bulk_entry_def bulk_set_entry_def Let_def
  by (auto intro!: inv_intros split: prod.splits)

lemma switch_play_record [inv_intros]: "py_inv (same_switch v) (play_record cl meta record p)"
  unfolding play_record_def Let_def by (auto intro!: inv_intros split: prod.splits)

lemma switch_play_records: "py_inv (same_switch v) (play_records cl meta records p)"
  by (induction cl meta records p rule: play_records.induct) (auto intro!: inv_intros)

section \<open>What matters to a playback\<close>

text \<open>
  The clean-up of the device, when there is one, works on the world that the client lives in; then only
  the registry and the map differ between two states, and the clean-up empties both.
\<close>

lemma cleanup_forgets:
  "sai_cleanup cl (map_option on_client d) (s\<lparr>objects_registry := reg, rec2vid := m\<rparr>) =
    (case sai_cleanup cl (map_option on_client d) s of
       (Ok u, t) \<Rightarrow> (Ok u, t)
     | (Err e, t) \<Rightarrow> (Err e, t\<lparr>objects_registry := reg, rec2vid := m\<rparr>))"
  by (cases d) (auto simp: sai_cleanup_def py_bind_def py_return_def py_modify_def on_client_def split: prod.splits res.splits)

lemma switch_cleanup: "py_inv (same_switch v) (sai_cleanup cl (map_option on_client d))"
  unfolding sai_cleanup_def by (cases d) (auto intro!: inv_intros py_inv_modify)

lemma apply_rec_forgets:
  shows "fst (apply_rec cl meta (map_option on_client d) lines (s\<lparr>objects_registry := reg, rec2vid := m\<rparr>)) =
      fst (apply_rec cl meta (map_option on_client d) lines s)"
    and "sai_cleanup cl (map_option on_client d) s = (Ok u, v) \<Longrightarrow>
      apply_rec cl meta (map_option on_client d) lines (s\<lparr>objects_registry := reg, rec2vid := m\<rparr>) =
      apply_rec cl meta (map_option on_client d) lines s"
  by (auto simp: apply_rec_def py_bind_def [of "sai_cleanup cl (map_option on_client d)"] cleanup_forgets split: prod.splits res.splits)

lemma switch_apply_rec: "py_inv (same_switch v) (apply_rec cl meta (map_option on_client d) lines)"
  unfolding apply_rec_def by (intro inv_intros switch_cleanup switch_play_records)

lemma apply_rec_switch: "switch_oid (snd (apply_rec cl meta (map_option on_client d) lines s)) = switch_oid s"
  using switch_apply_rec [unfolded py_inv_def] by blast

end
