(* ===== verification/EndToEnd.thy ===== *)
theory EndToEnd imports TopologyAudit Playback begin

text \<open>
  What whole operations do over a server that answers: the Redis operations as a function of the
  response, the two transports side by side, and the playing of records.
\<close>

section \<open>Operations over Redis\<close>


text \<open>The decision on a response of three texts.\<close>

lemma judge_bytes:
  assumes "ascii status"
  shows "judge b [Bytes k, Bytes d, Bytes status] = (if b \<longrightarrow> status = success then Ok status else Err AssertionError)"
  using assms by (simp add: judge_def decode_utf8_def)

lemma operate_bounded:
  assumes "clock_laws E clk" and "asic_channel s = Some c"
  shows "clk (env (snd (redis_operate E cfg obj attrs op s))) \<le> clk (env s) +
    (if starts_with (norm_key obj) ''SAI_OBJECT_TYPE_SWITCH'' \<and> op = ''Screate'' then 120000 else 1000)"
  using takes_operate [OF assms, of cfg obj attrs op]
  by (cases "starts_with (norm_key obj) ''SAI_OBJECT_TYPE_SWITCH'' \<and> op = ''Screate''")
    (auto simp: wait_params_def default_attempts_def)

lemma resolve_known:
  assumes "starts_with oid ''oid:''" and "rd_hget E (asic_db cfg) ''VIDTORID'' oid (env s) = (Ok (Some rid), e)"
    and "ascii rid" and "starts_with rid ''oid:''" and "t \<in> set ots" and "ots_ok ots"
    and "oid = mk_vid t n" and "0 \<le> n" and "n < 2 ^ 48"
  shows "resolve_obj E cfg ots oid s = (Ok (''SAI_OBJECT_TYPE_'' @ ot_name t @ '':'' @ oid), s\<lparr>env := e\<rparr>)"
proof -
  have "vid_to_type ots oid = Ok (''SAI_OBJECT_TYPE_'' @ ot_name t)"
    using vid_to_type_mk assms(5-9) by simp
  moreover have "rid \<noteq> []" using assms(4) by auto
  ultimately show ?thesis
    using assms(1-4)
    by (simp add: resolve_obj_def vid_to_rid_def py_simps chan_ok_def decode_utf8_def)
qed

lemma norm_key_oid:
  assumes "CHR '' '' \<notin> set k" and "\<not> str_in ''bv_id'' k" and "\<not> str_in ''ip_address'' k"
  shows "norm_key k = k"
proof -
  have "str_replace '' '' [] k = k" using assms(1) by (intro str_replace_absent) (auto simp: str_in_iff)
  with assms(2,3) show ?thesis by (simp add: norm_key_def)
qed

text \<open>\<open>create\<close> of an entry by its key, \<open>remove\<close> and \<open>get\<close> of a known object, over Redis.\<close>

lemma redis_create_entry:
  assumes "CHR '':'' \<notin> set ty" and "val_ok (PDict members)" and "ascii status"
    and "redis_answers E cfg (norm_key (entry_key ty members)) (dumps (PList (map PStr as))) ''Screate''
      [k, d, status] n s t" and "n \<le> snd (wait_params (norm_key (entry_key ty members)) ''Screate'')"
  shows "create E cfg ots (redis_transport E cfg) (OStr (entry_key ty members)) (PList (map PStr as)) b s =
    (if b \<longrightarrow> status = success then Ok (if b then Bare (PDict members) else Tagged status (PDict members))
     else Err AssertionError, t)"
proof -
  have dump: "create_attrs (PList (map PStr as)) = Ok (dumps (PList (map PStr as)))"
    by (simp add: create_attrs_def dump_elem_def comp_def)
  have "operate (redis_transport E cfg) (entry_key ty members) (dumps (PList (map PStr as))) ''Screate'' s =
      (Ok (map Bytes [k, d, status]), t)"
    using redis_operate_delivers [OF assms(4) _ assms(5)] by (simp add: redis_transport_def)
  from redis_tr.create_run [OF entry_key_target [OF assms(1,2)] dump this, where do_assert = b]
  show ?thesis using assms(3) by (simp add: judge_bytes)
qed

lemma redis_get_object:
  assumes "resolve_obj E cfg ots oid s = (Ok full, u)" and "ascii status" and "ascii d"
    and "redis_answers E cfg (norm_key full) (dumps (PList (map PStr as))) ''Sget'' [k, d, status] n u t"
    and "n \<le> snd (wait_params (norm_key full) ''Sget'')"
  shows "get_attrs E cfg ots (redis_transport E cfg) oid (PList (map PStr as)) b s =
    (if b \<longrightarrow> status = success
     then Ok (if b then Bare (SaiData (Some d)) else Tagged status (SaiData (Some d))) else Err AssertionError, t)"
proof -
  have "operate (redis_transport E cfg) full (text_attrs (PList (map PStr as))) ''Sget'' u =
      (Ok (map Bytes [k, d, status]), t)"
    using redis_operate_delivers [OF assms(4) _ assms(5)] by (simp add: redis_transport_def text_attrs_def)
  from redis_tr.get_attrs_run [OF assms(1) this, where do_assert = b]
  show ?thesis using assms(2,3) by (simp add: data_reply_def judge_bytes decode_utf8_def)
qed

lemma redis_remove_object:
  assumes "resolve_obj E cfg ots oid s = (Ok full, u)" and "ascii status" and "CHR '' '' \<notin> set full"
    and "redis_answers E cfg (norm_key full) ''{}'' ''Dremove'' [k, d, status] n u t"
    and "n \<le> snd (wait_params (norm_key full) ''Dremove'')"
  shows "remove E cfg ots (redis_transport E cfg) oid b s =
    (if b \<longrightarrow> status = success then Ok status else Err AssertionError, t)"
proof -
  have "str_replace '' '' [] full = full" using assms(3) by (intro str_replace_absent) (auto simp: str_in_iff)
  then have "operate (redis_transport E cfg) (str_replace '' '' [] full) ''{}'' ''Dremove'' u =
      (Ok (map Bytes [k, d, status]), t)"
    using redis_operate_delivers [OF assms(4) _ assms(5)] by (simp add: redis_transport_def)
  from redis_tr.remove_run [OF assms(1) this, where do_assert = b]
  show ?thesis using assms(2) by (simp add: judge_bytes)
qed

lemma unknown_oid_refused:
  assumes "starts_with oid ''oid:''" and "rd_hget E (asic_db cfg) ''VIDTORID'' oid (env s) = (Ok None, e)"
  shows "remove E cfg ots T oid b s = (Err AssertionError, s\<lparr>env := e\<rparr>)"
    and "set_attr E cfg ots T oid attr b s = (Err AssertionError, s\<lparr>env := e\<rparr>)"
    and "get_attrs E cfg ots T oid attrs b s = (Err AssertionError, s\<lparr>env := e\<rparr>)"
  using resolve_obj_unknown [OF assms, of ots]
  by (simp_all add: remove_def set_attr_def get_attrs_def py_bind_app)

lemma alloc_vids_distinct:
  assumes laws: "counter_laws E (asic_db cfg) cnt" and ots: "ots_ok ots"
    and run: "py_map (alloc_vid E cfg ots) os s = (Ok vids, s')"
    and mem: "\<forall>t. OType t \<in> set os \<longrightarrow> t \<in> set ots" and low: "-1 \<le> counter_top cnt s" and high: "counter_top cnt s' < 2 ^ 48"
  shows "distinct vids \<and> list_all2 (\<lambda>o1 vid. \<exists>t. as_obj_type ots o1 = Ok t \<and>
    vid_to_type ots vid = Ok (''SAI_OBJECT_TYPE_'' @ ot_name t)) os vids"
proof -
  from alloc_vids_increasing [OF laws run] obtain ts cs where ts: "rmap (as_obj_type ots) os = Ok ts"
    and len: "length cs = length ts" and vids: "vids = map2 mk_vid ts cs" and inc: "sorted_wrt (<) cs"
    and rng: "\<forall>c \<in> set cs. counter_top cnt s < c \<and> c \<le> counter_top cnt s'" by blast
  have rng': "\<forall>c \<in> set cs. 0 \<le> c \<and> c < 2 ^ 48" using rng low high by force
  have "distinct vids" unfolding vids using mk_vids_distinct [OF inc len rng'] .
  moreover have "list_all2 (\<lambda>o1 vid. \<exists>t. as_obj_type ots o1 = Ok t \<and>
      vid_to_type ots vid = Ok (''SAI_OBJECT_TYPE_'' @ ot_name t)) os (map2 mk_vid ts cs)"
  proof -
    have all2: "list_all2 (\<lambda>x y. as_obj_type ots x = Ok y) os ts" using ts by (simp add: rmap_list_all2)
    have known: "as_obj_type ots (os ! i) = Ok (ts ! i) \<and> ts ! i \<in> set ots" if "i < length os" for i
    proof -
      have eq: "as_obj_type ots (os ! i) = Ok (ts ! i)" using all2 that by (simp add: list_all2_conv_all_nth)
      show ?thesis
      proof (cases "os ! i")
        case (OType t)
        then have "OType t \<in> set os" using that by (metis nth_mem)
        moreover have "ts ! i = t" using eq OType by (simp add: as_obj_type_def)
        ultimately show ?thesis using eq mem by blast
      next
        case (OStr x)
        then show ?thesis using eq by (auto simp: as_obj_type_def dest: obj_type_named_mem split: if_splits)
      qed
    qed
    have lens: "length ts = length os" "length cs = length os" using all2 len by (simp_all add: list_all2_lengthD)
    show ?thesis
      unfolding list_all2_conv_all_nth
    proof (intro conjI allI impI)
      show "length os = length (map2 mk_vid ts cs)" using lens by simp
      fix i assume i: "i < length os"
      have "0 \<le> cs ! i \<and> cs ! i < 2 ^ 48" using rng' i lens by (metis nth_mem)
      with known [OF i] vid_to_type_mk [OF ots, of "ts ! i" "cs ! i"] i lens
      show "\<exists>t. as_obj_type ots (os ! i) = Ok t \<and>
          vid_to_type ots (map2 mk_vid ts cs ! i) = Ok (''SAI_OBJECT_TYPE_'' @ ot_name t)" by simp
    qed
  qed
  ultimately show ?thesis by (simp add: vids)
qed

section \<open>The two transports\<close>

text \<open>
  The texts of the two servers may differ in their spaces: what is compared is the status, the operation
  and the value that the text of the data reads as.
\<close>

lemma transports_agree:
  assumes "redis_answers E cfg (norm_key obj) (dumps_with c' (PList (map PStr xs))) op [CHR ''S'' # rop, d, status] n r r'"
    and "loads d = Ok (PList (map PStr fvs))" and "n \<le> snd (wait_params (norm_key obj) op)"
    and "asic_channel s = Some ch" and "req_open s"
    and "zmq_timeouts Z (zmq_timeout zc (norm_key obj) (zmq_cmd op)) (env s) = (Ok (), e1)"
    and "zmq_send Z (dumps_with True (PList (map PStr (norm_key obj # zmq_cmd op # xs)))) e1 = (Ok (), e2)"
    and "zmq_recv Z e2 = (Ok (dumps_with c (PList (zmq_reply status rop fvs))), e3)"
    and "ascii status" and "ascii rop"
  shows "\<exists>d'. fst (zmq_operate E' Z zc obj (dumps_with c' (PList (map PStr xs))) op s) =
      Ok [Bytes (CHR ''S'' # rop), Bytes d', Bytes status] \<and>
    fst (redis_operate E cfg obj (dumps_with c' (PList (map PStr xs))) op r) =
      Ok [Bytes (CHR ''S'' # rop), Bytes d, Bytes status] \<and>
    to_json (SaiData (Some d')) = to_json (SaiData (Some d))"
proof -
  have "loads (dumps (PList (map PStr fvs))) = Ok (PList (map PStr fvs))"
    by (rule loads_dumps_with) (simp add: vals_ok_strings)
  then have "to_json (SaiData (Some (dumps (PList (map PStr fvs))))) = to_json (SaiData (Some d))"
    using assms(2) by (simp add: to_json_def del: dumps_with.simps)
  then show ?thesis
    using redis_operate_delivers [OF assms(1) _ assms(3)] zmq_operate_delivers [OF assms(4-10)]
    by (intro exI [of _ "dumps (PList (map PStr fvs))"]) (simp add: redis_reply_def del: dumps_with.simps)
qed

section \<open>Playing records\<close>

lemma update_key_oid:
  assumes "CHR '':'' \<notin> set ty" and "CHR ''{'' \<notin> set ty" and "CHR ''{'' \<notin> set oid"
    and "map_of (rec2vid s) oid = Some (PStr vid)"
  shows "update_key a (ty @ '':'' @ oid) s =
    (if a \<in> {''c'', ''C''} then (Ok ty, s)
     else if a \<in> {''g'', ''s'', ''S''} then (Ok (ty @ '':'' @ vid), s)
     else if a \<in> {''r'', ''R''} then (Ok (ty @ '':'' @ vid), s\<lparr>rec2vid := dict_del oid (rec2vid s)\<rparr>)
     else (Ok (ty @ '':'' @ oid), s))"
proof -
  have "\<not> str_in ''{'' (ty @ '':'' @ oid)" using assms(2,3) by (intro str_in_no_char [of "CHR ''{''"]) auto
  then have "update_key a (ty @ '':'' @ oid) s = update_oid_key a (ty @ '':'' @ oid) s"
    by (simp add: update_key_def)
  also have "\<dots> = (if a \<in> {''c'', ''C''} then (Ok ty, s)
     else if a \<in> {''g'', ''s'', ''S''} then (Ok (ty @ '':'' @ vid), s)
     else if a \<in> {''r'', ''R''} then (Ok (ty @ '':'' @ vid), s\<lparr>rec2vid := dict_del oid (rec2vid s)\<rparr>)
     else (Ok (ty @ '':'' @ oid), s))"
    using assms(1,4) str_split1_single [OF assms(1), of oid]
    by (simp add: update_oid_key_def Let_def nth_res_def rec_lookup_def rec_pop_def dict_getitem_def py_simps)
  finally show ?thesis .
qed

text \<open>The object types for which the player registers an alias.\<close>

definition alias_types :: "string list" where
  "alias_types = [''SAI_OBJECT_TYPE_SWITCH'', ''SAI_OBJECT_TYPE_PORT'', ''SAI_OBJECT_TYPE_VLAN'',
     ''SAI_OBJECT_TYPE_LAG_MEMBER'', ''SAI_OBJECT_TYPE_ROUTER_INTERFACE'', ''SAI_OBJECT_TYPE_ROUTE_ENTRY'']"

lemma process_create_aliased:
  assumes "CHR '':'' \<notin> set ty" and "CHR ''{'' \<notin> set ty" and "CHR ''{'' \<notin> set oid" and "CHR ''{'' \<notin> set vid"
    and "update_attr_oids False (split_attrs fs) s = (Ok as, s)"
    and "c_create cl (OStr ty) (PList as) False (client s) = (Ok (Tagged success (PStr vid)), c)"
  shows "process_create cl meta (''c'' # (ty @ '':'' @ oid) # fs) s =
    py_bind (create_rec_alias cl meta ty as (PStr vid)) (\<lambda>_. py_return success)
      (s\<lparr>client := c, rec2vid := dict_set oid (PStr vid) (rec2vid s)\<rparr>)"
proof -
  have key: "update_key ''c'' (ty @ '':'' @ oid) s = (Ok ty, s)"
  proof -
    have "\<not> str_in ''{'' (ty @ '':'' @ oid)" using assms(2,3) by (intro str_in_no_char [of "CHR ''{''"]) auto
    then show ?thesis using update_oid_key_create [OF assms(1), of "''c''" oid s] by (simp add: update_key_def)
  qed
  have brace: "\<not> str_in ''{'' vid" using assms(4) by (intro str_in_no_char [of "CHR ''{''"]) auto
  have hd: "hd (str_split '':'' ty) = ty"
  proof -
    have "\<not> str_in '':'' ty" using assms(1) by (intro str_in_no_char [of "CHR '':''"]) auto
    then have "str_cut '':'' ty = None" by (simp add: str_cut_None del: str_in.simps)
    then show ?thesis by (simp add: str_split_None)
  qed
  show ?thesis
    using assms(5,6) str_split1_single [OF assms(1), of oid] brace
    by (simp add: process_create_def py_bind_app nth_res_def py_lift_app key [simplified] on_client_app hd
        rec_store_def py_modify_app py_return_app del: str_in.simps)
qed

lemma process_create_run:
  assumes "CHR '':'' \<notin> set ty" and "CHR ''{'' \<notin> set ty" and "CHR ''{'' \<notin> set oid" and "CHR ''{'' \<notin> set vid"
    and "ty \<notin> set alias_types"
    and "update_attr_oids False (split_attrs fs) s = (Ok as, s)"
    and "c_create cl (OStr ty) (PList as) False (client s) = (Ok (Tagged success (PStr vid)), c)"
  shows "process_create cl meta (''c'' # (ty @ '':'' @ oid) # fs) s =
    (Ok success, s\<lparr>client := c, rec2vid := dict_set oid (PStr vid) (rec2vid s)\<rparr>)"
proof -
  let ?u = "s\<lparr>client := c, rec2vid := dict_set oid (PStr vid) (rec2vid s)\<rparr>"
  have "create_rec_alias cl meta ty as (PStr vid) ?u = (Ok (), ?u)"
    using assms(5) by (simp add: create_rec_alias_def alias_types_def py_return_app)
  then show ?thesis unfolding process_create_aliased [OF assms(1-4,6,7)] by (simp add: py_bind_app py_return_app)
qed

text \<open>A recorded switch on a \<open>Sai\<close> that has none yet: the discovery asks the missing one.\<close>

lemma recorded_switch_undiscovered:
  assumes "CHR ''{'' \<notin> set oid" and "CHR ''{'' \<notin> set vid" and "switch_oid s = PNone"
    and "update_attr_oids False (split_attrs fs) s = (Ok as, s)"
    and "c_create cl (OStr ''SAI_OBJECT_TYPE_SWITCH'') (PList as) False (client s) = (Ok (Tagged success (PStr vid)), c)"
  shows "\<exists>t. process_create cl meta (''c'' # (''SAI_OBJECT_TYPE_SWITCH'' @ '':'' @ oid) # fs) s = (Err AttributeError, t)"
proof -
  let ?u = "s\<lparr>client := c, rec2vid := dict_set oid (PStr vid) (rec2vid s)\<rparr>"
  have "\<exists>t. create_rec_alias cl meta ''SAI_OBJECT_TYPE_SWITCH'' as (PStr vid) ?u = (Err AttributeError, t)"
    using assms(3) by (simp add: create_rec_alias_def objects_discovery_def create_alias_def oid_obj_def py_bind_def
        py_get_def py_lift_def py_modify_def)
  then obtain t where "create_rec_alias cl meta ''SAI_OBJECT_TYPE_SWITCH'' as (PStr vid) ?u = (Err AttributeError, t)" ..
  then have "py_bind (create_rec_alias cl meta ''SAI_OBJECT_TYPE_SWITCH'' as (PStr vid)) (\<lambda>_. py_return success) ?u =
      (Err AttributeError, t)" by (simp only: py_bind_app) simp
  moreover have "CHR '':'' \<notin> set ''SAI_OBJECT_TYPE_SWITCH''" "CHR ''{'' \<notin> set ''SAI_OBJECT_TYPE_SWITCH''" by simp_all
  ultimately show ?thesis using process_create_aliased [OF _ _ assms(1,2,4,5)] by metis
qed

lemma process_remove_run:
  assumes "CHR '':'' \<notin> set ty" and "CHR ''{'' \<notin> set ty" and "CHR ''{'' \<notin> set oid"
    and "map_of (rec2vid s) oid = Some (PStr vid)"
    and "c_remove cl (ty @ '':'' @ vid) True (client s) = (Ok st, c)"
    and "alias_by_key (PStr (ty @ '':'' @ vid)) (objects_registry s) = Ok al"
  shows "process_remove cl (''r'' # (ty @ '':'' @ oid) # fs) s =
    (Ok (), s\<lparr>client := c, rec2vid := dict_del oid (rec2vid s), objects_registry := dict_del al (objects_registry s)\<rparr>)"
  using assms(5,6) update_key_oid [OF assms(1-4), of "''r''"]
  by (simp add: process_remove_def py_bind_app nth_res_def py_lift_app on_client_app remove_rec_alias_def
      get_alias_by_key_def py_get_app remove_alias_def py_modify_app)

text \<open>An alias whose object has an OID is not found under the type and the OID.\<close>

definition oid_entries :: "registry \<Rightarrow> bool" where
  "oid_entries reg = list_all (\<lambda>(name, e). name \<noteq> [] \<and> e_key e = PNone \<and>
     (\<exists>o1. e_oid e = PStr (''oid:'' @ o1))) reg"

lemma remove_keeps_aliases:
  assumes "oid_entries reg" and "ty \<noteq> ''oid''" and "CHR '':'' \<notin> set ty"
  shows "alias_by_key (PStr (ty @ '':'' @ vid)) reg = Ok []" and "dict_del [] reg = reg"
proof -
  have ne: "''oid:'' @ o1 \<noteq> ty @ '':'' @ vid" for o1
  proof
    assume "''oid:'' @ o1 = ty @ '':'' @ vid"
    then have "str_split1 '':'' (''oid'' @ '':'' @ o1) = str_split1 '':'' (ty @ '':'' @ vid)" by simp
    then show False
      using assms(2) str_split1_single [OF assms(3), of vid] str_split1_single [of "CHR '':''" "''oid''" o1] by simp
  qed
  show "alias_by_key (PStr (ty @ '':'' @ vid)) reg = Ok []"
    using assms(1) ne by (intro alias_by_key_none) (fastforce simp: oid_entries_def list_all_iff)
  show "dict_del [] reg = reg"
    using assms(1) by (intro dict_del_new) (auto simp: oid_entries_def list_all_iff)
qed

end
