(* ===== verification/Instances.thy ===== *)
theory Instances imports EndToEnd begin

text \<open>
  Concrete instances of the parameters, on which the theorems are applied: a Redis server in
  memory that answers every request with a given response, a ZMQ peer, object types, and a client
  that serves a table of attributes and numbers the objects it creates.
\<close>

section \<open>Object types and configuration\<close>

definition demo_types :: "sai_obj_type list" where
  "demo_types = map2 SaiObjType
     [''PORT'', ''LAG'', ''SWITCH'', ''VLAN'', ''VLAN_MEMBER'', ''BRIDGE_PORT'', ''LAG_MEMBER'', ''ROUTER_INTERFACE'']
     [1, 2, 33, 38, 39, 58, 26, 6]"

definition demo_cfg :: redis_cfg where
  "demo_cfg = \<lparr>server_ip = PStr ''localhost'', loglevel = PStr ''NOTICE'', port = PInt 6379, libsaivs = PBool True,
     asic_db = 1, restart_query = ''RESTARTQUERY'', is_dut_mbr = False\<rparr>"

definition demo_zmq_cfg :: zmq_cfg where
  "demo_zmq_cfg = \<lparr>zmq_endpoint = ''tcp://127.0.0.1:5555'', zmq_timeout_ms = 60000\<rparr>"

section \<open>A Redis server in memory\<close>

text \<open>
  The pending response, the counter of virtual IDs, the known OIDs, the time slept, the requests
  received (last first) and what the ZMQ peer has received.
\<close>

record mem =
  m_response :: "string list"
  m_counter :: "int option"
  m_rids :: "(string \<times> string) list"
  m_clock :: nat
  m_requests :: "string list list"
  m_zmq :: string

definition demo_mem :: mem where
  "demo_mem = \<lparr>m_response = [], m_counter = None, m_rids = [(''oid:0x1000000000002'', ''oid:0x7'')], m_clock = 0,
     m_requests = [], m_zmq = []\<rparr>"

text \<open>The server answers a request with \<open>response\<close>.\<close>

definition demo_redis :: "string list \<Rightarrow> mem redis_env" where
  "demo_redis response =
     \<lparr>rd_delete = (\<lambda>_ _ e. (Ok 1, e\<lparr>m_response := []\<rparr>)),
      rd_lrange = (\<lambda>_ _ e. (Ok (m_response e), e)),
      rd_lpush = (\<lambda>_ _ vs e. (Ok (), e\<lparr>m_response := response, m_requests := vs # m_requests e\<rparr>)),
      rd_rpush = (\<lambda>_ _ _ e. (Ok (), e)),
      rd_publish = (\<lambda>_ _ _ e. (Ok (), e)),
      rd_numsub = (\<lambda>_ _ e. (Ok 1, e)),
      rd_get = (\<lambda>_ _ e. (Ok (map_option int_str (m_counter e)), e)),
      rd_set = (\<lambda>_ _ _ e. (Ok (), e\<lparr>m_counter := Some 0\<rparr>)),
      rd_incr = (\<lambda>_ _ e. let n = (case m_counter e of None \<Rightarrow> 0 | Some c \<Rightarrow> c) + 1 in (Ok n, e\<lparr>m_counter := Some n\<rparr>)),
      rd_hget = (\<lambda>_ _ f e. (Ok (map_of (m_rids e) f), e)),
      rd_hgetall = (\<lambda>_ _ e. (Ok [], e)),
      rd_hset = (\<lambda>_ _ _ e. (Ok (), e)),
      rd_hdel = (\<lambda>_ _ _ e. (Ok (), e)),
      rd_hmget = (\<lambda>_ _ fs e. (Ok (map (\<lambda>_. None) fs), e)),
      rd_exists = (\<lambda>_ _ e. (Ok 0, e)),
      rd_sadd = (\<lambda>_ _ _ e. (Ok (), e)),
      rd_scan = (\<lambda>_ _ _ e. (Ok ([], 0), e)),
      rd_flushdb = (\<lambda>_ e. (Ok (), e)),
      rd_flushall = (\<lambda>_ e. (Ok (), e)),
      rd_shutdown = (\<lambda>_ e. (Ok (), e)),
      sleep_ms = (\<lambda>ms e. (Ok (), e\<lparr>m_clock := m_clock e + ms\<rparr>)),
      connect_to = (\<lambda>_ _ e. (Ok True, e))\<rparr>"

definition demo_rclient :: "mem rclient" where
  "demo_rclient = \<lparr>asic_channel = Some ''ASIC_STATE_CHANNEL'', env = demo_mem\<rparr>"

text \<open>A ZMQ peer whose answer is given, or that does not answer.\<close>

definition demo_zmq :: "string res \<Rightarrow> mem zmq_env" where
  "demo_zmq answer =
     \<lparr>zmq_context = (\<lambda>e. (Ok (), e)), zmq_socket = (\<lambda>_ e. (Ok (), e)), zmq_close = (\<lambda>e. (Ok (), e)),
      zmq_destroy = (\<lambda>e. (Ok (), e)), zmq_timeouts = (\<lambda>_ e. (Ok (), e)),
      zmq_send = (\<lambda>txt e. (Ok (), e\<lparr>m_zmq := txt\<rparr>)),
      zmq_recv = (\<lambda>e. (answer, e)),
      tcp_connect = (\<lambda>_ _ e. (Err OSError, e)),
      path_exists = (\<lambda>_ e. (Ok False, e))\<rparr>"

definition demo_zclient :: "mem zclient" where
  "demo_zclient = \<lparr>asic_channel = Some ''tcp://127.0.0.1:5555'', env = demo_mem, req_open = True, ctx_open = True\<rparr>"

lemma demo_clock: "clock_laws (demo_redis r) m_clock"
  by (simp add: clock_laws_def demo_redis_def)

lemma demo_counter: "counter_laws (demo_redis r) db m_counter"
  by (auto simp: counter_laws_def demo_redis_def Let_def)

section \<open>A client in memory\<close>

text \<open>
  Attribute values by object and attribute; objects are numbered, a key given as a string names
  itself. Removing \<open>oid:0xdead\<close> fails, and so does creating an object type that is not known.
\<close>

type_synonym table = "(string \<times> string \<times> string) list"

definition table_get :: "table \<Rightarrow> string \<Rightarrow> pyval \<Rightarrow> string \<times> sai_data" where
  "table_get tbl obj attrs = (case attrs of
     PList (PStr a # _) \<Rightarrow> (case filter (\<lambda>(o1, b, _). o1 = obj \<and> b = a) tbl of
         (_, _, v) # _ \<Rightarrow> (success, reply_data a v)
       | [] \<Rightarrow> (''SAI_STATUS_ITEM_NOT_FOUND'', reply_data a []))
   | _ \<Rightarrow> (''SAI_STATUS_INVALID_PARAMETER'', reply_data [] []))"

definition demo_client :: "table \<Rightarrow> nat sai_client" where
  "demo_client tbl =
     \<lparr>c_create = (\<lambda>obj attrs b n. let oid = PStr (''oid:'' @ int_hex (int n)) in
        if obj = OStr ''SAI_OBJECT_TYPE_NULL'' then (Err AssertionError, n)
        else (Ok (if b then Bare oid else Tagged success oid), Suc n)),
      c_remove = (\<lambda>obj b n. if obj = ''oid:0xdead'' then (Err AssertionError, n) else (Ok success, n)),
      c_set = (\<lambda>obj attr b n. (Ok success, n)),
      c_get = (\<lambda>obj attrs b n. case table_get tbl obj attrs of (st, d) \<Rightarrow>
        (if b then (if st = success then Ok (Bare d) else Err AssertionError) else Ok (Tagged st d), n)),
      c_vid_to_type = (\<lambda>v n. (Ok ''SAI_OBJECT_TYPE_PORT'', n)),
      c_bulk_create = (\<lambda>o1 ks vs k b n. (Ok (success, [], []), n)),
      c_bulk_remove = (\<lambda>o1 ks b n. (Ok (success, []), n)),
      c_bulk_set = (\<lambda>o1 ks vs b n. (Ok (success, []), n)),
      c_flush_fdb = (\<lambda>o1 a n. (Ok (), n)),
      c_sleep = (\<lambda>ms n. (Ok (), n)),
      c_cleanup = (\<lambda>n. (Ok (), 0)),
      c_pre_shutdown = (\<lambda>k n. (Ok (), n)),
      c_warm_shutdown = (\<lambda>k n. (Ok (), n)),
      c_verify_restore = (\<lambda>k n. (Ok (), n))\<rparr>"

text \<open>The same client, but it refuses no removal.\<close>

definition demo_kind :: "nat sai_client" where
  "demo_kind = (demo_client [])\<lparr>c_remove := \<lambda>obj b n. (Ok success, n)\<rparr>"

lemma demo_kind_obliging: "obliging demo_kind"
  by (simp add: obliging_def demo_kind_def demo_client_def)

definition demo_port :: entry where
  "demo_port = \<lparr>e_type = PStr ''SAI_OBJECT_TYPE_PORT'', e_oid = PStr ''oid:0x1'', e_key = PNone\<rparr>"

definition demo_sai :: "nat sai" where
  "demo_sai = \<lparr>objects_registry = [(''P1'', demo_port)], switch_oid = PStr ''oid:0x21000000000000'',
     rec2vid = [(''oid:0xa'', PStr ''oid:0xb'')], client = 5\<rparr>"

definition demo_npu :: "nat npu" where
  "demo_npu = (npu_init_state 5)\<lparr>switch_oid := PStr ''oid:0x21000000000000'', default_vrf_oid := ''oid:0x3'',
     port_oids := [''oid:0x1'', ''oid:0x2''], dot1q_bp_oids := []\<rparr>"

text \<open>A topology of the first layout, with four named ports.\<close>

definition demo_topo :: "topo_layout \<Rightarrow> (nat \<times> balance) topo" where
  "demo_topo l = \<lparr>objects_registry = [], switch_oid = PStr ''oid:0x21'', rec2vid = [], client = (5, \<lambda>_. 0),
     dot1q_br_oid = ''oid:0x39'', default_vlan_oid = ''oid:0x26'', default_vlan_id = ''1'',
     default_vrf_oid = ''oid:0x3'', port_oids = [], dot1q_bp_oids = [], sku_config = None,
     layout = l, topo_vrf = ''oid:0x3'', named = name_ports 0 [''oid:0xa0'', ''oid:0xa1'', ''oid:0xa2'', ''oid:0xa3''] [],
     def_bridge_port_list = [], def_lag_list = [], def_lag_member_list = [], def_vlan_list = [],
     def_vlan_member_list = [], def_rif_list = [], saved_members = []\<rparr>"

section \<open>A creation in memory\<close>

abbreviation demo_created :: "mem redis_env" where
  "demo_created \<equiv> demo_redis [''Screate'', ''[]'', ''SAI_STATUS_SUCCESS'']"

lemma demo_lag_vid: "mk_vid (SaiObjType ''LAG'' 2) 1 = ''oid:0x2000000000001''"
  by (simp add: mk_vid_def int_hex_def nat_digits.simps digit_char_def) (simp add: char_of_def bit_0)

lemma demo_lag: "as_obj_type demo_types (OStr ''SAI_OBJECT_TYPE_LAG'') = Ok (SaiObjType ''LAG'' 2)"
  by code_simp

lemma demo_switch: "switch_member demo_types = Ok (SaiObjType ''SWITCH'' 33)"
  by code_simp

lemma demo_target:
  "create_target (demo_redis r) demo_cfg demo_types (OStr ''SAI_OBJECT_TYPE_LAG'') demo_rclient =
   (Ok (''SAI_OBJECT_TYPE_LAG:oid:0x2000000000001'', PStr ''oid:0x2000000000001''),
    demo_rclient\<lparr>env := demo_mem\<lparr>m_counter := Some 1\<rparr>\<rparr>)"
  by (simp add: create_target_def alloc_vid_def demo_lag demo_switch py_simps demo_lag_vid demo_redis_def
      demo_rclient_def demo_mem_def)

lemma demo_exchange:
  "fst (operate (redis_transport demo_created demo_cfg) ''SAI_OBJECT_TYPE_LAG:oid:0x2000000000001'' txt ''Screate''
     (demo_rclient\<lparr>env := demo_mem\<lparr>m_counter := Some 1\<rparr>\<rparr>)) = Ok (map Bytes [''Screate'', ''[]'', ''SAI_STATUS_SUCCESS''])"
  by code_simp

lemma demo_create:
  "fst (create demo_created demo_cfg demo_types (redis_transport demo_created demo_cfg)
     (OStr ''SAI_OBJECT_TYPE_LAG'') (PList (map PStr as)) True demo_rclient) = Ok (Bare (PStr ''oid:0x2000000000001''))"
proof -
  have attrs: "create_attrs (PList (map PStr as)) = Ok (dumps (PList (map PStr as)))"
    by (simp add: create_attrs_def dump_elem_def comp_def)
  obtain t where "operate (redis_transport demo_created demo_cfg) ''SAI_OBJECT_TYPE_LAG:oid:0x2000000000001''
      (dumps (PList (map PStr as))) ''Screate'' (demo_rclient\<lparr>env := demo_mem\<lparr>m_counter := Some 1\<rparr>\<rparr>) =
    (Ok (map Bytes [''Screate'', ''[]'', ''SAI_STATUS_SUCCESS'']), t)"
    using demo_exchange [of "dumps (PList (map PStr as))"] by (metis prod.collapse)
  from redis_tr.create_run [OF demo_target attrs this, where do_assert = True]
  show ?thesis by (simp add: judge_bytes success_def)
qed

section \<open>An exchange in memory\<close>

abbreviation demo_answer :: "string list" where
  "demo_answer \<equiv> [''Sgetresponse'', ''[]'', ''SAI_STATUS_SUCCESS'']"

definition after_request :: "string list \<Rightarrow> mem rclient \<Rightarrow> mem rclient" where
  "after_request req s = s\<lparr>env := (env s)\<lparr>m_response := [], m_requests := req # m_requests (env s)\<rparr>\<rparr>"

lemma demo_answers:
  "length resp = 3 \<Longrightarrow> redis_answers (demo_redis resp) demo_cfg key attrs op resp 0 demo_rclient
     (after_request [key, attrs, op] demo_rclient)"
  by (simp add: redis_answers_def demo_rclient_def on_env_app demo_redis_def demo_mem_def arrives_0 after_request_def)

lemma demo_types_ok: "ots_ok demo_types"
  by code_simp

lemma demo_topology_run:
  "create_sai_helper_topology (traced demo_kind) demo_types (demo_topo L2_basic) =
   (Ok (), snd (create_sai_helper_topology (traced demo_kind) demo_types (demo_topo L2_basic)))"
proof -
  have "fst (create_sai_helper_topology (traced demo_kind) demo_types (demo_topo L2_basic)) = Ok ()" by code_simp
  then show ?thesis by (metis prod.collapse)
qed

lemma demo_topo_empty: "all_saved (demo_topo l) = []" "switch_oid (demo_topo l) = PStr ''oid:0x21''"
  by (simp_all add: demo_topo_def all_saved_app)

section \<open>Commands, lists and metadata\<close>

definition demo_commands :: "command list" where
  "demo_commands =
     [[(''name'', PStr ''P1''), (''op'', PStr ''create''), (''type'', PStr ''SAI_OBJECT_TYPE_PORT'')],
      [(''name'', PStr ''P1''), (''op'', PStr ''get''), (''attributes'', PList [])]]"

definition demo_session :: "mem rclient sai" where
  "demo_session = \<lparr>objects_registry = [(''P1'', demo_port)], switch_oid = PNone, rec2vid = [], client = demo_rclient\<rparr>"

definition demo_bulk :: "string list" where
  "demo_bulk = [''Sbulkcreate'', dumps (PList [PStr ''SAI_STATUS_SUCCESS'', PStr ''X'', PStr ''SAI_STATUS_SUCCESS'', PStr ''X'']),
     ''SAI_STATUS_SUCCESS'']"

lemma demo_bulk_run:
  "fst (bulk_create (demo_redis demo_bulk) demo_cfg demo_types (redis_transport (demo_redis demo_bulk) demo_cfg)
     (OStr ''SAI_OBJECT_TYPE_ROUTE_ENTRY'') (Some [PStr ''a'', PStr ''b'']) [PList []] 0 True demo_rclient) =
   Ok (''SAI_STATUS_SUCCESS'', [''a'', ''b''], [PStr ''SAI_STATUS_SUCCESS'', PStr ''SAI_STATUS_SUCCESS''])"
  by code_simp

text \<open>A client that holds one list.\<close>

definition list_client :: "string list \<Rightarrow> nat sai_client" where
  "list_client xs = (demo_client [])\<lparr>c_get := \<lambda>obj attrs b n. (case attrs of
     PList [PStr a, PStr v] \<Rightarrow> (case list_answer a xs v of (status, data) \<Rightarrow>
        (if b then (if status = success then Ok (Bare data) else Err AssertionError) else Ok (Tagged status data), n))
   | _ \<Rightarrow> (Err TypeError, n))\<rparr>"

lemma list_client_serves: "serves_list (list_client xs) obj attr xs n"
  by (simp add: serves_list_def list_client_def split: prod.splits)

text \<open>Metadata of two list attributes, and an SKU with one port.\<close>

definition demo_meta :: pyval where
  "demo_meta = PList [PDict [(''name'', PStr ''SAI_OBJECT_TYPE_PORT''), (''attributes'', PList (map
     (\<lambda>a. PDict [(''name'', PStr a), (''properties'', PDict [(''type'', PStr ''sai_object_list_t'')])])
     [''SAI_SWITCH_ATTR_PORT_LIST'', ''SAI_VLAN_ATTR_MEMBER_LIST'']))]]"

definition demo_sku :: pyval where
  "demo_sku = PDict [(''speed'', PInt 10000), (''port'', PList [PDict [(''lanes'', PStr ''1,2'')]])]"

definition demo_switch_table :: table where
  "demo_switch_table = [(''oid:0x21'', ''SAI_SWITCH_ATTR_PORT_LIST'', ''1:oid:0x5''),
     (''oid:0x26'', ''SAI_VLAN_ATTR_MEMBER_LIST'', ''0:'')]"

definition demo_switch_npu :: "nat npu" where
  "demo_switch_npu = (npu_init_state 5)\<lparr>switch_oid := PStr ''oid:0x21'', default_vlan_oid := ''oid:0x26'',
     default_vlan_id := ''1''\<rparr>"

end
