(* ===== verification/IpAddress.thy ===== *)
theory IpAddress imports PyString begin

text \<open>
  What the code uses of Python's \<open>ipaddress\<close>: IPv4 and IPv6 addresses as numbers, their texts, and
  the network address and mask of a prefix. An address is a number below \<open>2 ^ 32\<close> or \<open>2 ^ 128\<close>;
  \<open>AddressValueError\<close> and \<open>NetmaskValueError\<close> are kinds of \<open>ValueError\<close>.
\<close>

unbundle bit_operations_syntax

section \<open>Numbers as groups\<close>

text \<open>The \<open>k\<close> lowest groups of a number in base \<open>b\<close>, the highest first, and the number they make.\<close>

fun groups :: "int \<Rightarrow> nat \<Rightarrow> int \<Rightarrow> int list" where
  "groups b 0 n = []"
| "groups b (Suc k) n = groups b k (n div b) @ [n mod b]"

definition unite :: "int \<Rightarrow> int list \<Rightarrow> int" where
  "unite b ds = foldl (\<lambda>a d. a * b + d) 0 ds"

lemma length_groups [simp]: "length (groups b k n) = k"
  by (induction k arbitrary: n) auto

lemma groups_Nil [simp]: "groups b k n = [] \<longleftrightarrow> k = 0"
  using length_groups [of b k n] by (metis length_0_conv)

lemma groups_less: "0 < b \<Longrightarrow> d \<in> set (groups b k n) \<Longrightarrow> d < b"
  by (induction k arbitrary: n) auto

lemma groups_nonneg: "0 < b \<Longrightarrow> d \<in> set (groups b k n) \<Longrightarrow> 0 \<le> d"
  by (induction k arbitrary: n) auto

lemma unite_groups: "0 < b \<Longrightarrow> unite b (groups b k n) = n mod b ^ k"
proof (induction k arbitrary: n)
  case 0
  show ?case by (simp add: unite_def)
next
  case (Suc k)
  have "unite b (groups b (Suc k) n) = (n div b mod b ^ k) * b + n mod b"
    using Suc.IH [OF Suc.prems, of "n div b"] by (simp add: unite_def)
  also have "\<dots> = n mod b ^ Suc k"
    using Suc.prems by (simp add: zmod_zmult2_eq mult.commute)
  finally show ?case .
qed

section \<open>IPv4\<close>

text \<open>\<open>_parse_octet\<close>: ASCII digits only, at most three, no leading zero.\<close>

definition parse_octet :: "string \<Rightarrow> int res" where
  "parse_octet s =
     (if s = [] \<or> \<not> list_all is_dec s \<or> length s > 3 \<or> s \<noteq> ''0'' \<and> hd s = CHR ''0'' then Err ValueError
      else rbind (py_int 10 s) (\<lambda>n. if n > 255 then Err ValueError else Ok n))"

text \<open>\<open>int(IPv4Address(s))\<close>, \<open>str(IPv4Address(n))\<close> for an address and for any integer.\<close>

definition ipv4_int :: "string \<Rightarrow> int res" where
  "ipv4_int s = (let octets = str_split ''.'' s in
     if length octets \<noteq> 4 then Err ValueError
     else rbind (rmap parse_octet octets) (\<lambda>ds. Ok (unite 256 ds)))"

definition ipv4_text :: "int \<Rightarrow> string" where
  "ipv4_text n = str_join ''.'' (map int_str (groups 256 4 n))"

definition ipv4_of_int :: "int \<Rightarrow> string res" where
  "ipv4_of_int n = (if 0 \<le> n \<and> n < 2 ^ 32 then Ok (ipv4_text n) else Err ValueError)"

text \<open>The address of \<open>p\<close> one bits followed by zero bits.\<close>

definition netmask :: "nat \<Rightarrow> nat \<Rightarrow> int" where
  "netmask bits p = 2 ^ bits - 2 ^ (bits - p)"

text \<open>
  \<open>_prefix_from_prefix_string\<close>, and the other form of an IPv4 mask: an address that is a mask or
  the complement of one.
\<close>

definition prefix_number :: "nat \<Rightarrow> string \<Rightarrow> nat option" where
  "prefix_number bits s =
     (if s = [] \<or> \<not> list_all is_dec s then None
      else case py_int 10 s of Ok n \<Rightarrow> if n \<le> int bits then Some (nat n) else None | Err _ \<Rightarrow> None)"

definition mask_length :: "int \<Rightarrow> nat option" where
  "mask_length n = find (\<lambda>p. netmask 32 p = n) [0..<33]"

definition ipv4_prefixlen :: "string \<Rightarrow> nat res" where
  "ipv4_prefixlen s = (case prefix_number 32 s of
     Some p \<Rightarrow> Ok p
   | None \<Rightarrow> rbind (ipv4_int s) (\<lambda>n. case mask_length n of
       Some p \<Rightarrow> Ok p
     | None \<Rightarrow> (case mask_length (2 ^ 32 - 1 - n) of Some p \<Rightarrow> Ok p | None \<Rightarrow> Err ValueError)))"

text \<open>\<open>str(net.network_address)\<close> and \<open>str(net.netmask)\<close> for \<open>net = IPv4Network(s, strict=False)\<close>.\<close>

definition ipv4_network :: "string \<Rightarrow> (string \<times> string) res" where
  "ipv4_network s =
     (let parts = str_split ''/'' s in
      if length parts > 2 then Err ValueError
      else
        rbind (ipv4_int (hd parts)) (\<lambda>a.
        rbind (if length parts > 1 then ipv4_prefixlen (parts ! 1) else Ok 32) (\<lambda>p.
        Ok (ipv4_text (a AND netmask 32 p), ipv4_text (netmask 32 p)))))"

section \<open>IPv6\<close>

definition is_hex :: "char \<Rightarrow> bool" where
  "is_hex c = (digit_val c \<noteq> None)"

definition parse_hextet :: "string \<Rightarrow> int res" where
  "parse_hextet s =
     (if s = [] \<or> \<not> list_all is_hex s \<or> length s > 4 then Err ValueError
      else py_int 16 s)"

text \<open>
  The places of the empty parts between the first and the last: at most one, the double colon.
\<close>

definition inner_empty :: "string list \<Rightarrow> nat list" where
  "inner_empty parts = filter (\<lambda>i. parts ! i = []) [1..<length parts - 1]"

text \<open>
  The parts before and after the double colon; an empty first or last part must belong to it.
\<close>

definition hextet_parts :: "string list \<Rightarrow> (string list \<times> nat \<times> string list) res" where
  "hextet_parts parts =
     (if length parts < 3 \<or> length parts > 9 then Err ValueError
      else case inner_empty parts of
        [] \<Rightarrow> if length parts \<noteq> 8 \<or> hd parts = [] \<or> last parts = [] then Err ValueError
              else Ok (parts, 0, [])
      | [i] \<Rightarrow>
          (let hi = (if hd parts = [] then tl (take i parts) else take i parts);
               lo = (if last parts = [] then butlast (drop (Suc i) parts) else drop (Suc i) parts) in
           if hd parts = [] \<and> hi \<noteq> [] \<or> last parts = [] \<and> lo \<noteq> [] \<or> length hi + length lo \<ge> 8
           then Err ValueError
           else Ok (hi, 8 - (length hi + length lo), lo))
      | _ \<Rightarrow> Err ValueError)"

definition ipv6_int :: "string \<Rightarrow> int res" where
  "ipv6_int s =
     (if CHR ''%'' \<in> set s then Err (Unmodelled ''scope of an address'')
      else if CHR ''.'' \<in> set s then Err (Unmodelled ''IPv4 part of an IPv6 address'')
      else
        rbind (hextet_parts (str_split '':'' s)) (\<lambda>(hi, z, lo).
        rbind (rmap parse_hextet hi) (\<lambda>hs.
        rbind (rmap parse_hextet lo) (\<lambda>ls.
        Ok (unite 65536 (hs @ replicate z 0 @ ls))))))"

text \<open>\<open>exploded\<close>: eight groups of four digits.\<close>

definition hextet_text :: "int \<Rightarrow> string" where
  "hextet_text n = map (\<lambda>d. digit_char (nat d)) (groups 16 4 n)"

definition ipv6_exploded :: "int \<Rightarrow> string" where
  "ipv6_exploded n = str_join '':'' (map hextet_text (groups 65536 8 n))"

definition ipv6_network :: "string \<Rightarrow> (string \<times> string) res" where
  "ipv6_network s =
     (let parts = str_split ''/'' s in
      if length parts > 2 then Err ValueError
      else
        rbind (ipv6_int (hd parts)) (\<lambda>a.
        rbind (if length parts > 1
               then (case prefix_number 128 (parts ! 1) of Some p \<Rightarrow> Ok p | None \<Rightarrow> Err ValueError)
               else Ok 128) (\<lambda>p.
        Ok (ipv6_exploded (a AND netmask 128 p), ipv6_exploded (netmask 128 p)))))"

section \<open>Texts of addresses\<close>

lemma int_str_digits: "0 \<le> n \<Longrightarrow> int_str n = nat_digits 10 (nat n)"
  by (simp add: int_str_def)

lemma nat_digits_dec: "list_all is_dec (nat_digits 10 n)"
  by (rule nat_digits_all) auto

lemma nat_digits_three:
  assumes "n < 1000"
  shows "length (nat_digits 10 n) \<le> 3 \<and> (n \<noteq> 0 \<longrightarrow> hd (nat_digits 10 n) \<noteq> CHR ''0'')"
proof -
  have d0: "digit_char d \<noteq> CHR ''0''" if "d \<noteq> 0" "d < 10" for d
  proof -
    have "(of_char (digit_char d) :: nat) \<noteq> of_char CHR ''0''"
      using that by (simp add: of_char_digit_char)
    then show ?thesis by metis
  qed
  consider "n < 10" | "10 \<le> n" "n < 100" | "100 \<le> n" by linarith
  then show ?thesis
  proof cases
    case 1
    then show ?thesis by (auto simp: nat_digits.simps d0)
  next
    case 2
    then have "n div 10 < 10" "n div 10 \<noteq> 0" by auto
    with 2 show ?thesis by (auto simp: nat_digits.simps [of 10 n] nat_digits.simps [of 10 "n div 10"] d0)
  next
    case 3
    with assms have "n div 10 div 10 < 10" "n div 10 div 10 \<noteq> 0" "\<not> n div 10 < 10" by auto
    with 3 show ?thesis
      by (auto simp: nat_digits.simps [of 10 n] nat_digits.simps [of 10 "n div 10"]
          nat_digits.simps [of 10 "n div 10 div 10"] d0)
  qed
qed

lemma parse_octet_text:
  assumes "0 \<le> d" and "d < 256"
  shows "parse_octet (int_str d) = Ok d"
proof -
  have "nat d < 1000" using assms by simp
  from nat_digits_three [OF this] assms py_int_dec [of d] nat_digits_dec [of "nat d"] show ?thesis
    by (cases "d = 0") (auto simp: parse_octet_def int_str_digits nat_digits.simps [of 10 0] digit_char_def)
qed

lemma int_str_no_char:
  assumes "0 \<le> n" and "\<not> is_dec c"
  shows "c \<notin> set (int_str n)"
  using nat_digits_dec [of "nat n"] assms by (auto simp: int_str_digits list_all_iff)

lemma ipv4_int_text:
  assumes "0 \<le> n" and "n < 2 ^ 32"
  shows "ipv4_int (ipv4_text n) = Ok n"
proof -
  let ?ds = "groups 256 4 n"
  have ds: "0 \<le> d \<and> d < 256" if "d \<in> set ?ds" for d
    using that groups_less groups_nonneg by (metis zero_less_numeral)
  have "list_all (\<lambda>x. CHR ''.'' \<notin> set x) (map int_str ?ds)"
    using ds by (auto simp: list_all_iff int_str_no_char is_dec_def)
  then have split: "str_split ''.'' (ipv4_text n) = map int_str ?ds"
    unfolding ipv4_text_def by (intro str_split_join) auto
  have "rmap parse_octet (map int_str ?ds) = Ok ?ds"
    using rmap_Ok [of "map int_str ?ds" parse_octet] ds parse_octet_text
    by (simp add: rmap_list_all2 list_all2_map1 list_all2_same)
  moreover have "unite 256 ?ds = n"
    using unite_groups [of 256 4 n] assms by simp
  ultimately show ?thesis
    unfolding ipv4_int_def Let_def split by simp
qed

interpretation ipv4_codec: codec ipv4_text ipv4_int "\<lambda>n. 0 \<le> n \<and> n < 2 ^ 32"
  by unfold_locales (simp add: ipv4_int_text)

section \<open>Masks\<close>

lemma netmask_push: "p \<le> bits \<Longrightarrow> netmask bits p = push_bit (bits - p) (mask p)"
  by (simp add: netmask_def push_bit_eq_mult mask_eq_exp_minus_1 algebra_simps power_add [symmetric])

lemma and_netmask:
  assumes "0 \<le> a" and "a < 2 ^ bits" and "p \<le> bits"
  shows "a AND netmask bits p = a - a mod 2 ^ (bits - p)"
proof -
  let ?k = "bits - p"
  have small: "drop_bit ?k a < 2 ^ p"
  proof -
    have "a < 2 ^ p * 2 ^ ?k" using assms by (simp add: power_add [symmetric])
    moreover have "a div 2 ^ ?k * 2 ^ ?k \<le> a" by (simp add: minus_mod_eq_div_mult [symmetric])
    ultimately have "a div 2 ^ ?k * 2 ^ ?k < 2 ^ p * 2 ^ ?k" by linarith
    then show ?thesis by (simp add: drop_bit_eq_div)
  qed
  have "a AND push_bit ?k (mask p) = push_bit ?k (drop_bit ?k a AND mask p)"
    by (rule bit_eqI) (auto simp: bit_simps)
  also have "\<dots> = push_bit ?k (drop_bit ?k a)"
    using small assms(1) by (simp add: take_bit_eq_mask [symmetric] take_bit_int_eq_self)
  also have "\<dots> = a - a mod 2 ^ ?k"
    by (simp add: push_bit_eq_mult drop_bit_eq_div minus_mod_eq_div_mult [symmetric])
  finally show ?thesis using assms(3) by (simp add: netmask_push)
qed

lemma prefix_number_text: "p \<le> bits \<Longrightarrow> prefix_number bits (int_str (int p)) = Some p"
  using nat_digits_dec [of p] by (simp add: prefix_number_def py_int_dec) (simp add: int_str_digits)

lemma ipv4_text_no_char: "\<not> is_dec c \<Longrightarrow> c \<noteq> CHR ''.'' \<Longrightarrow> c \<notin> set (ipv4_text n)"
  unfolding ipv4_text_def
  by (rule str_join_no_char) (auto simp: list_all_iff dest!: groups_nonneg [rotated] dest: int_str_no_char)

text \<open>The network of a prefix given by its length: the low bits cleared, and the mask.\<close>

lemma ipv4_network_text:
  assumes "0 \<le> a" and "a < 2 ^ 32" and "p \<le> 32"
  shows "ipv4_network (ipv4_text a @ ''/'' @ int_str (int p)) =
    Ok (ipv4_text (a - a mod 2 ^ (32 - p)), ipv4_text (2 ^ 32 - 2 ^ (32 - p)))"
proof -
  have slash: "CHR ''/'' \<notin> set (ipv4_text a)" "CHR ''/'' \<notin> set (int_str (int p))"
    by (simp_all add: ipv4_text_no_char int_str_no_char is_dec_def)
  then have "str_split ''/'' (ipv4_text a @ ''/'' @ int_str (int p)) = [ipv4_text a, int_str (int p)]"
    using str_split_join [of "[ipv4_text a, int_str (int p)]" "CHR ''/''"] by simp
  then show ?thesis
    using assms and_netmask [of a 32 p]
    by (simp add: ipv4_network_def ipv4_int_text ipv4_prefixlen_def prefix_number_text netmask_def)
qed

end
