(* ===== verification/ThriftConvert.thy ===== *)
theory ThriftConvert imports RecPlayer IpAddress begin

text \<open>
  \<open>ThriftConverter\<close> of \<open>common/sai_client/sai_thrift_client/sai_thrift_utils.py\<close>: the translation of
  attribute texts to the values of the Thrift interface and back. The modules generated from the
  SAI headers (\<open>sai_headers\<close>, \<open>ttypes\<close>, \<open>sai_adapter\<close>), the metadata table read from the adapter and
  the file \<open>sai.json\<close> are a record of parameters. A generated class stores its keyword arguments.
\<close>

section \<open>Thrift values and the generated modules\<close>

datatype tval = TPy pyval | TList "tval list" | TStruct string "(string \<times> tval) list"

abbreviation TInt :: "int \<Rightarrow> tval" where "TInt n \<equiv> TPy (PInt n)"
abbreviation TStr :: "string \<Rightarrow> tval" where "TStr s \<equiv> TPy (PStr s)"

text \<open>
  \<open>lib_header\<close>: \<open>getattr(sai_headers, name, None)\<close>. \<open>lib_spec\<close>: the fields of a class of \<open>ttypes\<close>, with
  the class a field holds or \<open>None\<close> for a plain one (its \<open>thrift_spec\<close> without the first entry).
  \<open>lib_types\<close>: \<open>ThriftConverter.sai_metadata\<close>. \<open>lib_json\<close>: the content of \<open>sai.json\<close>. \<open>lib_counters\<close>: the
  adapter's dictionary of the counters of an object type, by number.
\<close>

record thrift_libs =
  lib_header :: "string \<Rightarrow> int option"
  lib_spec :: "string \<Rightarrow> (string \<times> string option) list option"
  lib_types :: "string \<Rightarrow> string option"
  lib_json :: "pyval option"
  lib_counters :: "string \<Rightarrow> (int \<times> string) list option"

text \<open>A constant of \<open>sai_headers\<close> by its name; the fields of a value.\<close>

definition sai_const :: "thrift_libs \<Rightarrow> string \<Rightarrow> int res" where
  "sai_const L n = (case lib_header L n of Some v \<Rightarrow> Ok v | None \<Rightarrow> Err NameError)"

fun tfield :: "string \<Rightarrow> tval \<Rightarrow> tval res" where
  "tfield f (TStruct c fs) = (case map_of fs f of Some v \<Rightarrow> Ok v | None \<Rightarrow> Err AttributeError)"
| "tfield f _ = Err AttributeError"

fun tint :: "tval \<Rightarrow> int res" where
  "tint (TPy (PInt n)) = Ok n"
| "tint _ = Err TypeError"

fun titems :: "tval \<Rightarrow> tval list res" where
  "titems (TList xs) = Ok xs"
| "titems _ = Err TypeError"

fun tpy :: "tval \<Rightarrow> pyval res" where
  "tpy (TPy v) = Ok v"
| "tpy _ = Err TypeError"

text \<open>\<open>str(v)\<close>; \<open>xs[i]\<close>; \<open>d.get(k)\<close>.\<close>

fun ttext :: "tval \<Rightarrow> string res" where
  "ttext (TPy v) = py_format v"
| "ttext _ = Err (Unmodelled ''repr'')"

definition dget :: "string \<Rightarrow> pyval \<Rightarrow> pyval res" where
  "dget k v = (case v of
     PDict kvs \<Rightarrow> Ok (case map_of kvs k of Some x \<Rightarrow> x | None \<Rightarrow> PNone)
   | _ \<Rightarrow> Err AttributeError)"

section \<open>Texts to numbers\<close>

text \<open>\<open>"oid:" + hex(n)\<close>.\<close>

definition oid_text :: "int \<Rightarrow> string" where
  "oid_text n = ''oid:'' @ int_hex n"

definition object_id :: "pyval \<Rightarrow> int res" where
  "object_id oid = (case oid of
     PNone \<Rightarrow> Ok 0
   | PStr s \<Rightarrow>
       if s = ''null'' \<or> s = ''SAI_NULL_OBJECT_ID'' then Ok 0
       else if starts_with s ''oid:0x'' then py_int 16 (drop 4 s)
       else py_int 10 s
   | v \<Rightarrow> py_int_of v)"

text \<open>Thrift has signed integers only: values from the upper half become negative.\<close>

definition convert_u8_to_thrift :: "string \<Rightarrow> int res" where
  "convert_u8_to_thrift s = rbind (py_int 0 s) (\<lambda>v.
     Ok (if v > 0x7F then - ((NOT v AND 0xFF) + 1) else v))"

definition convert_u16_to_thrift :: "string \<Rightarrow> int res" where
  "convert_u16_to_thrift s = rbind (py_int 0 s) (\<lambda>v.
     Ok (if v > 0x7FFF then - ((NOT v AND 0xFFFF) + 1) else v))"

text \<open>
  The first branch of \<open>convert_value_to_thrift\<close>: a name of the headers, an empty text, or a number
  in any base; \<open>int(v, 0)\<close> takes a text only.
\<close>

definition number_to_thrift :: "thrift_libs \<Rightarrow> string \<Rightarrow> pyval \<Rightarrow> int res" where
  "number_to_thrift L vt v = (case v of
     PStr s \<Rightarrow> (case lib_header L s of
         Some n \<Rightarrow> Ok n
       | None \<Rightarrow>
           if s = [] then Ok 0
           else if vt = ''u8'' then convert_u8_to_thrift s
           else if vt = ''u16'' then convert_u16_to_thrift s
           else py_int 0 s)
   | _ \<Rightarrow> Err TypeError)"

definition get_enum_by_str :: "thrift_libs \<Rightarrow> pyval \<Rightarrow> pyval res" where
  "get_enum_by_str L v = (case v of
     PStr s \<Rightarrow>
       if starts_with s ''SAI_'' then Ok (case lib_header L s of Some n \<Rightarrow> PInt n | None \<Rightarrow> PNone)
       else if str_isdigit s then rbind (py_int 10 s) (\<lambda>n. Ok (PInt n))
       else Ok PNone
   | _ \<Rightarrow> if truthy v then Err AttributeError else Ok PNone)"

definition str2digit :: "pyval \<Rightarrow> pyval res" where
  "str2digit v = (case v of
     PStr s \<Rightarrow> if str_isdigit s then rbind (py_int 10 s) (\<lambda>n. Ok (PInt n)) else Ok PNone
   | _ \<Rightarrow> Err AttributeError)"

section \<open>Lists, ranges and maps\<close>

definition sai_object_list :: "pyval \<Rightarrow> tval res" where
  "sai_object_list v =
     rbind (as_str AttributeError v) (\<lambda>s.
     (let parts = str_split1 '':'' s in
      rbind (py_int 10 (hd parts)) (\<lambda>count.
      rbind (nth_res parts 1) (\<lambda>items.
      rbind (rmap object_id (map PStr (str_split '','' items))) (\<lambda>ids.
      Ok (TStruct ''sai_thrift_object_list_t'' [(''count'', TInt count), (''idlist'', TList (map TInt ids))]))))))"

text \<open>The class is called with positional arguments: its first two fields.\<close>

definition sai_int_list :: "thrift_libs \<Rightarrow> string \<Rightarrow> pyval \<Rightarrow> tval res" where
  "sai_int_list L vt v =
     rbind (as_str AttributeError v) (\<lambda>s.
     (let parts = str_split1 '':'' s;
          cls = ''sai_thrift_'' @ take (length vt - 4) vt @ ''_list_t'' in
      rbind (py_int 10 (hd parts)) (\<lambda>count.
      rbind (nth_res parts 1) (\<lambda>items.
      rbind (rmap (get_enum_by_str L) (map PStr (str_split '','' items))) (\<lambda>ns.
      case lib_spec L cls of
        None \<Rightarrow> Err AttributeError
      | Some (a # b # _) \<Rightarrow> Ok (TStruct cls [(fst a, TInt count), (fst b, TList (map TPy ns))])
      | Some _ \<Rightarrow> Err TypeError)))))"

definition sai_int_range :: "thrift_libs \<Rightarrow> string \<Rightarrow> pyval \<Rightarrow> tval res" where
  "sai_int_range L vt v =
     rbind (as_str AttributeError v) (\<lambda>s.
     (let parts = str_split '','' s;
          cls = ''sai_thrift_'' @ take (length vt - 5) vt @ ''_range_t'' in
      if lib_spec L cls = None then Err AttributeError
      else
        rbind (py_int 10 (hd parts)) (\<lambda>lo.
        rbind (rbind (nth_res parts 1) (py_int 10)) (\<lambda>hi.
        Ok (TStruct cls [(''min'', TInt lo), (''max'', TInt hi)])))))"

text \<open>\<open>dscp\<close> is filled from the key \<open>tc\<close>, as the code has it.\<close>

definition sai_qos_map_params :: "thrift_libs \<Rightarrow> pyval \<Rightarrow> tval res" where
  "sai_qos_map_params L v =
     rbind (dget ''qidx'' v) (\<lambda>qidx.
     rbind (if truthy qidx then Ok qidx else dget ''queue_index'' v) (\<lambda>queue_index.
     rbind (dget ''tc'' v) (\<lambda>tc.
     rbind (dget ''dot1p'' v) (\<lambda>dot1p.
     rbind (dget ''prio'' v) (\<lambda>prio.
     rbind (dget ''pg'' v) (\<lambda>pg.
     rbind (rbind (dget ''color'' v) (get_enum_by_str L)) (\<lambda>color.
     rbind (dget ''mpls_exp'' v) (\<lambda>mpls_exp.
     rbind (dget ''fc'' v) (\<lambda>fc.
     Ok (TStruct ''sai_thrift_qos_map_params_t''
       [(''tc'', TPy tc), (''dscp'', TPy tc), (''dot1p'', TPy dot1p), (''prio'', TPy prio), (''pg'', TPy pg),
        (''queue_index'', TPy queue_index), (''color'', TPy color), (''mpls_exp'', TPy mpls_exp),
        (''fc'', TPy fc)]))))))))))"

text \<open>The loop over \<open>val["list"]\<close> that the list converters share; \<open>val["count"]\<close> is read after it.\<close>

definition counted_struct :: "string \<Rightarrow> string \<Rightarrow> (pyval \<Rightarrow> tval res) \<Rightarrow> pyval \<Rightarrow> tval res" where
  "counted_struct cls field f val =
     rbind (rbind (py_item ''list'' val) elements) (\<lambda>es.
     rbind (rmap f es) (\<lambda>ms.
     rbind (py_item ''count'' val) (\<lambda>count.
     Ok (TStruct cls [(field, TList ms), (''count'', TPy count)]))))"

definition loads_val :: "pyval \<Rightarrow> pyval res" where
  "loads_val v = rbind (as_str TypeError v) loads"

definition sai_qos_map_list :: "thrift_libs \<Rightarrow> pyval \<Rightarrow> tval res" where
  "sai_qos_map_list L v =
     rbind (case v of PStr s \<Rightarrow> loads s | _ \<Rightarrow> Ok v)
       (counted_struct ''sai_thrift_qos_map_list_t'' ''maplist'' (\<lambda>entry.
          rbind (rbind (py_item ''key'' entry) (sai_qos_map_params L)) (\<lambda>k.
          rbind (rbind (py_item ''value'' entry) (sai_qos_map_params L)) (\<lambda>w.
          Ok (TStruct ''sai_thrift_qos_map_t'' [(''key'', k), (''value'', w)])))))"

definition sai_map_list :: "pyval \<Rightarrow> tval res" where
  "sai_map_list v =
     rbind (loads_val v)
       (counted_struct ''sai_thrift_map_list_t'' ''maplist'' (\<lambda>entry.
          rbind (py_item ''key'' entry) (\<lambda>k.
          rbind (py_item ''value'' entry) (\<lambda>w.
          Ok (TStruct ''sai_thrift_map_t'' [(''key'', TPy k), (''value'', TPy w)])))))"

section \<open>ACL values\<close>

definition sai_acl_capability :: "thrift_libs \<Rightarrow> pyval \<Rightarrow> tval res" where
  "sai_acl_capability L v =
     rbind (as_str AttributeError v) (\<lambda>s.
     (let parts = str_split1 '':'' s in
      rbind (nth_res parts 1) (\<lambda>items.
      rbind (sai_int_list L ''s32list'' (PStr items)) (\<lambda>l.
      Ok (TStruct ''sai_thrift_acl_capability_t''
        [(''is_action_list_mandatory'', TStr (hd parts)), (''action_list'', l)])))))"

definition sai_acl_resource :: "thrift_libs \<Rightarrow> pyval \<Rightarrow> tval res" where
  "sai_acl_resource L v =
     rbind (loads_val v)
       (counted_struct ''sai_thrift_acl_resource_list_t'' ''resourcelist'' (\<lambda>r.
          rbind (rbind (py_item ''avail_num'' r) str2digit) (\<lambda>avail_num.
          rbind (rbind (py_item ''bind_point'' r) (get_enum_by_str L)) (\<lambda>bind_point.
          rbind (rbind (py_item ''stage'' r) (get_enum_by_str L)) (\<lambda>stage.
          Ok (TStruct ''sai_thrift_acl_resource_t''
            [(''avail_num'', TPy avail_num), (''bind_point'', TPy bind_point), (''stage'', TPy stage)]))))))"

definition sysport_fields :: "string list" where
  "sysport_fields = [''port_id'', ''attached_switch_id'', ''attached_core_index'',
     ''attached_core_port_index'', ''speed'', ''num_voq'']"

definition sai_sysport_config_list :: "pyval \<Rightarrow> tval res" where
  "sai_sysport_config_list v =
     rbind (loads_val v)
       (counted_struct ''sai_thrift_system_port_config_list_t'' ''configlist'' (\<lambda>r.
          rbind (rmap (\<lambda>f. rbind (rbind (py_item f r) str2digit) (\<lambda>n. Ok (f, TPy n))) sysport_fields) (\<lambda>fs.
          Ok (TStruct ''sai_thrift_system_port_config_t'' fs))))"

text \<open>
  \<open>get_sai_meta\<close>: the first attribute of that name of any item that mentions the object type. The
  file is looked at before the object type is.
\<close>

fun attr_named :: "string \<Rightarrow> pyval list \<Rightarrow> pyval option res" where
  "attr_named n [] = Ok None"
| "attr_named n (a # as) = rbind (dget ''name'' a) (\<lambda>m. if m = PStr n then Ok (Some a) else attr_named n as)"

fun meta_attr :: "string \<Rightarrow> string \<Rightarrow> pyval list \<Rightarrow> pyval option res" where
  "meta_attr t n [] = Ok None"
| "meta_attr t n (item # items) = (case item of
     PDict kvs \<Rightarrow>
       if PStr t \<in> set (map snd kvs) then
         rbind (rbind (dget ''attributes'' item) elements) (\<lambda>as.
         rbind (attr_named n as) (\<lambda>r. case r of Some a \<Rightarrow> Ok (Some a) | None \<Rightarrow> meta_attr t n items))
       else meta_attr t n items
   | _ \<Rightarrow> Err AttributeError)"

definition get_sai_meta :: "thrift_libs \<Rightarrow> objref \<Rightarrow> string \<Rightarrow> pyval option res" where
  "get_sai_meta L o1 n = (case lib_json L of
     None \<Rightarrow> Ok None
   | Some j \<Rightarrow> rbind (type_text o1) (\<lambda>t. rbind (elements j) (meta_attr t n)))"

text \<open>The name of an enumeration member; \<open>None\<close> without metadata, the number without values.\<close>

definition get_str_by_enum :: "thrift_libs \<Rightarrow> objref \<Rightarrow> string \<Rightarrow> tval \<Rightarrow> pyval res" where
  "get_str_by_enum L o1 n v =
     rbind (get_sai_meta L o1 n) (\<lambda>m. case m of
       None \<Rightarrow> Ok PNone
     | Some a \<Rightarrow>
         rbind (rbind (py_item ''properties'' a) (dget ''values'')) (\<lambda>vs. case vs of
           PNone \<Rightarrow> rbind (ttext v) (\<lambda>s. Ok (PStr s))
         | PDict kvs \<Rightarrow> Ok (case filter (\<lambda>(k, w). case v of TPy x \<Rightarrow> py_eq w x | _ \<Rightarrow> False) kvs of [] \<Rightarrow> PNone | (k, _) # _ \<Rightarrow> PStr k)
         | _ \<Rightarrow> Err AttributeError))"

definition generic_types :: "(string \<times> (string \<times> string option)) list" where
  "generic_types =
     [(''bool'', ''bool'', None), (''sai_uint8_t'', ''u8'', Some ''u16''), (''sai_int8_t'', ''s8'', Some ''u16''),
      (''sai_uint16_t'', ''u16'', Some ''u32''), (''sai_int16_t'', ''s16'', Some ''u32''),
      (''sai_uint32_t'', ''u32'', Some ''u64''), (''sai_int32_t'', ''s32'', Some ''u64''),
      (''sai_uint64_t'', ''u64'', Some ''u64''), (''sai_mac_t'', ''mac'', Some ''mac''),
      (''sai_ipv4_t'', ''ip4'', Some ''ip4''), (''sai_ipv6_t'', ''ip6'', Some ''ip6''),
      (''sai_object_id_t'', ''oid'', None), (''sai_object_list_t'', ''objlist'', None),
      (''sai_u8_list_t'', ''u8list'', Some ''u8list'')]"

text \<open>Unpacking the \<open>None\<close> that stands for missing metadata is a \<open>TypeError\<close>.\<close>

definition get_generic_type :: "thrift_libs \<Rightarrow> sai_obj_type list \<Rightarrow> string \<Rightarrow> (string \<times> string option) res" where
  "get_generic_type L ots n =
     rbind (nth_res (str_split ''SAI_'' n) 1) (\<lambda>rest.
     rbind (obj_type_named ots (hd (str_split ''_ATTR'' rest))) (\<lambda>t.
     rbind (get_sai_meta L (OType t) n) (\<lambda>m. case m of
       None \<Rightarrow> Err TypeError
     | Some a \<Rightarrow>
         rbind (rbind (py_item ''properties'' a) (dget ''genericType'')) (\<lambda>g.
         rbind (as_str KeyError g) (dict_getitem generic_types)))))"

definition acl_attribute :: "thrift_libs \<Rightarrow> string \<Rightarrow> tval \<Rightarrow> tval res" where
  "acl_attribute L n data =
     rbind (get_enum_by_str L (PStr n)) (\<lambda>i.
     Ok (TStruct ''sai_thrift_attribute_t''
       [(''id'', TPy i), (''value'', TStruct ''sai_thrift_attribute_value_t'' [(''aclfield'', data)])]))"

definition sai_acl_action :: "thrift_libs \<Rightarrow> sai_obj_type list \<Rightarrow> pyval \<Rightarrow> string \<Rightarrow> tval res" where
  "sai_acl_action L ots v n =
     rbind (get_generic_type L ots n) (\<lambda>(g, _).
     rbind (get_enum_by_str L v) (\<lambda>x.
     acl_attribute L n (TStruct ''sai_thrift_acl_action_data_t''
       [(''parameter'', TStruct ''sai_thrift_acl_action_parameter_t'' [(g, TPy x)])])))"

definition sai_acl_field :: "thrift_libs \<Rightarrow> sai_obj_type list \<Rightarrow> pyval \<Rightarrow> string \<Rightarrow> tval res" where
  "sai_acl_field L ots v n =
     rbind (get_generic_type L ots n) (\<lambda>(g, gm). case gm of
       None \<Rightarrow> Ok (TPy PNone)
     | Some m \<Rightarrow>
         rbind (as_str AttributeError v) (\<lambda>s.
         rbind (nth_res (str_split ''mask:'' s) 1) (\<lambda>mask.
         (let val = hd (str_split ''&'' s) in
          rbind (if hd g = CHR ''s'' \<or> hd g = CHR ''u''
                 then rbind (py_int 0 val) (\<lambda>x. rbind (py_int 16 mask) (\<lambda>y. Ok (TInt x, TInt y)))
                 else Ok (TStr val, TStr mask)) (\<lambda>(x, y).
          acl_attribute L n (TStruct ''sai_thrift_acl_field_data_t''
            [(''data'', TStruct ''sai_thrift_acl_field_data_data_t'' [(g, x)]),
             (''mask'', TStruct ''sai_thrift_acl_field_data_mask_t'' [(m, y)])]))))))"

section \<open>IP addresses\<close>

definition sai_ipaddress :: "thrift_libs \<Rightarrow> pyval \<Rightarrow> tval res" where
  "sai_ipaddress L v =
     rbind (as_str TypeError v) (\<lambda>s.
       if CHR ''.'' \<in> set s then
         rbind (sai_const L ''SAI_IP_ADDR_FAMILY_IPV4'') (\<lambda>fam.
         Ok (TStruct ''sai_thrift_ip_address_t''
           [(''addr_family'', TInt fam), (''addr'', TStruct ''sai_thrift_ip_addr_t'' [(''ip4'', TStr s)])]))
       else if CHR '':'' \<in> set s then
         rbind (sai_const L ''SAI_IP_ADDR_FAMILY_IPV6'') (\<lambda>fam.
         Ok (TStruct ''sai_thrift_ip_address_t''
           [(''addr_family'', TInt fam), (''addr'', TStruct ''sai_thrift_ip_addr_t'' [(''ip6'', TStr s)])]))
       else Ok (TPy PNone))"

definition ip_prefix_struct :: "int \<Rightarrow> string \<Rightarrow> string \<times> string \<Rightarrow> tval" where
  "ip_prefix_struct fam field am = TStruct ''sai_thrift_ip_prefix_t''
     [(''addr_family'', TInt fam), (''addr'', TStruct ''sai_thrift_ip_addr_t'' [(field, TStr (fst am))]),
      (''mask'', TStruct ''sai_thrift_ip_addr_t'' [(field, TStr (snd am))])]"

definition sai_ipprefix :: "thrift_libs \<Rightarrow> pyval \<Rightarrow> tval res" where
  "sai_ipprefix L v =
     rbind (as_str TypeError v) (\<lambda>s.
       if CHR ''/'' \<notin> set s then Ok (TPy PNone)
       else if CHR ''.'' \<in> set s then
         rbind (sai_const L ''SAI_IP_ADDR_FAMILY_IPV4'') (\<lambda>fam.
         rbind (ipv4_network s) (\<lambda>am. Ok (ip_prefix_struct fam ''ip4'' am)))
       else if CHR '':'' \<in> set s then
         rbind (sai_const L ''SAI_IP_ADDR_FAMILY_IPV6'') (\<lambda>fam.
         rbind (ipv6_network s) (\<lambda>am. Ok (ip_prefix_struct fam ''ip6'' am)))
       else Ok (TPy PNone))"

section \<open>A value by its type\<close>

definition get_attribute_type :: "thrift_libs \<Rightarrow> string \<Rightarrow> string option" where
  "get_attribute_type L n =
     (if n = ''SAI_FDB_FLUSH_ATTR_ENTRY_TYPE'' then Some ''s32''
      else if n = ''SAI_FDB_FLUSH_ATTR_BRIDGE_PORT_ID'' then Some ''oid''
      else if n = ''SAI_FDB_FLUSH_ATTR_BV_ID'' then Some ''oid''
      else lib_types L n)"

text \<open>
  \<open>n\<close> is the attribute name, or \<open>None\<close> for the fields of a key; the type is not empty. Naming no
  attribute where an ACL value needs one splits \<open>None\<close>.
\<close>

definition to_thrift :: "thrift_libs \<Rightarrow> sai_obj_type list \<Rightarrow> string option \<Rightarrow> string \<Rightarrow> pyval \<Rightarrow> tval res" where
  "to_thrift L ots n vt v =
     (if vt \<in> {''s8'', ''u8'', ''s16'', ''u16'', ''s32'', ''u32'', ''s64'', ''u64'', ''ptr'',
               ''encrypt_key'', ''authkey'', ''macsecsak'', ''macsecauthkey'', ''macsecsalt''}
      then rbind (number_to_thrift L vt v) (\<lambda>x. Ok (TInt x))
      else if vt = ''booldata''
      then rbind (as_str AttributeError v) (\<lambda>s. Ok (TPy (PBool (str_lower s = ''true'' \<or> s = ''0''))))
      else if vt \<in> {''mac'', ''ipv4'', ''ipv6'', ''chardata''} then rbind (py_format v) (\<lambda>s. Ok (TStr s))
      else if vt = ''oid'' then rbind (object_id v) (\<lambda>x. Ok (TInt x))
      else if vt = ''ipaddr'' then sai_ipaddress L v
      else if vt = ''ipprefix'' then sai_ipprefix L v
      else if vt = ''objlist'' then sai_object_list v
      else if vt \<in> {''u8list'', ''u16list'', ''u32list'', ''s8list'', ''s16list'', ''s32list''} then sai_int_list L vt v
      else if vt \<in> {''u32range'', ''s32range'', ''u16range''} then sai_int_range L vt v
      else if vt = ''qosmap'' then sai_qos_map_list L v
      else if vt = ''maplist'' then sai_map_list v
      else if vt = ''aclcapability'' then sai_acl_capability L v
      else if vt = ''aclresource'' then sai_acl_resource L v
      else if vt = ''sysportconfiglist'' then sai_sysport_config_list v
      else if vt = ''aclaction''
      then (case n of None \<Rightarrow> Err AttributeError | Some a \<Rightarrow> sai_acl_action L ots v a)
      else if vt = ''aclfield''
      then (case n of None \<Rightarrow> Err AttributeError | Some a \<Rightarrow> sai_acl_field L ots v a)
      else Err NotImplementedError)"

text \<open>A type that is missing or empty is refused.\<close>

definition convert_value_to_thrift ::
  "thrift_libs \<Rightarrow> sai_obj_type list \<Rightarrow> string option \<Rightarrow> string option \<Rightarrow> pyval \<Rightarrow> tval res" where
  "convert_value_to_thrift L ots n vt v =
     (case (case vt of Some t \<Rightarrow> Some t | None \<Rightarrow> Option.bind n (get_attribute_type L)) of
        None \<Rightarrow> Err AssertionError
      | Some t \<Rightarrow> if vt = None \<and> t = [] then Err AssertionError else to_thrift L ots n t v)"

section \<open>Attributes and keys\<close>

text \<open>
  \<open>re.search('SAI_.*_ATTR_(.*)', attr).group(1).lower()\<close>: what follows the last \<open>_ATTR_\<close> after the
  first \<open>SAI_\<close>. A dot matches no line break, so a name with one is outside the model.
\<close>

fun after_last :: "string \<Rightarrow> string \<Rightarrow> string option" where
  "after_last p [] = None"
| "after_last p (c # s) = (case after_last p s of
     Some r \<Rightarrow> Some r
   | None \<Rightarrow> if starts_with (c # s) p then Some (drop (length p) (c # s)) else None)"

definition convert_attribute_name_to_thrift :: "string \<Rightarrow> string res" where
  "convert_attribute_name_to_thrift attr =
     (if CHR 0x0A \<in> set attr then Err (Unmodelled ''line break in a name'')
      else case str_cut ''SAI_'' attr of
        None \<Rightarrow> Err AttributeError
      | Some (_, rest) \<Rightarrow>
          (case after_last ''_ATTR_'' rest of None \<Rightarrow> Err AttributeError | Some r \<Rightarrow> Ok (str_lower r)))"

text \<open>\<open>chunks(attributes, 2)\<close>: a missing last value is \<open>None\<close>.\<close>

fun chunks2 :: "pyval list \<Rightarrow> (pyval \<times> pyval) list" where
  "chunks2 [] = []"
| "chunks2 [x] = [(x, PNone)]"
| "chunks2 (x # y # xs) = (x, y) # chunks2 xs"

text \<open>One step of the generator \<open>convert_attributes_to_thrift\<close>, and the whole of it as keyword arguments.\<close>

definition attr_to_thrift ::
  "thrift_libs \<Rightarrow> sai_obj_type list \<Rightarrow> pyval \<times> pyval \<Rightarrow> (string \<times> tval) option res" where
  "attr_to_thrift L ots nv = (case nv of (n, v) \<Rightarrow>
     if n = PStr ''NULL'' then Ok None
     else
       rbind (as_str TypeError n) (\<lambda>s.
       rbind (convert_attribute_name_to_thrift s) (\<lambda>a.
       rbind (convert_value_to_thrift L ots (Some s) None v) (\<lambda>t. Ok (Some (a, t))))))"

definition convert_attributes_to_thrift ::
  "thrift_libs \<Rightarrow> sai_obj_type list \<Rightarrow> pyval list \<Rightarrow> (string \<times> tval) list res" where
  "convert_attributes_to_thrift L ots attrs =
     rbind (rmap (attr_to_thrift L ots) (chunks2 attrs)) (\<lambda>rs.
     Ok (fold (\<lambda>r d. case r of None \<Rightarrow> d | Some (a, t) \<Rightarrow> dict_set a t d) rs []))"

definition get_value_type_by_thrift_spec :: "thrift_libs \<Rightarrow> string option \<Rightarrow> string option res" where
  "get_value_type_by_thrift_spec L spec = (case spec of
     None \<Rightarrow> Ok (Some ''oid'')
   | Some c \<Rightarrow> (case lib_spec L ''sai_thrift_attribute_value_t'' of
       None \<Rightarrow> Err AttributeError
     | Some fs \<Rightarrow> Ok (case filter (\<lambda>(_, t). t = Some c) fs of [] \<Rightarrow> None | (n, _) # _ \<Rightarrow> Some n)))"

definition convert_key_values_to_thrift ::
  "thrift_libs \<Rightarrow> sai_obj_type list \<Rightarrow> string \<Rightarrow> pyval \<Rightarrow> (string \<times> tval) list res" where
  "convert_key_values_to_thrift L ots cls key = (case lib_spec L cls of
     None \<Rightarrow> Err AttributeError
   | Some fs \<Rightarrow> rmap (\<lambda>(n, spec).
       rbind (py_item n key) (\<lambda>v.
       rbind (get_value_type_by_thrift_spec L spec) (\<lambda>vt.
       rbind (convert_value_to_thrift L ots None vt v) (\<lambda>t. Ok (n, t))))) fs)"

text \<open>
  \<open>key['new'] = key['old']; del key['old']\<close> when there is an old entry. \<open>convert_key_to_thrift\<close>
  changes the caller's dictionary in this way, so it returns the key too.
\<close>

definition rename_entry :: "string \<Rightarrow> string \<Rightarrow> (string, pyval) dict \<Rightarrow> (string, pyval) dict" where
  "rename_entry old new kvs = (case map_of kvs old of
     None \<Rightarrow> kvs | Some v \<Rightarrow> dict_del old (dict_set new v kvs))"

definition convert_key_to_thrift ::
  "thrift_libs \<Rightarrow> sai_obj_type list \<Rightarrow> string \<Rightarrow> pyval \<Rightarrow> ((string \<times> tval) list \<times> pyval) res" where
  "convert_key_to_thrift L ots object_type key =
     (if key = PNone then Ok ([], PNone)
      else let cls = ''sai_thrift_'' @ object_type @ ''_t'' in
        if lib_spec L cls = None then Err AttributeError
        else case key of
          PDict kvs \<Rightarrow>
            (let key' = PDict (rename_entry ''dest'' ''destination'' (rename_entry ''vr'' ''vr_id'' kvs)) in
             rbind (convert_key_values_to_thrift L ots cls key') (\<lambda>fs.
             Ok ([(object_type, TStruct cls fs)], key')))
        | _ \<Rightarrow> Err TypeError)"

text \<open>The dictionary of the counters is reversed; of two equal names the later number wins.\<close>

fun counter_numbers :: "(string \<times> int) list \<Rightarrow> pyval list \<Rightarrow> int list res" where
  "counter_numbers rev_ids [] = Ok []"
| "counter_numbers rev_ids (c # cs) =
     (if c = PStr [] then counter_numbers rev_ids cs
      else rbind (as_str ValueError c) (\<lambda>s. case map_of rev_ids s of
        None \<Rightarrow> Err ValueError
      | Some n \<Rightarrow> rbind (counter_numbers rev_ids cs) (\<lambda>ns. Ok (n # ns))))"

definition convert_counter_ids_to_thrift ::
  "thrift_libs \<Rightarrow> pyval list \<Rightarrow> string \<Rightarrow> (string \<times> tval) list res" where
  "convert_counter_ids_to_thrift L counter_ids obj_type_name = (case lib_counters L obj_type_name of
     None \<Rightarrow> Err AttributeError
   | Some d \<Rightarrow>
       rbind (counter_numbers (fold (\<lambda>(k, v). dict_set v k) d []) counter_ids) (\<lambda>ns.
       Ok [(''counter_ids'', TList (map TInt ns))]))"

section \<open>From Thrift to texts\<close>

text \<open>The first \<open>count\<close> elements of a list, each as text with a comma; \<open>result[:-1]\<close> drops the last.\<close>

definition count_text :: "int \<Rightarrow> string list \<Rightarrow> string" where
  "count_text count items = butlast (int_str count @ '':'' @ concat (map (\<lambda>s. s @ '','') items))"

definition first_items :: "int \<Rightarrow> tval list \<Rightarrow> tval list res" where
  "first_items count xs = (if count \<le> int (length xs) then Ok (take (nat count) xs) else Err IndexError)"

definition from_sai_object_list :: "tval \<Rightarrow> string res" where
  "from_sai_object_list v =
     rbind (rbind (tfield ''count'' v) tint) (\<lambda>count.
     if count = 0 then Ok ''0:null''
     else
       rbind (rbind (tfield ''idlist'' v) titems) (\<lambda>ids.
       rbind (first_items count ids) (\<lambda>xs.
       rbind (rmap tint xs) (\<lambda>ns. Ok (count_text count (map oid_text ns))))))"

definition from_sai_int_list :: "thrift_libs \<Rightarrow> string \<Rightarrow> tval \<Rightarrow> string \<Rightarrow> objref \<Rightarrow> string res" where
  "from_sai_int_list L vt v n o1 =
     (let prefix = (if starts_with vt ''u'' then ''uint'' else ''int'') in
      rbind (rbind (tfield (prefix @ drop 1 vt) v) titems) (\<lambda>items.
      rbind (rbind (tfield ''count'' v) tint) (\<lambda>count.
      rbind (first_items count items) (\<lambda>xs.
      rbind (rmap (\<lambda>x.
        if vt = ''s32list'' then
          rbind (get_str_by_enum L o1 n x) (\<lambda>a. case a of PNone \<Rightarrow> ttext x | a \<Rightarrow> py_format a)
        else ttext x) xs) (\<lambda>ss.
      Ok (count_text count ss))))))"

definition from_sai_acl_capability :: "thrift_libs \<Rightarrow> tval \<Rightarrow> string res" where
  "from_sai_acl_capability L v =
     rbind (tfield ''is_action_list_mandatory'' v) (\<lambda>m.
     rbind (tfield ''action_list'' v) (\<lambda>l.
     rbind (from_sai_int_list L ''s32list'' l ''SAI_ACL_TABLE_ATTR_ACL_ACTION_TYPE_LIST''
       (OStr ''SAI_OBJECT_TYPE_ACL_TABLE'')) (\<lambda>s.
     rbind (ttext m) (\<lambda>b. Ok (str_lower b @ '':'' @ s)))))"

text \<open>\<open>json.dumps({"count": .., "list": [..]}).replace(" ", "")\<close>.\<close>

definition counted_json :: "string \<Rightarrow> (tval \<Rightarrow> pyval res) \<Rightarrow> tval \<Rightarrow> string res" where
  "counted_json field f v =
     rbind (rbind (tfield ''count'' v) tpy) (\<lambda>count.
     rbind (rbind (tfield field v) titems) (\<lambda>xs.
     rbind (rmap f xs) (\<lambda>es.
     Ok (str_replace '' '' [] (dumps (PDict [(''count'', count), (''list'', PList es)]))))))"

definition from_sai_acl_resource :: "thrift_libs \<Rightarrow> tval \<Rightarrow> string res" where
  "from_sai_acl_resource L = counted_json ''resourcelist'' (\<lambda>r.
     rbind (rbind (tfield ''avail_num'' r) ttext) (\<lambda>avail_num.
     rbind (rbind (tfield ''bind_point'' r) (get_str_by_enum L (OStr ''SAI_OBJECT_TYPE_ACL_TABLE'')
       ''SAI_ACL_TABLE_GROUP_ATTR_ACL_BIND_POINT_TYPE_LIST'')) (\<lambda>bind_point.
     rbind (rbind (tfield ''stage'' r) (get_str_by_enum L (OStr ''SAI_OBJECT_TYPE_ACL_TABLE'')
       ''SAI_ACL_TABLE_ATTR_ACL_STAGE'')) (\<lambda>stage.
     Ok (PDict [(''avail_num'', PStr avail_num), (''bind_point'', bind_point), (''stage'', stage)])))))"

definition from_sai_sysport_config_list :: "tval \<Rightarrow> string res" where
  "from_sai_sysport_config_list = counted_json ''configlist'' (\<lambda>r.
     rbind (rmap (\<lambda>f. rbind (rbind (tfield f r) ttext) (\<lambda>s. Ok (f, PStr s))) sysport_fields) (\<lambda>fs. Ok (PDict fs)))"

definition from_sai_ip_address :: "thrift_libs \<Rightarrow> tval \<Rightarrow> tval res" where
  "from_sai_ip_address L v =
     rbind (tfield ''addr_family'' v) (\<lambda>fam.
     rbind (sai_const L ''SAI_IP_ADDR_FAMILY_IPV6'') (\<lambda>six.
     rbind (tfield ''addr'' v) (tfield (if fam = TInt six then ''ip6'' else ''ip4''))))"

text \<open>\<open>str(v) if v > 0 else str(v & mask)\<close>.\<close>

definition unsigned_text :: "int \<Rightarrow> tval \<Rightarrow> string res" where
  "unsigned_text m v = rbind (tint v) (\<lambda>n. Ok (int_str (if n > 0 then n else n AND m)))"

definition convert_value_from_thrift :: "thrift_libs \<Rightarrow> tval \<Rightarrow> string \<Rightarrow> objref \<Rightarrow> pyval res" where
  "convert_value_from_thrift L v n o1 = (case get_attribute_type L n of
     None \<Rightarrow> Err AssertionError
   | Some vt \<Rightarrow>
       (let text = (\<lambda>r. rbind r (\<lambda>s. Ok (PStr s))) in
        if vt = [] then Err AssertionError
        else if vt \<in> {''s8'', ''s16'', ''u32'', ''s64'', ''u64'', ''ptr'', ''mac'', ''ipv4'', ''ipv6'', ''chardata''}
        then text (ttext v)
        else if vt = ''u8'' then text (unsigned_text 0xFF v)
        else if vt = ''u16'' then text (unsigned_text 0xFFFF v)
        else if vt = ''s32''
        then rbind (get_str_by_enum L o1 n v) (\<lambda>a. if a = PNone then text (ttext v) else Ok a)
        else if vt = ''booldata'' then text (rbind (ttext v) (\<lambda>s. Ok (str_lower s)))
        else if vt = ''objlist'' then text (from_sai_object_list v)
        else if vt = ''oid'' then text (rbind (tint v) (\<lambda>i. Ok (oid_text i)))
        else if vt \<in> {''u8list'', ''u16list'', ''u32list'', ''s8list'', ''s16list'', ''s32list''}
        then text (from_sai_int_list L vt v n o1)
        else if vt \<in> {''u32range'', ''s32range'', ''u16range''}
        then text (rbind (rbind (tfield ''min'' v) ttext) (\<lambda>a. rbind (rbind (tfield ''max'' v) ttext) (\<lambda>b. Ok (a @ '','' @ b))))
        else if vt = ''aclcapability'' then text (from_sai_acl_capability L v)
        else if vt = ''aclresource'' then text (from_sai_acl_resource L v)
        else if vt = ''sysportconfiglist'' then text (from_sai_sysport_config_list v)
        else if vt = ''ipaddr'' then rbind (from_sai_ip_address L v) tpy
        else Err NotImplementedError))"

text \<open>The adapter returns each attribute under two names; the one that starts with \<open>SAI\<close> counts.\<close>

fun attrs_from_thrift :: "thrift_libs \<Rightarrow> objref \<Rightarrow> (string \<times> tval) list \<Rightarrow> pyval list res" where
  "attrs_from_thrift L o1 [] = Ok []"
| "attrs_from_thrift L o1 ((n, v) # as) =
     (if \<not> starts_with n ''SAI'' then attrs_from_thrift L o1 as
      else
        rbind (convert_value_from_thrift L v n o1) (\<lambda>x.
        rbind (attrs_from_thrift L o1 as) (\<lambda>xs. Ok (PStr n # x # xs))))"

section \<open>Object types and status codes\<close>

text \<open>The texts and numbers that stand for a type; \<open>None\<close> for a text that names none.\<close>

definition convert_to_sai_obj_type :: "sai_obj_type list \<Rightarrow> objref \<Rightarrow> sai_obj_type option" where
  "convert_to_sai_obj_type ots o1 = (case o1 of
     OType t \<Rightarrow> Some t
   | OStr s \<Rightarrow> (case obj_type_named ots (if starts_with s ''SAI_OBJECT_TYPE_'' then drop 16 s else s) of
       Ok t \<Rightarrow> Some t | Err _ \<Rightarrow> None))"

text \<open>
  What an adapter function returns: a dictionary of attributes, another value, or the
  \<open>SaiStatus.FAILURE\<close> the client puts in place of a call that raised.
\<close>

datatype adapter_result = ADict "(string \<times> tval) list" | AVal pyval | AFailure

definition status_str :: "int \<Rightarrow> string res" where
  "status_str n = rbind (status_of_value n) (\<lambda>st. Ok (''SAI_STATUS_'' @ status_name st))"

definition convert_to_sai_status_str :: "adapter_result \<Rightarrow> string res" where
  "convert_to_sai_status_str r = (case r of
     AFailure \<Rightarrow> Ok ''SAI_STATUS_FAILURE''
   | ADict _ \<Rightarrow> Err TypeError
   | AVal v \<Rightarrow> (case v of
       PStr s \<Rightarrow> rbind (py_int 10 s) status_str
     | PInt n \<Rightarrow> status_str n
     | PBool b \<Rightarrow> status_str (if b then 1 else 0)
     | _ \<Rightarrow> Err TypeError))"

section \<open>Numbers in any base\<close>

lemma nat_digits_lead: "2 \<le> b \<Longrightarrow> b \<le> 16 \<Longrightarrow> n \<noteq> 0 \<Longrightarrow> hd (nat_digits b n) \<noteq> CHR ''0''"
proof (induction b n rule: nat_digits.induct)
  case (1 b n)
  show ?case
  proof (cases "n < b")
    case True
    then have "(of_char (digit_char n) :: nat) \<noteq> of_char CHR ''0''"
      using 1 by (auto simp: of_char_digit_char)
    with True show ?thesis by (auto simp: nat_digits.simps [of b n])
  next
    case False
    with 1 have "hd (nat_digits b (n div b)) \<noteq> CHR ''0''" by (simp add: div_eq_0_iff)
    with False 1 show ?thesis by (simp add: nat_digits.simps [of b n])
  qed
qed

lemma second_digit: "list_all is_dec s \<Longrightarrow> \<not> base_prefix 16 s \<and> \<not> base_prefix 8 s \<and> \<not> base_prefix 2 s"
proof -
  assume s: "list_all is_dec s"
  have "lower_char c = c" if "is_dec c" for c
    using that by (auto simp: lower_char_def is_dec_def Let_def)
  with s have low: "str_lower (take 2 s) = take 2 s"
    by (auto simp: str_lower_def list_all_iff intro!: map_idI dest: in_set_takeD)
  have "list_all is_dec (take 2 s)" using s by (auto simp: list_all_iff dest: in_set_takeD)
  with low show ?thesis by (auto simp: base_prefix_def Let_def is_dec_def)
qed

lemma unsigned_int_any: "unsigned_int 0 (nat_digits 10 n) = Some n"
proof -
  have "take 1 (nat_digits 10 n) \<noteq> ''0''" if "n \<noteq> 0"
    using nat_digits_lead [of 10 n] that by (cases "nat_digits 10 n") auto
  then show ?thesis
    using second_digit [OF nat_digits_dec, of n] by (auto simp: unsigned_int_def digits_from_nat_digits)
qed

lemma py_int_any:
  assumes "0 \<le> n"
  shows "py_int 0 (int_str n) = Ok n"
proof -
  have "hd (nat_digits 10 m) \<noteq> CHR ''-'' \<and> hd (nat_digits 10 m) \<noteq> CHR ''+''" for m
    using nat_digits_dec [of m] nat_digits_nonempty [of 10 m]
    by (cases "nat_digits 10 m") (auto simp: is_dec_def)
  then show ?thesis
    using py_int_signed(1) [OF nat_digits_no_space [of 10] unsigned_int_any] assms by (simp add: int_str_digits)
qed

section \<open>Signed and unsigned\<close>

lemma complement_plus_one:
  fixes v :: int
  assumes "0 \<le> v" and "v < 2 ^ w"
  shows "- ((NOT v AND mask w) + 1) = v - 2 ^ w"
proof -
  have "NOT v AND mask w = take_bit w (NOT v)" by (simp add: take_bit_eq_mask)
  also have "\<dots> = 2 ^ w - 1 - v"
    using assms by (simp add: take_bit_not_eq_mask_diff mask_eq_exp_minus_1 take_bit_int_eq_self)
  finally show ?thesis by simp
qed

lemma sint_cases: "sint w = (if uint w < 2 ^ (LENGTH('a) - 1) then uint w else uint w - 2 ^ LENGTH('a))"
  for w :: "'a::len word"
proof -
  let ?n = "LENGTH('a) - 1"
  have n: "Suc ?n = LENGTH('a)" by simp
  have less: "uint w < 2 ^ ?n * 2" using uint_bounded [of w] n by (metis power_Suc mult.commute)
  have "bit (uint w) ?n \<longleftrightarrow> 2 ^ ?n \<le> uint w"
  proof (cases "2 ^ ?n \<le> uint w")
    case True
    then have "uint w div 2 ^ ?n = 1" using less by (intro int_div_pos_eq [of _ _ _ "uint w - 2 ^ ?n"]) auto
    with True show ?thesis by (simp add: bit_iff_odd)
  next
    case False
    then have "uint w div 2 ^ ?n = 0" by (intro div_pos_pos_trivial) auto
    with False show ?thesis by (simp add: bit_iff_odd)
  qed
  then show ?thesis
    using signed_take_bit_eq_take_bit_minus [of ?n "uint w"] n
    by (simp add: sint_uint take_bit_int_eq_self uint_bounded)
qed

lemma u8_to_thrift: "convert_u8_to_thrift (int_str (uint w)) = Ok (sint w)" for w :: "8 word"
  using uint_bounded [of w] complement_plus_one [of "uint w" 8]
  by (simp add: convert_u8_to_thrift_def py_int_any sint_cases mask_eq_exp_minus_1)

lemma u16_to_thrift: "convert_u16_to_thrift (int_str (uint w)) = Ok (sint w)" for w :: "16 word"
  using uint_bounded [of w] complement_plus_one [of "uint w" 16]
  by (simp add: convert_u16_to_thrift_def py_int_any sint_cases mask_eq_exp_minus_1)

lemma unsigned_text_sint: "unsigned_text (mask LENGTH('a)) (TInt (sint w)) = Ok (int_str (uint w))"
  for w :: "'a::len word"
proof -
  have "sint w AND mask LENGTH('a) = uint w"
    by (simp add: take_bit_eq_mask [symmetric] sint_uint take_bit_signed_take_bit
        take_bit_int_eq_self uint_bounded)
  moreover have "sint w = uint w" if "0 < sint w"
  proof (cases "uint w < 2 ^ (LENGTH('a) - 1)")
    case False
    then have "sint w = uint w - 2 ^ LENGTH('a)" by (simp add: sint_cases)
    moreover have "uint w < 2 ^ LENGTH('a)" by (rule uint_bounded)
    ultimately show ?thesis using that by linarith
  qed (simp add: sint_cases)
  ultimately show ?thesis by (auto simp: unsigned_text_def)
qed

section \<open>Object IDs\<close>

lemma object_id_text: "0 \<le> n \<Longrightarrow> object_id (PStr (oid_text n)) = Ok n"
  using py_int_hex [of n] by (simp add: object_id_def oid_text_def int_hex_def)


section \<open>Lists of object IDs\<close>

definition oid_list :: "int list \<Rightarrow> tval" where
  "oid_list ns = TStruct ''sai_thrift_object_list_t''
     [(''count'', TInt (int (length ns))), (''idlist'', TList (map TInt ns))]"

lemma count_text_join: "xs \<noteq> [] \<Longrightarrow> count_text n xs = int_str n @ '':'' @ str_join '','' xs"
proof -
  have "concat (map (\<lambda>s. s @ '','') ys) = str_join '','' ys @ '',''" if "ys \<noteq> []" for ys
    using that by (induction ys rule: induct_list012) auto
  then show "xs \<noteq> [] \<Longrightarrow> count_text n xs = int_str n @ '':'' @ str_join '','' xs"
    by (simp add: count_text_def butlast_append)
qed

lemma rmap_tint [simp]: "rmap tint (map TInt ns) = Ok ns"
  by (simp add: rmap_list_all2 list_all2_map1 list_all2_same)

lemma from_oid_list: "ns \<noteq> [] \<Longrightarrow> from_sai_object_list (oid_list ns) = Ok (counted (map oid_text ns))"
  by (simp add: from_sai_object_list_def oid_list_def first_items_def count_text_join counted_def)

lemma oid_text_no_comma: "CHR '','' \<notin> set (oid_text n)"
  using nat_digits_all [of 16 "\<lambda>c. c \<noteq> CHR '',''"] by (auto simp: oid_text_def int_hex_def list_all_iff)

lemma to_oid_list:
  assumes "ns \<noteq> []" and "list_all (\<lambda>n. 0 \<le> n) ns"
  shows "sai_object_list (PStr (counted (map oid_text ns))) = Ok (oid_list ns)"
proof -
  have "str_split '','' (str_join '','' (map oid_text ns)) = map oid_text ns"
    using assms by (intro str_split_join) (auto simp: list_all_iff oid_text_no_comma)
  moreover have "rmap object_id (map PStr (map oid_text ns)) = Ok ns"
    using assms by (auto simp: rmap_list_all2 list_all2_map1 list_all2_same list_all_iff object_id_text)
  ultimately show ?thesis
    by (simp add: sai_object_list_def counted_def str_split1_single int_str_no_colon py_int_dec nth_res_def oid_list_def)
qed

interpretation oid_list_codec: codec
  "\<lambda>ns. counted (map oid_text ns)" "\<lambda>s. rbind (sai_object_list (PStr s)) (\<lambda>v. rbind (tfield ''idlist'' v) (\<lambda>l. rbind (titems l) (rmap tint)))"
  "\<lambda>ns. ns \<noteq> [] \<and> list_all (\<lambda>n. 0 \<le> n) ns"
  by unfold_locales (simp add: to_oid_list oid_list_def)

section \<open>Prefixes\<close>

lemma ipv4_text_dot: "CHR ''.'' \<in> set (ipv4_text n)"
  unfolding ipv4_text_def by (simp add: numeral_eq_Suc)

lemma sai_ipprefix_v4:
  assumes "0 \<le> a" and "a < 2 ^ 32" and "p \<le> 32" and "lib_header L ''SAI_IP_ADDR_FAMILY_IPV4'' = Some f"
  shows "sai_ipprefix L (PStr (ipv4_text a @ ''/'' @ int_str (int p))) =
    Ok (ip_prefix_struct f ''ip4'' (ipv4_text (a - a mod 2 ^ (32 - p)), ipv4_text (2 ^ 32 - 2 ^ (32 - p))))"
  using assms ipv4_network_text [OF assms(1-3)] ipv4_text_dot [of a]
  by (simp add: sai_ipprefix_def sai_const_def)

end
