(* ===== verification/ThriftClient.thy ===== *)
theory ThriftClient imports ThriftConvert begin

text \<open>
  \<open>SaiThriftClient\<close> of \<open>common/sai_client/sai_thrift_client/sai_thrift_client.py\<close>: the client that calls
  the functions of the generated \<open>sai_adapter\<close>. The adapter, the Thrift connection and the restart of
  the server are a record of functions on an unknown environment \<open>'e\<close>.
\<close>

section \<open>The adapter and the state\<close>

text \<open>
  \<open>th_has\<close>: whether the adapter has a function. \<open>th_call\<close>: a call with keyword arguments. \<open>th_status\<close>: the
  module variable \<open>sai_adapter.status\<close>. \<open>th_query\<close>: \<open>sai_thrift_object_type_query\<close>. \<open>th_close\<close>, \<open>th_open\<close>: the
  transport; \<open>th_restart\<close>: the restart of \<open>saiserver\<close>, over SSH or on this host.
\<close>

record 'e thrift_env =
  th_has :: "string \<Rightarrow> bool"
  th_call :: "string \<Rightarrow> (string \<times> tval) list \<Rightarrow> ('e, adapter_result) py"
  th_status :: "'e \<Rightarrow> int"
  th_query :: "int \<Rightarrow> ('e, int) py"
  th_close :: "('e, unit) py"
  th_open :: "('e, unit) py"
  th_restart :: "bool \<Rightarrow> ('e, unit) py"
  th_sleep :: "nat \<Rightarrow> ('e, unit) py"

record 'e tclient =
  tenv :: 'e
  sai_type_map :: "(int, sai_obj_type option) dict"

definition on_tenv :: "('e, 'a) py \<Rightarrow> (('e, 'z) tclient_scheme, 'a) py" where
  "on_tenv m = (\<lambda>s. case m (tenv s) of (r, e) \<Rightarrow> (r, s\<lparr>tenv := e\<rparr>))"

lemma on_tenv_app [py_simps]: "on_tenv m s = (case m (tenv s) of (r, e) \<Rightarrow> (r, s\<lparr>tenv := e\<rparr>))"
  by (simp add: on_tenv_def)

section \<open>Objects\<close>

text \<open>
  \<open>obj_to_items\<close>: type, OID and key of an object. The Redis form of an FDB key is changed to the
  Thrift form as text.
\<close>

definition fdb_key_text :: "string \<Rightarrow> string" where
  "fdb_key_text k = (if str_in ''bvid'' k
     then str_replace ''mac'' ''mac_address'' (str_replace ''bvid'' ''bv_id'' k) else k)"

definition obj_to_items :: "objref \<Rightarrow> (objref option \<times> string option \<times> pyval) res" where
  "obj_to_items o1 = (case o1 of
     OType t \<Rightarrow> Ok (Some (OType t), None, PNone)
   | OStr s \<Rightarrow>
       if starts_with s ''oid:0x'' then Ok (None, Some s, PNone)
       else (case str_split1 '':'' s of
         [t] \<Rightarrow> Ok (Some (OStr t), None, PNone)
       | t # k # _ \<Rightarrow>
           if starts_with k ''oid:0x'' then Ok (Some (OStr t), Some k, PNone)
           else rbind (loads (if t = ''SAI_OBJECT_TYPE_FDB_ENTRY'' then fdb_key_text k else k)) (\<lambda>key.
             Ok (Some (OStr t), None, key))
       | [] \<Rightarrow> Err (Unmodelled ''split'')))"

text \<open>
  \<open>get_object_type\<close>. The cache is keyed by numbers, so an OID given as text is always asked for; any
  exception on the way becomes a plain \<open>Exception\<close>. A text that names no type gives no type.
\<close>

definition get_object_type ::
  "'e thrift_env \<Rightarrow> sai_obj_type list \<Rightarrow> pyval \<Rightarrow> objref option \<Rightarrow> (('e, 'z) tclient_scheme, sai_obj_type option) py" where
  "get_object_type E ots oid dflt = (case dflt of
     Some o1 \<Rightarrow> py_return (convert_to_sai_obj_type ots o1)
   | None \<Rightarrow>
       if oid = PNone then py_bind (py_lift (obj_type_valued ots 0)) (\<lambda>t. py_return (Some t))
       else
         py_handle
           (py_bind (py_get sai_type_map) (\<lambda>m.
            case (case oid of PInt n \<Rightarrow> Option.bind (map_of m n) id | _ \<Rightarrow> None) of
              Some t \<Rightarrow> py_return (Some t)
            | None \<Rightarrow>
                py_bind (py_lift (object_id oid)) (\<lambda>n.
                py_bind (on_tenv (th_query E n)) (\<lambda>v.
                py_bind (py_lift (obj_type_valued ots v)) (\<lambda>t. py_return (Some t))))))
           (\<lambda>_. py_raise PyException))"

text \<open>\<open>.name\<close> of the result.\<close>

definition type_name :: "sai_obj_type option \<Rightarrow> string res" where
  "type_name t = (case t of None \<Rightarrow> Err AttributeError | Some t \<Rightarrow> Ok (ot_name t))"

definition thrift_vid_to_type ::
  "'e thrift_env \<Rightarrow> sai_obj_type list \<Rightarrow> string \<Rightarrow> (('e, 'z) tclient_scheme, string) py" where
  "thrift_vid_to_type E ots vid =
     py_bind (get_object_type E ots (PStr vid) None) (\<lambda>t.
     py_bind (py_lift (type_name t)) (\<lambda>n. py_return (''SAI_OBJECT_TYPE_'' @ n)))"

section \<open>Calls\<close>

text \<open>The same keyword twice in a call is a \<open>TypeError\<close>.\<close>

definition merge_kwargs :: "(string \<times> tval) list \<Rightarrow> (string \<times> tval) list \<Rightarrow> (string \<times> tval) list res" where
  "merge_kwargs a b = (if list_ex (\<lambda>k. k \<in> set (map fst a)) (map fst b) then Err TypeError else Ok (a @ b))"

definition adapter_function :: "'e thrift_env \<Rightarrow> string \<Rightarrow> ('s, unit) py" where
  "adapter_function E f = (if th_has E f then py_return () else py_raise AttributeError)"

text \<open>The OID as a number, or \<open>None\<close>; both an OID and a key are refused.\<close>

definition oid_number :: "string option \<Rightarrow> pyval \<Rightarrow> pyval res" where
  "oid_number oid key = (case oid of
     None \<Rightarrow> Ok PNone
   | Some s \<Rightarrow> if key \<noteq> PNone then Err ValueError else rbind (object_id (PStr s)) (\<lambda>n. Ok (PInt n)))"

text \<open>\<open>_operate\<close>; of a success the key, if there is one, else what the adapter returned.\<close>

definition operate_thrift ::
  "'e thrift_env \<Rightarrow> thrift_libs \<Rightarrow> sai_obj_type list \<Rightarrow> string \<Rightarrow> pyval list \<Rightarrow> string option \<Rightarrow> objref option \<Rightarrow>
   pyval \<Rightarrow> (('e, 'z) tclient_scheme, string \<times> adapter_result \<times> pyval) py" where
  "operate_thrift E L ots operation attrs oid obj_type key =
     py_bind (py_lift (oid_number oid key)) (\<lambda>n.
     py_bind (get_object_type E ots n obj_type) (\<lambda>t.
     py_bind (py_lift (type_name t)) (\<lambda>tn.
     (let name = str_lower tn in
      py_bind (py_lift (convert_key_to_thrift L ots name key)) (\<lambda>(object_key, key').
      (let object_key' = (if oid = None then object_key else dict_set (name @ ''_oid'') (TPy n) object_key);
           f = ''sai_thrift_'' @ operation @ ''_'' @ name in
       py_bind (adapter_function E f) (\<lambda>_.
       py_bind (py_lift (convert_attributes_to_thrift L ots attrs)) (\<lambda>attr_kwargs.
       py_bind (py_lift (merge_kwargs object_key' attr_kwargs)) (\<lambda>kwargs.
       py_bind (on_tenv (th_call E f kwargs)) (\<lambda>result.
       py_bind (py_get (\<lambda>s. th_status E (tenv s))) (\<lambda>code.
       py_bind (py_lift (status_str code)) (\<lambda>status.
       py_return (status,
         if status = success then (if key' \<noteq> PNone then AVal key' else result) else AVal PNone,
         key')))))))))))))"

text \<open>\<open>type(x) is int\<close> for what an adapter function returned.\<close>

definition result_int :: "adapter_result \<Rightarrow> int option" where
  "result_int r = (case r of AVal (PInt n) \<Rightarrow> Some n | AVal (PBool b) \<Rightarrow> Some (if b then 1 else 0) | _ \<Rightarrow> None)"

text \<open>The type to remember for a new object: a text is looked up as a member.\<close>

definition new_obj_type :: "sai_obj_type list \<Rightarrow> objref option \<Rightarrow> sai_obj_type option res" where
  "new_obj_type ots o1 = (case o1 of
     None \<Rightarrow> Ok None
   | Some (OType t) \<Rightarrow> Ok (Some t)
   | Some (OStr s) \<Rightarrow> rbind (obj_type_named ots (str_replace ''SAI_OBJECT_TYPE_'' [] s)) (\<lambda>t. Ok (Some t)))"

definition thrift_create ::
  "'e thrift_env \<Rightarrow> thrift_libs \<Rightarrow> sai_obj_type list \<Rightarrow> objref \<Rightarrow> pyval list \<Rightarrow> bool \<Rightarrow>
   (('e, 'z) tclient_scheme, pyval reply) py" where
  "thrift_create E L ots o1 attrs do_assert =
     py_bind (py_lift (obj_to_items o1)) (\<lambda>(obj_type, _, key).
     py_bind (operate_thrift E L ots ''create'' attrs None obj_type key) (\<lambda>(status, result, key').
     py_bind (case (key', result_int result) of
         (PNone, Some n) \<Rightarrow>
           py_bind (py_lift (new_obj_type ots obj_type)) (\<lambda>t.
           py_modify (\<lambda>s. s\<lparr>sai_type_map := dict_set n t (sai_type_map s)\<rparr>))
       | _ \<Rightarrow> py_return ()) (\<lambda>_.
     py_bind (py_lift
       (if status = success then
          (if key' = PNone then (case result_int result of Some n \<Rightarrow> Ok (PStr (oid_text n)) | None \<Rightarrow> Err TypeError)
           else Ok key')
        else Ok PNone)) (\<lambda>vid.
     py_bind (assert_success do_assert status) (\<lambda>_.
     py_return (if do_assert then Bare vid else Tagged status vid))))))"

definition thrift_remove ::
  "'e thrift_env \<Rightarrow> thrift_libs \<Rightarrow> sai_obj_type list \<Rightarrow> objref \<Rightarrow> bool \<Rightarrow> (('e, 'z) tclient_scheme, string) py" where
  "thrift_remove E L ots o1 do_assert =
     py_bind (py_lift (obj_to_items o1)) (\<lambda>(obj_type, oid, key).
     py_bind (operate_thrift E L ots ''remove'' [] oid obj_type key) (\<lambda>(status, _).
     py_bind (assert_success do_assert status) (\<lambda>_.
     py_return status)))"

section \<open>Attributes one by one\<close>

text \<open>
  The body of the loop of \<open>_operate_attributes\<close> for one attribute: the keyword must not start with a
  digit, and an exception of the call counts as \<open>SaiStatus.FAILURE\<close>.
\<close>

definition keyword_name :: "string \<Rightarrow> string res" where
  "keyword_name a = (case a of [] \<Rightarrow> Err IndexError
     | c # _ \<Rightarrow> Ok (if isdigit_char c then CHR ''_'' # a else a))"

definition call_attribute ::
  "'e thrift_env \<Rightarrow> string \<Rightarrow> (string \<times> tval) list \<Rightarrow> string \<times> tval \<Rightarrow> (('e, 'z) tclient_scheme, adapter_result) py" where
  "call_attribute E f object_key av =
     py_bind (py_lift (keyword_name (fst av))) (\<lambda>a.
     py_catch
       (py_bind (py_lift (merge_kwargs object_key [(a, snd av)])) (\<lambda>kwargs. on_tenv (th_call E f kwargs)))
       (\<lambda>_. True) (py_return AFailure))"

text \<open>
  What \<open>convert_attributes_from_thrift\<close> makes of a result: nothing of \<open>None\<close>; a dictionary's attributes;
  any other value that is not false has no \<open>items\<close>.
\<close>

definition result_attrs :: "thrift_libs \<Rightarrow> objref \<Rightarrow> adapter_result \<Rightarrow> pyval list res" where
  "result_attrs L o1 r = (case r of
     ADict as \<Rightarrow> attrs_from_thrift L o1 as
   | AFailure \<Rightarrow> Err AttributeError
   | AVal v \<Rightarrow> if truthy v then Err AttributeError else Ok [])"

text \<open>
  The loop; the attributes are converted one at a time, so those before a bad one have been sent.
  Without any attribute the status is never bound.
\<close>

fun attributes_loop ::
  "'e thrift_env \<Rightarrow> thrift_libs \<Rightarrow> sai_obj_type list \<Rightarrow> string \<Rightarrow> string \<Rightarrow> (string \<times> tval) list \<Rightarrow> objref \<Rightarrow>
   string option \<Rightarrow> pyval list \<Rightarrow> (pyval \<times> pyval) list \<Rightarrow> (('e, 'z) tclient_scheme, string \<times> pyval list) py" where
  "attributes_loop E L ots operation f object_key o1 status result [] =
     (case status of None \<Rightarrow> py_raise NameError | Some st \<Rightarrow> py_return (st, result))"
| "attributes_loop E L ots operation f object_key o1 status result (nv # nvs) =
     py_bind (py_lift (attr_to_thrift L ots nv)) (\<lambda>av. case av of
       None \<Rightarrow> attributes_loop E L ots operation f object_key o1 status result nvs
     | Some av \<Rightarrow>
         py_bind (call_attribute E f object_key av) (\<lambda>r.
         if operation = ''set'' then
           py_bind (py_lift (convert_to_sai_status_str r)) (\<lambda>st.
           attributes_loop E L ots operation f object_key o1 (Some st) result nvs)
         else
           py_bind (py_get (\<lambda>s. th_status E (tenv s))) (\<lambda>code.
           py_bind (py_lift (status_str code)) (\<lambda>st.
           if st \<notin> {success, buffer_overflow} then py_return (st, [])
           else
             py_bind (py_lift (result_attrs L o1 r)) (\<lambda>xs.
             attributes_loop E L ots operation f object_key o1 (Some st) (result @ xs) nvs)))))"

definition operate_attributes ::
  "'e thrift_env \<Rightarrow> thrift_libs \<Rightarrow> sai_obj_type list \<Rightarrow> string \<Rightarrow> pyval list \<Rightarrow> string option \<Rightarrow> objref option \<Rightarrow>
   pyval \<Rightarrow> (('e, 'z) tclient_scheme, string \<times> pyval list) py" where
  "operate_attributes E L ots operation attrs oid obj_type key =
     py_bind (py_lift (oid_number oid key)) (\<lambda>n.
     py_bind (case obj_type of
         Some o1 \<Rightarrow> py_return o1
       | None \<Rightarrow> py_bind (get_object_type E ots n None) (\<lambda>t. case t of
           Some t \<Rightarrow> py_return (OType t) | None \<Rightarrow> py_raise AttributeError)) (\<lambda>o1.
     py_bind (py_lift (type_name (convert_to_sai_obj_type ots o1))) (\<lambda>tn.
     (let name = str_lower tn;
          f = ''sai_thrift_'' @ operation @ ''_'' @ name @ ''_attribute'' in
      py_bind (py_lift (convert_key_to_thrift L ots name key)) (\<lambda>(object_key, _).
      py_bind (adapter_function E f) (\<lambda>_.
      attributes_loop E L ots operation f
        (if key = PNone \<and> name \<noteq> ''switch'' then [(name @ ''_oid'', TPy n)] else object_key)
        o1 None [] (chunks2 attrs)))))))"

definition thrift_set ::
  "'e thrift_env \<Rightarrow> thrift_libs \<Rightarrow> sai_obj_type list \<Rightarrow> objref \<Rightarrow> pyval list \<Rightarrow> bool \<Rightarrow> (('e, 'z) tclient_scheme, string) py" where
  "thrift_set E L ots o1 attr do_assert =
     py_bind (py_lift (obj_to_items o1)) (\<lambda>(obj_type, oid, key).
     py_bind (operate_attributes E L ots ''set'' attr oid obj_type key) (\<lambda>(status, _).
     py_bind (assert_success do_assert status) (\<lambda>_.
     py_return status)))"

text \<open>
  The data \<open>get\<close> makes up when the adapter gave none but the buffer was too small: the size to ask
  for the next time.
\<close>

definition no_list :: "int \<Rightarrow> string" where
  "no_list n = dumps_with True (PDict [(''count'', PInt n), (''list'', PNone)])"

definition no_data :: "pyval list \<Rightarrow> sai_data option res" where
  "no_data attrs =
     rbind (rbind (nth_res attrs 1) (as_str AttributeError)) (\<lambda>v.
     if starts_with v ''1:'' then Ok (Some (SaiData (Some (dumps (PList [PStr [], PStr ''128''])))))
     else
       rbind (rbind (nth_res attrs 0) (as_str AttributeError)) (\<lambda>a.
       Ok (if starts_with a ''SAI_SWITCH_ATTR_ACL_STAGE''
           then Some (SaiData (Some (dumps (PList [PStr [], PStr ''false:512:0'']))))
           else if starts_with a ''SAI_SWITCH_ATTR_AVAILABLE_ACL_''
           then Some (SaiData (Some (dumps (PList [PNone, PStr (no_list 64)]))))
           else if a = ''SAI_SWITCH_ATTR_SYSTEM_PORT_CONFIG_LIST''
           then Some (SaiData (Some (dumps (PList [PNone, PStr (no_list 256)]))))
           else None)))"

definition thrift_get ::
  "'e thrift_env \<Rightarrow> thrift_libs \<Rightarrow> sai_obj_type list \<Rightarrow> objref \<Rightarrow> pyval list \<Rightarrow> bool \<Rightarrow>
   (('e, 'z) tclient_scheme, sai_data option reply) py" where
  "thrift_get E L ots o1 attrs do_assert =
     py_bind (py_lift (obj_to_items o1)) (\<lambda>(obj_type, oid, key).
     py_bind (operate_attributes E L ots ''get'' attrs oid obj_type key) (\<lambda>(status, raw_result).
     if raw_result = [] then
       py_bind (py_assert (\<not> do_assert)) (\<lambda>_.
       if status \<noteq> buffer_overflow then py_return (Tagged status None)
       else py_bind (py_lift (no_data attrs)) (\<lambda>d. py_return (Tagged status d)))
     else
       py_bind (assert_success do_assert status) (\<lambda>_.
       (let d = Some (SaiData (Some (dumps (PList raw_result)))) in
        py_return (if do_assert then Bare d else Tagged status d)))))"

section \<open>Statistics\<close>

text \<open>\<open>_operate_stats\<close>; without success the result is \<open>None\<close>.\<close>

definition operate_stats ::
  "'e thrift_env \<Rightarrow> thrift_libs \<Rightarrow> sai_obj_type list \<Rightarrow> string \<Rightarrow> pyval list \<Rightarrow> string option \<Rightarrow> objref option \<Rightarrow>
   (('e, 'z) tclient_scheme, string \<times> adapter_result) py" where
  "operate_stats E L ots operation attrs oid obj_type =
     py_bind (py_lift (oid_number oid PNone)) (\<lambda>n.
     py_bind (get_object_type E ots n obj_type) (\<lambda>t.
     py_bind (py_lift (type_name t)) (\<lambda>tn.
     (let name = str_lower tn; f = ''sai_thrift_'' @ operation @ ''_'' @ name @ ''_stats'' in
      py_bind (adapter_function E f) (\<lambda>_.
      py_bind (py_lift (convert_counter_ids_to_thrift L attrs name)) (\<lambda>attr_kwargs.
      py_bind (py_lift (merge_kwargs [(name @ ''_oid'', TPy n)] attr_kwargs)) (\<lambda>kwargs.
      py_bind (on_tenv (th_call E f kwargs)) (\<lambda>result.
      py_bind (py_get (\<lambda>s. th_status E (tenv s))) (\<lambda>code.
      py_bind (py_lift (status_str code)) (\<lambda>status.
      py_return (status, if status = success then result else AVal PNone)))))))))))"

text \<open>\<open>[key for pair in result.items() for key in pair]\<close>.\<close>

definition stats_items :: "adapter_result \<Rightarrow> pyval list res" where
  "stats_items r = (case r of
     ADict kvs \<Rightarrow> rbind (rmap (\<lambda>(k, v). rbind (tpy v) (\<lambda>x. Ok [PStr k, x])) kvs) (\<lambda>xs. Ok (concat xs))
   | _ \<Rightarrow> Err AttributeError)"

definition thrift_get_stats ::
  "'e thrift_env \<Rightarrow> thrift_libs \<Rightarrow> sai_obj_type list \<Rightarrow> objref \<Rightarrow> pyval list \<Rightarrow> bool \<Rightarrow>
   (('e, 'z) tclient_scheme, sai_data reply) py" where
  "thrift_get_stats E L ots o1 attrs do_assert =
     py_bind (py_lift (obj_to_items o1)) (\<lambda>(obj_type, oid, _).
     py_bind (operate_stats E L ots ''get'' attrs oid obj_type) (\<lambda>(status, result).
     py_bind (assert_success do_assert status) (\<lambda>_.
     py_bind (py_lift (stats_items result)) (\<lambda>xs.
     (let d = SaiData (Some (dumps (PList xs))) in
      py_return (if do_assert then Bare d else Tagged status d))))))"

definition thrift_clear_stats ::
  "'e thrift_env \<Rightarrow> thrift_libs \<Rightarrow> sai_obj_type list \<Rightarrow> objref \<Rightarrow> pyval list \<Rightarrow> bool \<Rightarrow>
   (('e, 'z) tclient_scheme, string) py" where
  "thrift_clear_stats E L ots o1 attrs do_assert =
     py_bind (py_lift (obj_to_items o1)) (\<lambda>(obj_type, oid, _).
     py_bind (operate_stats E L ots ''clear'' attrs oid obj_type) (\<lambda>(status, _).
     py_bind (assert_success do_assert status) (\<lambda>_.
     py_return status)))"

section \<open>Clean-up and flush\<close>

record thrift_cfg =
  tc_ip :: string
  tc_saivs :: pyval
  tc_username :: string
  tc_password :: string

text \<open>\<open>th_restart True\<close> restarts over SSH, \<open>th_restart False\<close> on this host; other targets are left alone.\<close>

definition thrift_cleanup :: "'e thrift_env \<Rightarrow> thrift_cfg \<Rightarrow> (('e, 'z) tclient_scheme, unit) py" where
  "thrift_cleanup E cfg =
     (let init_time = (if truthy (tc_saivs cfg) then 1000 else 5000) in
      py_bind (on_tenv (th_close E)) (\<lambda>_.
      py_bind
        (if tc_username cfg \<noteq> [] \<and> tc_password cfg \<noteq> [] then
           py_bind (on_tenv (th_restart E True)) (\<lambda>_. on_tenv (th_sleep E init_time))
         else if tc_ip cfg \<in> {''localhost'', ''127.0.0.1''} then
           py_bind (on_tenv (th_restart E False)) (\<lambda>_. on_tenv (th_sleep E init_time))
         else py_return ()) (\<lambda>_.
      on_tenv (th_open E))))"

definition thrift_flush_fdb_entries ::
  "'e thrift_env \<Rightarrow> thrift_libs \<Rightarrow> sai_obj_type list \<Rightarrow> objref \<Rightarrow> pyval list \<Rightarrow> (('e, 'z) tclient_scheme, unit) py" where
  "thrift_flush_fdb_entries E L ots o1 attrs =
     py_bind (py_lift (obj_to_items o1)) (\<lambda>_.
     py_bind (py_lift (convert_attributes_to_thrift L ots attrs)) (\<lambda>attr_kwargs.
     py_bind (adapter_function E ''sai_thrift_flush_fdb_entries'') (\<lambda>_.
     py_bind (on_tenv (th_call E ''sai_thrift_flush_fdb_entries'' attr_kwargs)) (\<lambda>_.
     py_return ()))))"

section \<open>Bulk operations\<close>

text \<open>The text of a type, without the check of the Redis client; \<open>attrs[0] if len(attrs) == 1 else attrs[i]\<close>.\<close>

definition bulk_type_text :: "objref \<Rightarrow> string" where
  "bulk_type_text o1 = (case o1 of OType t \<Rightarrow> ''SAI_OBJECT_TYPE_'' @ ot_name t | OStr s \<Rightarrow> s)"

definition bulk_entry_attrs :: "pyval list list \<Rightarrow> nat \<Rightarrow> pyval list res" where
  "bulk_entry_attrs attrs i = (if length attrs = 1 then Ok (hd attrs) else nth_res attrs i)"

text \<open>\<open>obj_type + ":" + json.dumps(keys[i])\<close>; without keys the subscript is a \<open>TypeError\<close>.\<close>

definition bulk_obj :: "objref \<Rightarrow> pyval list option \<Rightarrow> nat \<Rightarrow> objref res" where
  "bulk_obj o1 keys i = (case keys of
     None \<Rightarrow> Err TypeError
   | Some ks \<Rightarrow> rbind (nth_res ks i) (\<lambda>k. Ok (OStr (bulk_type_text o1 @ '':'' @ dumps k))))"

text \<open>
  The loop of \<open>bulk_create\<close> from index \<open>i\<close>, for \<open>k\<close> more entries. The list of statuses starts with one
  \<open>None\<close> per entry and the statuses are appended to it.
\<close>

fun bulk_create_loop ::
  "'e thrift_env \<Rightarrow> thrift_libs \<Rightarrow> sai_obj_type list \<Rightarrow> objref \<Rightarrow> pyval list option \<Rightarrow> pyval list list \<Rightarrow> bool \<Rightarrow>
   nat \<Rightarrow> nat \<Rightarrow> pyval list \<Rightarrow> pyval list \<Rightarrow> (('e, 'z) tclient_scheme, string \<times> pyval list \<times> pyval list) py" where
  "bulk_create_loop E L ots o1 keys attrs do_assert i 0 outs sts = py_return (success, outs, sts)"
| "bulk_create_loop E L ots o1 keys attrs do_assert i (Suc k) outs sts =
     py_bind (py_lift (bulk_entry_attrs attrs i)) (\<lambda>attr.
     py_bind (py_lift (bulk_obj o1 keys i)) (\<lambda>obj.
     py_bind (thrift_create E L ots obj attr do_assert) (\<lambda>r. case r of
       Tagged status vid \<Rightarrow>
         (if status \<noteq> success then py_return (''SAI_STATUS_FAILURE'', outs @ [vid], sts @ [PStr status])
          else bulk_create_loop E L ots o1 keys attrs do_assert (Suc i) k (outs @ [vid]) (sts @ [PStr status]))
     | Bare vid \<Rightarrow>
         bulk_create_loop E L ots o1 keys attrs do_assert (Suc i) k (outs @ [vid]) (sts @ [PStr success]))))"

definition thrift_bulk_create ::
  "'e thrift_env \<Rightarrow> thrift_libs \<Rightarrow> sai_obj_type list \<Rightarrow> objref \<Rightarrow> pyval list option \<Rightarrow> pyval list list \<Rightarrow> nat \<Rightarrow> bool \<Rightarrow>
   (('e, 'z) tclient_scheme, string \<times> pyval list \<times> pyval list) py" where
  "thrift_bulk_create E L ots o1 keys attrs obj_count do_assert =
     (let n = (case keys of Some (k # ks) \<Rightarrow> length (k # ks) | _ \<Rightarrow> obj_count) in
      bulk_create_loop E L ots o1 keys attrs do_assert 0 n [] (replicate n PNone))"

text \<open>
  \<open>status, _ = self.remove(..)\<close>: \<open>remove\<close> and \<open>set\<close> return the status alone, and unpacking a text that is
  not two characters long is a \<open>ValueError\<close>.
\<close>

definition unpack_pair :: "string \<Rightarrow> string res" where
  "unpack_pair s = (case s of [a, b] \<Rightarrow> Ok [a] | _ \<Rightarrow> Err ValueError)"

fun bulk_each ::
  "(pyval \<Rightarrow> nat \<Rightarrow> (('e, 'z) tclient_scheme, string) py) \<Rightarrow> bool \<Rightarrow> nat \<Rightarrow> pyval list \<Rightarrow> pyval list \<Rightarrow>
   (('e, 'z) tclient_scheme, string \<times> pyval list) py" where
  "bulk_each act do_assert i [] sts = py_return (success, sts)"
| "bulk_each act do_assert i (k # ks) sts =
     py_bind (act k i) (\<lambda>r.
     if do_assert then bulk_each act do_assert (Suc i) ks sts
     else
       py_bind (py_lift (unpack_pair r)) (\<lambda>status.
       if status \<noteq> success then py_return (''SAI_STATUS_FAILURE'', sts @ [PStr status])
       else bulk_each act do_assert (Suc i) ks (sts @ [PStr status])))"

definition thrift_bulk_remove ::
  "'e thrift_env \<Rightarrow> thrift_libs \<Rightarrow> sai_obj_type list \<Rightarrow> objref \<Rightarrow> pyval list \<Rightarrow> bool \<Rightarrow>
   (('e, 'z) tclient_scheme, string \<times> pyval list) py" where
  "thrift_bulk_remove E L ots o1 keys do_assert =
     bulk_each (\<lambda>k _. thrift_remove E L ots (OStr (bulk_type_text o1 @ '':'' @ dumps k)) do_assert)
       do_assert 0 keys (replicate (length keys) PNone)"

definition thrift_bulk_set ::
  "'e thrift_env \<Rightarrow> thrift_libs \<Rightarrow> sai_obj_type list \<Rightarrow> objref \<Rightarrow> pyval list \<Rightarrow> pyval list list \<Rightarrow> bool \<Rightarrow>
   (('e, 'z) tclient_scheme, string \<times> pyval list) py" where
  "thrift_bulk_set E L ots o1 keys attrs do_assert =
     bulk_each (\<lambda>k i. py_bind (py_lift (bulk_entry_attrs attrs i)) (\<lambda>attr.
         thrift_set E L ots (OStr (bulk_type_text o1 @ '':'' @ dumps k)) attr do_assert))
       do_assert 0 keys (replicate (length keys) PNone)"

section \<open>The Thrift client as a client of \<open>Sai\<close>\<close>

text \<open>
  The record the callers use. \<open>get\<close> without data is outside what the callers are modelled with, and so
  are bulk keys that are no texts; warm reboot is not implemented by this client.
\<close>

definition some_data :: "sai_data option reply \<Rightarrow> sai_data reply res" where
  "some_data r = (case r of
     Bare (Some d) \<Rightarrow> Ok (Bare d)
   | Tagged st (Some d) \<Rightarrow> Ok (Tagged st d)
   | _ \<Rightarrow> Err (Unmodelled ''no data''))"

definition all_elements :: "pyval list \<Rightarrow> pyval list list res" where
  "all_elements = rmap elements"

definition thrift_sai_client ::
  "'e thrift_env \<Rightarrow> thrift_libs \<Rightarrow> sai_obj_type list \<Rightarrow> thrift_cfg \<Rightarrow> ('e, 'z) tclient_scheme sai_client" where
  "thrift_sai_client E L ots cfg =
     \<lparr>c_create = (\<lambda>o1 attrs b. py_bind (py_lift (elements attrs)) (\<lambda>as. thrift_create E L ots o1 as b)),
      c_remove = (\<lambda>obj. thrift_remove E L ots (OStr obj)),
      c_set = (\<lambda>obj attrs b. py_bind (py_lift (elements attrs)) (\<lambda>as. thrift_set E L ots (OStr obj) as b)),
      c_get = (\<lambda>obj attrs b. py_bind (py_lift (elements attrs)) (\<lambda>as.
        py_bind (thrift_get E L ots (OStr obj) as b) (\<lambda>r. py_lift (some_data r)))),
      c_vid_to_type = thrift_vid_to_type E ots,
      c_bulk_create = (\<lambda>o1 keys attrs n b. py_bind (py_lift (all_elements attrs)) (\<lambda>ass.
        py_bind (thrift_bulk_create E L ots o1 keys ass (nat n) b) (\<lambda>(st, outs, sts).
        py_bind (py_lift (rmap (as_str (Unmodelled ''key'')) outs)) (\<lambda>ks. py_return (st, ks, sts))))),
      c_bulk_remove = thrift_bulk_remove E L ots,
      c_bulk_set = (\<lambda>o1 keys attrs b. py_bind (py_lift (all_elements attrs)) (\<lambda>ass.
        thrift_bulk_set E L ots o1 keys ass b)),
      c_flush_fdb = (\<lambda>obj attrs. py_bind (py_lift (elements attrs)) (\<lambda>as. thrift_flush_fdb_entries E L ots (OStr obj) as)),
      c_sleep = (\<lambda>ms. on_tenv (th_sleep E ms)),
      c_cleanup = thrift_cleanup E cfg,
      c_pre_shutdown = (\<lambda>_. py_raise NotImplementedError),
      c_warm_shutdown = (\<lambda>_. py_raise NotImplementedError),
      c_verify_restore = (\<lambda>_. py_raise NotImplementedError)\<rparr>"

lemma assert_success_Ok [simp]: "assert_success b st s = (Ok u, t) \<longleftrightarrow> (b \<longrightarrow> st = success) \<and> t = s"
  by (auto simp: assert_success_def)

lemma thrift_create_form:
  assumes "thrift_create E L ots o1 attrs b s = (Ok r, t)"
  shows "if b then \<exists>v. r = Bare v else \<exists>st v. r = Tagged st v"
  using assms by (auto simp: thrift_create_def py_bind_Ok_iff py_return_app split: prod.splits)

lemma thrift_remove_ok: "thrift_remove E L ots o1 True s = (Ok st, t) \<Longrightarrow> st = success"
  by (auto simp: thrift_remove_def py_bind_Ok_iff py_return_app split: prod.splits)

lemma thrift_set_ok: "thrift_set E L ots o1 attrs True s = (Ok st, t) \<Longrightarrow> st = success"
  by (auto simp: thrift_set_def py_bind_Ok_iff py_return_app split: prod.splits)

lemma thrift_get_form:
  assumes "thrift_get E L ots o1 attrs b s = (Ok r, t)"
  shows "if b then \<exists>d. r = Bare (Some d) else \<exists>st d. r = Tagged st d"
  using assms
  by (auto simp: thrift_get_def py_bind_Ok_iff py_return_app Let_def split: prod.splits if_splits)

lemma some_data_Bare: "some_data r = Ok (Bare d) \<longleftrightarrow> r = Bare (Some d)"
  by (auto simp: some_data_def split: reply.splits option.splits)

lemma some_data_Tagged: "some_data r = Ok (Tagged st d) \<longleftrightarrow> r = Tagged st (Some d)"
  by (auto simp: some_data_def split: reply.splits option.splits)

interpretation thrift_crud: sai_crud "thrift_sai_client E L ots cfg" for E L ots cfg
proof unfold_locales
  show "\<exists>v. r = Bare v" if "c_create (thrift_sai_client E L ots cfg) o1 attrs True c = (Ok r, d)" for o1 attrs c r d
    using that thrift_create_form by (fastforce simp: thrift_sai_client_def py_bind_Ok_iff)
  show "\<exists>s v. r = Tagged s v" if "c_create (thrift_sai_client E L ots cfg) o1 attrs False c = (Ok r, d)" for o1 attrs c r d
    using that thrift_create_form by (fastforce simp: thrift_sai_client_def py_bind_Ok_iff)
  show "\<exists>v. q = Bare v" if "c_get (thrift_sai_client E L ots cfg) obj attrs True c = (Ok q, d)" for obj attrs c q d
    using that by (cases q) (auto simp: thrift_sai_client_def py_bind_Ok_iff py_lift_def some_data_Tagged dest!: thrift_get_form)
  show "\<exists>s v. q = Tagged s v" if "c_get (thrift_sai_client E L ots cfg) obj attrs False c = (Ok q, d)" for obj attrs c q d
    using that by (cases q) (auto simp: thrift_sai_client_def py_bind_Ok_iff py_lift_def some_data_Bare dest!: thrift_get_form)
  show "st = success" if "c_remove (thrift_sai_client E L ots cfg) obj True c = (Ok st, d)" for obj c st d
    using that thrift_remove_ok by (simp add: thrift_sai_client_def)
  show "st = success" if "c_set (thrift_sai_client E L ots cfg) obj attrs True c = (Ok st, d)" for obj attrs c st d
    using that by (auto simp: thrift_sai_client_def py_bind_Ok_iff dest: thrift_set_ok)
qed

section \<open>Outcomes\<close>

lemma status_str_prefix: "status_str n = Ok st \<Longrightarrow> \<exists>r. st = ''SAI_STATUS_'' @ r"
  by (auto simp: status_str_def)

lemma operate_thrift_status:
  "operate_thrift E L ots op attrs oid o1 key s = (Ok (st, r, k), t) \<Longrightarrow> \<exists>x. st = ''SAI_STATUS_'' @ x"
  by (auto simp: operate_thrift_def py_bind_Ok_iff py_return_app py_lift_def Let_def
      dest!: status_str_prefix split: prod.splits)

lemma unpack_status: "unpack_pair (''SAI_STATUS_'' @ x) = Err ValueError"
  by (simp add: unpack_pair_def)

text \<open>A bulk removal that does not assert fails after its first removal, whatever that returned.\<close>

lemma bulk_remove_raises:
  assumes "thrift_remove E L ots (OStr (bulk_type_text o1 @ '':'' @ dumps k)) False s = (Ok st, t)"
  shows "thrift_bulk_remove E L ots o1 (k # ks) False s = (Err ValueError, t)"
proof -
  from assms obtain x where "st = ''SAI_STATUS_'' @ x"
    by (auto simp: thrift_remove_def py_bind_Ok_iff py_return_app dest!: operate_thrift_status split: prod.splits)
  with assms show ?thesis
    by (simp add: thrift_bulk_remove_def py_bind_app unpack_pair_def py_raise_app)
qed

text \<open>A bulk creation that succeeds has a key per entry but two statuses: \<open>None\<close> and the real one.\<close>

lemma bulk_create_loop_lengths:
  "bulk_create_loop E L ots o1 keys attrs True i k outs sts s = (Ok (st, outs', sts'), t) \<Longrightarrow>
   st = success \<and> length outs' = length outs + k \<and> (\<exists>xs. sts' = sts @ xs \<and> xs = replicate k (PStr success))"
proof (induction k arbitrary: i outs sts s)
  case 0
  then show ?case by (simp add: py_return_app)
next
  case (Suc k)
  from Suc.prems obtain attr obj r s1 where
    "thrift_create E L ots obj attr True s = (Ok r, s1)" and
    rest: "(case r of
       Tagged status vid \<Rightarrow>
         (if status \<noteq> success then py_return (''SAI_STATUS_FAILURE'', outs @ [vid], sts @ [PStr status])
          else bulk_create_loop E L ots o1 keys attrs True (Suc i) k (outs @ [vid]) (sts @ [PStr status]))
     | Bare vid \<Rightarrow>
         bulk_create_loop E L ots o1 keys attrs True (Suc i) k (outs @ [vid]) (sts @ [PStr success])) s1 =
       (Ok (st, outs', sts'), t)"
    by (auto simp: py_bind_Ok_iff py_lift_def)
  then obtain vid where "r = Bare vid" using thrift_create_form by fastforce
  with rest Suc.IH [of "Suc i" "outs @ [vid]" "sts @ [PStr success]" s1] show ?case by auto
qed

lemma thrift_bulk_create_statuses:
  assumes "thrift_bulk_create E L ots o1 (Some keys) attrs n True s = (Ok (st, outs, sts), t)" and "keys \<noteq> []"
  shows "st = success \<and> length outs = length keys \<and>
    sts = replicate (length keys) PNone @ replicate (length keys) (PStr success)"
proof -
  from assms(2) obtain k ks where "keys = k # ks" by (cases keys) auto
  with assms(1) bulk_create_loop_lengths [of E L ots o1 "Some keys" attrs 0 "length keys" "[]"
      "replicate (length keys) PNone" s st outs sts t]
  show ?thesis by (simp add: thrift_bulk_create_def)
qed

text \<open>The type of a new object is remembered under its number: nobody is asked for it again.\<close>

lemma operate_thrift_no_key:
  "operate_thrift E L ots op attrs None o1 PNone s = (Ok (st, r, k), t) \<Longrightarrow> k = PNone"
  by (auto simp: operate_thrift_def py_bind_Ok_iff py_return_app py_lift_def Let_def convert_key_to_thrift_def
      split: prod.splits if_splits)

lemma created_type_known:
  assumes "thrift_create E L ots (OType ty) attrs True s = (Ok (Bare v), t)"
  shows "\<exists>n. v = PStr (oid_text n) \<and> get_object_type E ots (PInt n) None t = (Ok (Some ty), t) \<and>
    (n < 0 \<or> object_id v = Ok n)"
proof -
  from assms obtain st r k s1 where
    op: "operate_thrift E L ots ''create'' attrs None (Some (OType ty)) PNone s = (Ok (st, r, k), s1)" and
    rest: "py_bind (case (k, result_int r) of
         (PNone, Some n) \<Rightarrow>
           py_bind (py_lift (new_obj_type ots (Some (OType ty)))) (\<lambda>t.
           py_modify (\<lambda>s. s\<lparr>sai_type_map := dict_set n t (sai_type_map s)\<rparr>))
       | _ \<Rightarrow> py_return ()) (\<lambda>_.
     py_bind (py_lift
       (if st = success then
          (if k = PNone then (case result_int r of Some n \<Rightarrow> Ok (PStr (oid_text n)) | None \<Rightarrow> Err TypeError)
           else Ok k)
        else Ok PNone)) (\<lambda>vid.
     py_bind (assert_success True st) (\<lambda>_. py_return (Bare vid)))) s1 = (Ok (Bare v), t)"
    by (auto simp: thrift_create_def obj_to_items_def py_bind_Ok_iff py_lift_def split: prod.splits)
  have k: "k = PNone" using operate_thrift_no_key [OF op] .
  with rest obtain n where n: "result_int r = Some n"
    by (auto simp: py_bind_Ok_iff py_lift_def split: option.splits if_splits)
  with rest k have "v = PStr (oid_text n)" and t: "t = s1\<lparr>sai_type_map := dict_set n (Some ty) (sai_type_map s1)\<rparr>"
    by (auto simp: py_bind_Ok_iff py_lift_def py_modify_app py_return_app new_obj_type_def split: if_splits)
  moreover have "get_object_type E ots (PInt n) None t = (Ok (Some ty), t)"
    by (simp add: get_object_type_def t py_simps)
  ultimately show ?thesis using object_id_text [of n] by (cases "0 \<le> n") auto
qed

text \<open>
  An attribute that is a list of objects, read from an object whose type is known: the object IDs
  of the list, in order.
\<close>

lemma get_known_type:
  "map_of (sai_type_map s) n = Some (Some ty) \<Longrightarrow> get_object_type E ots (PInt n) None s = (Ok (Some ty), s)"
  by (simp add: get_object_type_def py_simps)

lemma obj_to_items_oid: "0 \<le> n \<Longrightarrow> obj_to_items (OStr (oid_text n)) = Ok (None, Some (oid_text n), PNone)"
  by (simp add: obj_to_items_def oid_text_def int_hex_def)

lemma attributes_loop_one:
  assumes "attr_to_thrift L ots nv = Ok (Some av)" and "call_attribute E f ok av s = (Ok r, t)"
    and "status_str (th_status E (tenv t)) = Ok success" and "result_attrs L o1 r = Ok xs"
  shows "attributes_loop E L ots ''get'' f ok o1 None [] [nv] s = (Ok (success, xs), t)"
  using assms by (simp add: py_bind_app py_get_app py_lift_app py_return_app)

lemma thrift_get_list:
  assumes "0 \<le> n" and "map_of (sai_type_map s) n = Some (Some ty)"
    and "str_lower (ot_name ty) = tn" and "tn \<noteq> ''switch''"
    and "th_has E (''sai_thrift_get_'' @ tn @ ''_attribute'')"
    and "attr_to_thrift L ots (PStr name, w) = Ok (Some (c # a, x))" and "\<not> isdigit_char c"
    and "c # a \<noteq> tn @ ''_oid''"
    and "th_call E (''sai_thrift_get_'' @ tn @ ''_attribute'') [(tn @ ''_oid'', TInt n), (c # a, x)] (tenv s) =
      (Ok (ADict [(name, oid_list ns), (c # a, oid_list ns)]), e)"
    and "th_status E e = 0" and "starts_with name ''SAI''" and "\<not> starts_with (c # a) ''SAI''"
    and "get_attribute_type L name = Some ''objlist''" and "ns \<noteq> []"
  shows "\<exists>d. thrift_get E L ots (OStr (oid_text n)) [PStr name, w] True s = (Ok (Bare (Some d)), s\<lparr>tenv := e\<rparr>) \<and>
    data_to_list 1 d = Ok (map oid_text ns)"
proof -
  let ?xs = "[PStr name, PStr (counted (map oid_text ns))]"
  let ?f = "''sai_thrift_get_'' @ tn @ ''_attribute''"
  have st: "status_str 0 = Ok success"
    by (simp add: status_str_def status_of_value_def sai_statuses_def status_name_def success_def)
  have kw: "keyword_name (c # a) = Ok (c # a)" using assms(7) by (simp add: keyword_name_def)
  have call: "call_attribute E ?f [(tn @ ''_oid'', TInt n)] (c # a, x) s =
      (Ok (ADict [(name, oid_list ns), (c # a, oid_list ns)]), s\<lparr>tenv := e\<rparr>)"
    using assms(8,9) by (simp add: call_attribute_def kw merge_kwargs_def py_catch_app on_tenv_app)
  have conv: "attrs_from_thrift L (OType ty) [(name, oid_list ns), (c # a, oid_list ns)] = Ok ?xs"
    using assms(11-14) by (simp add: convert_value_from_thrift_def from_oid_list)
  have loop: "attributes_loop E L ots ''get'' ?f [(tn @ ''_oid'', TInt n)] (OType ty) None [] [(PStr name, w)] s =
      (Ok (success, ?xs), s\<lparr>tenv := e\<rparr>)"
    by (rule attributes_loop_one [OF assms(6) call]) (use assms(10) conv in \<open>simp_all add: st result_attrs_def\<close>)
  have "operate_attributes E L ots ''get'' [PStr name, w] (Some (oid_text n)) None PNone s =
      (Ok (success, ?xs), s\<lparr>tenv := e\<rparr>)"
    using assms(1-5) loop
    by (simp add: operate_attributes_def oid_number_def object_id_text py_bind_app py_lift_app get_known_type py_return_app
        type_name_def convert_to_sai_obj_type_def convert_key_to_thrift_def adapter_function_def Let_def
        del: attributes_loop.simps)
  then have "thrift_get E L ots (OStr (oid_text n)) [PStr name, w] True s =
      (Ok (Bare (Some (SaiData (Some (dumps (PList ?xs)))))), s\<lparr>tenv := e\<rparr>)"
    using assms(1)
    by (simp add: thrift_get_def obj_to_items_oid py_bind_app py_lift_app assert_success_def py_return_app
        del: dumps_with.simps)
  moreover have "data_to_list 1 (SaiData (Some (dumps (PList ?xs)))) = Ok (map oid_text ns)"
    using split_counted_counted [of "map oid_text ns"] oid_text_no_comma
    by (simp add: data_to_list_def to_json_dumps list_all_iff del: dumps_with.simps)
  ultimately show ?thesis by blast
qed

end
