(* ===== verification/Cli.thy ===== *)
theory Cli imports Npu begin

text \<open>
  The command line of \<open>cli/main.py\<close>: each command checks its arguments, asks for the SAI entity, calls
  one operation and prints the outcome. What \<open>click\<close> does with the command line is not modelled; a
  command is its body, applied to the parsed arguments.
\<close>

section \<open>State and output\<close>

text \<open>
  \<open>echoed\<close>: the lines printed by \<open>click.echo\<close>. \<open>cfg_file\<close>: the content of \<open>/etc/sai-c/cfg.json\<close>, \<open>None\<close> when it
  cannot be read. A command returns \<open>None\<close>, \<open>False\<close> or \<open>True\<close>.
\<close>

record 'c cli = "'c npu" +
  echoed :: "string list"
  cfg_file :: "pyval option"

definition echo :: "string \<Rightarrow> (('c, 'z) cli_scheme, unit) py" where
  "echo line = py_modify (\<lambda>s. s\<lparr>echoed := echoed s @ [line]\<rparr>)"

text \<open>A line, and the end of the command with \<open>False\<close>.\<close>

definition refuse :: "string \<Rightarrow> (('c, 'z) cli_scheme, bool option) py" where
  "refuse line = py_bind (echo line) (\<lambda>_. py_return (Some False))"

lemma echo_app [py_simps]: "echo l s = (Ok (), s\<lparr>echoed := echoed s @ [l]\<rparr>)"
  by (simp add: echo_def py_modify_app)

text \<open>A line break in a text.\<close>

abbreviation nl :: string where "nl \<equiv> [CHR 0x0A]"

text \<open>\<open>"{:<48}".format(s)\<close> and \<open>"{:>8}".format(s)\<close>.\<close>

definition ljust :: "nat \<Rightarrow> string \<Rightarrow> string" where
  "ljust n s = s @ replicate (n - length s) CHR '' ''"

definition rjust :: "nat \<Rightarrow> string \<Rightarrow> string" where
  "rjust n s = replicate (n - length s) CHR '' '' @ s"

text \<open>
  The operations of the client that only the command line uses; the Thrift client and the Redis
  client provide them, the flex counters only the latter.
\<close>

record 'c cli_client =
  x_get_stats :: "string \<Rightarrow> pyval \<Rightarrow> bool \<Rightarrow> ('c, sai_data reply) py"
  x_clear_stats :: "string \<Rightarrow> pyval \<Rightarrow> bool \<Rightarrow> ('c, string) py"
  x_object_key :: "sai_obj_type option \<Rightarrow> ('c, (string, string list) dict) py"
  x_set_group :: "string \<Rightarrow> bool \<Rightarrow> pyval \<Rightarrow> bool \<Rightarrow> bool \<Rightarrow> ('c, string) py"
  x_del_group :: "string \<Rightarrow> bool \<Rightarrow> ('c, string) py"
  x_start_poll :: "string \<Rightarrow> string \<Rightarrow> string list \<Rightarrow> bool \<Rightarrow> ('c, string) py"
  x_stop_poll :: "string \<Rightarrow> string \<Rightarrow> bool \<Rightarrow> ('c, string) py"
  x_get_counter :: "string \<Rightarrow> string list \<Rightarrow> string \<Rightarrow> ('c, int \<times> (string, string option) dict) py"
  x_del_counter :: "string \<Rightarrow> string \<Rightarrow> ('c, int) py"

definition redis_cli_client ::
  "'e redis_env \<Rightarrow> redis_cfg \<Rightarrow> sai_obj_type list \<Rightarrow> ('e, 'z) rclient_scheme transport \<Rightarrow>
   ('e, 'z) rclient_scheme cli_client" where
  "redis_cli_client E cfg ots T =
     \<lparr>x_get_stats = get_stats ots T,
      x_clear_stats = clear_stats ots T,
      x_object_key = get_object_key E cfg ots,
      x_set_group = set_flex_counter_group T,
      x_del_group = del_flex_counter_group T,
      x_start_poll = start_flex_counter_poll T,
      x_stop_poll = stop_flex_counter_poll T,
      x_get_counter = get_flex_counter E,
      x_del_counter = del_flex_counter E\<rparr>"

section \<open>Test bed and entity\<close>

definition testbed_set :: "string \<Rightarrow> (('c, 'z) cli_scheme, bool option) py" where
  "testbed_set testbed =
     py_bind (py_modify (\<lambda>s. s\<lparr>cfg_file := Some (PDict [(''testbed'', PStr testbed)])\<rparr>)) (\<lambda>_. py_return None)"

text \<open>
  \<open>get_sai_testbed\<close>: the name of the test bed, when one is configured; the test bed of that name is then
  brought up by \<open>bring\<close>, which is a parameter (without one it makes the default \<open>SaiNpu\<close>).
\<close>

definition get_sai_testbed :: "(('c, 'z) cli_scheme, pyval option) py" where
  "get_sai_testbed =
     py_bind (py_get cfg_file) (\<lambda>f. case f of
       None \<Rightarrow> py_return None
     | Some cfg \<Rightarrow>
         if \<not> truthy cfg then py_return None
         else (case cfg of
           PDict kvs \<Rightarrow>
             (let name = (case map_of kvs ''testbed'' of Some n \<Rightarrow> n | None \<Rightarrow> PStr ''undefined'') in
              py_return (if name = PStr ''undefined'' then None else Some name))
         | _ \<Rightarrow> py_raise AttributeError))"

definition get_sai_entity ::
  "(pyval option \<Rightarrow> (('c, 'z) cli_scheme, unit) py) \<Rightarrow> (('c, 'z) cli_scheme, unit) py" where
  "get_sai_entity bring = py_bind get_sai_testbed bring"

text \<open>The first of the target types that has a non-empty list of configurations.\<close>

definition active_target :: "pyval \<Rightarrow> (string \<times> pyval) option res" where
  "active_target config = (case config of
     PDict kvs \<Rightarrow>
       (let conf = (\<lambda>t. case map_of kvs t of Some v \<Rightarrow> v | None \<Rightarrow> PNone) in
        Ok (case filter (\<lambda>t. truthy (conf t)) [''npu'', ''dpu'', ''phy''] of
          [] \<Rightarrow> None | t # _ \<Rightarrow> Some (t, conf t)))
   | _ \<Rightarrow> Err AttributeError)"

definition first_item :: "pyval \<Rightarrow> pyval res" where
  "first_item v = (case v of PList (x # _) \<Rightarrow> Ok x | PList [] \<Rightarrow> Err IndexError | _ \<Rightarrow> Err KeyError)"

text \<open>\<open>meta\<close>: \<open>SaiTestbedMeta("/sai-challenger", testbed).config\<close>.\<close>

definition testbed_info :: "(pyval \<Rightarrow> pyval res) \<Rightarrow> (('c, 'z) cli_scheme, bool option) py" where
  "testbed_info meta =
     py_bind (echo []) (\<lambda>_.
     py_bind (py_get cfg_file) (\<lambda>f. case f of
       None \<Rightarrow> py_bind (echo ''SAI testbed name:   undefined'') (\<lambda>_. refuse [])
     | Some (PDict kvs) \<Rightarrow>
         (let name = (case map_of kvs ''testbed'' of Some n \<Rightarrow> n | None \<Rightarrow> PStr ''undefined'') in
          py_bind (py_lift (py_format name)) (\<lambda>nm.
          py_bind (echo (''SAI testbed name:      '' @ nm)) (\<lambda>_.
          if name = PStr ''undefined'' then refuse []
          else
            py_bind (py_lift (rbind (meta name) active_target)) (\<lambda>target. case target of
              None \<Rightarrow> py_bind (echo []) (\<lambda>_. py_return (Some True))
            | Some (t, cfg) \<Rightarrow>
                py_bind (echo (''Active target type:    '' @ t)) (\<lambda>_.
                py_bind (py_lift (first_item cfg)) (\<lambda>c.
                py_bind (py_lift (rbind (py_item ''alias'' c) py_format)) (\<lambda>al.
                py_bind (echo (''Active target name:    '' @ al)) (\<lambda>_.
                py_bind (py_lift (rbind (py_item ''client'' c) (\<lambda>k. rbind (py_item ''type'' k) py_format))) (\<lambda>api.
                py_bind (echo (''Active target API:     '' @ api)) (\<lambda>_.
                py_bind (py_lift (rbind (py_item ''client'' c) (\<lambda>k.
                  rbind (py_item ''config'' k) (\<lambda>g. rbind (py_item ''ip'' g) py_format)))) (\<lambda>ip.
                py_bind (echo (''Active target IP:      '' @ ip)) (\<lambda>_.
                py_bind (py_lift (rbind (py_item ''sku'' c) py_format)) (\<lambda>sku.
                py_bind (echo (''Active target HWSKU:   '' @ sku)) (\<lambda>_.
                py_bind (echo []) (\<lambda>_. py_return None)))))))))))))))
     | Some _ \<Rightarrow> py_raise AttributeError))"

text \<open>\<open>up\<close>: the spawned test bed's \<open>init\<close>; \<open>duts\<close>: its devices by alias, with their \<open>init\<close>.\<close>

definition testbed_init :: "(pyval \<Rightarrow> (('c, 'z) cli_scheme, unit) py) \<Rightarrow> (('c, 'z) cli_scheme, bool option) py" where
  "testbed_init up =
     py_bind (echo []) (\<lambda>_.
     py_bind get_sai_testbed (\<lambda>tb. case tb of
       None \<Rightarrow> refuse (''The testbed is undefined!'' @ nl)
     | Some name \<Rightarrow>
         py_bind (up name) (\<lambda>_.
         py_bind (py_lift (py_format name)) (\<lambda>nm.
         py_bind (echo (''The testbed '' @ [CHR 0x22] @ nm @ [CHR 0x22] @ '' initialization completed!'' @ nl)) (\<lambda>_.
         py_return None)))))"

definition dut_init ::
  "(pyval \<Rightarrow> (string \<times> (('c, 'z) cli_scheme, unit) py) list) \<Rightarrow> string option \<Rightarrow> (('c, 'z) cli_scheme, bool option) py" where
  "dut_init duts arg =
     (let dut = (case arg of None \<Rightarrow> ''default'' | Some [] \<Rightarrow> ''default'' | Some d \<Rightarrow> d) in
      py_bind get_sai_testbed (\<lambda>tb. case tb of
        None \<Rightarrow> refuse (''Failed to initialize '' @ dut @ '' DUT. The testbed is undefined!'' @ nl)
      | Some name \<Rightarrow> (case duts name of
          [] \<Rightarrow> refuse (''Failed to initialize '' @ dut @ '' DUT. The DUT is undefined!'' @ nl)
        | (_, start) # _ \<Rightarrow>
            if dut = ''default'' then py_bind start (\<lambda>_. py_bind (echo []) (\<lambda>_. py_return (Some True)))
            else (case map_of (duts name) dut of
              Some start' \<Rightarrow> py_bind start' (\<lambda>_. py_bind (echo []) (\<lambda>_. py_return (Some True)))
            | None \<Rightarrow> refuse (''Unknown DUT '' @ dut @ ''!'' @ nl)))))"

definition dut_set :: "(('c, 'z) cli_scheme, bool option) py" where
  "dut_set = refuse (''Not implemented'' @ nl)"

section \<open>Objects\<close>

text \<open>
  \<open>ent\<close> is \<open>get_sai_entity()\<close>. The check on an OID that most commands begin with, and the rest of the
  command, which needs the entity.
\<close>

definition bad_oid :: string where
  "bad_oid = ''SAI object ID must start with 'oid:' prefix'' @ nl"

definition with_oid :: "string \<Rightarrow> (('c, 'z) cli_scheme, bool option) py \<Rightarrow> (('c, 'z) cli_scheme, bool option) py" where
  "with_oid oid body =
     py_bind (echo []) (\<lambda>_. if \<not> starts_with oid ''oid:'' then refuse bad_oid else body)"

definition cli_init ::
  "(('c, 'z) cli_scheme, unit) py \<Rightarrow> (('c, 'z) cli_scheme, unit) py \<Rightarrow> pyval option \<Rightarrow> pyval option \<Rightarrow>
   (('c, 'z) cli_scheme, bool option) py" where
  "cli_init ent reset asic target =
     py_bind (echo []) (\<lambda>_.
     py_bind ent (\<lambda>_.
     py_bind reset (\<lambda>_.
     py_bind (py_lift (case asic of None \<Rightarrow> Ok ''generic SAI switch'' | Some v \<Rightarrow> py_format v)) (\<lambda>a.
     py_bind (py_lift (case target of None \<Rightarrow> Ok ''generic target'' | Some v \<Rightarrow> py_format v)) (\<lambda>t.
     py_bind (echo (''Initialized '' @ a @ '' on '' @ t @ nl)) (\<lambda>_. py_return None))))))"

text \<open>\<open>"{:<n} {}".format(data[0], data[1])\<close> for \<open>data.to_json()\<close>; only a text can be padded.\<close>

definition attr_line :: "nat \<Rightarrow> sai_data \<Rightarrow> string res" where
  "attr_line n d =
     rbind (to_json d) (\<lambda>j.
     rbind (py_index j 0) (\<lambda>a.
     rbind (py_index j 1) (\<lambda>b.
     rbind (as_str TypeError a) (\<lambda>x.
     rbind (py_format b) (\<lambda>y. Ok (ljust n x @ '' '' @ y))))))"

fun get_loop ::
  "'c sai_client \<Rightarrow> pyval option \<Rightarrow> string \<Rightarrow> string \<Rightarrow> string list \<Rightarrow> (('c, 'z) cli_scheme, bool option) py" where
  "get_loop cl meta oid obj_type [] = py_bind (echo []) (\<lambda>_. py_return None)"
| "get_loop cl meta oid obj_type (attr # attrs) =
     py_bind (py_lift (get_obj_attr_type meta (Some (OStr obj_type)) (PStr attr))) (\<lambda>attr_type.
     if attr_type = PNone then refuse (''Unknown SAI object's attribute '' @ attr @ nl)
     else
       py_bind (on_client (get_by_type cl oid (PStr attr) attr_type False)) (\<lambda>(status, data).
       if status \<noteq> success then refuse (status @ nl)
       else
         py_bind (py_lift (on_data (attr_line 48) data)) (\<lambda>line.
         py_bind (echo line) (\<lambda>_. get_loop cl meta oid obj_type attrs))))"

definition cli_get ::
  "'c sai_client \<Rightarrow> pyval option \<Rightarrow> (('c, 'z) cli_scheme, unit) py \<Rightarrow> string \<Rightarrow> string list \<Rightarrow>
   (('c, 'z) cli_scheme, bool option) py" where
  "cli_get cl meta ent oid attrs = with_oid oid
     (py_bind ent (\<lambda>_.
      py_bind (on_client (c_vid_to_type cl oid)) (\<lambda>obj_type. get_loop cl meta oid obj_type attrs)))"

definition cli_set ::
  "'c sai_client \<Rightarrow> (('c, 'z) cli_scheme, unit) py \<Rightarrow> string \<Rightarrow> string \<Rightarrow> string \<Rightarrow> (('c, 'z) cli_scheme, bool option) py" where
  "cli_set cl ent oid attr val = with_oid oid
     (if \<not> starts_with attr ''SAI_'' then refuse (''Invalid SAI object's attribute '' @ attr @ '' provided'' @ nl)
      else
        py_bind ent (\<lambda>_.
        py_bind (on_client (sai_set cl oid [PStr attr, PStr val] False)) (\<lambda>status.
        py_bind (echo (status @ nl)) (\<lambda>_. py_return None))))"

text \<open>The text of a tuple of texts in a message is not modelled: \<open>tuple_text\<close> stands for it.\<close>

definition cli_create ::
  "'c sai_client \<Rightarrow> sai_obj_type list \<Rightarrow> (string list \<Rightarrow> string) \<Rightarrow> (('c, 'z) cli_scheme, unit) py \<Rightarrow> string \<Rightarrow>
   string list \<Rightarrow> (('c, 'z) cli_scheme, bool option) py" where
  "cli_create cl ots tuple_text ent obj_type attrs =
     py_bind (echo []) (\<lambda>_.
     (let name = str_upper obj_type in
      case obj_type_named ots name of
        Err _ \<Rightarrow> refuse (''Unknown SAI object type ''@ [CHR 0x27] @ name @ [CHR 0x27] @ nl)
      | Ok t \<Rightarrow>
          if length attrs mod 2 \<noteq> 0
          then refuse (''Invalid SAI object's attributes '' @ tuple_text attrs @ '' provided'' @ nl)
          else
            py_bind ent (\<lambda>_.
            py_bind (on_client (c_create cl (OType t) (PList (map PStr attrs)) False)) (\<lambda>r.
            py_bind (py_lift (untag r)) (\<lambda>(status, oid).
            if status = success then
              py_bind (py_lift (py_format oid)) (\<lambda>v.
              py_bind (echo (''Created SAI object '' @ ot_name t @ '' with '' @ v @ nl)) (\<lambda>_. py_return None))
            else py_bind (echo (status @ nl)) (\<lambda>_. py_return None))))))"

definition cli_remove ::
  "'c sai_client \<Rightarrow> (('c, 'z) cli_scheme, unit) py \<Rightarrow> string \<Rightarrow> (('c, 'z) cli_scheme, bool option) py" where
  "cli_remove cl ent oid = with_oid oid
     (py_bind ent (\<lambda>_.
      py_bind (on_client (c_remove cl oid False)) (\<lambda>status.
      py_bind (echo (status @ nl)) (\<lambda>_. py_return None))))"

text \<open>The OIDs of a type, numbered from one.\<close>

fun oid_lines :: "nat \<Rightarrow> string list \<Rightarrow> string list" where
  "oid_lines i [] = []"
| "oid_lines i (oid # oids) = (rjust 8 (int_str (int (Suc i))) @ '')  '' @ oid) # oid_lines (Suc i) oids"

definition list_lines :: "(string, string list) dict \<Rightarrow> string list" where
  "list_lines d = concat (map (\<lambda>(key, oids). [key] @ oid_lines 0 oids @ [[]]) d)"

definition cli_list ::
  "'c cli_client \<Rightarrow> sai_obj_type list \<Rightarrow> (('c, 'z) cli_scheme, unit) py \<Rightarrow> string option \<Rightarrow>
   (('c, 'z) cli_scheme, bool option) py" where
  "cli_list cx ots ent arg =
     py_bind (echo []) (\<lambda>_. case arg of
       None \<Rightarrow>
         py_bind (py_iter echo (map (\<lambda>t. str_lower (ot_name t)) ots)) (\<lambda>_.
         py_bind (echo []) (\<lambda>_. py_return None))
     | Some a \<Rightarrow>
         (let name = str_upper a;
              found = obj_type_named ots name in
          if (case found of Ok _ \<Rightarrow> False | Err _ \<Rightarrow> name \<noteq> ''ALL'')
          then refuse (''Unknown SAI object type '' @ [CHR 0x27] @ name @ [CHR 0x27] @ nl)
          else
            py_bind ent (\<lambda>_.
            py_bind (on_client (x_object_key cx (case found of Ok t \<Rightarrow> Some t | Err _ \<Rightarrow> None))) (\<lambda>d.
            py_bind (py_iter echo (list_lines d)) (\<lambda>_. py_return None)))))"

text \<open>\<open>dump\<close>: every attribute of the type, with its value or the status of the attempt.\<close>

definition dump_attr ::
  "'c sai_client \<Rightarrow> string \<Rightarrow> pyval \<Rightarrow> (('c, 'z) cli_scheme, unit) py" where
  "dump_attr cl oid attr =
     py_bind (py_lift (attr_name_type attr)) (\<lambda>(n, t).
     py_bind (on_client (get_by_type cl oid n t False)) (\<lambda>(status, data).
     if status = success then
       py_bind (py_lift (on_data (attr_line 50) data)) echo
     else
       py_bind (py_lift (as_str TypeError n)) (\<lambda>name. echo (ljust 50 name @ '' '' @ status))))"

definition cli_dump ::
  "'c sai_client \<Rightarrow> pyval option \<Rightarrow> (('c, 'z) cli_scheme, unit) py \<Rightarrow> string \<Rightarrow> (('c, 'z) cli_scheme, bool option) py" where
  "cli_dump cl meta ent oid = with_oid oid
     (py_bind ent (\<lambda>_.
      py_bind (on_client (c_vid_to_type cl oid)) (\<lambda>obj_type.
      py_bind (py_lift (get_meta meta (Some (OStr obj_type)))) (\<lambda>m.
      py_bind (py_lift (rbind (case m of None \<Rightarrow> Err TypeError | Some item \<Rightarrow> py_item ''attributes'' item) elements)) (\<lambda>as.
      py_bind (py_iter (dump_attr cl oid) as) (\<lambda>_.
      py_bind (echo []) (\<lambda>_. py_return None)))))))"

section \<open>Statistics\<close>

text \<open>The counters, each followed by an empty text.\<close>

definition stats_attrs :: "string list \<Rightarrow> pyval" where
  "stats_attrs cntrs = PList (concat (map (\<lambda>c. [PStr c, PStr []]) cntrs))"

definition stats_line :: "(string, int) dict \<Rightarrow> string \<Rightarrow> string res" where
  "stats_line d c = rbind (dict_getitem d c) (\<lambda>n. Ok (ljust 48 c @ '' '' @ rjust 8 (int_str n)))"

definition stats_get ::
  "'c cli_client \<Rightarrow> (('c, 'z) cli_scheme, unit) py \<Rightarrow> string \<Rightarrow> string list \<Rightarrow> (('c, 'z) cli_scheme, bool option) py" where
  "stats_get cx ent oid cntrs = with_oid oid
     (py_bind ent (\<lambda>_.
      py_bind (on_client (x_get_stats cx oid (stats_attrs cntrs) False)) (\<lambda>r.
      py_bind (py_lift (untag r)) (\<lambda>(status, data).
      if status \<noteq> success then refuse (status @ nl)
      else
        py_bind (py_lift (data_counters data)) (\<lambda>d.
        py_bind (py_iter (\<lambda>c. py_bind (py_lift (stats_line d c)) echo) cntrs) (\<lambda>_.
        py_bind (echo []) (\<lambda>_. py_return None)))))))"

definition stats_clear ::
  "'c cli_client \<Rightarrow> (('c, 'z) cli_scheme, unit) py \<Rightarrow> string \<Rightarrow> string list \<Rightarrow> (('c, 'z) cli_scheme, bool option) py" where
  "stats_clear cx ent oid cntrs = with_oid oid
     (py_bind ent (\<lambda>_.
      py_bind (on_client (x_clear_stats cx oid (stats_attrs cntrs) False)) (\<lambda>status.
      py_bind (echo (status @ nl)) (\<lambda>_. py_return None))))"

section \<open>Flex counters\<close>

definition parse_clear_on_read :: "string \<Rightarrow> bool res" where
  "parse_clear_on_read val = (let v = str_strip val in
     if v = ''STATS_MODE_READ'' then Ok False
     else if v = ''STATS_MODE_READ_AND_CLEAR'' then Ok True
     else Err ValueError)"

definition parse_flex_counter_enable :: "string \<Rightarrow> bool res" where
  "parse_flex_counter_enable val = (let v = str_lower (str_strip val) in
     if v = ''enable'' then Ok True
     else if v = ''disable'' then Ok False
     else Err ValueError)"

text \<open>The keyword arguments of \<open>set_flex_counter_group\<close> the attributes give; a later one overrides.\<close>

record group_kwargs =
  g_interval :: "int option"
  g_clear :: "bool option"
  g_enable :: "bool option"

definition no_kwargs :: group_kwargs where
  "no_kwargs = \<lparr>g_interval = None, g_clear = None, g_enable = None\<rparr>"

fun group_attrs_loop :: "string list \<Rightarrow> group_kwargs \<Rightarrow> group_kwargs res" where
  "group_attrs_loop (key # val # attrs) kw =
     (let k = str_upper key in
      if k = ''POLL_INTERVAL'' then
        rbind (py_int 10 val) (\<lambda>n. group_attrs_loop attrs (kw\<lparr>g_interval := Some n\<rparr>))
      else if k = ''STATS_MODE'' then
        rbind (parse_clear_on_read val) (\<lambda>b. group_attrs_loop attrs (kw\<lparr>g_clear := Some b\<rparr>))
      else if k = ''FLEX_COUNTER_STATUS'' then
        rbind (parse_flex_counter_enable val) (\<lambda>b. group_attrs_loop attrs (kw\<lparr>g_enable := Some b\<rparr>))
      else Err ValueError)"
| "group_attrs_loop _ kw = Ok kw"

definition parse_flex_counter_group_attrs :: "string list \<Rightarrow> group_kwargs res" where
  "parse_flex_counter_group_attrs attrs =
     (if length attrs mod 2 \<noteq> 0 then Err ValueError else group_attrs_loop attrs no_kwargs)"

text \<open>
  \<open>counter\<close> itself: only for the Redis client. The text of an exception is a parameter \<open>msg\<close> of the
  commands that print it.
\<close>

definition counter_guard :: "(('c, 'z) cli_scheme, unit) py \<Rightarrow> bool \<Rightarrow> (('c, 'z) cli_scheme, unit) py" where
  "counter_guard ent is_redis = py_bind ent (\<lambda>_. if is_redis then py_return () else py_raise PyException)"

text \<open>
  \<open>try: .. except ValueError as e: echo(str(e) + "\\n"); return False\<close>, and the report of the status;
  errors in JSON and in UTF-8 are value errors.
\<close>

definition report ::
  "string \<Rightarrow> string \<Rightarrow> (('c, 'z) cli_scheme, string) py \<Rightarrow> (('c, 'z) cli_scheme, bool option) py" where
  "report msg done_text act =
     py_bind (py_catch (py_bind act (\<lambda>st. py_return (Some st))) (\<lambda>e. e \<in> {ValueError, JSONDecodeError, UnicodeDecodeError}) (py_return None)) (\<lambda>r. case r of
       None \<Rightarrow> refuse (msg @ nl)
     | Some st \<Rightarrow> py_bind (echo (if st = success then done_text @ nl else st @ nl)) (\<lambda>_. py_return None))"

text \<open>The defaults of \<open>Sai.set_flex_counter_group\<close>: enabled, no interval, counters kept on reading.\<close>

definition group_set ::
  "'c cli_client \<Rightarrow> (('c, 'z) cli_scheme, unit) py \<Rightarrow> string \<Rightarrow> string \<Rightarrow> string list \<Rightarrow> (('c, 'z) cli_scheme, bool option) py" where
  "group_set cx ent msg group_name attrs =
     py_bind (echo []) (\<lambda>_.
     (let name = str_upper group_name in
      case parse_flex_counter_group_attrs attrs of
        Err e \<Rightarrow> if e = ValueError then refuse (msg @ nl) else py_raise e
      | Ok kw \<Rightarrow>
          py_bind ent (\<lambda>_.
          report msg (''Created/Updated flex counter group '' @ name)
            (on_client (x_set_group cx name
              (case g_enable kw of Some b \<Rightarrow> b | None \<Rightarrow> True)
              (PInt (case g_interval kw of Some n \<Rightarrow> n | None \<Rightarrow> 0))
              (case g_clear kw of Some b \<Rightarrow> b | None \<Rightarrow> False) False)))))"

definition group_del ::
  "'c cli_client \<Rightarrow> (('c, 'z) cli_scheme, unit) py \<Rightarrow> string \<Rightarrow> (('c, 'z) cli_scheme, bool option) py" where
  "group_del cx ent group_name =
     py_bind (echo []) (\<lambda>_.
     (let name = str_upper group_name in
      py_bind ent (\<lambda>_.
      py_bind (on_client (x_del_group cx name False)) (\<lambda>st.
      py_bind (echo (if st = success then ''Deleted group name '' @ name @ nl else st @ nl)) (\<lambda>_. py_return None)))))"

text \<open>
  The bodies of the commands for counters. The callback of the group, \<open>counter_guard\<close>, runs before each
  of them, and \<open>group_guard\<close> of the theory CliRun puts it there.
  Names of counters: \<open>[c.strip() for c in cntrs.split(",") if c.strip()]\<close>.
\<close>

definition counter_names :: "string \<Rightarrow> string list" where
  "counter_names cntrs = filter (\<lambda>c. c \<noteq> []) (map str_strip (str_split '','' cntrs))"

definition poll_start ::
  "'c cli_client \<Rightarrow> (('c, 'z) cli_scheme, unit) py \<Rightarrow> string \<Rightarrow> (string \<Rightarrow> string) \<Rightarrow> string \<Rightarrow> string \<Rightarrow> string \<Rightarrow>
   (('c, 'z) cli_scheme, bool option) py" where
  "poll_start cx ent msg repr group_name oid cntrs = with_oid oid
     (let name = str_upper group_name; counters = counter_names cntrs in
      if counters = [] then refuse (''No counter names in '' @ repr cntrs @ nl)
      else
        py_bind ent (\<lambda>_.
        report msg (''Started polling counters for '' @ name @ '':'' @ oid)
          (on_client (x_start_poll cx name oid counters False))))"

definition poll_stop ::
  "'c cli_client \<Rightarrow> (('c, 'z) cli_scheme, unit) py \<Rightarrow> string \<Rightarrow> string \<Rightarrow> string \<Rightarrow> (('c, 'z) cli_scheme, bool option) py" where
  "poll_stop cx ent msg group_name oid = with_oid oid
     (let name = str_upper group_name in
      py_bind ent (\<lambda>_.
      report msg (''Stopped polling for '' @ name @ '':'' @ oid) (on_client (x_stop_poll cx name oid False))))"

definition counter_line :: "string \<times> string option \<Rightarrow> string" where
  "counter_line cv = ljust 48 (fst cv) @ '' '' @ rjust 8 (case snd cv of Some v \<Rightarrow> v | None \<Rightarrow> ''[missing]'')"

definition counter_get ::
  "'c cli_client \<Rightarrow> (('c, 'z) cli_scheme, unit) py \<Rightarrow> string \<Rightarrow> string list \<Rightarrow> (('c, 'z) cli_scheme, bool option) py" where
  "counter_get cx ent oid cntrs = with_oid oid
     (py_bind ent (\<lambda>_.
      py_bind (on_client (x_get_counter cx oid cntrs ''COUNTERS'')) (\<lambda>(ex, d).
      if ex = 0 then refuse (''Counter '' @ oid @ '' doesn't exist'')
      else
        py_bind (py_iter echo (map counter_line d)) (\<lambda>_.
        py_bind (echo []) (\<lambda>_. py_return None)))))"

definition counter_del ::
  "'c cli_client \<Rightarrow> (('c, 'z) cli_scheme, unit) py \<Rightarrow> string \<Rightarrow> (('c, 'z) cli_scheme, bool option) py" where
  "counter_del cx ent oid = with_oid oid
     (py_bind ent (\<lambda>_.
      py_bind (on_client (x_del_counter cx oid ''COUNTERS'')) (\<lambda>ex.
      if ex = 0 then refuse (''Counter:'' @ oid @ '' doesn't exist'')
      else py_bind (echo (''Counter '' @ oid @ '' was deleted from COUNTERS_DB'')) (\<lambda>_. py_return None))))"

text \<open>\<open>version\<close>.\<close>

definition cli_version :: "(('c, 'z) cli_scheme, bool option) py" where
  "cli_version = py_bind (echo ''SAI CLI version 0.1'') (\<lambda>_. py_return None)"

section \<open>Facts about the commands\<close>

lemma with_oid_refused:
  assumes "\<not> starts_with oid ''oid:''"
  shows "with_oid oid body s = (Ok (Some False), s\<lparr>echoed := echoed s @ [[], bad_oid]\<rparr>)"
  using assms by (simp add: with_oid_def refuse_def py_simps)

lemmas oid_commands = cli_get_def cli_set_def cli_remove_def cli_dump_def stats_get_def stats_clear_def
  poll_start_def poll_stop_def counter_get_def counter_del_def

lemma py_iter_echo: "py_iter echo ls s = (Ok (), s\<lparr>echoed := echoed s @ ls\<rparr>)"
  by (induction ls arbitrary: s) (simp_all add: py_simps)

text \<open>The arguments that say what a keyword record says, and how they are read back.\<close>

definition group_args :: "group_kwargs \<Rightarrow> string list" where
  "group_args kw =
     (case g_interval kw of None \<Rightarrow> [] | Some n \<Rightarrow> [''POLL_INTERVAL'', int_str n]) @
     (case g_clear kw of None \<Rightarrow> [] | Some b \<Rightarrow> [''STATS_MODE'', if b then ''STATS_MODE_READ_AND_CLEAR'' else ''STATS_MODE_READ'']) @
     (case g_enable kw of None \<Rightarrow> [] | Some b \<Rightarrow> [''FLEX_COUNTER_STATUS'', if b then ''enable'' else ''disable''])"

lemma upper_names [simp]:
  "str_upper ''POLL_INTERVAL'' = ''POLL_INTERVAL''" "str_upper ''STATS_MODE'' = ''STATS_MODE''"
  "str_upper ''FLEX_COUNTER_STATUS'' = ''FLEX_COUNTER_STATUS''"
  by code_simp+

lemma parsed_modes [simp]:
  "parse_clear_on_read ''STATS_MODE_READ_AND_CLEAR'' = Ok True" "parse_clear_on_read ''STATS_MODE_READ'' = Ok False"
  "parse_flex_counter_enable ''enable'' = Ok True" "parse_flex_counter_enable ''disable'' = Ok False"
  by code_simp+

lemma parse_group_args: "parse_flex_counter_group_attrs (group_args kw) = Ok kw"
  by (cases kw)
    (auto simp: parse_flex_counter_group_attrs_def group_args_def no_kwargs_def py_int_dec split: option.splits)

text \<open>Reading attributes that are all there prints them in order.\<close>

lemma attr_line_reply: "attr_line n (reply_data a v) = Ok (ljust n a @ '' '' @ v)"
  by (simp add: attr_line_def to_json_reply py_format_def)

lemma get_loop_prints:
  assumes "\<And>a. a \<in> set attrs \<Longrightarrow> get_obj_attr_type meta (Some (OStr t)) (PStr a) = Ok (ty a) \<and> ty a \<noteq> PNone \<and>
      get_by_type cl oid (PStr a) (ty a) False c = (Ok (success, Some (reply_data a (val a))), c)"
    and "client s = c"
  shows "get_loop cl meta oid t attrs s =
    (Ok None, s\<lparr>echoed := echoed s @ map (\<lambda>a. ljust 48 a @ '' '' @ val a) attrs @ [[]]\<rparr>)"
  using assms
proof (induction attrs arbitrary: s)
  case Nil
  show ?case by (simp add: py_simps)
next
  case (Cons a attrs)
  have a: "get_obj_attr_type meta (Some (OStr t)) (PStr a) = Ok (ty a)" "ty a \<noteq> PNone"
    "get_by_type cl oid (PStr a) (ty a) False (client s) = (Ok (success, Some (reply_data a (val a))), client s)"
    using Cons.prems by auto
  have "get_loop cl meta oid t (a # attrs) s =
      get_loop cl meta oid t attrs (s\<lparr>echoed := echoed s @ [ljust 48 a @ '' '' @ val a]\<rparr>)"
    by (simp add: a py_simps on_data_def attr_line_reply)
  also have "\<dots> = (Ok None, s\<lparr>echoed := echoed s @ map (\<lambda>a. ljust 48 a @ '' '' @ val a) (a # attrs) @ [[]]\<rparr>)"
    using Cons.IH [of "s\<lparr>echoed := echoed s @ [ljust 48 a @ '' '' @ val a]\<rparr>"] Cons.prems by simp
  finally show ?case .
qed

text \<open>Counters that do not go together are refused before anything is sent.\<close>

lemma poll_start_refused:
  assumes "starts_with oid ''oid:''" and "counter_names cntrs \<noteq> []" and "flex_id_list (counter_names cntrs) = Err ValueError"
    and "ent (s\<lparr>echoed := echoed s @ [[]]\<rparr>) = (Ok (), t)"
  shows "poll_start (redis_cli_client E cfg ots T) ent msg repr g oid cntrs s =
    (Ok (Some False), t\<lparr>echoed := echoed t @ [msg @ nl]\<rparr>)"
  using assms
  by (simp add: poll_start_def with_oid_def redis_cli_client_def start_flex_counter_poll_def report_def refuse_def py_simps)

lemma flex_id_list_uniform:
  assumes "flex_id_list counters = Ok l"
  shows "\<exists>t. counters \<noteq> [] \<and> list_all (\<lambda>c. sai_type_from_counter c = Some t) counters \<and>
    map_of sai_counter_type_to_id_list t = Some l"
  using assms by (auto simp: flex_id_list_def split: list.splits option.splits if_splits)

end
