(* ===== verification/PhyDpu.thy ===== *)
theory PhyDpu imports Npu begin

text \<open>
  The two other kinds of device: \<open>SaiPhy\<close> of \<open>common/sai_phy.py\<close>, whose ports and connectors
  come from an SKU, and \<open>SaiDpu\<close> of \<open>common/sai_dpu.py\<close>. They share the client calls of \<open>Npu\<close>.
\<close>

section \<open>PHY\<close>

text \<open>\<open>SaiPhy.__init__\<close> sets no \<open>sku_config\<close>: \<open>None\<close> is the attribute that does not exist.\<close>

record 'c phy = "'c sai" +
  phy_ports :: "string list"
  phy_sku :: "pyval option"

definition phy_init_state :: "'c \<Rightarrow> 'c phy" where
  "phy_init_state c =
     \<lparr>objects_registry = dict_set ''SWITCH_ID''
        \<lparr>e_type = PStr ''SAI_OBJECT_TYPE_SWITCH'', e_oid = PStr null_oid, e_key = PNone\<rparr> [],
      switch_oid = PStr null_oid, rec2vid = [], client = c, phy_ports = [], phy_sku = None\<rparr>"

definition phy_port_attrs :: "pyval \<Rightarrow> pyval \<Rightarrow> pyval list res" where
  "phy_port_attrs sku p =
     rbind (py_item ''lanes'' p) (\<lambda>lanes0.
     rbind (as_str AttributeError lanes0) (\<lambda>lanes.
     rbind (sku_field ''speed'' p (py_item ''speed'' sku)) (\<lambda>speed.
     rbind (sku_field ''autoneg'' p (dict_default ''autoneg'' ''off'' sku)) (\<lambda>autoneg.
     rbind (sku_field ''fec'' p (dict_default ''fec'' ''none'' sku)) (\<lambda>fec0.
     rbind (as_str AttributeError fec0) (\<lambda>fec.
     Ok [PStr ''SAI_PORT_ATTR_HW_LANE_LIST'',
         PStr (int_str (int (count_char (CHR '','') lanes + 1)) @ '':'' @ lanes),
         PStr ''SAI_PORT_ATTR_SPEED'', speed,
         PStr ''SAI_PORT_ATTR_AUTO_NEG_MODE'', PStr (if autoneg = PStr ''on'' then ''true'' else ''false''),
         PStr ''SAI_PORT_ATTR_FEC_MODE'', PStr (''SAI_PORT_FEC_MODE_'' @ str_upper fec)]))))))"

text \<open>The ports by alias, in the order of the SKU; a later port with the same alias replaces the entry.\<close>

fun phy_create_ports ::
  "'c sai_client \<Rightarrow> sai_obj_type list \<Rightarrow> pyval \<Rightarrow> (string, string) dict \<Rightarrow> pyval list \<Rightarrow>
   (('c, 'z) sai_scheme, (string, string) dict) py" where
  "phy_create_ports cl ots sku port_map [] = py_return port_map"
| "phy_create_ports cl ots sku port_map (p # ps) =
     py_bind (py_lift (rbind (py_item ''alias'' p) (as_str (Unmodelled ''alias'')))) (\<lambda>a.
     py_bind (py_lift (phy_port_attrs sku p)) (\<lambda>attrs.
     py_bind (npu_create cl ots ''PORT'' attrs) (\<lambda>oid.
     phy_create_ports cl ots sku (dict_set a oid port_map) ps)))"

text \<open>\<open>port_map[connector[side]]\<close>.\<close>

definition connector_side :: "(string, string) dict \<Rightarrow> string \<Rightarrow> pyval \<Rightarrow> string res" where
  "connector_side port_map side c =
     rbind (py_item side c) (\<lambda>v.
     rbind (as_str (Unmodelled ''alias'') v) (\<lambda>a. case map_of port_map a of
       Some oid \<Rightarrow> Ok oid | None \<Rightarrow> Err KeyError))"

definition phy_create_connector ::
  "'c sai_client \<Rightarrow> sai_obj_type list \<Rightarrow> (string, string) dict \<Rightarrow> pyval \<Rightarrow> (('c, 'z) sai_scheme, unit) py" where
  "phy_create_connector cl ots port_map c =
     py_bind (py_lift (rbind (py_item ''system_side'' c) (\<lambda>_. py_item ''line_side'' c))) (\<lambda>_.
     py_bind (py_lift (connector_side port_map ''system_side'' c)) (\<lambda>system_port.
     py_bind (py_lift (connector_side port_map ''line_side'' c)) (\<lambda>line_port.
     py_bind (npu_create cl ots ''PORT_CONNECTOR''
       [PStr ''SAI_PORT_CONNECTOR_ATTR_SYSTEM_SIDE_PORT_ID'', PStr system_port,
        PStr ''SAI_PORT_CONNECTOR_ATTR_LINE_SIDE_PORT_ID'', PStr line_port]) (\<lambda>_. py_return ()))))"

definition phy_set_sku_mode ::
  "'c sai_client \<Rightarrow> sai_obj_type list \<Rightarrow> pyval \<Rightarrow> (('c, 'z) sai_scheme, unit) py" where
  "phy_set_sku_mode cl ots sku =
     py_bind (py_lift (rbind (py_item ''port'' sku) elements)) (\<lambda>ports.
     py_bind (phy_create_ports cl ots sku [] ports) (\<lambda>port_map.
     py_bind (py_lift (rbind (py_item ''connector'' sku) elements)) (\<lambda>connectors.
     py_iter (phy_create_connector cl ots port_map) connectors)))"

text \<open>\<open>self.get(obj, [attr, value]).f()\<close>: with a value, the client is asked directly.\<close>

definition get_with ::
  "'c sai_client \<Rightarrow> string \<Rightarrow> string \<Rightarrow> string \<Rightarrow> (sai_data \<Rightarrow> 'a res) \<Rightarrow> (('c, 'z) sai_scheme, 'a) py" where
  "get_with cl obj attr v f = on_client (get_then cl None obj [PStr attr, PStr v] f)"

text \<open>The number of active ports, then the list with a placeholder for each.\<close>

definition active_ports :: "'c sai_client \<Rightarrow> string \<Rightarrow> (('c, 'z) sai_scheme, string list option) py" where
  "active_ports cl sw =
     py_bind (get_with cl sw ''SAI_SWITCH_ATTR_NUMBER_OF_ACTIVE_PORTS'' [] data_uint32) (\<lambda>port_num.
     if port_num > 0 then
       py_bind (get_with cl sw ''SAI_SWITCH_ATTR_PORT_LIST'' (make_list port_num null_oid) (data_to_list 1))
         (\<lambda>ports. py_return (Some ports))
     else py_return None)"

definition phy_init ::
  "'c sai_client \<Rightarrow> sai_obj_type list \<Rightarrow> string option option \<Rightarrow> pyval list \<Rightarrow> (('c, 'z) phy_scheme, unit) py" where
  "phy_init cl ots sku_file attr =
     py_bind (py_get phy_sku) (\<lambda>sku0.
     py_bind (py_lift (load_sku sku_file sku0)) (\<lambda>sku.
     py_bind (py_modify (\<lambda>s. s\<lparr>phy_sku := sku\<rparr>)) (\<lambda>_.
     py_bind (npu_create cl ots ''SWITCH'' (attr @
       [PStr ''SAI_SWITCH_ATTR_INIT_SWITCH'', PStr ''true'',
        PStr ''SAI_SWITCH_ATTR_TYPE'', PStr ''SAI_SWITCH_TYPE_PHY''])) (\<lambda>sw.
     py_bind (set_switch_oid (PStr sw)) (\<lambda>_.
     py_bind (rec_store sw (PStr sw)) (\<lambda>_.
     py_bind (case sku of
         None \<Rightarrow> py_raise AttributeError
       | Some cfg \<Rightarrow> if cfg = PNone then py_return () else phy_set_sku_mode cl ots cfg) (\<lambda>_.
     py_bind (active_ports cl sw) (\<lambda>ports. case ports of
         Some oids \<Rightarrow> py_modify (\<lambda>s. s\<lparr>phy_ports := oids\<rparr>)
       | None \<Rightarrow> py_return ()))))))))"

definition phy_cleanup ::
  "'c sai_client \<Rightarrow> (('c, 'z) phy_scheme, unit) py option \<Rightarrow> (('c, 'z) phy_scheme, unit) py" where
  "phy_cleanup cl dut = sai_cleanup cl dut"

definition phy_reset ::
  "'c sai_client \<Rightarrow> sai_obj_type list \<Rightarrow> (('c, 'z) phy_scheme, unit) py option \<Rightarrow> string option option \<Rightarrow>
   (('c, 'z) phy_scheme, unit) py" where
  "phy_reset cl ots dut sku_file = py_bind (phy_cleanup cl dut) (\<lambda>_. phy_init cl ots sku_file [])"

section \<open>DPU\<close>

record 'c dpu = "'c sai" +
  dpu_br_oid :: string
  dpu_vlan_oid :: string
  dpu_vlan_id :: string
  dpu_cpu_port :: int
  dpu_ports :: "string list"
  dpu_bp_oids :: "string list"

definition dpu_init_state :: "'c \<Rightarrow> 'c dpu" where
  "dpu_init_state c =
     \<lparr>objects_registry = dict_set ''SWITCH_ID''
        \<lparr>e_type = PStr ''SAI_OBJECT_TYPE_SWITCH'', e_oid = PStr null_oid, e_key = PNone\<rparr> [],
      switch_oid = PStr null_oid, rec2vid = [], client = c,
      dpu_br_oid = null_oid, dpu_vlan_oid = null_oid, dpu_vlan_id = ''0'', dpu_cpu_port = 0,
      dpu_ports = [], dpu_bp_oids = []\<rparr>"

definition dpu_init ::
  "'c sai_client \<Rightarrow> sai_obj_type list \<Rightarrow> pyval list \<Rightarrow> (('c, 'z) dpu_scheme, unit) py" where
  "dpu_init cl ots attr =
     py_bind (npu_create cl ots ''SWITCH'' (attr @
       [PStr ''SAI_SWITCH_ATTR_INIT_SWITCH'', PStr ''true'',
        PStr ''SAI_SWITCH_ATTR_TYPE'', PStr ''SAI_SWITCH_TYPE_NPU''])) (\<lambda>sw.
     py_bind (set_switch_oid (PStr sw)) (\<lambda>_.
     py_bind (get_with cl sw ''SAI_SWITCH_ATTR_DEFAULT_VLAN_ID'' null_oid text_oid) (\<lambda>vlan.
     py_bind (py_modify (\<lambda>s. s\<lparr>dpu_vlan_oid := vlan\<rparr>)) (\<lambda>_.
     py_bind (active_ports cl sw) (\<lambda>ports. case ports of
         None \<Rightarrow> py_return ()
       | Some oids \<Rightarrow>
           py_bind (py_modify (\<lambda>s. s\<lparr>dpu_ports := oids\<rparr>)) (\<lambda>_.
           py_bind (get_with cl sw ''SAI_SWITCH_ATTR_DEFAULT_1Q_BRIDGE_ID'' null_oid text_oid) (\<lambda>br.
           py_modify (\<lambda>s. s\<lparr>dpu_br_oid := br\<rparr>))))))))"

definition dpu_cleanup ::
  "'c sai_client \<Rightarrow> (('c, 'z) dpu_scheme, unit) py option \<Rightarrow> (('c, 'z) dpu_scheme, unit) py" where
  "dpu_cleanup cl dut =
     py_bind (sai_cleanup cl dut) (\<lambda>_. py_modify (\<lambda>s. s\<lparr>dpu_ports := [], dpu_bp_oids := []\<rparr>))"

definition dpu_reset ::
  "'c sai_client \<Rightarrow> sai_obj_type list \<Rightarrow> (('c, 'z) dpu_scheme, unit) py option \<Rightarrow>
   (('c, 'z) dpu_scheme, unit) py" where
  "dpu_reset cl ots dut = py_bind (dpu_cleanup cl dut) (\<lambda>_. dpu_init cl ots [])"

section \<open>The resets of the platforms\<close>

text \<open>\<open>reset\<close> of a platform class: clean-up, then \<open>init\<close> with the attributes of the platform.\<close>

definition platform_npu_reset ::
  "'c sai_client \<Rightarrow> sai_obj_type list \<Rightarrow> pyval option \<Rightarrow> (('c, 'z) npu_scheme, unit) py option \<Rightarrow>
   string option option \<Rightarrow> bool \<Rightarrow> pyval list \<Rightarrow> (('c, 'z) npu_scheme, unit) py" where
  "platform_npu_reset cl ots meta dut sku_file run_traffic attr =
     py_bind (npu_cleanup cl dut) (\<lambda>_. npu_init cl ots meta sku_file run_traffic attr)"

definition generic_attrs :: "pyval list" where
  "generic_attrs = map PStr [''SAI_SWITCH_ATTR_SRC_MAC_ADDRESS'', ''52:54:00:EE:BB:70'',
     ''SAI_SWITCH_ATTR_FDB_AGING_TIME'', ''600'']"

definition vxlan_attrs :: "pyval list" where
  "vxlan_attrs = map PStr [''SAI_SWITCH_ATTR_SRC_MAC_ADDRESS'', ''52:54:00:EE:BB:70'',
     ''SAI_SWITCH_ATTR_FDB_AGING_TIME'', ''600'', ''SAI_SWITCH_ATTR_VXLAN_DEFAULT_PORT'', ''4789'']"

definition generic_reset ::
  "'c sai_client \<Rightarrow> sai_obj_type list \<Rightarrow> pyval option \<Rightarrow> (('c, 'z) npu_scheme, unit) py option \<Rightarrow>
   string option option \<Rightarrow> bool \<Rightarrow> (('c, 'z) npu_scheme, unit) py" where
  "generic_reset cl ots meta dut sku_file run_traffic =
     platform_npu_reset cl ots meta dut sku_file run_traffic generic_attrs"

definition broadcom_reset ::
  "'c sai_client \<Rightarrow> sai_obj_type list \<Rightarrow> pyval option \<Rightarrow> (('c, 'z) npu_scheme, unit) py option \<Rightarrow>
   string option option \<Rightarrow> bool \<Rightarrow> (('c, 'z) npu_scheme, unit) py" where
  "broadcom_reset cl ots meta dut sku_file run_traffic =
     platform_npu_reset cl ots meta dut sku_file run_traffic vxlan_attrs"

definition intel_reset ::
  "'c sai_client \<Rightarrow> sai_obj_type list \<Rightarrow> pyval option \<Rightarrow> (('c, 'z) npu_scheme, unit) py option \<Rightarrow>
   string option option \<Rightarrow> bool \<Rightarrow> (('c, 'z) npu_scheme, unit) py" where
  "intel_reset cl ots meta dut sku_file run_traffic =
     platform_npu_reset cl ots meta dut sku_file run_traffic vxlan_attrs"

definition phy_attrs :: "pyval list" where
  "phy_attrs = map PStr [''SAI_SWITCH_ATTR_SWITCH_PROFILE_ID'', ''0'',
     ''SAI_SWITCH_ATTR_REGISTER_READ'', ''0'', ''SAI_SWITCH_ATTR_REGISTER_WRITE'', ''0'',
     ''SAI_SWITCH_ATTR_HARDWARE_ACCESS_BUS'', ''SAI_SWITCH_HARDWARE_ACCESS_BUS_MDIO'',
     ''SAI_SWITCH_ATTR_PLATFROM_CONTEXT'', ''0'']"

definition platform_phy_reset ::
  "'c sai_client \<Rightarrow> sai_obj_type list \<Rightarrow> (('c, 'z) phy_scheme, unit) py option \<Rightarrow> string option option \<Rightarrow>
   (('c, 'z) phy_scheme, unit) py" where
  "platform_phy_reset cl ots dut sku_file =
     py_bind (phy_cleanup cl dut) (\<lambda>_. phy_init cl ots sku_file phy_attrs)"

section \<open>Facts\<close>

text \<open>The map of the ports has the aliases of the SKU, no more and no less.\<close>

definition port_aliases :: "pyval list \<Rightarrow> string set" where
  "port_aliases ps = {a. PStr a \<in> {v. \<exists>p \<in> set ps. py_item ''alias'' p = Ok v}}"

lemma phy_ports_by_alias:
  "phy_create_ports cl ots sku m ps s = (Ok port_map, t) \<Longrightarrow>
   fst ` set port_map = fst ` set m \<union> port_aliases ps"
proof (induction ps arbitrary: m s)
  case Nil
  then show ?case by (auto simp: py_return_app port_aliases_def)
next
  case (Cons p ps)
  then obtain a oid u where
    a: "py_item ''alias'' p = Ok (PStr a)"
    and rest: "phy_create_ports cl ots sku (dict_set a oid m) ps u = (Ok port_map, t)"
    by (auto simp: py_bind_Ok_iff py_lift_app)
  have "port_aliases (p # ps) = insert a (port_aliases ps)"
    using a by (auto simp: port_aliases_def)
  with Cons.IH [OF rest] show ?case by (simp add: dict_keys_set)
qed

lemma connector_side_known:
  "connector_side m side c = Ok oid \<Longrightarrow> \<exists>a. py_item side c = Ok (PStr a) \<and> a \<in> fst ` set m"
  by (force simp: connector_side_def split: option.splits dest: map_of_SomeD)

lemma phy_connectors_iter:
  assumes "py_iter (phy_create_connector cl ots m) cs s = (Ok u, t)" and "c \<in> set cs"
    and "side \<in> {''system_side'', ''line_side''}"
  shows "\<exists>a. py_item side c = Ok (PStr a) \<and> a \<in> fst ` set m"
  using assms(1,2)
proof (induction cs arbitrary: s)
  case (Cons d ds)
  then obtain v where one: "phy_create_connector cl ots m d s = (Ok (), v)"
    and rest: "py_iter (phy_create_connector cl ots m) ds v = (Ok u, t)"
    by (auto simp: py_bind_Ok_iff)
  show ?case
  proof (cases "c = d")
    case True
    with one obtain x y where "connector_side m ''system_side'' c = Ok x" "connector_side m ''line_side'' c = Ok y"
      by (auto simp: phy_create_connector_def py_bind_Ok_iff py_lift_app)
    with assms(3) show ?thesis by (auto dest: connector_side_known)
  next
    case False
    with Cons.prems have "c \<in> set ds" by simp
    with Cons.IH [OF rest] show ?thesis by blast
  qed
qed simp

lemma phy_connectors_known:
  assumes "phy_set_sku_mode cl ots sku s = (Ok (), t)"
  shows "\<exists>ports cs. rbind (py_item ''port'' sku) elements = Ok ports \<and>
    rbind (py_item ''connector'' sku) elements = Ok cs \<and>
    (\<forall>c \<in> set cs. \<forall>side \<in> {''system_side'', ''line_side''}. \<exists>a \<in> port_aliases ports. py_item side c = Ok (PStr a))"
proof -
  from assms obtain ports m cs s1 where
    ports: "rbind (py_item ''port'' sku) elements = Ok ports"
    and create: "phy_create_ports cl ots sku [] ports s = (Ok m, s1)"
    and cs: "rbind (py_item ''connector'' sku) elements = Ok cs"
    and conn: "py_iter (phy_create_connector cl ots m) cs s1 = (Ok (), t)"
    unfolding phy_set_sku_mode_def py_bind_Ok_iff py_lift_app by auto
  from phy_ports_by_alias [OF create] have "fst ` set m = port_aliases ports" by simp
  with ports cs phy_connectors_iter [OF conn] show ?thesis by metis
qed

text \<open>Without an SKU the attribute \<open>sku_config\<close> does not exist: the switch is created, then \<open>init\<close> fails.\<close>

lemma phy_init_without_sku:
  assumes "npu_create cl ots ''SWITCH'' (attr @
       [PStr ''SAI_SWITCH_ATTR_INIT_SWITCH'', PStr ''true'',
        PStr ''SAI_SWITCH_ATTR_TYPE'', PStr ''SAI_SWITCH_TYPE_PHY'']) s = (Ok sw, t)"
    and "phy_sku s = None"
  shows "\<exists>u. phy_init cl ots None attr s = (Err AttributeError, u) \<and> switch_oid u = PStr sw"
proof -
  have same: "s\<lparr>phy_sku := None\<rparr> = s" using assms(2) by simp
  with assms show ?thesis
    by (simp add: same phy_init_def load_sku_def py_bind_app py_get_app py_lift_app py_modify_app
        set_switch_oid_def create_alias_def rec_store_def py_raise_app py_bind_def)
qed

end
