(* ===== verification/ClientInstances.thy ===== *)
theory ClientInstances imports Instances ThriftClient Cli PhyDpu begin

text \<open>
  Instances for the Thrift client, the command line and the other devices: an adapter that numbers
  the objects it creates and holds one object list, and the libraries it converts with.
\<close>

section \<open>Thrift\<close>

definition demo_libs :: thrift_libs where
  "demo_libs = \<lparr>lib_header = map_of [(''SAI_IP_ADDR_FAMILY_IPV4'', 0), (''SAI_IP_ADDR_FAMILY_IPV6'', 1)],
     lib_spec = map_of [(''sai_thrift_inseg_entry_t'', [(''label'', None)])],
     lib_types = map_of [(''SAI_VLAN_ATTR_MEMBER_LIST'', ''objlist''), (''SAI_VLAN_ATTR_VLAN_ID'', ''u16'')],
     lib_json = None, lib_counters = (\<lambda>_. None)\<rparr>"

definition demo_members :: "int list" where
  "demo_members = [17, 18, 19]"

definition demo_adapter :: "int thrift_env" where
  "demo_adapter = \<lparr>th_has = (\<lambda>_. True),
     th_call = (\<lambda>f kw n.
       if starts_with f ''sai_thrift_create_'' then (Ok (AVal (PInt n)), n + 1)
       else if f = ''sai_thrift_get_vlan_attribute'' then
         (Ok (ADict [(''SAI_VLAN_ATTR_MEMBER_LIST'', oid_list demo_members), (''member_list'', oid_list demo_members)]), n)
       else (Ok (AVal (PInt 0)), n)),
     th_status = (\<lambda>_. 0), th_query = (\<lambda>v n. (Ok (v div 2 ^ 48), n)),
     th_close = py_return (), th_open = py_return (), th_restart = (\<lambda>_. py_return ()), th_sleep = (\<lambda>_. py_return ())\<rparr>"

definition demo_tclient :: "int tclient" where
  "demo_tclient = \<lparr>tenv = 31, sai_type_map = [(9, Some (SaiObjType ''VLAN'' 38))]\<rparr>"

definition inseg_types :: "sai_obj_type list" where
  "inseg_types = [SaiObjType ''INSEG_ENTRY'' 52]"

definition inseg_keys :: "pyval list" where
  "inseg_keys = [PDict [(''label'', PStr ''5'')], PDict [(''label'', PStr ''6'')]]"

section \<open>PHY\<close>

definition demo_phy_sku :: pyval where
  "demo_phy_sku = PDict [(''speed'', PInt 10000),
     (''port'', PList [PDict [(''alias'', PStr ''s0''), (''lanes'', PStr ''0'')],
                       PDict [(''alias'', PStr ''l0''), (''lanes'', PStr ''4'')]]),
     (''connector'', PList [PDict [(''system_side'', PStr ''s0''), (''line_side'', PStr ''l0'')]])]"

definition phy_types :: "sai_obj_type list" where
  "phy_types = map2 SaiObjType [''PORT'', ''SWITCH'', ''PORT_CONNECTOR''] [1, 33, 63]"

section \<open>The command line\<close>

definition demo_cli :: "nat cli" where
  "demo_cli = \<lparr>objects_registry = [], switch_oid = PStr ''oid:0x21'', rec2vid = [], client = 5, dot1q_br_oid = null_oid,
     default_vlan_oid = null_oid, default_vlan_id = ''0'', default_vrf_oid = null_oid, port_oids = [], dot1q_bp_oids = [],
     sku_config = None, echoed = [], cfg_file = None\<rparr>"

definition demo_redis_cli :: "mem rclient cli" where
  "demo_redis_cli = \<lparr>objects_registry = [], switch_oid = PStr ''oid:0x21'', rec2vid = [], client = demo_rclient,
     dot1q_br_oid = null_oid, default_vlan_oid = null_oid, default_vlan_id = ''0'', default_vrf_oid = null_oid,
     port_oids = [], dot1q_bp_oids = [], sku_config = None, echoed = [], cfg_file = None\<rparr>"

definition cli_meta :: pyval where
  "cli_meta = PList [PDict [(''name'', PStr ''SAI_OBJECT_TYPE_PORT''), (''attributes'', PList (map
     (\<lambda>(a, t). PDict [(''name'', PStr a), (''properties'', PDict [(''type'', PStr t)])])
     [(''SAI_PORT_ATTR_SPEED'', ''sai_uint32_t''), (''SAI_PORT_ATTR_ADMIN_STATE'', ''bool'')]))]]"

definition cli_table :: table where
  "cli_table = [(''oid:0x1'', ''SAI_PORT_ATTR_SPEED'', ''10000''), (''oid:0x1'', ''SAI_PORT_ATTR_ADMIN_STATE'', ''true'')]"

end
