(* ===== verification/Deadline.thy ===== *)
theory Deadline imports Prelude begin

text \<open>
  Loops that run until a deadline: \<open>while True\<close> with a sleep in each turn. They are given a number of
  turns; enough turns for the time the loop can spend make no difference to what it does.
\<close>

text \<open>A turn of the loop leaves it with a value, or asks for another turn.\<close>

fun turns :: "nat \<Rightarrow> ('s, 'a option) py \<Rightarrow> ('s, 'a) py" where
  "turns 0 body = py_raise OutOfFuel"
| "turns (Suc n) body = py_bind body (\<lambda>r. case r of Some x \<Rightarrow> py_return x | None \<Rightarrow> turns n body)"

text \<open>The loop would go on after \<open>n\<close> turns.\<close>

fun starved :: "nat \<Rightarrow> ('s, 'a option) py \<Rightarrow> 's \<Rightarrow> bool" where
  "starved 0 body s = True"
| "starved (Suc n) body s = (case body s of (Ok None, t) \<Rightarrow> starved n body t | _ \<Rightarrow> False)"

lemma turns_more: "\<not> starved n body s \<Longrightarrow> n \<le> m \<Longrightarrow> turns m body s = turns n body s"
proof (induction n arbitrary: m s)
  case (Suc n)
  then obtain k where "m = Suc k" and "n \<le> k" by (cases m) auto
  moreover have "turns k body t = turns n body t" if "body s = (Ok None, t)" for t
    using Suc.IH [OF _ \<open>n \<le> k\<close>, of t] Suc.prems(1) that by simp
  ultimately show ?case
    by (cases "body s"; cases "fst (body s)") (auto simp: py_bind_def split: option.splits)
qed simp

text \<open>Every turn that asks for another starts before the deadline and takes time.\<close>

lemma turns_enough:
  assumes step: "\<And>s t. I s \<Longrightarrow> body s = (Ok None, t) \<Longrightarrow> I t \<and> clk s + d \<le> clk t \<and> clk s \<le> deadline"
    and "I s" and "deadline < clk s + int n * d"
  shows "\<not> starved (Suc n) body s"
  using assms(2,3)
proof (induction n arbitrary: s)
  case 0
  have False if "body s = (Ok None, t)" for t using step [OF 0(1) that] 0(2) by simp
  then show ?case by (auto split: prod.splits res.splits option.splits)
next
  case (Suc n)
  have "\<not> starved (Suc n) body t" if "body s = (Ok None, t)" for t
  proof (rule Suc.IH)
    from step [OF Suc.prems(1) that] have t: "I t" "clk s + d \<le> clk t" by auto
    show "I t" by (rule t(1))
    from t(2) Suc.prems(2) show "deadline < clk t + int n * d" by (simp add: algebra_simps)
  qed
  then show ?case by (auto split: prod.splits res.splits option.splits)
qed

lemma turns_Ok: "turns n body s = (Ok x, t) \<Longrightarrow> \<exists>u. body u = (Ok (Some x), t)"
  by (induction n arbitrary: s) (auto simp: py_bind_Ok_iff py_raise_app py_return_app split: option.splits)

lemma py_inv_turns [inv_intros]: "py_inv I body \<Longrightarrow> py_inv I (turns n body)"
  by (induction n) (auto intro!: inv_intros split: option.splits)

end
