(* ===== verification/Logs.thy ===== *)
theory Logs imports RedisEnv Deadline begin

text \<open>
  What an operation adds to a log in its state: \<open>logs log as m\<close>, when \<open>m\<close> returns it has added \<open>as\<close>;
  \<open>silent log m\<close>, whatever \<open>m\<close> does, nothing is added; \<open>adds log Q m\<close>, what is added and the result are
  related by \<open>Q\<close>.
\<close>

definition logs :: "('e \<Rightarrow> 'l list) \<Rightarrow> 'l list \<Rightarrow> ('e, 'a) py \<Rightarrow> bool" where
  "logs log as m \<longleftrightarrow> (\<forall>e x f. m e = (Ok x, f) \<longrightarrow> log f = log e @ as)"

definition silent :: "('e \<Rightarrow> 'l list) \<Rightarrow> ('e, 'a) py \<Rightarrow> bool" where
  "silent log m \<longleftrightarrow> (\<forall>e r f. m e = (r, f) \<longrightarrow> log f = log e)"

lemma silent_logs: "silent log m \<Longrightarrow> logs log [] m"
  by (simp add: silent_def logs_def)

lemma logs_bind: "logs log as m \<Longrightarrow> (\<And>x. logs log bs (f x)) \<Longrightarrow> logs log (as @ bs) (py_bind m f)"
  by (fastforce simp: logs_def py_bind_Ok_iff)

lemma silent_bind: "silent log m \<Longrightarrow> (\<And>x. silent log (f x)) \<Longrightarrow> silent log (py_bind m f)"
  by (fastforce simp: silent_def py_bind_def split: prod.splits res.splits)

lemma silent_basic:
  "silent log (py_return x)" "silent log (py_raise e)" "silent log (py_lift r)" "silent log (py_get f)"
  "silent log (py_assert b)"
  by (auto simp: silent_def py_return_def py_raise_def py_lift_def py_get_def py_assert_def)

lemma silent_inv: "silent log m \<longleftrightarrow> (\<forall>l. py_inv (\<lambda>e. log e = l) m)"
proof -
  have "silent log m \<longleftrightarrow> (\<forall>e. log (snd (m e)) = log e)"
    unfolding silent_def by (metis prod.collapse snd_conv)
  then show ?thesis by (auto simp: py_inv_def)
qed

lemma silentD: "silent log m \<Longrightarrow> m e = (r, f) \<Longrightarrow> log f = log e"
  by (simp add: silent_def)

lemma logsD: "logs log as m \<Longrightarrow> m e = (Ok x, f) \<Longrightarrow> log f = log e @ as"
  by (simp add: logs_def)

lemma silent_poll: "silent log m \<Longrightarrow> silent log p \<Longrightarrow> silent log (poll_for n m p)"
  by (auto simp: silent_inv intro: inv_intros)

lemma silent_turns: "silent log m \<Longrightarrow> silent log (turns n m)"
  by (auto simp: silent_inv intro: inv_intros)

lemma silent_handle: "silent log m \<Longrightarrow> (\<And>e. silent log (h e)) \<Longrightarrow> silent log (py_handle m h)"
  by (auto simp: silent_inv intro: inv_intros)

text \<open>An operation with a log beside its state.\<close>

definition logged_op :: "'l list \<Rightarrow> ('e, 'a) py \<Rightarrow> ('e \<times> 'l list, 'a) py" where
  "logged_op as m = (\<lambda>(e, l). case m e of (r, f) \<Rightarrow> (r, (f, l @ as)))"

section \<open>Logs that depend on what is read\<close>

definition adds :: "('e \<Rightarrow> 'l list) \<Rightarrow> ('a \<Rightarrow> 'l list \<Rightarrow> bool) \<Rightarrow> ('e, 'a) py \<Rightarrow> bool" where
  "adds log Q m \<longleftrightarrow> (\<forall>e x f. m e = (Ok x, f) \<longrightarrow> (\<exists>ls. log f = log e @ ls \<and> Q x ls))"

lemma addsD: "adds log Q m \<Longrightarrow> m e = (Ok x, f) \<Longrightarrow> \<exists>ls. log f = log e @ ls \<and> Q x ls"
  by (simp add: adds_def)

lemma adds_mono: "adds log Q m \<Longrightarrow> (\<And>x ls. Q x ls \<Longrightarrow> R x ls) \<Longrightarrow> adds log R m"
  by (fastforce simp: adds_def)

lemma adds_bind:
  assumes "adds log Q m" and "\<And>x. adds log (R x) (f x)"
  shows "adds log (\<lambda>y ls. \<exists>x as bs. ls = as @ bs \<and> Q x as \<and> R x y bs) (py_bind m f)"
  unfolding adds_def
proof (intro allI impI)
  fix e y g assume "py_bind m f e = (Ok y, g)"
  then obtain x h where "m e = (Ok x, h)" "f x h = (Ok y, g)" by (auto simp: py_bind_Ok_iff)
  with addsD [OF assms(1)] addsD [OF assms(2)] obtain as bs where
    "log h = log e @ as" "Q x as" "log g = log h @ bs" "R x y bs" by blast
  then show "\<exists>ls. log g = log e @ ls \<and> (\<exists>x as bs. ls = as @ bs \<and> Q x as \<and> R x y bs)" by auto
qed

lemma adds_return: "adds log (\<lambda>y ls. y = x \<and> ls = []) (py_return x)"
  by (simp add: adds_def py_return_app)

lemma adds_lift: "adds log (\<lambda>y ls. r = Ok y \<and> ls = []) (py_lift r)"
  by (simp add: adds_def py_lift_app)

lemma adds_silent: "silent log m \<Longrightarrow> adds log (\<lambda>_ ls. ls = []) m"
  by (simp add: adds_def silent_def)

lemma adds_logs: "logs log as m \<Longrightarrow> adds log (\<lambda>_ ls. ls = as) m"
  by (simp add: adds_def logs_def)

text \<open>A poll whose every attempt reads one thing: it ends on the first that satisfies \<open>P\<close>.\<close>

definition ends_with_hit :: "('i \<Rightarrow> bool) \<Rightarrow> 'i list \<Rightarrow> bool" where
  "ends_with_hit P xs \<longleftrightarrow> xs \<noteq> [] \<and> list_all (\<lambda>z. \<not> P z) (butlast xs) \<and> P (last xs)"

definition polled :: "('i \<Rightarrow> 'l) \<Rightarrow> ('i \<Rightarrow> bool) \<Rightarrow> 'a option \<Rightarrow> 'l list \<Rightarrow> bool" where
  "polled g P r ls \<longleftrightarrow> (\<exists>xs. ls = map g xs \<and> (r \<noteq> None \<longrightarrow> ends_with_hit P xs))"

lemma polled_none [simp]: "polled g P None []"
  by (simp add: polled_def)

lemma polled_end: "P x \<longleftrightarrow> r \<noteq> None \<Longrightarrow> polled g P r [g x]"
  unfolding polled_def by (intro exI [of _ "[x]"]) (simp add: ends_with_hit_def)

lemma hit_more: "ends_with_hit P xs \<Longrightarrow> \<not> P x \<Longrightarrow> ends_with_hit P (x # xs)"
  by (simp add: ends_with_hit_def)

lemma polled_more:
  assumes "polled g P r ls" and "\<not> P x"
  shows "polled g P r (g x # ls)"
proof -
  from assms(1) obtain xs where "ls = map g xs" "r \<noteq> None \<longrightarrow> ends_with_hit P xs" unfolding polled_def by (elim exE conjE)
  with hit_more [where P = P and x = x] assms(2) show ?thesis unfolding polled_def by (intro exI [of _ "x # xs"]) simp
qed

lemma adds_poll_until:
  assumes "adds log (\<lambda>r ls. \<exists>x. ls = [g x] \<and> (P x \<longleftrightarrow> r \<noteq> None)) m" and "silent log p"
  shows "adds log (polled g P) (poll_until m p n)"
proof (induction n)
  case 0
  show ?case unfolding poll_until.simps
    by (rule adds_mono [OF assms(1)]) (elim exE conjE, simp only: polled_end)
next
  case (Suc n)
  show ?case unfolding adds_def
  proof (intro allI impI)
    fix e r f assume "poll_until m p (Suc n) e = (Ok r, f)"
    then obtain r1 e1 where 1: "m e = (Ok r1, e1)"
      and rest: "(case r1 of Some x \<Rightarrow> py_return (Some x) | None \<Rightarrow> py_bind p (\<lambda>_. poll_until m p n)) e1 = (Ok r, f)"
      by (auto simp: py_bind_Ok_iff)
    from addsD [OF assms(1) 1] obtain x where x: "log e1 = log e @ [g x]" "P x \<longleftrightarrow> r1 \<noteq> None" by blast
    show "\<exists>ls. log f = log e @ ls \<and> polled g P r ls"
    proof (cases r1)
      case None
      with rest obtain u e2 where 2: "p e1 = (Ok u, e2)" "poll_until m p n e2 = (Ok r, f)"
        by (auto simp: py_bind_Ok_iff)
      from addsD [OF Suc.IH 2(2)] obtain ls where "log f = log e2 @ ls" "polled g P r ls" by blast
      with x None silentD [OF assms(2) 2(1)] show ?thesis
        by (intro exI [of _ "g x # ls"]) (simp add: polled_more)
    next
      case (Some y)
      with rest have "f = e1 \<and> r = r1" by (simp add: py_return_app)
      with x Some show ?thesis by (intro exI [of _ "[g x]"]) (simp add: polled_end)
    qed
  qed
qed

lemma adds_poll_for:
  assumes "adds log (\<lambda>r ls. \<exists>x. ls = [g x] \<and> (P x \<longleftrightarrow> r \<noteq> None)) m" and "silent log p"
  shows "adds log (polled g P) (poll_for n m p)"
  using adds_poll_until [OF assms] by (simp add: poll_for_def adds_def py_return_app)

end
