(* ===== verification/Dut.thy ===== *)
theory Dut imports SaiCore Logs begin

text \<open>
  The device under test of \<open>common/sai_dut.py\<close>: \<open>SaiDut\<close> with its SSH connection and its waiting for
  containers and services, and \<open>SaiDutSonic\<close>, which prepares a SONiC device, cleans it and gives
  it back. The SSH connection, the Redis server of the device and the clock are a parameter.
\<close>

section \<open>The device\<close>

text \<open>
  \<open>ssh_run\<close>: \<open>exec_command\<close> alone; \<open>ssh_output\<close>: \<open>exec_command\<close> and everything it prints. The Redis calls
  name the database. Times are in milliseconds.
\<close>

record 'e dut_env =
  ssh_connect :: "pyval \<Rightarrow> pyval \<Rightarrow> pyval \<Rightarrow> ('e, unit) py"
  ssh_run :: "string \<Rightarrow> ('e, unit) py"
  ssh_output :: "string \<Rightarrow> ('e, string) py"
  dut_ping :: "('e, unit) py"
  dut_flushall :: "('e, unit) py"
  dut_flushdb :: "int \<Rightarrow> ('e, unit) py"
  dut_hset :: "int \<Rightarrow> string \<Rightarrow> (string, string) dict \<Rightarrow> ('e, unit) py"
  dut_set_key :: "int \<Rightarrow> string \<Rightarrow> string \<Rightarrow> ('e, unit) py"
  dut_now :: "('e, int) py"
  dut_sleep :: "int \<Rightarrow> ('e, unit) py"

text \<open>\<open>ssh\<close> tells whether \<open>self.ssh\<close> has been set.\<close>

record 'e dut =
  dut_alias :: pyval
  dut_ip :: pyval
  dut_port :: pyval
  dut_username :: pyval
  dut_password :: pyval
  dut_mode :: pyval
  ssh :: bool
  denv :: 'e

definition on_denv :: "('e, 'a) py \<Rightarrow> (('e, 'z) dut_scheme, 'a) py" where
  "on_denv m = (\<lambda>s. case m (denv s) of (r, e) \<Rightarrow> (r, s\<lparr>denv := e\<rparr>))"

lemma on_denv_app [py_simps]: "on_denv m s = (case m (denv s) of (r, e) \<Rightarrow> (r, s\<lparr>denv := e\<rparr>))"
  by (simp add: on_denv_def)

text \<open>\<open>cfg.get(k, d)\<close> of a configuration.\<close>

definition cfg_get :: "(string, pyval) dict \<Rightarrow> string \<Rightarrow> pyval \<Rightarrow> pyval" where
  "cfg_get cfg k d = (case map_of cfg k of Some v \<Rightarrow> v | None \<Rightarrow> d)"

definition sonic_init_state :: "(string, pyval) dict \<Rightarrow> 'e \<Rightarrow> 'e dut" where
  "sonic_init_state cfg e =
     \<lparr>dut_alias = cfg_get cfg ''alias'' (PStr ''default''), dut_ip = cfg_get cfg ''ip'' (PStr ''localhost''),
      dut_port = cfg_get cfg ''port'' (PStr ''6379''), dut_username = cfg_get cfg ''username'' (PStr ''admin''),
      dut_password = cfg_get cfg ''password'' (PStr ''YourPaSsWoRd''), dut_mode = cfg_get cfg ''mode'' PNone,
      ssh = False, denv = e\<rparr>"

text \<open>\<open>SaiDut.spawn\<close>: a device for the two SONiC modes, none otherwise.\<close>

definition spawn_dut :: "(string, pyval) dict \<Rightarrow> 'e \<Rightarrow> 'e dut option" where
  "spawn_dut cfg e =
     (if cfg_get cfg ''mode'' PNone \<in> {PStr ''sonic'', PStr ''sonic-restore''}
      then Some (sonic_init_state cfg e) else None)"

section \<open>SSH and waiting\<close>

text \<open>\<open>_connect\<close>: the client is stored before it connects.\<close>

definition dut_connect :: "'e dut_env \<Rightarrow> (('e, 'z) dut_scheme, unit) py" where
  "dut_connect E =
     py_bind (py_get ssh) (\<lambda>b. if b then py_return () else
     py_bind (py_modify (\<lambda>s. s\<lparr>ssh := True\<rparr>)) (\<lambda>_.
     py_bind (py_get (\<lambda>s. (dut_ip s, dut_username s, dut_password s))) (\<lambda>(ip, user, pw).
     on_denv (ssh_connect E ip user pw))))"

definition service_is_active :: "'e dut_env \<Rightarrow> string \<Rightarrow> (('e, 'z) dut_scheme, bool) py" where
  "service_is_active E service =
     py_bind (dut_connect E) (\<lambda>_.
     py_bind (on_denv (ssh_output E (''systemctl is-active '' @ service))) (\<lambda>out.
     py_return (\<not> str_in ''inactive'' out)))"

text \<open>\<open>json.loads(output)[0]["State"]["Running"]\<close>.\<close>

definition running_state :: "string \<Rightarrow> pyval res" where
  "running_state out =
     rbind (loads out) (\<lambda>v.
     rbind (py_index v 0) (\<lambda>c.
     rbind (py_item ''State'' c) (py_item ''Running'')))"

definition container_is_running :: "'e dut_env \<Rightarrow> string \<Rightarrow> (('e, 'z) dut_scheme, pyval) py" where
  "container_is_running E container =
     py_bind (dut_connect E) (\<lambda>_.
     py_bind (on_denv (ssh_output E (''docker inspect '' @ container))) (\<lambda>out.
     py_lift (running_state out)))"

text \<open>\<open>for i in range(tout)\<close>, a second apart.\<close>

definition assert_within ::
  "'e dut_env \<Rightarrow> int \<Rightarrow> (('e, 'z) dut_scheme, bool) py \<Rightarrow> (('e, 'z) dut_scheme, unit) py" where
  "assert_within E tout check =
     py_bind (poll_for (tout - 1)
       (py_bind check (\<lambda>b. py_return (if b then Some () else None)))
       (on_denv (dut_sleep E 1000)))
     (\<lambda>r. case r of Some _ \<Rightarrow> py_return () | None \<Rightarrow> py_raise AssertionError)"

definition assert_container_state ::
  "'e dut_env \<Rightarrow> string \<Rightarrow> bool \<Rightarrow> int \<Rightarrow> (('e, 'z) dut_scheme, unit) py" where
  "assert_container_state E container is_running tout = assert_within E tout
     (py_bind (container_is_running E container) (\<lambda>r. py_return (py_eq r (PBool is_running))))"

definition assert_service_state ::
  "'e dut_env \<Rightarrow> string \<Rightarrow> bool \<Rightarrow> int \<Rightarrow> (('e, 'z) dut_scheme, unit) py" where
  "assert_service_state E service is_active tout = assert_within E tout
     (py_bind (service_is_active E service) (\<lambda>r. py_return (r = is_active)))"

text \<open>
  \<open>_assert_redis_is_available\<close>: a turn of its loop, and the loop; \<open>turns\<close> bounds the number of turns,
  which the deadline bounds anyway.
\<close>

definition redis_turn :: "'e dut_env \<Rightarrow> int \<Rightarrow> int \<Rightarrow> (('e, 'z) dut_scheme, unit option) py" where
  "redis_turn E tout start = py_handle
     (py_bind (on_denv (dut_ping E)) (\<lambda>_. py_return (Some ())))
     (\<lambda>_. py_bind (on_denv (dut_now E)) (\<lambda>now.
       if now - start < tout then py_bind (on_denv (dut_sleep E 1000)) (\<lambda>_. py_return None)
       else py_raise AssertionError))"

definition assert_redis_is_available :: "'e dut_env \<Rightarrow> nat \<Rightarrow> int \<Rightarrow> (('e, 'z) dut_scheme, unit) py" where
  "assert_redis_is_available E fuel tout =
     py_bind (on_denv (dut_now E)) (\<lambda>start. turns fuel (redis_turn E tout start))"

section \<open>SONiC\<close>

text \<open>\<open>stdout.readlines()\<close>: the lines with their line breaks; the last one may have none.\<close>

fun py_lines :: "string \<Rightarrow> string list" where
  "py_lines [] = []"
| "py_lines (c # s) =
     (if c = CHR 0x0A then [c] # py_lines s
      else case py_lines s of [] \<Rightarrow> [[c]] | l # ls \<Rightarrow> (c # l) # ls)"

text \<open>Keys and values on alternating lines, each without its last character.\<close>

fun metadata_of :: "string list \<Rightarrow> (string, string) dict \<Rightarrow> (string, string) dict res" where
  "metadata_of [] d = Ok d"
| "metadata_of [l] d = Err IndexError"
| "metadata_of (k # v # ls) d = metadata_of ls (dict_set (butlast k) (butlast v) d)"

definition sonic_services :: "string list" where
  "sonic_services = [''monit'', ''pmon'', ''sonic.target'', ''database'']"

definition read_metadata_cmd :: string where
  "read_metadata_cmd = ''redis-cli -n 4 --raw hgetall '' @ [CHR 0x22] @ ''DEVICE_METADATA|localhost'' @ [CHR 0x22]"

definition write_metadata_cmd :: "string list \<Rightarrow> string" where
  "write_metadata_cmd ls = ''echo '' @ [CHR 0x22] @ butlast (concat ls) @ [CHR 0x22] @ '' > device_metadata.log''"

definition bind_fix_cmd :: string where
  "bind_fix_cmd = ''echo '' @ [CHR 0x22] @ ''sed -ri 's/--bind.*--port/--bind 0.0.0.0 --protected-mode no --port/' /usr/share/sonic/templates/supervisord.conf.j2'' @ [CHR 0x22] @ '' > redis_bind_fix.sh''"

text \<open>The metadata, from the file or from the configuration database, which is then written to the file.\<close>

definition sonic_metadata :: "'e dut_env \<Rightarrow> (('e, 'z) dut_scheme, string list) py" where
  "sonic_metadata E =
     py_bind (on_denv (ssh_output E ''cat device_metadata.log'')) (\<lambda>out.
     (let ls = py_lines out in
      if length ls > 1 then py_return ls
      else
        py_bind (container_is_running E ''database'') (\<lambda>r.
        py_bind (py_assert (truthy r)) (\<lambda>_.
        py_bind (on_denv (ssh_output E read_metadata_cmd)) (\<lambda>out2.
        (let ls2 = py_lines out2 in
         py_bind (py_assert (length ls2 > 1)) (\<lambda>_.
         py_bind (on_denv (ssh_run E (write_metadata_cmd ls2))) (\<lambda>_. py_return ls2))))))))"

definition stop_service :: "'e dut_env \<Rightarrow> string \<Rightarrow> (('e, 'z) dut_scheme, unit) py" where
  "stop_service E service =
     py_bind (on_denv (ssh_run E (''sudo systemctl stop '' @ service))) (\<lambda>_.
     py_bind (on_denv (ssh_run E (''sudo systemctl mask '' @ service))) (\<lambda>_.
     assert_service_state E service False 60))"

definition stop_container :: "'e dut_env \<Rightarrow> string \<Rightarrow> (('e, 'z) dut_scheme, unit) py" where
  "stop_container E container =
     py_bind (on_denv (ssh_run E (''docker stop '' @ container))) (\<lambda>_.
     assert_container_state E container False 30)"

definition sonic_init :: "'e dut_env \<Rightarrow> nat \<Rightarrow> (('e, 'z) dut_scheme, unit) py" where
  "sonic_init E fuel =
     py_bind (dut_connect E) (\<lambda>_.
     py_bind (sonic_metadata E) (\<lambda>ls.
     py_bind (py_lift (metadata_of ls [])) (\<lambda>md.
     py_bind (container_is_running E ''database'') (\<lambda>db.
     py_bind (if truthy db then
         py_bind (on_denv (ssh_run E bind_fix_cmd)) (\<lambda>_.
         py_bind (on_denv (ssh_run E ''docker cp redis_bind_fix.sh database:/'')) (\<lambda>_.
         py_bind (on_denv (ssh_run E ''docker exec database bash redis_bind_fix.sh'')) (\<lambda>_.
         py_bind (py_iter (stop_service E) sonic_services) (\<lambda>_.
         stop_container E ''syncd''))))
       else py_return ()) (\<lambda>_.
     py_bind (container_is_running E ''database'') (\<lambda>db2.
     py_bind (if truthy db2 then stop_container E ''database'' else py_return ()) (\<lambda>_.
     py_bind (on_denv (ssh_run E ''docker start database'')) (\<lambda>_.
     py_bind (assert_container_state E ''database'' True 30) (\<lambda>_.
     py_bind (assert_redis_is_available E fuel 45000) (\<lambda>_.
     py_bind (on_denv (dut_flushall E)) (\<lambda>_.
     py_bind (on_denv (dut_hset E 4 ''DEVICE_METADATA|localhost'' md)) (\<lambda>_.
     on_denv (dut_set_key E 4 ''CONFIG_DB_INITIALIZED'' ''1'')))))))))))))"

definition restore_service :: "'e dut_env \<Rightarrow> string \<Rightarrow> (('e, 'z) dut_scheme, unit) py" where
  "restore_service E service =
     py_bind (service_is_active E service) (\<lambda>b.
     if b then py_return ()
     else
       py_bind (on_denv (ssh_run E (''sudo systemctl unmask '' @ service))) (\<lambda>_.
       on_denv (ssh_run E (''sudo systemctl restart '' @ service))))"

definition sonic_deinit :: "'e dut_env \<Rightarrow> (('e, 'z) dut_scheme, unit) py" where
  "sonic_deinit E =
     py_bind (py_get dut_mode) (\<lambda>mode.
     if mode \<noteq> PStr ''sonic-restore'' then py_return ()
     else
       py_bind (dut_connect E) (\<lambda>_.
       py_bind (stop_container E ''syncd'') (\<lambda>_.
       py_bind (stop_container E ''database'') (\<lambda>_.
       py_iter (restore_service E) (rev sonic_services)))))"

definition sonic_cleanup :: "'e dut_env \<Rightarrow> (('e, 'z) dut_scheme, unit) py" where
  "sonic_cleanup E =
     py_bind (dut_connect E) (\<lambda>_.
     py_bind (stop_container E ''syncd'') (\<lambda>_.
     py_bind (on_denv (dut_flushdb E 1)) (\<lambda>_.
     on_denv (ssh_run E ''docker start syncd''))))"

section \<open>What is done to the device\<close>

text \<open>
  The actions on the device, in order. The locale says how the operations of an environment show in
  its log: reading the state, pinging and waiting do not, changing the device does.
\<close>

datatype action = Run string | FlushAll | FlushDb int | HSet int string "(string, string) dict" | SetKey int string string

locale device_log =
  fixes E :: "'e dut_env" and log :: "'e \<Rightarrow> action list"
  assumes log_run: "logs log [Run c] (ssh_run E c)"
    and log_flushall: "logs log [FlushAll] (dut_flushall E)"
    and log_flushdb: "logs log [FlushDb n] (dut_flushdb E n)"
    and log_hset: "logs log [HSet n k d] (dut_hset E n k d)"
    and log_set: "logs log [SetKey n k v] (dut_set_key E n k v)"
    and log_silent: "silent log (ssh_connect E a b c')" "silent log (ssh_output E cmd)" "silent log (dut_ping E)"
      "silent log (dut_now E)" "silent log (dut_sleep E ms)"
begin

definition dlog :: "('e, 'z) dut_scheme \<Rightarrow> action list" where
  "dlog s = log (denv s)"

lemma logs_denv: "logs log as m \<Longrightarrow> logs dlog as (on_denv m)"
  by (fastforce simp: logs_def dlog_def on_denv_def split: prod.splits)

lemma silent_denv: "silent log m \<Longrightarrow> silent dlog (on_denv m)"
  by (fastforce simp: silent_def dlog_def on_denv_def split: prod.splits)

lemmas run_logs = logs_denv [OF log_run]

lemma connect_silent: "silent dlog (dut_connect E)"
proof -
  have "silent dlog (py_modify (\<lambda>s. s\<lparr>ssh := True\<rparr>))" by (simp add: silent_def py_modify_def dlog_def)
  moreover have "silent dlog (case x of (ip, user, pw) \<Rightarrow> on_denv (ssh_connect E ip user pw))" for x
    by (cases x) (simp add: silent_denv log_silent)
  ultimately show ?thesis
    unfolding dut_connect_def by (auto intro!: silent_bind silent_basic)
qed

lemma active_silent: "silent dlog (service_is_active E service)"
  unfolding service_is_active_def by (intro silent_bind connect_silent silent_denv log_silent silent_basic)

lemma running_silent: "silent dlog (container_is_running E container)"
  unfolding container_is_running_def by (intro silent_bind connect_silent silent_denv log_silent silent_basic)

lemma within_silent: "silent dlog check \<Longrightarrow> silent dlog (assert_within E tout check)"
  unfolding assert_within_def
  by (intro silent_bind silent_poll silent_denv log_silent silent_basic; (cases rule: option.exhaust)?)
    (auto intro: silent_basic split: option.splits)

lemma container_silent: "silent dlog (assert_container_state E container b tout)"
  unfolding assert_container_state_def by (intro within_silent silent_bind running_silent silent_basic)

lemma service_silent: "silent dlog (assert_service_state E service b tout)"
  unfolding assert_service_state_def by (intro within_silent silent_bind active_silent silent_basic)

lemma redis_silent: "silent dlog (assert_redis_is_available E fuel tout)"
proof -
  have "silent dlog (redis_turn E tout start)" for start
    unfolding redis_turn_def
    by (intro silent_handle silent_bind silent_denv log_silent silent_basic)
      (auto intro!: silent_bind silent_denv log_silent silent_basic)
  then show ?thesis
    unfolding assert_redis_is_available_def by (intro silent_bind silent_turns silent_denv log_silent)
qed

lemma stop_container_logs: "logs dlog [Run (''docker stop '' @ c)] (stop_container E c)"
  unfolding stop_container_def
  using logs_bind [OF run_logs silent_logs [OF container_silent]] by simp

lemma cleanup_log:
  "logs dlog [Run ''docker stop syncd'', FlushDb 1, Run ''docker start syncd''] (sonic_cleanup E)"
  unfolding sonic_cleanup_def
  using logs_bind [OF silent_logs [OF connect_silent] logs_bind [OF stop_container_logs
    logs_bind [OF logs_denv [OF log_flushdb] run_logs]]] by simp

lemma init_end_log:
  assumes "sonic_init E fuel s = (Ok (), t)"
  shows "\<exists>s0 s1 ls md pre. dut_connect E s = (Ok (), s0) \<and> sonic_metadata E s0 = (Ok ls, s1) \<and>
     metadata_of ls [] = Ok md \<and>
     dlog t = pre @ [Run ''docker start database'', FlushAll,
       HSet 4 ''DEVICE_METADATA|localhost'' md, SetKey 4 ''CONFIG_DB_INITIALIZED'' ''1'']"
proof -
  let ?tail = "\<lambda>md. py_bind (on_denv (ssh_run E ''docker start database'')) (\<lambda>_.
     py_bind (assert_container_state E ''database'' True 30) (\<lambda>_.
     py_bind (assert_redis_is_available E fuel 45000) (\<lambda>_.
     py_bind (on_denv (dut_flushall E)) (\<lambda>_.
     py_bind (on_denv (dut_hset E 4 ''DEVICE_METADATA|localhost'' md)) (\<lambda>_.
     on_denv (dut_set_key E 4 ''CONFIG_DB_INITIALIZED'' ''1''))))))"
  from assms obtain u s0 s1 s2 ls md sa where 0: "dut_connect E s = (Ok u, s0)"
    "sonic_metadata E s0 = (Ok ls, s1)" "py_lift (metadata_of ls []) s1 = (Ok md, s2)"
    and tail: "?tail md sa = (Ok (), t)"
    unfolding sonic_init_def py_bind_Ok_iff by blast
  have md: "metadata_of ls [] = Ok md" using 0(3) by (simp add: py_lift_app)
  have "logs dlog ([Run ''docker start database''] @ [] @ [] @ [FlushAll] @
     [HSet 4 ''DEVICE_METADATA|localhost'' md] @ [SetKey 4 ''CONFIG_DB_INITIALIZED'' ''1'']) (?tail md)"
    by (intro logs_bind run_logs silent_logs [OF container_silent] silent_logs [OF redis_silent]
        logs_denv log_flushall log_hset log_set)
  from logsD [OF this tail] 0(1,2) md show ?thesis by auto
qed

end

text \<open>Any environment with a log of the actions beside it.\<close>

definition logged :: "'e dut_env \<Rightarrow> ('e \<times> action list) dut_env" where
  "logged E =
     \<lparr>ssh_connect = (\<lambda>a b c. logged_op [] (ssh_connect E a b c)), ssh_run = (\<lambda>c. logged_op [Run c] (ssh_run E c)),
      ssh_output = (\<lambda>c. logged_op [] (ssh_output E c)), dut_ping = logged_op [] (dut_ping E),
      dut_flushall = logged_op [FlushAll] (dut_flushall E), dut_flushdb = (\<lambda>n. logged_op [FlushDb n] (dut_flushdb E n)),
      dut_hset = (\<lambda>n k d. logged_op [HSet n k d] (dut_hset E n k d)),
      dut_set_key = (\<lambda>n k v. logged_op [SetKey n k v] (dut_set_key E n k v)),
      dut_now = logged_op [] (dut_now E), dut_sleep = (\<lambda>ms. logged_op [] (dut_sleep E ms))\<rparr>"

interpretation logged_device: device_log "logged E" snd for E
  by unfold_locales (auto simp: logged_def logged_op_def logs_def silent_def split: prod.splits)

section \<open>What is seen and done\<close>

text \<open>
  A journal of the commands whose output is read, with that output, beside the actions. The locale says
  how the operations that giving a device back uses show in it.
\<close>

datatype event = Did action | Saw string string

definition unmask_restart :: "string \<Rightarrow> event list" where
  "unmask_restart x = [Did (Run (''sudo systemctl unmask '' @ x)), Did (Run (''sudo systemctl restart '' @ x))]"

text \<open>A container reported not to run.\<close>

definition says_stopped :: "string \<Rightarrow> bool" where
  "says_stopped out = (case running_state out of Ok r \<Rightarrow> py_eq r (PBool False) | Err _ \<Rightarrow> False)"

text \<open>A container is stopped and inspected, with these outputs.\<close>

definition stopped :: "string \<Rightarrow> string list \<Rightarrow> event list" where
  "stopped c outs = Did (Run (''docker stop '' @ c)) # map (Saw (''docker inspect '' @ c)) outs"

text \<open>The state of a service is asked for; one that is reported inactive is restored, no other.\<close>

definition restored :: "string \<Rightarrow> string \<Rightarrow> event list" where
  "restored x out = Saw (''systemctl is-active '' @ x) out # (if str_in ''inactive'' out then unmask_restart x else [])"

locale device_journal =
  fixes E :: "'e dut_env" and log :: "'e \<Rightarrow> event list"
  assumes log_did: "logs log [Did (Run c)] (ssh_run E c)"
    and log_saw: "adds log (\<lambda>out ls. ls = [Saw cmd out]) (ssh_output E cmd)"
    and log_quiet: "silent log (ssh_connect E a b c')" "silent log (dut_sleep E ms)"
begin

definition jlog :: "('e, 'z) dut_scheme \<Rightarrow> event list" where
  "jlog s = log (denv s)"

lemma adds_denv: "adds log Q m \<Longrightarrow> adds jlog Q (on_denv m)"
  by (fastforce simp: adds_def jlog_def on_denv_def split: prod.splits)

lemma quiet_denv: "silent log m \<Longrightarrow> silent jlog (on_denv m)"
  by (fastforce simp: silent_def jlog_def on_denv_def split: prod.splits)

lemma run_adds: "adds jlog (\<lambda>_ ls. ls = [Did (Run c)]) (on_denv (ssh_run E c))"
  by (rule adds_denv [OF adds_logs [OF log_did]])

lemma connect_quiet: "silent jlog (dut_connect E)"
proof -
  have "silent jlog (py_modify (\<lambda>s. s\<lparr>ssh := True\<rparr>))" by (simp add: silent_def py_modify_def jlog_def)
  moreover have "silent jlog (case x of (ip, user, pw) \<Rightarrow> on_denv (ssh_connect E ip user pw))" for x
    by (cases x) (simp add: quiet_denv log_quiet)
  ultimately show ?thesis
    unfolding dut_connect_def by (auto intro!: silent_bind silent_basic)
qed

lemma active_adds:
  "adds jlog (\<lambda>b ls. \<exists>out. ls = [Saw (''systemctl is-active '' @ x) out] \<and> b = (\<not> str_in ''inactive'' out)) (service_is_active E x)"
  unfolding service_is_active_def
  by (rule adds_mono [OF adds_bind [OF adds_silent [OF connect_quiet] adds_bind [OF adds_denv [OF log_saw] adds_return]]]) auto

lemma running_adds:
  "adds jlog (\<lambda>r ls. \<exists>out. ls = [Saw (''docker inspect '' @ c) out] \<and> running_state out = Ok r) (container_is_running E c)"
  unfolding container_is_running_def
  by (rule adds_mono [OF adds_bind [OF adds_silent [OF connect_quiet] adds_bind [OF adds_denv [OF log_saw] adds_lift]]]) auto

lemma stop_container_adds: "adds jlog (\<lambda>_ ls. \<exists>outs. ls = stopped c outs \<and> ends_with_hit says_stopped outs) (stop_container E c)"
proof -
  let ?saw = "Saw (''docker inspect '' @ c)"
  let ?check = "py_bind (container_is_running E c) (\<lambda>r. py_return (py_eq r (PBool False)))"
  let ?probe = "py_bind ?check (\<lambda>b. py_return (if b then Some () else None))"
  have probe: "adds jlog (\<lambda>r ls. \<exists>out. ls = [?saw out] \<and> (says_stopped out \<longleftrightarrow> r \<noteq> None)) ?probe"
    by (rule adds_mono [OF adds_bind [OF adds_bind [OF running_adds adds_return] adds_return]]) (auto simp: says_stopped_def)
  let ?finish = "\<lambda>r. case r of Some _ \<Rightarrow> py_return () | None \<Rightarrow> py_raise AssertionError"
  have fin: "adds jlog (\<lambda>_ ls. r \<noteq> None \<and> ls = []) (?finish r)" for r :: "unit option"
    by (cases r) (simp_all add: adds_def py_return_app py_raise_app)
  show ?thesis
    unfolding stop_container_def assert_container_state_def assert_within_def
    by (rule adds_mono [OF adds_bind [OF run_adds adds_bind [OF adds_poll_for [OF probe quiet_denv [OF log_quiet(2)]] fin]]])
      (auto simp: stopped_def polled_def)
qed

lemma restore_adds: "adds jlog (\<lambda>_ ls. \<exists>out. ls = restored x out) (restore_service E x)"
proof -
  let ?run = "py_bind (on_denv (ssh_run E (''sudo systemctl unmask '' @ x))) (\<lambda>_.
     on_denv (ssh_run E (''sudo systemctl restart '' @ x)))"
  have run: "adds jlog (\<lambda>_ ls. ls = unmask_restart x) ?run"
    by (rule adds_mono [OF adds_bind [OF run_adds run_adds]]) (simp add: unmask_restart_def)
  have idle: "adds jlog (\<lambda>_ ls. ls = []) (py_return ())" by (simp add: adds_def py_return_app)
  have "adds jlog (\<lambda>_ ls. ls = (if b then [] else unmask_restart x)) (if b then py_return () else ?run)" for b
    by (cases b) (simp_all only: if_True if_False run idle)
  from adds_bind [OF active_adds this] show ?thesis
    unfolding restore_service_def by (rule adds_mono) (auto simp: restored_def)
qed

lemma restore_all_adds:
  "adds jlog (\<lambda>_ ls. \<exists>outs. length outs = length xs \<and> ls = concat (map2 restored xs outs)) (py_iter (restore_service E) xs)"
proof (induction xs)
  case Nil
  then show ?case by (simp add: adds_def py_return_app)
next
  case (Cons x xs)
  show ?case unfolding py_iter.simps
  proof (rule adds_mono [OF adds_bind [OF restore_adds Cons.IH]])
    fix ls assume "\<exists>_ as bs. ls = as @ bs \<and> (\<exists>out. as = restored x out) \<and>
      (\<exists>outs. length outs = length xs \<and> bs = concat (map2 restored xs outs))"
    then obtain out outs where "length outs = length xs" "ls = restored x out @ concat (map2 restored xs outs)" by blast
    then show "\<exists>outs. length outs = length (x # xs) \<and> ls = concat (map2 restored (x # xs) outs)"
      by (intro exI [of _ "out # outs"]) simp
  qed
qed

lemma deinit_journal:
  assumes "sonic_deinit E s = (Ok (), t)"
  shows "if dut_mode s = PStr ''sonic-restore'' then \<exists>syncd db outs.
       jlog t = jlog s @ stopped ''syncd'' syncd @ stopped ''database'' db @ concat (map2 restored (rev sonic_services) outs) \<and>
       ends_with_hit says_stopped syncd \<and> ends_with_hit says_stopped db \<and> length outs = length sonic_services
     else t = s"
proof (cases "dut_mode s = PStr ''sonic-restore''")
  case False
  with assms show ?thesis by (simp add: sonic_deinit_def py_bind_app py_get_app py_return_app)
next
  case True
  let ?run = "py_bind (dut_connect E) (\<lambda>_. py_bind (stop_container E ''syncd'') (\<lambda>_.
     py_bind (stop_container E ''database'') (\<lambda>_. py_iter (restore_service E) (rev sonic_services))))"
  from assms True have "?run s = (Ok (), t)"
    by (simp add: sonic_deinit_def py_bind_app [of "py_get dut_mode"] py_get_app)
  from addsD [OF adds_bind [OF adds_silent [OF connect_quiet] adds_bind [OF stop_container_adds
      adds_bind [OF stop_container_adds restore_all_adds]]] this]
  show ?thesis using True by (simp only: if_True) (force simp del: sonic_services_def)
qed

end

text \<open>Any environment with such a journal beside it.\<close>

definition journalled :: "'e dut_env \<Rightarrow> ('e \<times> event list) dut_env" where
  "journalled E =
     \<lparr>ssh_connect = (\<lambda>a b c. logged_op [] (ssh_connect E a b c)), ssh_run = (\<lambda>c. logged_op [Did (Run c)] (ssh_run E c)),
      ssh_output = (\<lambda>c (e, l). case ssh_output E c e of
        (Ok out, f) \<Rightarrow> (Ok out, (f, l @ [Saw c out])) | (Err x, f) \<Rightarrow> (Err x, (f, l))),
      dut_ping = logged_op [] (dut_ping E),
      dut_flushall = logged_op [Did FlushAll] (dut_flushall E), dut_flushdb = (\<lambda>n. logged_op [Did (FlushDb n)] (dut_flushdb E n)),
      dut_hset = (\<lambda>n k d. logged_op [Did (HSet n k d)] (dut_hset E n k d)),
      dut_set_key = (\<lambda>n k v. logged_op [Did (SetKey n k v)] (dut_set_key E n k v)),
      dut_now = logged_op [] (dut_now E), dut_sleep = (\<lambda>ms. logged_op [] (dut_sleep E ms))\<rparr>"

interpretation journal: device_journal "journalled E" snd for E
  by unfold_locales
    (auto simp: journalled_def logged_op_def logs_def adds_def silent_def split: prod.splits res.splits)

text \<open>The lines of the metadata are read back as the fields they were printed from.\<close>

lemma py_lines_line: "CHR 0x0A \<notin> set l \<Longrightarrow> py_lines (l @ CHR 0x0A # s) = (l @ [CHR 0x0A]) # py_lines s"
  by (induction l) auto

lemma metadata_read:
  assumes "distinct (map fst kvs)" and "list_all (\<lambda>(k, v). CHR 0x0A \<notin> set k \<and> CHR 0x0A \<notin> set v) kvs"
    and "set (map fst d) \<inter> set (map fst kvs) = {}"
  shows "metadata_of (py_lines (concat (map (\<lambda>(k, v). k @ CHR 0x0A # v @ [CHR 0x0A]) kvs))) d = Ok (d @ kvs)"
  using assms
proof (induction kvs arbitrary: d)
  case (Cons kv kvs)
  obtain k v where kv: "kv = (k, v)" by (cases kv)
  have new: "k \<notin> fst ` set d" using Cons.prems(3) kv by auto
  have "metadata_of (py_lines (concat (map (\<lambda>(k, v). k @ CHR 0x0A # v @ [CHR 0x0A]) kvs))) (d @ [(k, v)]) = Ok ((d @ [(k, v)]) @ kvs)"
    by (rule Cons.IH) (use Cons.prems kv in auto)
  with Cons.prems kv new show ?case by (simp add: py_lines_line dict_set_new)
qed simp

text \<open>The clock of the device never goes back, and sleeping takes its time.\<close>

definition dut_clock_laws :: "'e dut_env \<Rightarrow> ('e \<Rightarrow> int) \<Rightarrow> bool" where
  "dut_clock_laws E clk \<longleftrightarrow>
     (\<forall>e r f. dut_ping E e = (r, f) \<longrightarrow> clk e \<le> clk f) \<and>
     (\<forall>e. \<exists>f. dut_now E e = (Ok (clk e), f) \<and> clk f = clk e) \<and>
     (\<forall>e ms f x. dut_sleep E ms e = (Ok x, f) \<longrightarrow> clk e + ms \<le> clk f)"

lemma redis_turn_takes:
  assumes "dut_clock_laws E clk" and "redis_turn E tout start s = (Ok None, t)"
  shows "clk (denv s) + 1000 \<le> clk (denv t) \<and> clk (denv s) \<le> start + tout"
proof -
  obtain r f where ping: "dut_ping E (denv s) = (r, f)" by (cases "dut_ping E (denv s)")
  from assms(1) obtain f2 where now: "dut_now E f = (Ok (clk f), f2)" "clk f2 = clk f"
    unfolding dut_clock_laws_def by blast
  have le: "clk (denv s) \<le> clk f" using assms(1) ping by (auto simp: dut_clock_laws_def)
  from assms(2) ping now obtain f3 x where "dut_sleep E 1000 f2 = (Ok x, f3)" "denv t = f3" "clk f - start < tout"
    by (auto simp: redis_turn_def py_simps split: res.splits if_splits prod.splits)
  moreover from this assms(1) have "clk f2 + 1000 \<le> clk f3" by (auto simp: dut_clock_laws_def)
  ultimately show ?thesis using le now by auto
qed

lemma redis_wait_ends:
  assumes "dut_clock_laws E clk" and "0 \<le> tout" and "nat tout div 1000 + 2 \<le> n" and "n \<le> m"
  shows "assert_redis_is_available E m tout s = assert_redis_is_available E n tout s"
proof -
  obtain f where now: "dut_now E (denv s) = (Ok (clk (denv s)), f)" "clk f = clk (denv s)"
    using assms(1) unfolding dut_clock_laws_def by blast
  let ?s = "s\<lparr>denv := f\<rparr>" and ?start = "clk (denv s)"
  have "\<not> starved (Suc (n - 1)) (redis_turn E tout ?start) ?s"
  proof (rule turns_enough [where I = "\<lambda>_. True" and clk = "\<lambda>s. clk (denv s)" and d = 1000 and deadline = "?start + tout"])
    show "True \<and> clk (denv a) + 1000 \<le> clk (denv b) \<and> clk (denv a) \<le> ?start + tout"
      if "redis_turn E tout ?start a = (Ok None, b)" for a b
      using redis_turn_takes [OF assms(1) that] by simp
    have "int (nat tout div 1000) = tout div 1000" using assms(2) by (simp add: zdiv_int)
    with assms(3) have "tout div 1000 + 1 \<le> int (n - 1)" by linarith
    then have "tout < int (n - 1) * 1000" by linarith
    with now show "?start + tout < clk (denv ?s) + int (n - 1) * 1000" by simp
  qed simp
  moreover have "Suc (n - 1) = n" using assms(3) by simp
  ultimately have "\<not> starved n (redis_turn E tout ?start) ?s" by simp
  from turns_more [OF this assms(4)] now show ?thesis
    by (simp add: assert_redis_is_available_def py_simps)
qed

text \<open>A connection that failed once is not tried again.\<close>

lemma connect_once:
  assumes "ssh_connect E (dut_ip s) (dut_username s) (dut_password s) (denv s) = (Err x, f)" and "\<not> ssh s"
  shows "\<exists>t. dut_connect E s = (Err x, t) \<and> dut_connect E t = (Ok (), t)"
  using assms by (simp add: dut_connect_def py_simps)

end
