(* ===== verification/Testbed.thy ===== *)
theory Testbed imports Cli ThriftConvert Dut begin

text \<open>
  \<open>common/sai_testbed.py\<close>: \<open>SaiTestbedMeta\<close>, which reads the description of a test bed and writes
  the port files of the PTF tests, and \<open>SaiTestbed\<close>, which makes the devices, ASICs and data planes
  of a description and takes them through a session. Files, directories and the constructors are
  parameters.
\<close>

section \<open>The description\<close>

text \<open>
  \<open>read_file\<close>: the content of a file that can be opened. \<open>find_dirs\<close>: \<open>glob.glob(pattern, recursive=True)\<close>.
\<close>

record host =
  read_file :: "string \<Rightarrow> string option"
  find_dirs :: "string \<Rightarrow> string list"

definition ends_with :: "string \<Rightarrow> string \<Rightarrow> bool" where
  "ends_with s p = starts_with (rev s) (rev p)"

definition load_file :: "host \<Rightarrow> string \<Rightarrow> pyval res" where
  "load_file H path = (case read_file H path of
     None \<Rightarrow> Err AssertionError
   | Some txt \<Rightarrow> (case loads txt of Ok v \<Rightarrow> Ok v | Err _ \<Rightarrow> Err AssertionError))"

definition load_testbed :: "host \<Rightarrow> string \<Rightarrow> string \<Rightarrow> pyval res" where
  "load_testbed H base_dir name =
     load_file H (if ends_with name ''.json'' then name else base_dir @ ''/testbeds/'' @ name @ ''.json'')"

text \<open>The first ASIC with the alias, or the first of all; \<open>PNone\<close> when there is none.\<close>

fun first_asic :: "string option \<Rightarrow> pyval list \<Rightarrow> pyval res" where
  "first_asic al [] = Ok PNone"
| "first_asic al (cfg # cfgs) =
     rbind (dget ''alias'' cfg) (\<lambda>a.
     if al = None \<or> Some a = map_option PStr al then Ok cfg else first_asic al cfgs)"

definition get_asic_config :: "pyval \<Rightarrow> string option \<Rightarrow> string \<Rightarrow> pyval res" where
  "get_asic_config config al asic_type =
     rbind (rbind (dget asic_type config) elements) (first_asic al)"

definition get_asic_dir :: "host \<Rightarrow> string \<Rightarrow> string \<Rightarrow> string \<Rightarrow> string res" where
  "get_asic_dir H base_dir asic asic_type =
     nth_res (find_dirs H (base_dir @ ''/'' @ asic_type @ ''/**/'' @ asic)) 0"

definition get_sku_config :: "host \<Rightarrow> string \<Rightarrow> pyval \<Rightarrow> string option \<Rightarrow> string \<Rightarrow> pyval res" where
  "get_sku_config H base_dir config al asic_type =
     rbind (get_asic_config config al asic_type) (\<lambda>cfg.
     rbind (dget ''sku'' cfg) (\<lambda>sku. case sku of
       PStr name \<Rightarrow>
         rbind (rbind (py_item ''asic'' cfg) py_format) (\<lambda>asic.
         rbind (get_asic_dir H base_dir asic asic_type) (\<lambda>dir.
         rbind (rbind (dget ''target'' cfg) py_format) (\<lambda>target.
         load_file H (dir @ ''/'' @ target @ ''/sku/'' @ name @ ''.json''))))
     | _ \<Rightarrow> Ok sku))"

section \<open>The port files\<close>

text \<open>
  The ports of \<open>config_db\<close>, by name: \<open>port_idx\<close> counts lanes, \<open>index\<close> counts ports.
\<close>

definition port_name :: "pyval \<Rightarrow> nat \<Rightarrow> string res" where
  "port_name p port_idx =
     rbind (py_str_in ''name'' p) (\<lambda>b.
     if b then rbind (py_item ''name'' p) (as_str (Unmodelled ''port name''))
     else Ok (''Ethernet'' @ int_str (int port_idx)))"

fun port_table :: "pyval \<Rightarrow> nat \<Rightarrow> nat \<Rightarrow> pyval list \<Rightarrow> (string, pyval) dict \<Rightarrow> (string, pyval) dict res" where
  "port_table sku index port_idx [] d = Ok d"
| "port_table sku index port_idx (p # ps) d =
     rbind (port_name p port_idx) (\<lambda>name.
     rbind (rbind (py_item ''lanes'' p) (as_str AttributeError)) (\<lambda>lanes.
     rbind (sku_field ''speed'' p (py_item ''speed'' sku)) (\<lambda>speed.
     rbind (sku_field ''fec'' p (py_item ''fec'' sku)) (\<lambda>fec.
     rbind (sku_field ''autoneg'' p (py_item ''autoneg'' sku)) (\<lambda>autoneg.
     port_table sku (Suc index) (port_idx + count_char (CHR '','') lanes + 1) ps
       (dict_set name (PDict [(''lanes'', PStr lanes), (''admin_status'', PStr ''up''), (''speed'', speed),
         (''fec'', fec), (''autoneg'', autoneg), (''alias'', PStr name), (''index'', PInt (int (Suc index)))]) d))))))"

text \<open>\<open>"{:<n}".format(v)\<close>: numbers are aligned as their text, booleans as numbers; nothing else can be.\<close>

definition fmt_left :: "nat \<Rightarrow> pyval \<Rightarrow> string res" where
  "fmt_left n v = (case v of
     PStr s \<Rightarrow> Ok (ljust n s)
   | PInt i \<Rightarrow> Ok (ljust n (int_str i))
   | PBool b \<Rightarrow> Ok (ljust n (if b then ''1'' else ''0''))
   | _ \<Rightarrow> Err TypeError)"

definition port_line :: "string \<Rightarrow> pyval \<Rightarrow> nat \<Rightarrow> string res" where
  "port_line name v index =
     rbind (rbind (py_item ''lanes'' v) (fmt_left 16)) (\<lambda>lanes.
     rbind (rbind (py_item ''speed'' v) (fmt_left 12)) (\<lambda>speed.
     Ok (ljust 16 name @ lanes @ ljust 16 name @ speed @ int_str (int index))))"

fun port_lines :: "nat \<Rightarrow> (string, pyval) dict \<Rightarrow> string list res" where
  "port_lines index [] = Ok []"
| "port_lines index ((k, v) # d) =
     rbind (port_line k v (Suc index)) (\<lambda>l. rbind (port_lines (Suc index) d) (\<lambda>ls. Ok (l # ls)))"

definition port_header :: string where
  "port_header = ljust 16 ''# name'' @ ljust 16 ''lanes'' @ ljust 16 ''alias'' @ ljust 12 ''speed'' @ ''index''"

text \<open>
  The content of \<open>config_db.json\<close>, as a value, and the lines of \<open>port_config.ini\<close>; nothing is written
  without an SKU. (The second file is begun before a line that cannot be formatted stops the code.)
\<close>

definition ptf_config_files ::
  "host \<Rightarrow> string \<Rightarrow> pyval \<Rightarrow> string option \<Rightarrow> string \<Rightarrow> (pyval \<times> string list) option res" where
  "ptf_config_files H base_dir config al asic_type =
     rbind (get_sku_config H base_dir config al asic_type) (\<lambda>sku.
     if \<not> truthy sku then Ok None
     else
       rbind (rbind (py_item ''port'' sku) elements) (\<lambda>ports.
       rbind (port_table sku 0 0 ports []) (\<lambda>d.
       rbind (port_lines 0 d) (\<lambda>ls.
       Ok (Some (PDict [(''PORT'', PDict d)], port_header # ls))))))"

section \<open>The test bed\<close>

text \<open>
  \<open>mk_dut\<close>: \<open>SaiDut.spawn\<close>. \<open>has_module\<close>: whether a platform module can be imported from a directory.
  \<open>mk_asic\<close>: the constructor of the class in that directory, or of the default class, with the
  parameters and the device. The rest are methods of the objects.
\<close>

record ('e, 'd, 'a, 'p) parts =
  mk_dut :: "pyval \<Rightarrow> ('e, 'd option) py"
  has_module :: "string \<Rightarrow> string \<Rightarrow> bool"
  mk_asic :: "string option \<Rightarrow> string \<Rightarrow> pyval \<Rightarrow> 'd option \<Rightarrow> ('e, 'a) py"
  mk_dataplane :: "pyval \<Rightarrow> ('e, 'p) py"
  dut_init_op :: "'d \<Rightarrow> ('e, unit) py"
  dut_deinit_op :: "'d \<Rightarrow> ('e, unit) py"
  asic_reset :: "'a \<Rightarrow> ('e, unit) py"
  asic_deinit :: "'a \<Rightarrow> ('e, unit) py"
  dp_init :: "'p \<Rightarrow> ('e, unit) py"
  dp_deinit :: "'p \<Rightarrow> ('e, unit) py"
  dp_setup :: "'p \<Rightarrow> ('e, unit) py"
  dp_teardown :: "'p \<Rightarrow> ('e, unit) py"

record ('e, 'd, 'a, 'p) tbed =
  tb_config :: pyval
  tb_base :: string
  tb_traffic :: bool
  tb_skip :: bool
  tb_dut :: "'d option list"
  tb_npu :: "'a list"
  tb_dpu :: "'a list"
  tb_phy :: "'a list"
  tb_dataplane :: "'p list"
  tb_env :: 'e

definition on_tb :: "('e, 'x) py \<Rightarrow> (('e, 'd, 'a, 'p) tbed, 'x) py" where
  "on_tb m = (\<lambda>s. case m (tb_env s) of (r, e) \<Rightarrow> (r, s\<lparr>tb_env := e\<rparr>))"

definition new_testbed :: "host \<Rightarrow> string \<Rightarrow> string \<Rightarrow> bool \<Rightarrow> bool \<Rightarrow> 'e \<Rightarrow> ('e, 'd, 'a, 'p) tbed res" where
  "new_testbed H base_dir name with_traffic skip e =
     rbind (load_testbed H base_dir name) (\<lambda>config.
     Ok \<lparr>tb_config = config, tb_base = base_dir, tb_traffic = with_traffic, tb_skip = skip, tb_dut = [],
         tb_npu = [], tb_dpu = [], tb_phy = [], tb_dataplane = [], tb_env = e\<rparr>)"

text \<open>\<open>v[k] = x\<close>.\<close>

definition set_item :: "string \<Rightarrow> pyval \<Rightarrow> pyval \<Rightarrow> pyval res" where
  "set_item k x v = (case v of PDict kvs \<Rightarrow> Ok (PDict (dict_set k x kvs)) | _ \<Rightarrow> Err TypeError)"

definition asic_types :: "string list" where
  "asic_types = [''npu'', ''dpu'', ''phy'']"

definition spawn_asic ::
  "host \<Rightarrow> ('e, 'd, 'a, 'p) parts \<Rightarrow> string \<Rightarrow> pyval \<Rightarrow> 'd option \<Rightarrow> string \<Rightarrow> ('e, 'a) py" where
  "spawn_asic H P base_dir cfg dut asic_type =
     py_bind (py_lift (rbind (py_item ''asic'' cfg) py_format)) (\<lambda>asic.
     py_bind (py_lift (get_asic_dir H base_dir asic asic_type)) (\<lambda>dir.
     py_bind (py_lift (set_item ''asic_dir'' (PStr dir) cfg)) (\<lambda>params.
     (let module = ''sai_'' @ asic_type;
          found = (if has_module P dir module then Some dir
                   else if has_module P (dir @ ''/../'') module then Some (dir @ ''/../'') else None) in
      py_bind (py_assert (asic_type \<in> set asic_types)) (\<lambda>_.
      case found of
        Some d \<Rightarrow> py_catch (mk_asic P (Some d) asic_type params dut) (\<lambda>_. True) (py_raise AssertionError)
      | None \<Rightarrow> mk_asic P None asic_type params dut)))))"

text \<open>The parameters of the device, and the entry with them written into it.\<close>

definition dut_config :: "pyval \<Rightarrow> pyval \<Rightarrow> pyval \<Rightarrow> (pyval \<times> pyval) res" where
  "dut_config cfg c k =
     rbind (py_item ''alias'' cfg) (\<lambda>al.
     rbind (set_item ''alias'' al k) (\<lambda>k'.
     rbind (set_item ''config'' k' c) (\<lambda>c'.
     rbind (set_item ''client'' c' cfg) (\<lambda>cfg'. Ok (k', cfg')))))"

text \<open>
  One entry of the description: a device when its configuration names a mode (\<open>None\<close> is kept in the
  list when the mode has no device class), then the ASIC.
\<close>

definition entry_dut ::
  "('e, 'd, 'a, 'p) parts \<Rightarrow> pyval \<Rightarrow> pyval \<Rightarrow> pyval \<Rightarrow> (('e, 'd, 'a, 'p) tbed, pyval \<times> 'd option) py" where
  "entry_dut P cfg c k =
     py_bind (py_lift (dut_config cfg c k)) (\<lambda>(k', cfg').
     py_bind (on_tb (mk_dut P k')) (\<lambda>d.
     py_bind (py_modify (\<lambda>s. s\<lparr>tb_dut := tb_dut s @ [d]\<rparr>)) (\<lambda>_. py_return (cfg', d))))"

definition entry_client :: "pyval \<Rightarrow> (pyval \<times> pyval \<times> pyval) res" where
  "entry_client cfg = rbind (py_item ''client'' cfg) (\<lambda>c. rbind (py_item ''config'' c) (\<lambda>k.
     rbind (dget ''mode'' k) (\<lambda>m. Ok (c, k, m))))"

definition spawn_entry ::
  "host \<Rightarrow> ('e, 'd, 'a, 'p) parts \<Rightarrow> string \<Rightarrow> pyval \<Rightarrow> (('e, 'd, 'a, 'p) tbed, 'a) py" where
  "spawn_entry H P asic_type cfg =
     py_bind (py_lift (entry_client cfg)) (\<lambda>(c, k, mode).
     py_bind (if truthy mode then entry_dut P cfg c k else py_return (cfg, None)) (\<lambda>(cfg', d).
     py_bind (py_get (\<lambda>s. (tb_base s, tb_traffic s))) (\<lambda>(base, traffic).
     py_bind (py_lift (set_item ''traffic'' (PBool traffic) cfg')) (\<lambda>params.
     on_tb (spawn_asic H P base params d asic_type)))))"

text \<open>\<open>config.get(k, [])\<close>, and \<open>config.get("dataplane") or []\<close>.\<close>

definition entries :: "string \<Rightarrow> pyval \<Rightarrow> pyval list res" where
  "entries k config = (case config of
     PDict kvs \<Rightarrow> (case map_of kvs k of None \<Rightarrow> Ok [] | Some v \<Rightarrow> elements v) | _ \<Rightarrow> Err AttributeError)"

definition spawn_kind ::
  "host \<Rightarrow> ('e, 'd, 'a, 'p) parts \<Rightarrow> string \<Rightarrow> ('a \<Rightarrow> ('e, 'd, 'a, 'p) tbed \<Rightarrow> ('e, 'd, 'a, 'p) tbed) \<Rightarrow>
   (('e, 'd, 'a, 'p) tbed, unit) py" where
  "spawn_kind H P asic_type store =
     py_bind (py_get tb_config) (\<lambda>config.
     py_bind (py_lift (entries asic_type config)) (\<lambda>cfgs.
     py_iter (\<lambda>cfg. py_bind (spawn_entry H P asic_type cfg) (\<lambda>a. py_modify (store a))) cfgs))"

definition tb_spawn :: "host \<Rightarrow> ('e, 'd, 'a, 'p) parts \<Rightarrow> (('e, 'd, 'a, 'p) tbed, unit) py" where
  "tb_spawn H P =
     py_bind (py_get (\<lambda>s. tb_npu s @ tb_dpu s @ tb_phy s)) (\<lambda>asics.
     if asics \<noteq> [] then py_return ()
     else
       py_bind (spawn_kind H P ''npu'' (\<lambda>a s. s\<lparr>tb_npu := tb_npu s @ [a]\<rparr>)) (\<lambda>_.
       py_bind (spawn_kind H P ''dpu'' (\<lambda>a s. s\<lparr>tb_dpu := tb_dpu s @ [a]\<rparr>)) (\<lambda>_.
       py_bind (spawn_kind H P ''phy'' (\<lambda>a s. s\<lparr>tb_phy := tb_phy s @ [a]\<rparr>)) (\<lambda>_.
       py_bind (py_get (\<lambda>s. (tb_config s, tb_traffic s))) (\<lambda>(config, traffic).
       py_bind (py_lift (rbind (dget ''dataplane'' config) (\<lambda>v. if truthy v then elements v else Ok []))) (\<lambda>cfgs.
       py_iter (\<lambda>cfg. py_bind (py_lift (set_item ''traffic'' (PBool traffic) cfg)) (\<lambda>params.
         py_bind (on_tb (mk_dataplane P params)) (\<lambda>p.
         py_modify (\<lambda>s. s\<lparr>tb_dataplane := tb_dataplane s @ [p]\<rparr>)))) cfgs))))))"

text \<open>A method of a device of the list; \<open>None\<close> has none.\<close>

definition with_dut :: "('d \<Rightarrow> ('e, unit) py) \<Rightarrow> 'd option \<Rightarrow> (('e, 'd, 'a, 'p) tbed, unit) py" where
  "with_dut f d = (case d of None \<Rightarrow> py_raise AttributeError | Some x \<Rightarrow> on_tb (f x))"

definition tb_init :: "host \<Rightarrow> ('e, 'd, 'a, 'p) parts \<Rightarrow> (('e, 'd, 'a, 'p) tbed, unit) py" where
  "tb_init H P =
     py_bind (tb_spawn H P) (\<lambda>_.
     py_bind (py_get (\<lambda>s. (tb_dut s, tb_npu s, tb_dpu s, tb_phy s, tb_dataplane s, tb_skip s)))
       (\<lambda>(duts, npus, dpus, phys, dps, skip).
     py_bind (py_iter (with_dut (dut_init_op P)) duts) (\<lambda>_.
     py_bind (py_iter (\<lambda>a. on_tb (asic_reset P a)) npus) (\<lambda>_.
     py_bind (py_iter (\<lambda>a. on_tb (asic_reset P a)) dpus) (\<lambda>_.
     py_bind (py_iter (\<lambda>a. on_tb (asic_reset P a)) phys) (\<lambda>_.
     if skip then py_return () else py_iter (\<lambda>p. on_tb (dp_init P p)) dps))))))"

definition tb_deinit :: "('e, 'd, 'a, 'p) parts \<Rightarrow> (('e, 'd, 'a, 'p) tbed, unit) py" where
  "tb_deinit P =
     py_bind (py_get (\<lambda>s. (tb_dut s, tb_npu s @ tb_dpu s @ tb_phy s, tb_dataplane s, tb_skip s)))
       (\<lambda>(duts, asics, dps, skip).
     py_bind (if skip then py_return () else py_iter (\<lambda>p. on_tb (dp_deinit P p)) dps) (\<lambda>_.
     py_bind (py_iter (\<lambda>a. on_tb (asic_deinit P a)) asics) (\<lambda>_.
     py_iter (with_dut (dut_deinit_op P)) duts)))"

definition tb_setup :: "('e, 'd, 'a, 'p) parts \<Rightarrow> (('e, 'd, 'a, 'p) tbed, unit) py" where
  "tb_setup P = py_bind (py_get tb_dataplane) (\<lambda>dps. py_iter (\<lambda>p. on_tb (dp_setup P p)) dps)"

definition tb_teardown :: "('e, 'd, 'a, 'p) parts \<Rightarrow> (('e, 'd, 'a, 'p) tbed, unit) py" where
  "tb_teardown P = py_bind (py_get tb_dataplane) (\<lambda>dps. py_iter (\<lambda>p. on_tb (dp_teardown P p)) dps)"

text \<open>\<open>SaiDataPlane.spawn\<close>: which class the type asks for.\<close>

datatype dataplane_kind = PtfPlane pyval | SnappiPlane pyval

definition spawn_dataplane :: "pyval \<Rightarrow> dataplane_kind res" where
  "spawn_dataplane params =
     rbind (py_item ''type'' params) (\<lambda>t.
     if t = PStr ''ptf'' then Ok (PtfPlane params)
     else if t = PStr ''snappi'' then Ok (SnappiPlane params)
     else Err RuntimeError)"

section \<open>Facts about the port table\<close>

text \<open>The lanes of a port, and the number of lanes before each port.\<close>

definition lanes_of :: "pyval \<Rightarrow> nat" where
  "lanes_of p = (case py_item ''lanes'' p of Ok (PStr l) \<Rightarrow> count_char (CHR '','') l + 1 | _ \<Rightarrow> 1)"

fun offsets :: "nat \<Rightarrow> pyval list \<Rightarrow> nat list" where
  "offsets n [] = []"
| "offsets n (p # ps) = n # offsets (n + lanes_of p) ps"

definition default_name :: "nat \<Rightarrow> string" where
  "default_name n = ''Ethernet'' @ int_str (int n)"

lemma offsets_ge: "m \<in> set (offsets n ps) \<Longrightarrow> n \<le> m"
  by (induction n ps rule: offsets.induct) force+

lemma lanes_of_pos: "0 < lanes_of p"
  by (simp add: lanes_of_def split: res.splits pyval.splits)

lemma offsets_distinct: "distinct (offsets n ps)"
proof (induction n ps rule: offsets.induct)
  case (2 n p ps)
  have "n \<notin> set (offsets (n + lanes_of p) ps)" using offsets_ge [of n "n + lanes_of p" ps] lanes_of_pos [of p] by auto
  with 2 show ?case by simp
qed simp

lemma default_name_inj: "inj default_name"
proof (rule injI)
  fix m n :: nat
  assume "default_name m = default_name n"
  then have "int_str (int m) = int_str (int n)" by (simp add: default_name_def)
  then have "py_int 10 (int_str (int m)) = py_int 10 (int_str (int n))" by simp
  then show "m = n" by (simp add: py_int_dec)
qed

lemma default_names_distinct: "distinct (map default_name (offsets n ps))"
  unfolding distinct_map using offsets_distinct inj_on_subset [OF default_name_inj subset_UNIV] by blast

text \<open>Ports without names: one entry each, in order, named after their lanes and numbered from one.\<close>

lemma port_table_default:
  assumes "port_table sku i n ps d = Ok d'" and "\<forall>p \<in> set ps. py_str_in ''name'' p = Ok False"
    and "set (map fst d) \<inter> set (map default_name (offsets n ps)) = {}"
  shows "\<exists>rows. d' = d @ rows \<and> map fst rows = map default_name (offsets n ps) \<and>
    (\<forall>k < length rows. py_item ''index'' (snd (rows ! k)) = Ok (PInt (int (i + k + 1))) \<and>
       py_item ''lanes'' (snd (rows ! k)) = py_item ''lanes'' (ps ! k))"
  using assms
proof (induction ps arbitrary: i n d)
  case Nil
  then show ?case by simp
next
  case (Cons p ps)
  then obtain lanes speed fec autoneg where lanes: "py_item ''lanes'' p = Ok (PStr lanes)"
    and rest: "port_table sku (Suc i) (n + count_char (CHR '','') lanes + 1) ps
       (dict_set (default_name n) (PDict [(''lanes'', PStr lanes), (''admin_status'', PStr ''up''), (''speed'', speed),
         (''fec'', fec), (''autoneg'', autoneg), (''alias'', PStr (default_name n)), (''index'', PInt (int (Suc i)))]) d) = Ok d'"
    by (auto simp: port_name_def default_name_def)
  define v where "v = PDict [(''lanes'', PStr lanes), (''admin_status'', PStr ''up''), (''speed'', speed),
         (''fec'', fec), (''autoneg'', autoneg), (''alias'', PStr (default_name n)), (''index'', PInt (int (Suc i)))]"
  have off: "offsets n (p # ps) = n # offsets (n + count_char (CHR '','') lanes + 1) ps"
    using lanes by (simp add: lanes_of_def)
  have new: "default_name n \<notin> fst ` set d" using Cons.prems(3) off by auto
  have "distinct (map default_name (offsets n (p # ps)))"
    by (rule default_names_distinct)
  with off have fresh: "default_name n \<notin> set (map default_name (offsets (n + count_char (CHR '','') lanes + 1) ps))" by simp
  have "\<exists>rows. d' = (d @ [(default_name n, v)]) @ rows \<and>
      map fst rows = map default_name (offsets (n + count_char (CHR '','') lanes + 1) ps) \<and>
    (\<forall>k < length rows. py_item ''index'' (snd (rows ! k)) = Ok (PInt (int (Suc i + k + 1))) \<and>
       py_item ''lanes'' (snd (rows ! k)) = py_item ''lanes'' (ps ! k))"
  proof (rule Cons.IH)
    show "port_table sku (Suc i) (n + count_char (CHR '','') lanes + 1) ps (d @ [(default_name n, v)]) = Ok d'"
      using rest dict_set_new [OF new] by (simp add: v_def)
    show "set (map fst (d @ [(default_name n, v)])) \<inter>
        set (map default_name (offsets (n + count_char (CHR '','') lanes + 1) ps)) = {}"
      using Cons.prems(3) off fresh by auto
  qed (use Cons.prems(2) in simp)
  then obtain rows where rows: "d' = (d @ [(default_name n, v)]) @ rows"
    "map fst rows = map default_name (offsets (n + count_char (CHR '','') lanes + 1) ps)"
    "\<forall>k < length rows. py_item ''index'' (snd (rows ! k)) = Ok (PInt (int (Suc i + k + 1))) \<and>
       py_item ''lanes'' (snd (rows ! k)) = py_item ''lanes'' (ps ! k)" by blast
  have v: "py_item ''index'' v = Ok (PInt (int (i + 0 + 1)))" "py_item ''lanes'' v = py_item ''lanes'' p"
    using lanes by (simp_all add: v_def py_item_def)
  have "\<forall>k < length ((default_name n, v) # rows).
      py_item ''index'' (snd (((default_name n, v) # rows) ! k)) = Ok (PInt (int (i + k + 1))) \<and>
      py_item ''lanes'' (snd (((default_name n, v) # rows) ! k)) = py_item ''lanes'' ((p # ps) ! k)"
    using rows(3) v by (auto simp: nth_Cons split: nat.splits)
  with rows(1,2) off show ?case by (intro exI [of _ "(default_name n, v) # rows"]) simp
qed

lemma default_ports:
  assumes "port_table sku 0 0 ps [] = Ok d" and "\<forall>p \<in> set ps. py_str_in ''name'' p = Ok False"
  shows "map fst d = map default_name (offsets 0 ps) \<and> distinct (map fst d) \<and> length d = length ps \<and>
    (\<forall>k < length d. py_item ''index'' (snd (d ! k)) = Ok (PInt (int k + 1)) \<and>
       py_item ''lanes'' (snd (d ! k)) = py_item ''lanes'' (ps ! k))"
proof -
  have len: "length (offsets n ps) = length ps" for n by (induction n ps rule: offsets.induct) auto
  from port_table_default [OF assms] have d: "map fst d = map default_name (offsets 0 ps)"
    "\<forall>k < length d. py_item ''index'' (snd (d ! k)) = Ok (PInt (int k + 1)) \<and>
       py_item ''lanes'' (snd (d ! k)) = py_item ''lanes'' (ps ! k)" by auto
  from d(1) len have "length d = length ps" by (metis length_map)
  moreover have "distinct (map fst d)"
    unfolding d(1) by (rule default_names_distinct)
  ultimately show ?thesis using d by blast
qed

text \<open>A device of an unknown mode is kept as \<open>None\<close>; bringing the test bed up then fails before anything is done.\<close>

lemma unknown_mode_fails:
  assumes "tb_npu s \<noteq> []" and "tb_dut s = None # ds"
  shows "tb_init H P s = (Err AttributeError, s)"
  using assms
  by (simp add: tb_init_def tb_spawn_def py_bind_app py_get_app py_return_app with_dut_def py_raise_app)

section \<open>What a description makes\<close>

text \<open>Whether an entry names a mode, and so gets a device.\<close>

text \<open>
  What an entry of the description stands for: with a mode, what \<open>SaiDut.spawn\<close> returned for its
  configuration, which is \<open>None\<close> when the mode has no device, and the ASIC made for that device;
  without one, no device and an ASIC of its own.
\<close>

definition entry_made ::
  "host \<Rightarrow> ('e, 'd, 'a, 'p) parts \<Rightarrow> string \<Rightarrow> bool \<Rightarrow> string \<Rightarrow> pyval \<Rightarrow> 'd option list \<Rightarrow> 'a \<Rightarrow> bool" where
  "entry_made H P base traffic ty cfg ds a \<longleftrightarrow> (\<exists>c k mode cfg' d params e f.
     entry_client cfg = Ok (c, k, mode) \<and>
     (if truthy mode
      then ds = [d] \<and> (\<exists>k' e' f'. dut_config cfg c k = Ok (k', cfg') \<and> mk_dut P k' e' = (Ok d, f'))
      else ds = [] \<and> cfg' = cfg \<and> d = None) \<and>
     set_item ''traffic'' (PBool traffic) cfg' = Ok params \<and> spawn_asic H P base params d ty e = (Ok a, f))"

lemma entry_made_dut:
  assumes "entry_client cfg = Ok (c, k, mode)" and "truthy mode" and "dut_config cfg c k = Ok (k', cfg')"
    and "mk_dut P k' e' = (Ok d, f')" and "set_item ''traffic'' (PBool traffic) cfg' = Ok params"
    and "spawn_asic H P base params d ty e = (Ok a, f)"
  shows "entry_made H P base traffic ty cfg [d] a"
proof -
  have "\<exists>k' e' f'. dut_config cfg c k = Ok (k', cfg') \<and> mk_dut P k' e' = (Ok d, f')" using assms(3,4) by blast
  with assms(1,2,5,6) show ?thesis
    unfolding entry_made_def
    by (intro exI [of _ c] exI [of _ k] exI [of _ mode] exI [of _ cfg'] exI [of _ d] exI [of _ params]
        exI [of _ e] exI [of _ f]) (simp only: if_True simp_thms)
qed

lemma entry_made_alone:
  assumes "entry_client cfg = Ok (c, k, mode)" and "\<not> truthy mode"
    and "set_item ''traffic'' (PBool traffic) cfg = Ok params" and "spawn_asic H P base params None ty e = (Ok a, f)"
  shows "entry_made H P base traffic ty cfg [] a"
  unfolding entry_made_def using assms
  by (intro exI [of _ c] exI [of _ k] exI [of _ mode] exI [of _ cfg] exI [of _ None] exI [of _ params]
      exI [of _ e] exI [of _ f]) (simp only: if_False simp_thms)

definition entry_has_mode :: "pyval \<Rightarrow> bool" where
  "entry_has_mode cfg \<longleftrightarrow> (case entry_client cfg of Ok (_, _, m) \<Rightarrow> truthy m | Err _ \<Rightarrow> False)"

lemma made_device: "entry_made H P base traffic ty cfg ds a \<Longrightarrow> if entry_has_mode cfg then \<exists>d. ds = [d] else ds = []"
  by (auto simp: entry_made_def entry_has_mode_def split: if_splits)

lemma on_tb_Ok: "on_tb m s = (Ok x, t) \<Longrightarrow> \<exists>e. m (tb_env s) = (Ok x, e) \<and> t = s\<lparr>tb_env := e\<rparr>"
  by (auto simp: on_tb_def split: prod.splits)

lemma entry_dut_Ok:
  assumes "entry_dut P cfg c k s = (Ok (cfg', d), t)"
  shows "\<exists>k' e. dut_config cfg c k = Ok (k', cfg') \<and> mk_dut P k' (tb_env s) = (Ok d, e) \<and>
    t = s\<lparr>tb_dut := tb_dut s @ [d], tb_env := e\<rparr>"
proof -
  from assms obtain k' u where u: "dut_config cfg c k = Ok (k', cfg')" "on_tb (mk_dut P k') s = (Ok d, u)"
    "t = u\<lparr>tb_dut := tb_dut u @ [d]\<rparr>"
    by (auto simp: entry_dut_def py_bind_Ok_iff py_lift_app py_modify_app py_return_app)
  from on_tb_Ok [OF u(2)] obtain e where "mk_dut P k' (tb_env s) = (Ok d, e)" "u = s\<lparr>tb_env := e\<rparr>" by blast
  with u(1,3) show ?thesis by (intro exI [of _ k'] exI [of _ e]) simp
qed

text \<open>An entry makes what it stands for and leaves the other lists alone.\<close>

lemma spawn_entry_Ok:
  assumes "spawn_entry H P ty cfg s = (Ok a, t)"
  shows "\<exists>ds e. t = s\<lparr>tb_dut := tb_dut s @ ds, tb_env := e\<rparr> \<and> entry_made H P (tb_base s) (tb_traffic s) ty cfg ds a"
proof -
  from assms obtain p s1 where 1: "py_lift (entry_client cfg) s = (Ok p, s1)"
    and rest: "(case p of (c, k, mode) \<Rightarrow>
       py_bind (if truthy mode then entry_dut P cfg c k else py_return (cfg, None)) (\<lambda>(cfg', d).
       py_bind (py_get (\<lambda>s. (tb_base s, tb_traffic s))) (\<lambda>(base, traffic).
       py_bind (py_lift (set_item ''traffic'' (PBool traffic) cfg')) (\<lambda>params.
       on_tb (spawn_asic H P base params d ty))))) s1 = (Ok a, t)"
    unfolding spawn_entry_def py_bind_Ok_iff [of "py_lift (entry_client cfg)"] by blast
  obtain c k mode where p: "p = (c, k, mode)" by (metis surj_pair)
  have s1: "s1 = s" "entry_client cfg = Ok (c, k, mode)" using 1 p by (simp_all add: py_lift_app)
  from rest p obtain cfg' d s2 where 2: "(if truthy mode then entry_dut P cfg c k else py_return (cfg, None)) s = (Ok (cfg', d), s2)"
    and 3: "py_bind (py_get (\<lambda>s. (tb_base s, tb_traffic s))) (\<lambda>(base, traffic).
       py_bind (py_lift (set_item ''traffic'' (PBool traffic) cfg')) (\<lambda>params.
       on_tb (spawn_asic H P base params d ty))) s2 = (Ok a, t)"
    unfolding s1(1) by (auto simp: py_bind_Ok_iff [of "if truthy mode then entry_dut P cfg c k else py_return (cfg, None)"])
  from 3 obtain params where params: "set_item ''traffic'' (PBool (tb_traffic s2)) cfg' = Ok params"
    and asic: "on_tb (spawn_asic H P (tb_base s2) params d ty) s2 = (Ok a, t)"
    by (auto simp: py_bind_Ok_iff py_get_app py_lift_app)
  from on_tb_Ok [OF asic] obtain e where e: "spawn_asic H P (tb_base s2) params d ty (tb_env s2) = (Ok a, e)"
    "t = s2\<lparr>tb_env := e\<rparr>" by blast
  show ?thesis
  proof (cases "truthy mode")
    case True
    with 2 have "entry_dut P cfg c k s = (Ok (cfg', d), s2)" by simp
    from entry_dut_Ok [OF this] obtain k' e' where k': "dut_config cfg c k = Ok (k', cfg')"
      "mk_dut P k' (tb_env s) = (Ok d, e')" "s2 = s\<lparr>tb_dut := tb_dut s @ [d], tb_env := e'\<rparr>" by blast
    from k'(3) have same: "tb_base s2 = tb_base s" "tb_traffic s2 = tb_traffic s" by simp_all
    have "entry_made H P (tb_base s) (tb_traffic s) ty cfg [d] a"
      by (rule entry_made_dut [OF s1(2) True k'(1,2) params [unfolded same] e(1) [unfolded same]])
    with e(2) k'(3) show ?thesis by (intro exI [of _ "[d]"] exI [of _ e]) simp
  next
    case False
    with 2 have same: "s2 = s" "cfg' = cfg" "d = None" by (simp_all add: py_return_app)
    have "entry_made H P (tb_base s) (tb_traffic s) ty cfg [] a"
      by (rule entry_made_alone [OF s1(2) False params [unfolded same] e(1) [unfolded same]])
    with e(2) same(1) show ?thesis by (intro exI [of _ "[]"] exI [of _ e]) simp
  qed
qed

text \<open>The entries of a kind, each with its device, if any, and its ASIC.\<close>

definition all_made ::
  "host \<Rightarrow> ('e, 'd, 'a, 'p) parts \<Rightarrow> ('e, 'd, 'a, 'p) tbed \<Rightarrow> string \<Rightarrow> pyval list \<Rightarrow> ('d option list \<times> 'a) list \<Rightarrow> bool" where
  "all_made H P s ty = list_all2 (\<lambda>cfg (ds, a). entry_made H P (tb_base s) (tb_traffic s) ty cfg ds a)"

text \<open>
  The entries of a kind, with a list that \<open>store\<close> appends to. \<open>rest\<close> is what else of the state a kind
  leaves alone.
\<close>

lemma spawn_entries_Ok:
  assumes "py_iter (\<lambda>cfg. py_bind (spawn_entry H P ty cfg) (\<lambda>a. py_modify (store a))) cfgs s = (Ok u, t)"
    and keeps: "\<And>a s. tb_dut (store a s) = tb_dut s \<and> rest (store a s) = rest s \<and> objs (store a s) = objs s @ [a] \<and>
      tb_base (store a s) = tb_base s \<and> tb_traffic (store a s) = tb_traffic s"
    and env: "\<And>s ds e. objs (s\<lparr>tb_dut := ds, tb_env := e\<rparr>) = objs s \<and> rest (s\<lparr>tb_dut := ds, tb_env := e\<rparr>) = rest s"
  shows "\<exists>xs. all_made H P s ty cfgs xs \<and> objs t = objs s @ map snd xs \<and> tb_dut t = tb_dut s @ concat (map fst xs) \<and>
    rest t = rest s"
  using assms(1)
proof (induction cfgs arbitrary: s)
  case Nil
  then show ?case by (intro exI [of _ "[]"]) (simp add: py_return_app all_made_def)
next
  case (Cons cfg cfgs)
  from Cons.prems obtain a s1 v s2 where 1: "spawn_entry H P ty cfg s = (Ok a, s1)"
    and st: "py_modify (store a) s1 = (Ok v, s2)"
    and 2: "py_iter (\<lambda>cfg. py_bind (spawn_entry H P ty cfg) (\<lambda>a. py_modify (store a))) cfgs s2 = (Ok u, t)"
    unfolding py_iter.simps py_bind_Ok_iff by blast
  have s2: "s2 = store a s1" using st by (simp add: py_modify_app)
  from spawn_entry_Ok [OF 1] obtain ds e where s1: "s1 = s\<lparr>tb_dut := tb_dut s @ ds, tb_env := e\<rparr>"
    and made: "entry_made H P (tb_base s) (tb_traffic s) ty cfg ds a" by blast
  have same: "tb_dut s2 = tb_dut s @ ds" "rest s2 = rest s" "objs s2 = objs s @ [a]"
    "tb_base s2 = tb_base s" "tb_traffic s2 = tb_traffic s"
    using keeps [of a s1] env s1 s2 by simp_all
  from Cons.IH [OF 2] obtain xs where "all_made H P s2 ty cfgs xs" "objs t = objs s2 @ map snd xs"
    "tb_dut t = tb_dut s2 @ concat (map fst xs)" "rest t = rest s2" by blast
  with same made show ?case by (intro exI [of _ "(ds, a) # xs"]) (simp add: all_made_def)
qed

lemma spawn_kind_Ok:
  assumes "spawn_kind H P k store s = (Ok u, t)"
    and "\<And>a s. tb_dut (store a s) = tb_dut s \<and> rest (store a s) = rest s \<and> objs (store a s) = objs s @ [a] \<and>
      tb_base (store a s) = tb_base s \<and> tb_traffic (store a s) = tb_traffic s"
    and "\<And>s ds e. objs (s\<lparr>tb_dut := ds, tb_env := e\<rparr>) = objs s \<and> rest (s\<lparr>tb_dut := ds, tb_env := e\<rparr>) = rest s"
  shows "\<exists>cfgs xs. entries k (tb_config s) = Ok cfgs \<and> all_made H P s k cfgs xs \<and>
    objs t = objs s @ map snd xs \<and> tb_dut t = tb_dut s @ concat (map fst xs) \<and> rest t = rest s"
proof -
  from assms(1) obtain cfgs where "entries k (tb_config s) = Ok cfgs"
    "py_iter (\<lambda>cfg. py_bind (spawn_entry H P k cfg) (\<lambda>a. py_modify (store a))) cfgs s = (Ok u, t)"
    unfolding spawn_kind_def py_bind_Ok_iff py_get_app py_lift_app by auto
  with spawn_entries_Ok [OF this(2) assms(2-3)] show ?thesis by blast
qed

definition plane_made :: "('e, 'd, 'a, 'p) parts \<Rightarrow> bool \<Rightarrow> pyval \<Rightarrow> 'p \<Rightarrow> bool" where
  "plane_made P traffic cfg p \<longleftrightarrow> (\<exists>params e f. set_item ''traffic'' (PBool traffic) cfg = Ok params \<and>
     mk_dataplane P params e = (Ok p, f))"

lemma spawn_planes_Ok:
  assumes "py_iter (\<lambda>cfg. py_bind (py_lift (set_item ''traffic'' (PBool traffic) cfg)) (\<lambda>params.
      py_bind (on_tb (mk_dataplane P params)) (\<lambda>p.
      py_modify (\<lambda>s. s\<lparr>tb_dataplane := tb_dataplane s @ [p]\<rparr>)))) cfgs s = (Ok u, t)"
  shows "\<exists>ps e. t = s\<lparr>tb_dataplane := tb_dataplane s @ ps, tb_env := e\<rparr> \<and> list_all2 (plane_made P traffic) cfgs ps"
  using assms
proof (induction cfgs arbitrary: s)
  case Nil
  then show ?case by (intro exI [of _ "[]"] exI [of _ "tb_env s"]) (simp add: py_return_app)
next
  case (Cons cfg cfgs)
  from Cons.prems obtain params s0 p s1 v s2 where 0: "py_lift (set_item ''traffic'' (PBool traffic) cfg) s = (Ok params, s0)"
    and 1: "on_tb (mk_dataplane P params) s0 = (Ok p, s1)"
    and st: "py_modify (\<lambda>s. s\<lparr>tb_dataplane := tb_dataplane s @ [p]\<rparr>) s1 = (Ok v, s2)"
    and 2: "py_iter (\<lambda>cfg. py_bind (py_lift (set_item ''traffic'' (PBool traffic) cfg)) (\<lambda>params.
      py_bind (on_tb (mk_dataplane P params)) (\<lambda>p.
      py_modify (\<lambda>s. s\<lparr>tb_dataplane := tb_dataplane s @ [p]\<rparr>)))) cfgs s2 = (Ok u, t)"
    unfolding py_iter.simps py_bind_Ok_iff by blast
  from on_tb_Ok [OF 1] obtain e where s1: "mk_dataplane P params (tb_env s0) = (Ok p, e)" "s1 = s0\<lparr>tb_env := e\<rparr>" by blast
  have "plane_made P traffic cfg p"
    using 0 s1(1) unfolding plane_made_def by (auto simp: py_lift_app)
  moreover from Cons.IH [OF 2] obtain ps e' where
    "t = s2\<lparr>tb_dataplane := tb_dataplane s2 @ ps, tb_env := e'\<rparr>" "list_all2 (plane_made P traffic) cfgs ps" by blast
  ultimately show ?case using 0 s1(2) st
    by (intro exI [of _ "p # ps"] exI [of _ e']) (auto simp: py_lift_app py_modify_app)
qed

text \<open>What the session's data planes are made from: \<open>config.get("dataplane") or []\<close>.\<close>

definition plane_entries :: "pyval \<Rightarrow> pyval list res" where
  "plane_entries config = rbind (dget ''dataplane'' config) (\<lambda>v. if truthy v then elements v else Ok [])"

lemma py_bind_get: "py_bind (py_get f) g s = g (f s) s"
  by (simp add: py_bind_app py_get_app)

lemma tb_spawn_Ok:
  assumes "tb_spawn H P s = (Ok u, t)" and empty: "tb_npu s = []" "tb_dpu s = []" "tb_phy s = []"
  obtains npus dpus phys planes N D F ps where
    "entries ''npu'' (tb_config s) = Ok npus" "entries ''dpu'' (tb_config s) = Ok dpus"
    "entries ''phy'' (tb_config s) = Ok phys" "plane_entries (tb_config s) = Ok planes"
    "all_made H P s ''npu'' npus N" "all_made H P s ''dpu'' dpus D" "all_made H P s ''phy'' phys F"
    "tb_npu t = map snd N" "tb_dpu t = map snd D" "tb_phy t = map snd F"
    "tb_dut t = tb_dut s @ concat (map fst (N @ D @ F))"
    "tb_dataplane t = tb_dataplane s @ ps" "list_all2 (plane_made P (tb_traffic s)) planes ps"
proof -
  let ?N = "spawn_kind H P ''npu'' (\<lambda>a s. s\<lparr>tb_npu := tb_npu s @ [a]\<rparr>)"
  let ?D = "spawn_kind H P ''dpu'' (\<lambda>a s. s\<lparr>tb_dpu := tb_dpu s @ [a]\<rparr>)"
  let ?F = "spawn_kind H P ''phy'' (\<lambda>a s. s\<lparr>tb_phy := tb_phy s @ [a]\<rparr>)"
  let ?R = "py_bind (py_get (\<lambda>s. (tb_config s, tb_traffic s))) (\<lambda>(config, traffic).
       py_bind (py_lift (rbind (dget ''dataplane'' config) (\<lambda>v. if truthy v then elements v else Ok []))) (\<lambda>cfgs.
       py_iter (\<lambda>cfg. py_bind (py_lift (set_item ''traffic'' (PBool traffic) cfg)) (\<lambda>params.
         py_bind (on_tb (mk_dataplane P params)) (\<lambda>p.
         py_modify (\<lambda>s. s\<lparr>tb_dataplane := tb_dataplane s @ [p]\<rparr>)))) cfgs))"
  have "py_bind ?N (\<lambda>_. py_bind ?D (\<lambda>_. py_bind ?F (\<lambda>_. ?R))) s = (Ok u, t)"
    using assms(1) unfolding tb_spawn_def py_bind_get empty append_Nil by (simp only: simp_thms if_False)
  then obtain v1 s1 v2 s2 v3 s3 where
    N: "?N s = (Ok v1, s1)" and D: "?D s1 = (Ok v2, s2)" and F: "?F s2 = (Ok v3, s3)" and rest: "?R s3 = (Ok u, t)"
    unfolding py_bind_Ok_iff [of ?N] py_bind_Ok_iff [of ?D] py_bind_Ok_iff [of ?F] by blast
  let ?same = "\<lambda>s. (tb_config s, tb_base s, tb_traffic s, tb_dataplane s)"
  have base: "?same x = ?same s \<Longrightarrow> all_made H P x = all_made H P s" for x by (intro ext) (simp add: all_made_def)
  let ?rn = "\<lambda>s. (tb_dpu s, tb_phy s, ?same s)" and ?rd = "\<lambda>s. (tb_npu s, tb_phy s, ?same s)"
    and ?rf = "\<lambda>s. (tb_npu s, tb_dpu s, ?same s)"
  have "\<exists>cfgs xs. entries ''npu'' (tb_config s) = Ok cfgs \<and> all_made H P s ''npu'' cfgs xs \<and>
      tb_npu s1 = tb_npu s @ map snd xs \<and> tb_dut s1 = tb_dut s @ concat (map fst xs) \<and> ?rn s1 = ?rn s"
    by (rule spawn_kind_Ok [OF N]) simp_all
  then obtain npus xn where 1: "entries ''npu'' (tb_config s) = Ok npus" "all_made H P s ''npu'' npus xn" "tb_npu s1 = map snd xn"
    "tb_dut s1 = tb_dut s @ concat (map fst xn)" "tb_dpu s1 = []" "tb_phy s1 = []" "?same s1 = ?same s"
    using empty by (elim exE conjE) simp
  have "\<exists>cfgs xs. entries ''dpu'' (tb_config s1) = Ok cfgs \<and> all_made H P s1 ''dpu'' cfgs xs \<and>
      tb_dpu s2 = tb_dpu s1 @ map snd xs \<and> tb_dut s2 = tb_dut s1 @ concat (map fst xs) \<and> ?rd s2 = ?rd s1"
    by (rule spawn_kind_Ok [OF D]) simp_all
  then obtain dpus xd where 2: "entries ''dpu'' (tb_config s) = Ok dpus" "all_made H P s1 ''dpu'' dpus xd" "tb_dpu s2 = map snd xd"
    "tb_dut s2 = tb_dut s1 @ concat (map fst xd)" "tb_npu s2 = tb_npu s1" "tb_phy s2 = []" "?same s2 = ?same s"
    using 1(5-7) by (elim exE conjE) simp
  have "\<exists>cfgs xs. entries ''phy'' (tb_config s2) = Ok cfgs \<and> all_made H P s2 ''phy'' cfgs xs \<and>
      tb_phy s3 = tb_phy s2 @ map snd xs \<and> tb_dut s3 = tb_dut s2 @ concat (map fst xs) \<and> ?rf s3 = ?rf s2"
    by (rule spawn_kind_Ok [OF F]) simp_all
  then obtain phys xf where 3: "entries ''phy'' (tb_config s) = Ok phys" "all_made H P s2 ''phy'' phys xf" "tb_phy s3 = map snd xf"
    "tb_dut s3 = tb_dut s2 @ concat (map fst xf)" "tb_npu s3 = tb_npu s1" "tb_dpu s3 = tb_dpu s2" "?same s3 = ?same s"
    using 2(5-7) by (elim exE conjE) simp
  from 3(7) have s3: "tb_config s3 = tb_config s" "tb_traffic s3 = tb_traffic s" by simp_all
  from rest obtain planes where planes: "plane_entries (tb_config s) = Ok planes"
    and iter: "py_iter (\<lambda>cfg. py_bind (py_lift (set_item ''traffic'' (PBool (tb_traffic s)) cfg)) (\<lambda>params.
         py_bind (on_tb (mk_dataplane P params)) (\<lambda>p.
         py_modify (\<lambda>s. s\<lparr>tb_dataplane := tb_dataplane s @ [p]\<rparr>)))) planes s3 = (Ok u, t)"
    unfolding plane_entries_def py_bind_get prod.case s3 py_bind_Ok_iff [of "py_lift x" for x] py_lift_app by auto
  from spawn_planes_Ok [OF iter] obtain ps e where
    t: "t = s3\<lparr>tb_dataplane := tb_dataplane s3 @ ps, tb_env := e\<rparr>" "list_all2 (plane_made P (tb_traffic s)) planes ps" by blast
  have m: "all_made H P s ''dpu'' dpus xd" "all_made H P s ''phy'' phys xf"
    using 2(2) 3(2) by (simp_all only: base [OF 1(7)] base [OF 2(7)])
  show ?thesis
    by (rule that [OF 1(1) 2(1) 3(1) planes 1(2) m]) (use 1 2 3 t in simp_all)
qed

end
