(* ===== verification/PtfPlane.thy ===== *)
theory PtfPlane imports Testbed Logs begin

text \<open>
  The data plane of the PTF: \<open>ptf/sai_ptf_dataplane.py\<close>, \<open>sai_hostif_dataplane.py\<close>, the part of
  \<open>sai_npu.py\<close> that switches between the ports of the data plane and the host interfaces, and the
  preparation of the SAI PTF tests in \<open>usecases/sai-ptf/conftest.py\<close>. The \<open>ptf\<close> package is a parameter;
  its global configuration, which all of them share, is part of the state.
\<close>

section \<open>The package\<close>

text \<open>
  \<open>pt_open_log\<close>: the set-up of the logging, which removes the old log. \<open>pt_platform\<close>: importing the
  platform module, \<open>pt_default_map\<close>: what its \<open>platform_config_update\<close> makes the port map. \<open>pt_new\<close>: a
  \<open>DataPlane\<close> of a platform, by number; the rest are its methods.
\<close>

type_synonym port_map = "((int \<times> pyval) \<times> pyval) list"

record 'e ptf_lib =
  pt_open_log :: "('e, unit) py"
  pt_platform :: "string \<Rightarrow> ('e, unit) py"
  pt_default_map :: "('e, port_map option) py"
  pt_is_root :: "('e, bool) py"
  pt_new :: "string \<Rightarrow> ('e, nat) py"
  pt_start_pcap :: "nat \<Rightarrow> string \<Rightarrow> ('e, unit) py"
  pt_stop_pcap :: "nat \<Rightarrow> ('e, unit) py"
  pt_port_add :: "nat \<Rightarrow> pyval \<Rightarrow> int \<Rightarrow> pyval \<Rightarrow> ('e, unit) py"
  pt_flush :: "nat \<Rightarrow> ('e, unit) py"
  pt_kill :: "nat \<Rightarrow> ('e, unit) py"
  pt_case_name :: "nat option \<Rightarrow> string"

text \<open>The entries of \<open>ptf.config\<close> that matter, and the environment.\<close>

record 'e ptf =
  cfg_map :: "port_map option"
  cfg_platform :: string
  cfg_log_dir :: "string option"
  cfg_log_file :: string
  ptenv :: 'e

definition on_ptf :: "('e, 'a) py \<Rightarrow> (('e, 'z) ptf_scheme, 'a) py" where
  "on_ptf m = (\<lambda>s. case m (ptenv s) of (r, e) \<Rightarrow> (r, s\<lparr>ptenv := e\<rparr>))"

lemma on_ptf_app [py_simps]: "on_ptf m s = (case m (ptenv s) of (r, e) \<Rightarrow> (r, s\<lparr>ptenv := e\<rparr>))"
  by (simp add: on_ptf_def)

section \<open>\<open>SaiPtfDataPlane\<close>\<close>

text \<open>\<open>ptf.config.update(config_default)\<close>.\<close>

definition default_config :: "('e, 'z) ptf_scheme \<Rightarrow> ('e, 'z) ptf_scheme" where
  "default_config s = s\<lparr>cfg_map := None, cfg_platform := ''eth'', cfg_log_dir := None, cfg_log_file := ''ptf.log''\<rparr>"

text \<open>Numbers and texts are the aliases; lists and dictionaries cannot be keys.\<close>

definition alias_key :: "pyval \<Rightarrow> pyval res" where
  "alias_key v = (case v of
     PInt n \<Rightarrow> Ok v | PStr s \<Rightarrow> Ok v | PList vs \<Rightarrow> Err TypeError | PDict d \<Rightarrow> Err TypeError
   | _ \<Rightarrow> Err (Unmodelled ''port alias''))"

fun group_map :: "pyval list \<Rightarrow> port_map \<Rightarrow> port_map res" where
  "group_map [] m = Ok m"
| "group_map (p # ps) m =
     rbind (py_item ''name'' p) (\<lambda>name.
     rbind (rbind (py_item ''alias'' p) alias_key) (\<lambda>al.
     group_map ps (dict_set (0, al) name m)))"

text \<open>The file name of a capture: \<open>os.path.splitext(log_file)[0] + '.pcap'\<close>, for a name with one dot.\<close>

definition pcap_name :: "string \<Rightarrow> string res" where
  "pcap_name log_file = (case str_split ''.'' log_file of
     [base, ext] \<Rightarrow> Ok (base @ ''.pcap'') | _ \<Rightarrow> Err (Unmodelled ''log file name''))"

text \<open>The capture of the session, when the captures have no directory of their own.\<close>

definition session_pcap :: "'e ptf_lib \<Rightarrow> nat \<Rightarrow> (('e, 'z) ptf_scheme, unit) py" where
  "session_pcap L d =
     py_bind (py_get (\<lambda>s. (cfg_log_dir s, cfg_log_file s))) (\<lambda>(log_dir, log_file).
     if log_dir \<noteq> None then py_return ()
     else py_bind (py_lift (pcap_name log_file)) (\<lambda>f. on_ptf (pt_start_pcap L d f)))"

text \<open>\<open>config\<close> of the object: \<open>None\<close>, or the parameters of the description.\<close>

definition groups_of :: "pyval option \<Rightarrow> pyval res" where
  "groups_of cfg = (case cfg of None \<Rightarrow> Ok PNone
     | Some c \<Rightarrow> if truthy c then dget ''port_groups'' c else Ok PNone)"

definition traffic_of :: "pyval option \<Rightarrow> bool res" where
  "traffic_of cfg = (case cfg of None \<Rightarrow> Ok False
     | Some c \<Rightarrow> if truthy c then rbind (dget ''traffic'' c) (\<lambda>v. Ok (truthy v)) else Ok False)"

text \<open>
  \<open>init\<close>: the port map, then the data plane with the ports of the map when there is traffic. The
  time-outs of the package, the random seed and the signal handler are left out.
\<close>

definition ptf_port_map :: "'e ptf_lib \<Rightarrow> pyval option \<Rightarrow> (('e, 'z) ptf_scheme, unit) py" where
  "ptf_port_map L cfg =
     py_bind (py_lift (groups_of cfg)) (\<lambda>gs.
     if gs \<noteq> PNone then
       py_bind (py_lift (rbind (elements gs) (\<lambda>ps. group_map ps []))) (\<lambda>m.
       py_modify (\<lambda>s. s\<lparr>cfg_map := Some m\<rparr>))
     else
       py_bind (on_ptf (pt_default_map L)) (\<lambda>m. py_modify (\<lambda>s. s\<lparr>cfg_map := m\<rparr>)))"

definition ptf_open ::
  "'e ptf_lib \<Rightarrow> pyval option \<Rightarrow> string \<Rightarrow> port_map \<Rightarrow> (('e, 'z) ptf_scheme, nat) py" where
  "ptf_open L cfg platform ports =
     py_bind (on_ptf (pt_is_root L)) (\<lambda>root.
     if \<not> root \<and> platform \<noteq> ''nn'' then py_raise SystemExit
     else
       py_bind (on_ptf (pt_new L platform)) (\<lambda>d.
       py_bind (session_pcap L d) (\<lambda>_.
       py_bind (py_lift (traffic_of cfg)) (\<lambda>traffic.
       py_bind (if traffic then py_iter (\<lambda>((device, port), ifname). on_ptf (pt_port_add L d ifname device port)) ports
         else py_return ()) (\<lambda>_.
       py_return d)))))"

definition ptf_init :: "'e ptf_lib \<Rightarrow> pyval option \<Rightarrow> (('e, 'z) ptf_scheme, nat) py" where
  "ptf_init L cfg =
     py_bind (py_modify default_config) (\<lambda>_.
     py_bind (on_ptf (pt_open_log L)) (\<lambda>_.
     py_bind (py_get cfg_platform) (\<lambda>platform.
     py_bind (on_ptf (pt_platform L platform)) (\<lambda>_.
     py_bind (ptf_port_map L cfg) (\<lambda>_.
     py_bind (py_get cfg_map) (\<lambda>m. case m of None \<Rightarrow> py_raise SystemExit | Some ports \<Rightarrow>
     ptf_open L cfg platform ports))))))"

text \<open>The methods of a data plane; \<open>None\<close> when \<open>init\<close> has not set it.\<close>

definition ptf_set_up :: "'e ptf_lib \<Rightarrow> nat option \<Rightarrow> (('e, 'z) ptf_scheme, unit) py" where
  "ptf_set_up L d = (case d of None \<Rightarrow> py_raise AssertionError | Some n \<Rightarrow>
     py_bind (on_ptf (pt_flush L n)) (\<lambda>_.
     py_bind (py_get cfg_log_dir) (\<lambda>log_dir. case log_dir of None \<Rightarrow> py_return ()
       | Some dir \<Rightarrow> on_ptf (pt_start_pcap L n (dir @ ''/'' @ pt_case_name L d @ ''.pcap'')))))"

definition ptf_tear_down :: "'e ptf_lib \<Rightarrow> nat option \<Rightarrow> (('e, 'z) ptf_scheme, unit) py" where
  "ptf_tear_down L d = (case d of None \<Rightarrow> py_raise AssertionError | Some n \<Rightarrow>
     py_bind (py_get cfg_log_dir) (\<lambda>log_dir.
     if log_dir \<noteq> None then on_ptf (pt_stop_pcap L n) else py_return ()))"

definition ptf_deinit :: "'e ptf_lib \<Rightarrow> nat option \<Rightarrow> (('e, 'z) ptf_scheme, unit) py" where
  "ptf_deinit L d = (case d of None \<Rightarrow> py_return () | Some n \<Rightarrow>
     py_bind (on_ptf (pt_stop_pcap L n)) (\<lambda>_. on_ptf (pt_kill L n)))"

definition ptf_flush :: "'e ptf_lib \<Rightarrow> nat option \<Rightarrow> (('e, 'z) ptf_scheme, unit) py" where
  "ptf_flush L d = (case d of None \<Rightarrow> py_return () | Some n \<Rightarrow> on_ptf (pt_flush L n))"

section \<open>\<open>SaiHostifDataPlane\<close>\<close>

definition socket_addr :: "string \<Rightarrow> string" where
  "socket_addr ip = ''tcp://'' @ ip @ '':10001''"

text \<open>\<open>keep\<close> is the assignment to \<open>self.dataplane\<close>, which comes before the ports are added.\<close>

definition hostif_init ::
  "'e ptf_lib \<Rightarrow> (nat \<Rightarrow> (('e, 'z) ptf_scheme, unit) py) \<Rightarrow> (string \<times> pyval) list \<Rightarrow> string \<Rightarrow>
   (('e, 'z) ptf_scheme, unit) py" where
  "hostif_init L keep ifaces host_ip =
     py_bind (on_ptf (pt_new L ''nn'')) (\<lambda>d.
     py_bind (keep d) (\<lambda>_.
     py_bind (session_pcap L d) (\<lambda>_.
     py_bind (py_iter (\<lambda>(inum, _). py_bind (py_lift (py_int 10 inum)) (\<lambda>n.
       on_ptf (pt_port_add L d (PStr (socket_addr host_ip)) 0 (PInt n)))) ifaces) (\<lambda>_.
     ptf_set_up L (Some d)))))"

definition hostif_deinit :: "'e ptf_lib \<Rightarrow> nat option \<Rightarrow> (('e, 'z) ptf_scheme, unit) py" where
  "hostif_deinit L d = (case d of None \<Rightarrow> py_raise AttributeError | Some n \<Rightarrow>
     py_bind (on_ptf (pt_stop_pcap L n)) (\<lambda>_.
     py_bind (on_ptf (pt_kill L n)) (\<lambda>_.
     ptf_tear_down L d)))"

section \<open>Host interfaces of the NPU\<close>

text \<open>
  What \<open>SaiNpu\<close> keeps of it. \<open>hf_plane\<close>: the host interface data plane, and the PTF data plane in it.
  \<open>ag_start\<close>, \<open>ag_up\<close>, \<open>ag_stop\<close>: the remote operations of the client, on the same environment.
\<close>

record 'e agent_ops =
  ag_start :: "pyval \<Rightarrow> ('e, bool) py"
  ag_up :: "pyval \<Rightarrow> ('e, bool) py"
  ag_stop :: "('e, bool) py"

record 'e hostif = "'e ptf" +
  hf_plane :: "nat option option"
  hf_saved :: "port_map option"
  hf_map :: "port_map option"

text \<open>\<open>getPortMap\<close> and \<open>setPortMap\<close>, which are static.\<close>

definition hostif_pkt_listen :: "(('e, 'z) hostif_scheme, unit) py" where
  "hostif_pkt_listen =
     py_bind (py_get hf_map) (\<lambda>m.
     py_bind (py_assert (m \<noteq> None \<and> m \<noteq> Some [])) (\<lambda>_.
     py_bind (py_get (\<lambda>s. (hf_saved s, hf_plane s))) (\<lambda>(saved, plane).
     if plane = None then py_raise AttributeError
     else
       py_modify (\<lambda>s. s\<lparr>hf_saved := (if saved = None then cfg_map s else saved), cfg_map := m\<rparr>))))"

definition dataplane_pkt_listen :: "(('e, 'z) hostif_scheme, unit) py" where
  "dataplane_pkt_listen =
     py_bind (py_get (\<lambda>s. (hf_map s, hf_saved s, hf_plane s))) (\<lambda>(m, saved, plane).
     if m = None \<or> m = Some [] \<or> saved = None \<or> saved = Some [] then py_return ()
     else if plane = None then py_raise AttributeError
     else py_modify (\<lambda>s. s\<lparr>cfg_map := saved, hf_saved := None\<rparr>))"

definition hostif_dataplane_start ::
  "'e ptf_lib \<Rightarrow> 'e agent_ops \<Rightarrow> string \<Rightarrow> (string \<times> pyval) list \<Rightarrow> (('e, 'z) hostif_scheme, bool) py" where
  "hostif_dataplane_start L G srv_ip ifaces =
     py_bind (py_modify (\<lambda>s. s\<lparr>hf_map := Some []\<rparr>)) (\<lambda>_.
     py_bind (on_ptf (ag_start G (PDict ifaces))) (\<lambda>started.
     if \<not> started then py_return False
     else
       py_bind (py_iter (\<lambda>(inum, iname).
           py_bind (py_lift (py_int 10 inum)) (\<lambda>n.
           py_bind (py_modify (\<lambda>s. s\<lparr>hf_map := map_option (dict_set (0, PInt n) (PStr (socket_addr srv_ip))) (hf_map s)\<rparr>)) (\<lambda>_.
           py_bind (on_ptf (ag_up G iname)) py_assert))) ifaces) (\<lambda>_.
       py_bind (py_modify (\<lambda>s. s\<lparr>hf_plane := Some None\<rparr>)) (\<lambda>_.
       py_bind (hostif_init L (\<lambda>d. py_modify (\<lambda>s. s\<lparr>hf_plane := Some (Some d)\<rparr>)) ifaces srv_ip) (\<lambda>_.
       py_return True)))))"

definition hostif_dataplane_stop :: "'e ptf_lib \<Rightarrow> 'e agent_ops \<Rightarrow> (('e, 'z) hostif_scheme, bool) py" where
  "hostif_dataplane_stop L G =
     py_bind dataplane_pkt_listen (\<lambda>_.
     py_bind (py_modify (\<lambda>s. s\<lparr>hf_map := None\<rparr>)) (\<lambda>_.
     py_bind (py_get hf_plane) (\<lambda>plane. case plane of None \<Rightarrow> py_raise AttributeError | Some d \<Rightarrow>
     py_bind (hostif_deinit L d) (\<lambda>_.
     py_bind (py_modify (\<lambda>s. s\<lparr>hf_plane := None\<rparr>)) (\<lambda>_.
     on_ptf (ag_stop G))))))"

section \<open>The SAI PTF tests\<close>

text \<open>
  \<open>pytest_sessionstart\<close>: each patch is tried first; one that is already applied ends the whole loop.
  \<open>pa_try\<close>, \<open>pa_apply\<close>: the return code of the trial, and the patch.
\<close>

record 'e patch_tool =
  pa_try :: "string \<Rightarrow> ('e, int) py"
  pa_apply :: "string \<Rightarrow> ('e, unit) py"

definition patch_one :: "'e patch_tool \<Rightarrow> string \<Rightarrow> ('e, bool) py" where
  "patch_one P f = py_catch
     (py_bind (pa_try P f) (\<lambda>rc.
      if rc = 0 then py_bind (pa_apply P f) (\<lambda>_. py_return True)
      else if rc = 1 then py_return False
      else py_raise RuntimeError)) (\<lambda>_. True) (py_raise RuntimeError)"

fun patch_loop :: "'e patch_tool \<Rightarrow> string list \<Rightarrow> ('e, unit) py" where
  "patch_loop P [] = py_return ()"
| "patch_loop P (f # fs) = py_bind (patch_one P f) (\<lambda>go_on. if go_on then patch_loop P fs else py_return ())"

definition apply_patches :: "'e patch_tool \<Rightarrow> string list \<Rightarrow> ('e, unit) py" where
  "apply_patches P dir = patch_loop P (filter (\<lambda>f. ends_with f ''patch'') dir)"

text \<open>\<open>to_ptf_int_list\<close>: the parts between blanks of the options.\<close>

definition port_option :: "pyval \<Rightarrow> string res" where
  "port_option m =
     rbind (rbind (py_item ''alias'' m) py_format) (\<lambda>a.
     rbind (rbind (py_item ''name'' m) py_format) (\<lambda>n.
     Ok (''--interface '' @ a @ ''@'' @ n)))"

definition to_ptf_int_list :: "pyval list \<Rightarrow> string list res" where
  "to_ptf_int_list ms = rbind (rmap port_option ms) (\<lambda>os. Ok (str_split '' '' (str_join '' '' os)))"

definition quoted_arg :: "string \<Rightarrow> string" where
  "quoted_arg v = [CHR 0x27] @ v @ [CHR 0x27]"

definition ptf_argv :: "string \<Rightarrow> string list \<Rightarrow> string list" where
  "ptf_argv srv_ip ports = [''ptf.py'', ''--test-dir'', ''/sai-challenger/usecases/sai-ptf/SAI/ptf''] @ ports @
     [''--test-params'', ''thrift_server='' @ quoted_arg srv_ip @ '';config_db_json='' @
        quoted_arg ''/sai-challenger/testbeds/config_db.json'']"

text \<open>How the server is restarted before the session, and its address.\<close>

datatype restart = Supervisor | Remote string pyval pyval | NoRestart

definition saiserver_restart :: "pyval \<Rightarrow> (string \<times> restart) res" where
  "saiserver_restart config =
     rbind (rbind (py_item ''npu'' config) (\<lambda>v. py_index v 0)) (\<lambda>npu.
     rbind (rbind (py_item ''client'' npu) (py_item ''config'')) (\<lambda>c.
     rbind (rbind (py_item ''ip'' c) (as_str (Unmodelled ''server address''))) (\<lambda>ip.
     rbind (dget ''username'' c) (\<lambda>user.
     rbind (dget ''password'' c) (\<lambda>pw.
     rbind (py_item ''target'' npu) (\<lambda>target.
     Ok (ip, if target = PStr ''saivs'' \<and> ip \<in> {''localhost'', ''127.0.0.1''} then Supervisor
             else if truthy user \<and> truthy pw then Remote ip user pw else NoRestart)))))))"

definition ptf_session_args :: "pyval \<Rightarrow> string list res" where
  "ptf_session_args config =
     rbind (saiserver_restart config) (\<lambda>(ip, _).
     rbind (rbind (py_item ''dataplane'' config) (\<lambda>v. rbind (py_index v 0) (py_item ''port_groups''))) (\<lambda>gs.
     rbind (rbind (elements gs) to_ptf_int_list) (\<lambda>ports.
     Ok (ptf_argv ip ports))))"

section \<open>Facts\<close>

text \<open>The ports of the description, when no alias occurs twice.\<close>

lemma group_map_append:
  assumes "list_all2 (\<lambda>p (al, n). py_item ''name'' p = Ok n \<and> rbind (py_item ''alias'' p) alias_key = Ok al) ps ans"
    and "distinct (map fst ans)" and "(Pair 0 ` fst ` set ans) \<inter> fst ` set m = {}"
  shows "group_map ps m = Ok (m @ map (\<lambda>(al, n). ((0, al), n)) ans)"
  using assms
proof (induction ps ans arbitrary: m rule: list_all2_induct)
  case (Cons p ps an ans)
  obtain al n where an: "an = (al, n)" by (cases an)
  have new: "(0, al) \<notin> fst ` set m" using Cons.prems(2) an by auto
  have "group_map ps (m @ [((0, al), n)]) = Ok ((m @ [((0, al), n)]) @ map (\<lambda>(al, n). ((0, al), n)) ans)"
    by (rule Cons.IH) (use Cons.prems an in \<open>auto simp: image_iff\<close>)
  with Cons.hyps(1) an new show ?case by (auto simp: dict_set_new)
qed simp

text \<open>Nothing but the listening changes the port map of the package.\<close>

lemma on_ptf_keeps [inv_intros]: "(\<And>s e. I s \<Longrightarrow> I (s\<lparr>ptenv := e\<rparr>)) \<Longrightarrow> py_inv I (on_ptf m)"
  by (auto simp: py_inv_def on_ptf_def split: prod.splits)

lemma hostif_deinit_keeps: "py_inv (\<lambda>s. cfg_map s = m \<and> hf_map s = hm \<and> hf_plane s = pl \<and> hf_saved s = sv) (hostif_deinit L d)"
  unfolding hostif_deinit_def ptf_tear_down_def
  by (auto intro!: inv_intros split: option.splits)

text \<open>A return of an operation that raises in one case.\<close>

lemma if_raise_Ok: "(if b then py_raise e else m) s = (Ok x, t) \<longleftrightarrow> \<not> b \<and> m s = (Ok x, t)"
  by (simp add: py_raise_app)

lemma case_raise_Ok:
  "(case v of None \<Rightarrow> py_raise e | Some y \<Rightarrow> f y) s = (Ok x, t) \<longleftrightarrow> (\<exists>y. v = Some y \<and> f y s = (Ok x, t))"
  by (simp add: py_raise_app split: option.splits)

text \<open>The ports that are added to data planes; a library may log them.\<close>

locale port_log =
  fixes L :: "'e ptf_lib" and log :: "'e \<Rightarrow> (nat \<times> pyval \<times> int \<times> pyval) list"
  assumes log_add: "logs log [(d, f, dev, p)] (pt_port_add L d f dev p)"
    and log_quiet: "silent log (pt_open_log L)" "silent log (pt_platform L n)" "silent log (pt_default_map L)"
      "silent log (pt_is_root L)" "silent log (pt_new L n)" "silent log (pt_start_pcap L d n)"
begin

definition plog :: "('e, 'z) ptf_scheme \<Rightarrow> (nat \<times> pyval \<times> int \<times> pyval) list" where
  "plog s = log (ptenv s)"

lemma logs_ptf: "logs log as m \<Longrightarrow> logs plog as (on_ptf m)"
  by (fastforce simp: logs_def plog_def on_ptf_def split: prod.splits)

lemma silent_ptf: "silent log m \<Longrightarrow> silent plog (on_ptf m)"
  by (fastforce simp: silent_def plog_def on_ptf_def split: prod.splits)

lemma session_silent: "silent plog (session_pcap L d)"
  unfolding session_pcap_def by (auto intro!: silent_bind silent_basic silent_ptf log_quiet)

lemma modify_silent: "silent plog (py_modify (\<lambda>s. s\<lparr>cfg_map := m\<rparr>))" "silent plog (py_modify default_config)"
  by (simp_all add: silent_def py_modify_def plog_def default_config_def)

lemma map_silent: "silent plog (ptf_port_map L cfg)"
  unfolding ptf_port_map_def by (auto intro!: silent_bind silent_basic silent_ptf log_quiet modify_silent)

lemma adds_logged:
  "logs plog (map (\<lambda>((dev, p), n). (d, n, dev, p)) ports)
     (py_iter (\<lambda>((dev, p), n). on_ptf (pt_port_add L d n dev p)) ports)"
proof (induction ports)
  case Nil
  then show ?case by (simp add: logs_def py_return_app)
next
  case (Cons x ports)
  obtain dev p n where x: "x = ((dev, p), n)" by (metis surj_pair)
  show ?case using logs_bind [OF logs_ptf [OF log_add] Cons.IH, of d n dev p] by (simp add: x)
qed

lemma open_log:
  assumes "ptf_open L cfg platform ports s = (Ok d, t)"
  shows "\<exists>b. traffic_of cfg = Ok b \<and> plog t = plog s @ (if b then map (\<lambda>((dev, p), n). (d, n, dev, p)) ports else [])"
proof -
  from assms obtain root s1 d' s2 u s3 b s4 u' s5 where
    1: "on_ptf (pt_is_root L) s = (Ok root, s1)" and 2: "on_ptf (pt_new L platform) s1 = (Ok d', s2)"
    and 3: "session_pcap L d' s2 = (Ok u, s3)" and b': "py_lift (traffic_of cfg) s3 = (Ok b, s4)"
    and 4: "(if b then py_iter (\<lambda>((dev, p), n). on_ptf (pt_port_add L d' n dev p)) ports else py_return ()) s4 = (Ok u', s5)"
    and 5: "py_return d' s5 = (Ok d, t)"
    unfolding ptf_open_def py_bind_Ok_iff if_raise_Ok by blast
  have b: "traffic_of cfg = Ok b" "s4 = s3" "d' = d" "s5 = t" using b' 5 by (simp_all add: py_lift_app py_return_app)
  have "plog s3 = plog s"
    using silentD [OF silent_ptf [OF log_quiet(4)] 1] silentD [OF silent_ptf [OF log_quiet(5)] 2]
      silentD [OF session_silent 3] by simp
  moreover have "plog t = plog s3 @ (if b then map (\<lambda>((dev, p), n). (d, n, dev, p)) ports else [])"
  proof (cases b)
    case True
    with 4 b have "py_iter (\<lambda>((dev, p), n). on_ptf (pt_port_add L d n dev p)) ports s3 = (Ok u', t)" by (simp only: if_True)
    from logsD [OF adds_logged this] True show ?thesis by (simp only: if_True)
  qed (use 4 b in \<open>simp add: py_return_app\<close>)
  ultimately show ?thesis using b(1) by (simp only: ex_simps simp_thms) blast
qed

lemma port_map_Ok:
  assumes "ptf_port_map L cfg s = (Ok u, t)"
  shows "groups_of cfg = Ok PNone \<or>
    (\<exists>gs m. groups_of cfg = Ok gs \<and> rbind (elements gs) (\<lambda>ps. group_map ps []) = Ok m \<and> cfg_map t = Some m)"
proof -
  from assms obtain gs s1 where gs: "py_lift (groups_of cfg) s = (Ok gs, s1)"
    and rest: "(if gs \<noteq> PNone then
       py_bind (py_lift (rbind (elements gs) (\<lambda>ps. group_map ps []))) (\<lambda>m.
       py_modify (\<lambda>s. s\<lparr>cfg_map := Some m\<rparr>))
     else
       py_bind (on_ptf (pt_default_map L)) (\<lambda>m. py_modify (\<lambda>s. s\<lparr>cfg_map := m\<rparr>))) s1 = (Ok u, t)"
    unfolding ptf_port_map_def py_bind_Ok_iff [of "py_lift (groups_of cfg)"] by blast
  from gs have g: "groups_of cfg = Ok gs" by (simp add: py_lift_app)
  show ?thesis
  proof (cases "gs = PNone")
    case False
    with rest have "py_bind (py_lift (rbind (elements gs) (\<lambda>ps. group_map ps []))) (\<lambda>m.
       py_modify (\<lambda>s. s\<lparr>cfg_map := Some m\<rparr>)) s1 = (Ok u, t)" by simp
    then obtain m s2 where m: "py_lift (rbind (elements gs) (\<lambda>ps. group_map ps [])) s1 = (Ok m, s2)"
      "py_modify (\<lambda>s. s\<lparr>cfg_map := Some m\<rparr>) s2 = (Ok u, t)"
      unfolding py_bind_Ok_iff by blast
    then have "rbind (elements gs) (\<lambda>ps. group_map ps []) = Ok m" by (simp only: py_lift_app prod.inject)
    moreover have "cfg_map t = Some m" using m(2) by (auto simp: py_modify_app)
    ultimately show ?thesis using g by blast
  qed (use g in simp)
qed

lemma init_ports:
  assumes "ptf_init L cfg s = (Ok d, t)"
  shows "\<exists>ports b. (groups_of cfg = Ok PNone \<or> (\<exists>gs. groups_of cfg = Ok gs \<and> rbind (elements gs) (\<lambda>ps. group_map ps []) = Ok ports)) \<and>
    traffic_of cfg = Ok b \<and> plog t = plog s @ (if b then map (\<lambda>((dev, p), n). (d, n, dev, p)) ports else [])"
proof -
  from assms obtain u1 s1 u2 s2 platform u3 s3 u4 s4 ports where
    1: "py_modify default_config s = (Ok u1, s1)" and 2: "on_ptf (pt_open_log L) s1 = (Ok u2, s2)"
    and 3: "on_ptf (pt_platform L platform) s2 = (Ok u3, s3)" and 4: "ptf_port_map L cfg s3 = (Ok u4, s4)"
    and ports: "cfg_map s4 = Some ports" and 5: "ptf_open L cfg platform ports s4 = (Ok d, t)"
    unfolding ptf_init_def py_bind_Ok_iff case_raise_Ok py_get_app by blast
  have log4: "plog s4 = plog s"
    using silentD [OF modify_silent(2) 1] silentD [OF silent_ptf [OF log_quiet(1)] 2]
      silentD [OF silent_ptf [OF log_quiet(2)] 3] silentD [OF map_silent 4] by simp
  have g: "groups_of cfg = Ok PNone \<or> (\<exists>gs. groups_of cfg = Ok gs \<and> rbind (elements gs) (\<lambda>ps. group_map ps []) = Ok ports)"
    using port_map_Ok [OF 4] ports by (metis option.inject)
  from open_log [OF 5] obtain b where b: "traffic_of cfg = Ok b"
    "plog t = plog s4 @ (if b then map (\<lambda>((dev, p), n). (d, n, dev, p)) ports else [])" by blast
  from g b(1) b(2) [unfolded log4] show ?thesis by blast
qed

end

definition logged_lib :: "'e ptf_lib \<Rightarrow> ('e \<times> (nat \<times> pyval \<times> int \<times> pyval) list) ptf_lib" where
  "logged_lib L =
     \<lparr>pt_open_log = logged_op [] (pt_open_log L), pt_platform = (\<lambda>n. logged_op [] (pt_platform L n)),
      pt_default_map = logged_op [] (pt_default_map L), pt_is_root = logged_op [] (pt_is_root L),
      pt_new = (\<lambda>n. logged_op [] (pt_new L n)), pt_start_pcap = (\<lambda>d n. logged_op [] (pt_start_pcap L d n)),
      pt_stop_pcap = (\<lambda>d. logged_op [] (pt_stop_pcap L d)),
      pt_port_add = (\<lambda>d f dev p. logged_op [(d, f, dev, p)] (pt_port_add L d f dev p)),
      pt_flush = (\<lambda>d. logged_op [] (pt_flush L d)), pt_kill = (\<lambda>d. logged_op [] (pt_kill L d)),
      pt_case_name = pt_case_name L\<rparr>"

interpretation logged_ptf: port_log "logged_lib L" snd for L
  by unfold_locales (auto simp: logged_lib_def logged_op_def logs_def silent_def split: prod.splits)

text \<open>The data plane of a description has exactly its ports, each under its alias, when there is traffic.\<close>

lemma described_ports:
  assumes "ptf_init (logged_lib L) (Some cfg) s = (Ok d, t)"
    and "groups_of (Some cfg) = Ok (PList ps)" and "traffic_of (Some cfg) = Ok b"
    and "list_all2 (\<lambda>p (al, n). py_item ''name'' p = Ok n \<and> rbind (py_item ''alias'' p) alias_key = Ok al) ps ans"
    and "distinct (map fst ans)"
  shows "snd (ptenv t) = snd (ptenv s) @ (if b then map (\<lambda>(al, n). (d, n, 0, al)) ans else [])"
proof -
  have "group_map ps [] = Ok (map (\<lambda>(al, n). ((0, al), n)) ans)"
    using group_map_append [OF assms(4,5), of "[]"] by simp
  with logged_ptf.init_ports [OF assms(1)] assms(2,3) show ?thesis
    by (auto simp: logged_ptf.plog_def elements_def split_def)
qed

text \<open>
  The states of listening: on the ports of the data plane, whose map is \<open>m\<close>, or on the host interfaces
  with that map put aside.
\<close>

definition listening_ok :: "port_map \<Rightarrow> ('e, 'z) hostif_scheme \<Rightarrow> bool" where
  "listening_ok m s \<longleftrightarrow> (\<exists>h. hf_map s = Some h \<and> h \<noteq> []) \<and>
     (hf_saved s = None \<and> cfg_map s = Some m \<or> hf_saved s = Some m \<and> cfg_map s = hf_map s)"

inductive listens :: "('e, 'z) hostif_scheme \<Rightarrow> ('e, 'z) hostif_scheme \<Rightarrow> bool" where
  Start: "listens s s"
| Host: "listens s t \<Longrightarrow> hostif_pkt_listen t = (r, u) \<Longrightarrow> listens s u"
| Plane: "listens s t \<Longrightarrow> dataplane_pkt_listen t = (r, u) \<Longrightarrow> listens s u"

lemma hostif_listen_ok:
  "listening_ok m s \<Longrightarrow> hostif_pkt_listen s = (r, t) \<Longrightarrow> listening_ok m t"
  by (auto simp: listening_ok_def hostif_pkt_listen_def py_bind_app py_get_app py_assert_app py_modify_app py_raise_app
      split: if_splits)

lemma dataplane_listen_ok:
  "listening_ok m s \<Longrightarrow> dataplane_pkt_listen s = (r, t) \<Longrightarrow> listening_ok m t"
  by (auto simp: listening_ok_def dataplane_pkt_listen_def py_bind_app py_get_app py_return_app py_modify_app py_raise_app
      split: if_splits)

lemma listens_ok: "listens s t \<Longrightarrow> listening_ok m s \<Longrightarrow> listening_ok m t"
  by (induction rule: listens.induct) (auto intro: hostif_listen_ok dataplane_listen_ok)

lemma dataplane_listen_back:
  assumes "listening_ok m s" and "m \<noteq> []" and "dataplane_pkt_listen s = (Ok u, t)"
  shows "cfg_map t = Some m"
  using assms
  by (auto simp: listening_ok_def dataplane_pkt_listen_def py_bind_app py_get_app py_return_app py_modify_app py_raise_app
      split: if_splits)

lemma stop_gives_back:
  assumes "listening_ok m s" and "m \<noteq> []" and "hostif_dataplane_stop L G s = (Ok b, t)"
  shows "cfg_map t = Some m \<and> hf_map t = None \<and> hf_plane t = None"
proof -
  from assms(3) obtain u1 s1 u2 s2 d u3 s3 where
    1: "dataplane_pkt_listen s = (Ok u1, s1)"
    and 2: "s2 = s1\<lparr>hf_map := None\<rparr>" "hf_plane s2 = Some d"
    and 3: "hostif_deinit L d s2 = (Ok u3, s3)"
    and 4: "on_ptf (ag_stop G) (s3\<lparr>hf_plane := None\<rparr>) = (Ok b, t)"
    by (auto simp: hostif_dataplane_stop_def py_bind_Ok_iff py_get_app py_modify_app py_raise_app split: option.splits)
  have "cfg_map s1 = Some m" by (rule dataplane_listen_back [OF assms(1,2) 1])
  with 2 have "cfg_map s2 = Some m" "hf_map s2 = None" by simp_all
  with py_invD [OF hostif_deinit_keeps _ 3, of "Some m" None "hf_plane s2" "hf_saved s2"]
  have "cfg_map s3 = Some m" "hf_map s3 = None" by auto
  with 4 show ?thesis by (auto simp: on_ptf_app split: prod.splits)
qed

text \<open>A patch that is already applied keeps the later ones from being applied.\<close>

lemma patch_loop_stops:
  assumes "pa_try P f s = (Ok 1, t)"
  shows "patch_loop P (f # fs) s = (Ok (), t)"
  using assms by (simp add: patch_one_def py_bind_app py_catch_app py_return_app)

end
