(* ===== verification/Listener.thy ===== *)
theory Listener imports ThriftConvert SaiCore begin

text \<open>
  \<open>scripts/redis-cmd-listener.py\<close>, the other side of the \<open>remote_iface_*\<close> operations: a process that
  takes commands from a list of the Redis server, works on the network interfaces of its host and
  pushes the status. The interfaces and processes of the host are a parameter.
\<close>

section \<open>The host\<close>

text \<open>
  \<open>h_ifaces\<close>: \<open>os.listdir('/sys/class/net')\<close>. \<open>h_get_flags\<close>, \<open>h_set_flags\<close>: the two \<open>ioctl\<close> calls on a
  socket. \<open>h_popen\<close>: a new process, by number; \<open>h_stop\<close>: \<open>terminate\<close> and \<open>wait\<close>, after which the
  process has a return code; before that a new one has none.
\<close>

record 'e host_os =
  h_ifaces :: "('e, string list) py"
  h_get_flags :: "string \<Rightarrow> ('e, int) py"
  h_set_flags :: "string \<Rightarrow> int \<Rightarrow> ('e, unit) py"
  h_popen :: "string list \<Rightarrow> ('e, nat) py"
  h_stop :: "nat \<Rightarrow> ('e, unit) py"

record 'e listener =
  lenv :: 'e
  agent :: "nat option"

definition on_lenv :: "('e, 'a) py \<Rightarrow> ('e listener, 'a) py" where
  "on_lenv m = (\<lambda>s. case m (lenv s) of (r, e) \<Rightarrow> (r, s\<lparr>lenv := e\<rparr>))"

lemma on_lenv_app [py_simps]: "on_lenv m s = (case m (lenv s) of (r, e) \<Rightarrow> (r, s\<lparr>lenv := e\<rparr>))"
  by (simp add: on_lenv_def)

section \<open>Commands\<close>

definition iface_exists :: "'e host_os \<Rightarrow> string \<Rightarrow> ('e listener, bool) py" where
  "iface_exists O1 name = py_bind (on_lenv (h_ifaces O1)) (\<lambda>ns. py_return (name \<in> set ns))"

text \<open>\<open>IFF_UP\<close> is the lowest bit; a failure to read the flags means the interface is not up.\<close>

definition iface_is_up :: "'e host_os \<Rightarrow> string \<Rightarrow> ('e listener, bool) py" where
  "iface_is_up O1 name =
     py_bind (py_catch (py_bind (on_lenv (h_get_flags O1 name)) (\<lambda>f. py_return (Some f))) (\<lambda>_. True) (py_return None)) (\<lambda>r.
     py_return (case r of None \<Rightarrow> False | Some flags \<Rightarrow> and flags 1 > 0))"

definition set_iface_status :: "'e host_os \<Rightarrow> pyval \<Rightarrow> ('e listener, bool) py" where
  "set_iface_status O1 args =
     py_bind (py_lift (rbind (py_item ''iface'' args) (as_str TypeError))) (\<lambda>name.
     py_bind (on_lenv (h_get_flags O1 name)) (\<lambda>flags.
     py_bind (py_lift (py_item ''admin'' args)) (\<lambda>admin.
     py_bind (on_lenv (h_set_flags O1 name (if admin = PStr ''up'' then or flags 1 else and flags (not 1)))) (\<lambda>_.
     py_return True))))"

definition agent_command :: "(string \<times> pyval) list \<Rightarrow> string list res" where
  "agent_command ifaces =
     rbind (rmap (\<lambda>(inum, iname). rbind (py_format iname) (\<lambda>n. Ok [''-i'', inum @ ''@'' @ n])) ifaces) (\<lambda>args.
     Ok ([''ptf_nn_agent.py'', ''--device-socket'', ''0@tcp://0.0.0.0:10001''] @ concat args))"

definition start_nn_agent :: "'e host_os \<Rightarrow> pyval \<Rightarrow> ('e listener, nat) py" where
  "start_nn_agent O1 ifaces =
     py_bind (py_lift (case ifaces of PDict kvs \<Rightarrow> agent_command kvs | _ \<Rightarrow> Err AttributeError)) (\<lambda>cmd.
     on_lenv (h_popen O1 cmd))"

text \<open>Without a process the last line reads the return code of \<open>None\<close>.\<close>

definition stop_process :: "'e host_os \<Rightarrow> nat option \<Rightarrow> ('e listener, bool) py" where
  "stop_process O1 p = (case p of
     Some n \<Rightarrow> py_bind (on_lenv (h_stop O1 n)) (\<lambda>_. py_return True)
   | None \<Rightarrow> py_raise AttributeError)"

definition status_of :: "bool \<Rightarrow> string" where
  "status_of b = (if b then ''ok'' else ''err'')"

text \<open>The dispatch of \<open>main\<close> on a decoded command.\<close>

definition run_command :: "'e host_os \<Rightarrow> string list \<Rightarrow> ('e listener, string) py" where
  "run_command O1 cmd =
     (let two = (length cmd = 2) in
      if hd cmd = ''iface_exists'' \<and> two then
        py_bind (iface_exists O1 (cmd ! 1)) (\<lambda>b. py_return (status_of b))
      else if hd cmd = ''iface_is_up'' \<and> two then
        py_bind (iface_is_up O1 (cmd ! 1)) (\<lambda>b. py_return (status_of b))
      else if hd cmd = ''set_iface_status'' \<and> two then
        py_bind (py_lift (loads (cmd ! 1))) (\<lambda>args.
        py_bind (set_iface_status O1 args) (\<lambda>b. py_return (status_of b)))
      else if hd cmd = ''start_nn_agent'' \<and> two then
        py_bind (py_lift (loads (cmd ! 1))) (\<lambda>ifaces.
        py_bind (start_nn_agent O1 ifaces) (\<lambda>n.
        py_bind (py_modify (\<lambda>s. s\<lparr>agent := Some n\<rparr>)) (\<lambda>_. py_return ''ok'')))
      else if hd cmd = ''stop_nn_agent'' then
        py_bind (py_get agent) (\<lambda>p.
        py_bind (stop_process O1 p) (\<lambda>b.
        if b then py_bind (py_modify (\<lambda>s. s\<lparr>agent := None\<rparr>)) (\<lambda>_. py_return ''ok'') else py_return ''err''))
      else py_return ''err'')"

text \<open>The work of a turn when there is a command; the commands are in database 1.\<close>

definition answer_command :: "'e redis_env \<Rightarrow> 'e host_os \<Rightarrow> string list \<Rightarrow> ('e listener, unit) py" where
  "answer_command E O1 bs =
     py_bind (on_lenv (rd_delete E 1 ''SAI_CHALLENGER_CMD_QUEUE'')) (\<lambda>_.
     py_bind (py_lift (rmap decode_utf8 bs)) (\<lambda>cmd.
     py_bind (run_command O1 cmd) (\<lambda>status.
     on_lenv (rd_lpush E 1 ''SAI_CHALLENGER_CMD_STATUS_QUEUE'' [status]))))"

text \<open>A turn of the loop of \<open>main\<close>.\<close>

definition listener_turn :: "'e redis_env \<Rightarrow> 'e host_os \<Rightarrow> ('e listener, unit) py" where
  "listener_turn E O1 =
     py_bind (on_lenv (rd_lrange E 1 ''SAI_CHALLENGER_CMD_QUEUE'')) (\<lambda>bs.
     if bs = [] then on_lenv (sleep_ms E 200) else answer_command E O1 bs)"

text \<open>The loop never ends by itself: so many turns of it.\<close>

definition listen :: "'e redis_env \<Rightarrow> 'e host_os \<Rightarrow> nat \<Rightarrow> ('e listener, unit) py" where
  "listen E O1 n = py_bind (on_lenv (sleep_ms E 5000)) (\<lambda>_. py_iter (\<lambda>_. listener_turn E O1) [0..<n])"

section \<open>Facts\<close>

text \<open>Stopping an agent that does not run ends the listener without an answer.\<close>

lemma stop_without_agent:
  assumes "agent s = None"
  shows "run_command O1 [''stop_nn_agent''] s = (Err AttributeError, s)"
  using assms by (simp add: run_command_def stop_process_def py_bind_app py_get_app py_raise_app)

text \<open>The lists of the server, as Redis documents them, and interfaces that only the host changes.\<close>

definition queue_laws :: "'e redis_env \<Rightarrow> ('e \<Rightarrow> string \<Rightarrow> string list) \<Rightarrow> ('e \<Rightarrow> 'i) \<Rightarrow> bool" where
  "queue_laws E q os \<longleftrightarrow>
     (\<forall>k e. \<exists>n f. rd_delete E 1 k e = (Ok n, f) \<and> q f = (q e)(k := []) \<and> os f = os e) \<and>
     (\<forall>k e. rd_lrange E 1 k e = (Ok (q e k), e)) \<and>
     (\<forall>k vs e. \<exists>f. rd_rpush E 1 k vs e = (Ok (), f) \<and> q f = (q e)(k := q e k @ vs) \<and> os f = os e) \<and>
     (\<forall>k vs e. \<exists>f. rd_lpush E 1 k vs e = (Ok (), f) \<and> q f = (q e)(k := rev vs @ q e k) \<and> os f = os e)"

text \<open>
  The listener runs beside the client: it looks into the command queue every 200 ms, so a command that
  is pending is left alone during some sleeps of the client, fewer than \<open>n\<close>, and then answered in one turn
  of the listener, whatever agent it has started. Nobody else changes the queues and the host meanwhile.
\<close>

definition listener_polls ::
  "'e redis_env \<Rightarrow> 'e host_os \<Rightarrow> ('e \<Rightarrow> string \<Rightarrow> string list) \<Rightarrow> ('e \<Rightarrow> 'i) \<Rightarrow> nat \<Rightarrow> bool" where
  "listener_polls E O1 q os n \<longleftrightarrow> (\<forall>e. q e ''SAI_CHALLENGER_CMD_QUEUE'' \<noteq> [] \<longrightarrow>
     (\<exists>k g a. k < n \<and> g 0 = e \<and>
       (\<forall>j<k. sleep_ms E 50 (g j) = (Ok (), g (Suc j)) \<and> q (g (Suc j)) = q (g j) \<and> os (g (Suc j)) = os (g j)) \<and>
       (\<forall>t. answer_command E O1 (q (g k) ''SAI_CHALLENGER_CMD_QUEUE'') \<lparr>lenv = g k, agent = a\<rparr> = (Ok (), t) \<longrightarrow>
         sleep_ms E 50 (g k) = (Ok (), lenv t))))"

text \<open>
  A command that answers by the state of the host, when \<open>pre\<close> holds of it: \<open>st\<close> is the status, \<open>g\<close>
  relates the host before and after. It leaves the queues and the agent alone.
\<close>

definition works ::
  "'e host_os \<Rightarrow> ('e \<Rightarrow> string \<Rightarrow> string list) \<Rightarrow> ('e \<Rightarrow> 'i) \<Rightarrow> string list \<Rightarrow> ('i \<Rightarrow> bool) \<Rightarrow> ('i \<Rightarrow> string) \<Rightarrow> ('i \<Rightarrow> 'i \<Rightarrow> bool) \<Rightarrow> bool" where
  "works O1 q os c pre st g \<longleftrightarrow> (\<forall>e a. pre (os e) \<longrightarrow> (\<exists>f. run_command O1 c \<lparr>lenv = e, agent = a\<rparr> =
     (Ok (st (os e)), \<lparr>lenv = f, agent = a\<rparr>) \<and> q f = q e \<and> g (os e) (os f)))"

lemma answered:
  assumes laws: "queue_laws E q os" and works: "works O1 q os c pre st g" and "list_all ascii c"
    and "q e ''SAI_CHALLENGER_CMD_STATUS_QUEUE'' = []" and "pre (os e)"
  shows "\<exists>f. answer_command E O1 c \<lparr>lenv = e, agent = a\<rparr> = (Ok (), \<lparr>lenv = f, agent = a\<rparr>) \<and>
    q f ''SAI_CHALLENGER_CMD_STATUS_QUEUE'' = [st (os e)] \<and> g (os e) (os f)"
proof -
  from laws obtain n e1 where del: "rd_delete E 1 ''SAI_CHALLENGER_CMD_QUEUE'' e = (Ok n, e1)"
    "q e1 = (q e)(''SAI_CHALLENGER_CMD_QUEUE'' := [])" "os e1 = os e"
    unfolding queue_laws_def by meson
  from works assms(5) del(3) obtain e2 where run: "run_command O1 c \<lparr>lenv = e1, agent = a\<rparr> = (Ok (st (os e1)), \<lparr>lenv = e2, agent = a\<rparr>)"
    "q e2 = q e1" "g (os e1) (os e2)"
    unfolding works_def by metis
  let ?st = "st (os e)"
  from laws obtain e3 where push: "rd_lpush E 1 ''SAI_CHALLENGER_CMD_STATUS_QUEUE'' [?st] e2 = (Ok (), e3)"
    "q e3 = (q e2)(''SAI_CHALLENGER_CMD_STATUS_QUEUE'' := rev [?st] @ q e2 ''SAI_CHALLENGER_CMD_STATUS_QUEUE'')" "os e3 = os e2"
    unfolding queue_laws_def by meson
  have dec: "rmap decode_utf8 c = Ok c"
    using assms(3) by (induction c) auto
  have "answer_command E O1 c \<lparr>lenv = e, agent = a\<rparr> = (Ok (), \<lparr>lenv = e3, agent = a\<rparr>)"
    unfolding answer_command_def dec using del(1,3) push(1) run(1)
    by (simp add: py_bind_app on_lenv_app py_lift_app)
  moreover have "q e3 ''SAI_CHALLENGER_CMD_STATUS_QUEUE'' = [?st]" using push(2) run(2) del(2) assms(4) by simp
  moreover have "g (os e) (os e3)" using push(3) run(3) del(3) by simp
  ultimately show ?thesis by blast
qed

text \<open>Waiting for the status while nothing happens, and the sleep in which it arrives.\<close>

lemma await_idle:
  assumes laws: "queue_laws E q os" and "asic_db cfg = 1"
    and idle: "\<forall>j<k. sleep_ms E 50 (g j) = (Ok (), g (Suc j)) \<and> q (g (Suc j)) = q (g j)"
    and "q (g 0) ''SAI_CHALLENGER_CMD_STATUS_QUEUE'' = []" and "i \<le> k"
  shows "await_command E cfg (i + m) [] (s\<lparr>env := g 0\<rparr>) = await_command E cfg m [] (s\<lparr>env := g i\<rparr>) \<and>
    q (g i) ''SAI_CHALLENGER_CMD_STATUS_QUEUE'' = []"
  using assms(5)
proof (induction i arbitrary: m)
  case (Suc i)
  have le: "i \<le> k" using Suc.prems by simp
  note IH = Suc.IH [OF le, of "Suc m", THEN conjunct1] and empty = Suc.IH [OF le, THEN conjunct2]
  have sl: "sleep_ms E 50 (g i) = (Ok (), g (Suc i))" "q (g (Suc i)) = q (g i)" using idle Suc.prems by auto
  have "rd_lrange E 1 ''SAI_CHALLENGER_CMD_STATUS_QUEUE'' (g (Suc i)) = (Ok [], g (Suc i))"
    using laws sl(2) empty by (simp add: queue_laws_def)
  with sl(1) have "await_command E cfg (Suc m) [] (s\<lparr>env := g i\<rparr>) = await_command E cfg m [] (s\<lparr>env := g (Suc i)\<rparr>)"
    using assms(2) by (simp add: py_bind_app on_env_app)
  with IH sl(2) empty show ?case by (simp only: add_Suc_right add_Suc simp_thms)
qed (use assms(4) in simp)

lemma await_answer:
  assumes "queue_laws E q os" and "asic_db cfg = 1" and "sleep_ms E 50 e = (Ok (), f)"
    and "q f ''SAI_CHALLENGER_CMD_STATUS_QUEUE'' = [st]"
  shows "await_command E cfg (Suc m) [] (s\<lparr>env := e\<rparr>) = (Ok [st], s\<lparr>env := f\<rparr>)"
proof -
  have "rd_lrange E 1 ''SAI_CHALLENGER_CMD_STATUS_QUEUE'' f = (Ok [st], f)" using assms(1,4) by (simp add: queue_laws_def)
  with assms(2,3) show ?thesis by (cases m) (simp_all add: py_bind_app on_env_app py_return_app)
qed

text \<open>The client asks, the listener answers during one of its sleeps, and the client reads the answer.\<close>

lemma remote_answered:
  assumes laws: "queue_laws E q os"
    and works: "works O1 q os (cmd # (if args \<noteq> PNone then [text_attrs args] else [])) pre st g"
    and polls: "listener_polls E O1 q os n" and "n \<le> default_attempts"
    and asc: "list_all ascii (cmd # (if args \<noteq> PNone then [text_attrs args] else []))"
    and "\<forall>h. ascii (st h)" and "asic_db cfg = 1" and "pre (os (env s))"
  shows "\<exists>t. remote_cmd_operate E cfg cmd args s = (Ok (st (os (env s))), t) \<and> g (os (env s)) (os (env t))"
proof -
  let ?C = "''SAI_CHALLENGER_CMD_QUEUE''" and ?S = "''SAI_CHALLENGER_CMD_STATUS_QUEUE''"
  let ?c = "cmd # (if args \<noteq> PNone then [text_attrs args] else [])" and ?st = "st (os (env s))"
  from laws obtain n1 e1 where d1: "rd_delete E 1 ?C (env s) = (Ok n1, e1)" "q e1 = (q (env s))(?C := [])" "os e1 = os (env s)"
    unfolding queue_laws_def by meson
  from laws obtain n2 e2 where d2: "rd_delete E 1 ?S e1 = (Ok n2, e2)" "q e2 = (q e1)(?S := [])" "os e2 = os e1"
    unfolding queue_laws_def by meson
  from laws obtain e3 where p: "rd_rpush E 1 ?C ?c e2 = (Ok (), e3)"
    "q e3 = (q e2)(?C := q e2 ?C @ ?c)" "os e3 = os e2"
    unfolding queue_laws_def by meson
  have q3: "q e3 ?C = ?c" "q e3 ?S = []" using p(2) d2(2) d1(2) by auto
  have os3: "os e3 = os (env s)" using d1(3) d2(3) p(3) by simp
  from q3(1) have "q e3 ?C \<noteq> []" by simp
  with polls obtain k e a where k: "k < n" "e 0 = e3"
    "\<forall>j<k. sleep_ms E 50 (e j) = (Ok (), e (Suc j)) \<and> q (e (Suc j)) = q (e j) \<and> os (e (Suc j)) = os (e j)"
    "\<forall>t. answer_command E O1 (q (e k) ?C) \<lparr>lenv = e k, agent = a\<rparr> = (Ok (), t) \<longrightarrow> sleep_ms E 50 (e k) = (Ok (), lenv t)"
    unfolding listener_polls_def by blast
  have same: "i \<le> k \<Longrightarrow> q (e i) = q e3 \<and> os (e i) = os (env s)" for i
    using k(3) by (induction i) (simp_all add: k(2) os3)
  have qk: "q (e k) ?C = ?c" "q (e k) ?S = []" "os (e k) = os (env s)" using same [of k] q3 by simp_all
  have "pre (os (e k))" using assms(8) qk(3) by simp
  from answered [of E q os O1 ?c pre st g "e k" a, OF laws works asc qk(2) this]
  obtain f where a0: "answer_command E O1 ?c \<lparr>lenv = e k, agent = a\<rparr> = (Ok (), \<lparr>lenv = f, agent = a\<rparr>)"
    "q f ?S = [st (os (e k))]" "g (os (e k)) (os f)" by (elim exE conjE)
  note a = a0 [unfolded qk(3)]
  have "answer_command E O1 (q (e k) ?C) \<lparr>lenv = e k, agent = a\<rparr> = (Ok (), \<lparr>lenv = f, agent = a\<rparr>)"
    by (simp only: qk(1) a(1))
  with k(4) have sl: "sleep_ms E 50 (e k) = (Ok (), f)" by (metis listener.select_convs(1))
  have "k < default_attempts" using k(1) assms(4) by simp
  then obtain m where att: "default_attempts = k + Suc m" by (metis add_Suc_right less_iff_Suc_add)
  have idle: "\<forall>j<k. sleep_ms E 50 (e j) = (Ok (), e (Suc j)) \<and> q (e (Suc j)) = q (e j)" using k(3) by blast
  have e0: "q (e 0) ?S = []" using q3(2) k(2) by simp
  have "await_command E cfg (k + Suc m) [] (s\<lparr>env := e 0\<rparr>) = await_command E cfg (Suc m) [] (s\<lparr>env := e k\<rparr>)"
    using await_idle [where g = e and k = k and i = k and m = "Suc m" and s = s, OF laws assms(7) idle e0] by simp
  also have "\<dots> = (Ok [?st], s\<lparr>env := f\<rparr>)"
    using await_answer [where e = "e k" and f = f and st = ?st and m = m and s = s, OF laws assms(7) sl a(2)] .
  finally have wait: "await_command E cfg default_attempts [] (s\<lparr>env := e3\<rparr>) = (Ok [?st], s\<lparr>env := f\<rparr>)"
    unfolding att [symmetric] k(2) .
  from laws obtain n5 e5 where d5: "rd_delete E 1 ?S f = (Ok n5, e5)" "os e5 = os f"
    unfolding queue_laws_def by meson
  have dec: "decode_utf8 ?st = Ok ?st" using assms(6) by simp
  have "remote_cmd_operate E cfg cmd args s = (Ok ?st, s\<lparr>env := e5\<rparr>)"
    using d1(1) d2(1) p(1) d5(1) wait dec assms(7)
    by (cases "args = PNone") (simp_all add: remote_cmd_operate_def py_bind_app on_env_app py_lift_app del: decode_utf8_Ok)
  with d5(2) a(3) show ?thesis by simp
qed

lemma status_of_ok [simp]: "status_of b = ''ok'' \<longleftrightarrow> b"
  by (simp add: status_of_def)

lemma status_of_ascii: "ascii (status_of b)"
  by (simp add: status_of_def)

lemma remote_ok_answered:
  assumes "\<not> is_dut_mbr cfg" and "remote_cmd_operate E cfg cmd args s = (Ok (status_of b), t)"
  shows "remote_ok E cfg cmd args s = (Ok b, t)"
  using assms by (simp add: remote_ok_def py_bind_app py_return_app)

lemma remote_exists_answered:
  assumes laws: "queue_laws E q os" and names: "\<forall>e. h_ifaces O1 e = (Ok (os e), e)"
    and polls: "listener_polls E O1 q os n" and "n \<le> default_attempts"
    and "ascii iface" and "asic_db cfg = 1" and "\<not> is_dut_mbr cfg"
  shows "\<exists>t. remote_iface_exists E cfg iface s = (Ok (iface \<in> set (os (env s))), t)"
proof -
  have "works O1 q os [''iface_exists'', iface] (\<lambda>_. True) (\<lambda>h. status_of (iface \<in> set h)) (\<lambda>_ _. True)"
    using names by (simp add: works_def run_command_def iface_exists_def py_bind_app on_lenv_app py_return_app)
  with remote_answered [OF laws _ polls assms(4), of "''iface_exists''" "PStr iface" "\<lambda>_. True"
      "\<lambda>h. status_of (iface \<in> set h)" "\<lambda>_ _. True" cfg s] assms(5,6)
  obtain t where "remote_cmd_operate E cfg ''iface_exists'' (PStr iface) s = (Ok (status_of (iface \<in> set (os (env s)))), t)"
    by (auto simp: text_attrs_def status_of_ascii)
  from remote_ok_answered [OF assms(7) this] show ?thesis by (auto simp: remote_iface_exists_def)
qed

text \<open>
  The flags of the interfaces, as \<open>netdevice\<close> documents the two \<open>ioctl\<close> calls: the flags of a device that
  exists can be read, reading those of another is an error; for an interface that the process may
  configure, the flags of \<open>settable\<close> are set as they were written, and no other interface changes. Nothing
  is said about its other flags, nor about an interface that the process may not configure.
\<close>

definition flag_laws ::
  "'e host_os \<Rightarrow> ('e \<Rightarrow> string \<Rightarrow> string list) \<Rightarrow> ('e \<Rightarrow> string \<Rightarrow> int option) \<Rightarrow> string set \<Rightarrow> nat set \<Rightarrow> bool" where
  "flag_laws O1 q fl may settable \<longleftrightarrow>
     (\<forall>n e. h_get_flags O1 n e = (case fl e n of Some w \<Rightarrow> Ok w | None \<Rightarrow> Err OSError, e)) \<and>
     (\<forall>n v e w. n \<in> may \<longrightarrow> fl e n = Some w \<longrightarrow> (\<exists>f w'. h_set_flags O1 n v e = (Ok (), f) \<and> fl f = (fl e)(n \<mapsto> w') \<and>
        (\<forall>i \<in> settable. bit w' i = bit v i) \<and> q f = q e))"

definition switched :: "bool \<Rightarrow> int \<Rightarrow> int" where
  "switched up flags = (if up then or flags 1 else and flags (not 1))"

lemma up_bit: "and w 1 > 0 \<longleftrightarrow> bit w 0" for w :: int
  by (simp add: and_one_eq mod_2_eq_odd bit_0)

lemma switched_bit: "bit (switched up flags) i = (if i = 0 then up else bit flags i)"
  by (auto simp: switched_def bit_simps)

lemma remote_up_answered:
  assumes laws: "queue_laws E q fl" and flags: "flag_laws O1 q fl may settable"
    and polls: "listener_polls E O1 q fl n" and "n \<le> default_attempts"
    and "ascii iface" and "asic_db cfg = 1" and "\<not> is_dut_mbr cfg"
  shows "\<exists>t. remote_iface_is_up E cfg iface s = (Ok (case fl (env s) iface of Some w \<Rightarrow> bit w 0 | None \<Rightarrow> False), t)"
proof -
  let ?up = "\<lambda>h. case h iface of Some w \<Rightarrow> bit w 0 | None \<Rightarrow> False"
  have "works O1 q fl [''iface_is_up'', iface] (\<lambda>_. True) (\<lambda>h. status_of (?up h)) (\<lambda>_ _. True)"
    using flags by (auto simp: works_def flag_laws_def run_command_def iface_is_up_def py_bind_app py_catch_app on_lenv_app
        py_return_app up_bit split: option.splits)
  with remote_answered [OF laws _ polls assms(4), of "''iface_is_up''" "PStr iface" "\<lambda>_. True" "\<lambda>h. status_of (?up h)"
      "\<lambda>_ _. True" cfg s] assms(5,6)
  obtain t where "remote_cmd_operate E cfg ''iface_is_up'' (PStr iface) s = (Ok (status_of (?up (fl (env s)))), t)"
    by (auto simp: text_attrs_def status_of_ascii)
  from remote_ok_answered [OF assms(7) this] show ?thesis by (auto simp: remote_iface_is_up_def)
qed

text \<open>The arguments of \<open>set_iface_status\<close> go over the queue as their JSON text.\<close>

definition status_args :: "string \<Rightarrow> bool \<Rightarrow> pyval" where
  "status_args iface up = PDict [(''iface'', PStr iface), (''admin'', PStr (if up then ''up'' else ''down''))]"

lemma esc_char_ascii: "ascii (esc_char c)"
proof -
  have "(of_char c :: nat) < 256" by (rule of_char_less)
  then have "(of_char c :: nat) div 16 < 16" by (intro less_mult_imp_div_less) simp
  moreover have "(of_char c :: nat) mod 16 < 41" by (rule less_trans [OF mod_less_divisor]) simp_all
  ultimately show ?thesis by (simp add: esc_char_def Let_def of_char_digit_char)
qed

lemma dumps_str_ascii: "ascii (dumps_str s)"
proof -
  have "ascii (concat (map esc_char s))" by (induction s) (simp_all add: esc_char_ascii)
  then show ?thesis by (simp add: dumps_str_def)
qed

lemma status_args_text: "ascii (dumps (status_args iface up))" "loads (dumps (status_args iface up)) = Ok (status_args iface up)"
proof -
  show "ascii (dumps (status_args iface up))" by (simp add: status_args_def dumps_str_ascii item_sep_def key_sep_def)
  show "loads (dumps (status_args iface up)) = Ok (status_args iface up)"
    by (rule loads_dumps_with) (simp add: status_args_def)
qed

text \<open>The host after the flags have been set: only the settable flags of one interface are known to differ.\<close>

definition host_set :: "string \<Rightarrow> bool \<Rightarrow> nat set \<Rightarrow> (string \<Rightarrow> int option) \<Rightarrow> (string \<Rightarrow> int option) \<Rightarrow> bool" where
  "host_set iface up settable h h' \<longleftrightarrow> (\<exists>w w'. h iface = Some w \<and> h' = h(iface \<mapsto> w') \<and>
     (\<forall>i \<in> settable. bit w' i = (if i = 0 then up else bit w i)))"

lemma status_set_works:
  assumes "flag_laws O1 q fl may settable" and "iface \<in> may"
  shows "works O1 q fl [''set_iface_status'', dumps (status_args iface up)] (\<lambda>h. h iface \<noteq> None) (\<lambda>_. ''ok'')
    (host_set iface up settable)"
proof -
  have "\<exists>f. run_command O1 [''set_iface_status'', dumps (status_args iface up)] \<lparr>lenv = e, agent = a\<rparr> =
      (Ok ''ok'', \<lparr>lenv = f, agent = a\<rparr>) \<and> q f = q e \<and> host_set iface up settable (fl e) (fl f)"
    if w: "fl e iface = Some w" for e a w
  proof -
    from assms w obtain f w' where f: "h_set_flags O1 iface (switched up w) e = (Ok (), f)"
      "fl f = (fl e)(iface \<mapsto> w')" "\<forall>i \<in> settable. bit w' i = bit (switched up w) i" "q f = q e"
      unfolding flag_laws_def by meson
    have "h_get_flags O1 iface e = (Ok w, e)" using assms(1) w by (simp add: flag_laws_def)
    with f(1) have "set_iface_status O1 (status_args iface up) \<lparr>lenv = e, agent = a\<rparr> = (Ok True, \<lparr>lenv = f, agent = a\<rparr>)"
      by (cases up) (simp_all add: set_iface_status_def status_args_def py_item_def py_bind_app py_lift_app on_lenv_app
          py_return_app switched_def)
    then have "run_command O1 [''set_iface_status'', dumps (status_args iface up)] \<lparr>lenv = e, agent = a\<rparr> =
        (Ok ''ok'', \<lparr>lenv = f, agent = a\<rparr>)"
      by (simp add: run_command_def status_args_text py_bind_app py_lift_app py_return_app status_of_def)
    moreover have "host_set iface up settable (fl e) (fl f)"
      unfolding host_set_def using w f(2,3) by (auto simp: switched_bit)
    ultimately show ?thesis using f(4) by blast
  qed
  then show ?thesis by (auto simp: works_def)
qed

lemma remote_status_answered:
  assumes laws: "queue_laws E q fl" and flags: "flag_laws O1 q fl may settable" and "iface \<in> may"
    and polls: "listener_polls E O1 q fl n" and "n \<le> default_attempts" and "asic_db cfg = 1" and "\<not> is_dut_mbr cfg"
    and "fl (env s) iface \<noteq> None"
  shows "\<exists>t. remote_iface_status_set E cfg iface up s = (Ok True, t) \<and>
    host_set iface up settable (fl (env s)) (fl (env t))"
proof -
  have "status_args iface up \<noteq> PNone" "text_attrs (status_args iface up) = dumps (status_args iface up)"
    by (simp_all add: status_args_def text_attrs_def)
  with remote_answered [OF laws _ polls assms(5), of "''set_iface_status''" "status_args iface up" "\<lambda>h. h iface \<noteq> None"
      "\<lambda>_. ''ok''" "host_set iface up settable" cfg s] status_set_works [OF flags assms(3), of up] assms(6,8)
  obtain t where t: "remote_cmd_operate E cfg ''set_iface_status'' (status_args iface up) s = (Ok (status_of True), t)"
    "host_set iface up settable (fl (env s)) (fl (env t))"
    by (auto simp: status_args_text status_of_def)
  have "remote_iface_status_set E cfg iface up s = remote_ok E cfg ''set_iface_status'' (status_args iface up) s"
    by (simp only: remote_iface_status_set_def status_args_def)
  then have "remote_iface_status_set E cfg iface up s = (Ok True, t)" using remote_ok_answered [OF assms(7) t(1)] by (simp only:)
  with t(2) show ?thesis by blast
qed

text \<open>What the client sets is what it reads afterwards; the other settable flags and the other interfaces stay.\<close>

lemma remote_status_read:
  assumes laws: "queue_laws E q fl" and flags: "flag_laws O1 q fl may settable" and "0 \<in> settable" and "iface \<in> may"
    and polls: "listener_polls E O1 q fl n" and "n \<le> default_attempts"
    and "ascii iface" and "asic_db cfg = 1" and "\<not> is_dut_mbr cfg" and w: "fl (env s) iface = Some w"
  shows "\<exists>t u w'. remote_iface_status_set E cfg iface up s = (Ok True, t) \<and>
    remote_iface_is_up E cfg iface t = (Ok up, u) \<and>
    fl (env t) = (fl (env s))(iface \<mapsto> w') \<and> (\<forall>i \<in> settable. bit w' i = (if i = 0 then up else bit w i))"
proof -
  from remote_status_answered [OF laws flags assms(4) polls assms(6,8,9), of s up] w obtain t where
    t: "remote_iface_status_set E cfg iface up s = (Ok True, t)" "host_set iface up settable (fl (env s)) (fl (env t))" by auto
  from t(2) w obtain w' where w': "fl (env t) = (fl (env s))(iface \<mapsto> w')"
    "\<forall>i \<in> settable. bit w' i = (if i = 0 then up else bit w i)" by (auto simp: host_set_def)
  have "fl (env t) iface = Some w'" "bit w' 0 = up" using w' assms(3) by simp_all
  with remote_up_answered [OF laws flags polls assms(6-9), of t] obtain u where
    "remote_iface_is_up E cfg iface t = (Ok up, u)" by auto
  with t(1) w' show ?thesis by blast
qed

end
