(* ===== verification/Traffic.thy ===== *)
theory Traffic imports IpAddress RedisEnv Deadline "HOL-Library.Word" begin

text \<open>
  \<open>utils/traffic_utils.py\<close> and \<open>snappi/snappi_traffic_utils.py\<close> of the data plane: polling a capture
  and a condition, comparing packets, and the next address of a sequence. Packets are those of
  \<open>scapy\<close>, MAC addresses those of \<open>macaddress\<close>: parameters, like the clock. Times are in milliseconds.
\<close>

section \<open>Polling\<close>

record 'e clock =
  now_ms :: "('e, int) py"
  pause_ms :: "int \<Rightarrow> ('e, unit) py"

type_synonym bytes = "8 word list"

definition default_step :: int where "default_step = 200"
definition default_timeout :: int where "default_timeout = 2000"

definition or_default :: "int option \<Rightarrow> int \<Rightarrow> int" where
  "or_default v d = (case v of None \<Rightarrow> d | Some x \<Rightarrow> x)"

text \<open>A turn of the loop of \<open>pcap_bts_polling\<close>: the last capture is returned when the time is over.\<close>

definition polling_turn :: "'e clock \<Rightarrow> ('e, bytes) py \<Rightarrow> int \<Rightarrow> int \<Rightarrow> ('e, bytes option) py" where
  "polling_turn C func end_time step =
     py_bind func (\<lambda>b.
     if length b > 0 then py_return (Some b)
     else
       py_bind (pause_ms C step) (\<lambda>_.
       py_bind (now_ms C) (\<lambda>t. py_return (if t > end_time then Some b else None))))"

definition pcap_bts_polling ::
  "'e clock \<Rightarrow> nat \<Rightarrow> ('e, bytes) py \<Rightarrow> int option \<Rightarrow> int option \<Rightarrow> ('e, bytes) py" where
  "pcap_bts_polling C fuel func timeout step =
     py_bind (now_ms C) (\<lambda>t.
     turns fuel (polling_turn C func (t + or_default timeout default_timeout) (or_default step default_step)))"

text \<open>\<open>int(round(x))\<close> of milliseconds as seconds: to the nearest, halves to the even one.\<close>

definition round_seconds :: "int \<Rightarrow> int" where
  "round_seconds ms = (let q = ms div 1000; r = ms mod 1000 in
     if r < 500 then q else if r > 500 then q + 1 else if even q then q else q + 1)"

definition seconds_elapsed :: "'e clock \<Rightarrow> int \<Rightarrow> ('e, int) py" where
  "seconds_elapsed C start_seconds = py_bind (now_ms C) (\<lambda>t. py_return (round_seconds (t - 1000 * start_seconds)))"

definition timed_out :: "'e clock \<Rightarrow> int \<Rightarrow> int \<Rightarrow> ('e, bool) py" where
  "timed_out C start_seconds timeout = py_bind (seconds_elapsed C start_seconds) (\<lambda>n. py_return (n > timeout))"

text \<open>
  \<open>wait_for\<close>: the condition answers yes, no or \<open>None\<close>, which aborts. The timeout is in whole seconds, the
  interval in milliseconds.
\<close>

definition wait_turn :: "'e clock \<Rightarrow> ('e, bool option) py \<Rightarrow> int \<Rightarrow> int \<Rightarrow> int \<Rightarrow> ('e, unit option) py" where
  "wait_turn C func start_seconds timeout interval =
     py_bind func (\<lambda>res. case res of
       Some True \<Rightarrow> py_return (Some ())
     | None \<Rightarrow> py_raise PyException
     | Some False \<Rightarrow>
         py_bind (timed_out C start_seconds timeout) (\<lambda>b.
         if b then py_raise PyException
         else py_bind (pause_ms C interval) (\<lambda>_. py_return None)))"

definition wait_for ::
  "'e clock \<Rightarrow> nat \<Rightarrow> ('e, bool option) py \<Rightarrow> int option \<Rightarrow> int option \<Rightarrow> ('e, unit) py" where
  "wait_for C fuel func interval timeout =
     py_bind (now_ms C) (\<lambda>t.
     turns fuel (wait_turn C func (t div 1000) (or_default timeout 2) (or_default interval default_step)))"

section \<open>Comparing packets\<close>

text \<open>
  \<open>pk_bytes\<close>: \<open>bytes(p)\<close>; \<open>pk_len\<close>: \<open>len(p)\<close>; \<open>pk_has\<close>: \<open>haslayer\<close>; \<open>pk_ether\<close>: \<open>Ether(raw)\<close>; \<open>pk_layer\<close>: the name of
  the layer with a number, \<open>None\<close> after the last.
\<close>

record 'p scapy =
  pk_bytes :: "'p \<Rightarrow> bytes"
  pk_len :: "'p \<Rightarrow> nat"
  pk_has :: "'p \<Rightarrow> string \<Rightarrow> bool"
  pk_ether :: "bytes \<Rightarrow> 'p"
  pk_layer :: "'p \<Rightarrow> nat \<Rightarrow> string option"
  pk_field :: "'p \<Rightarrow> nat \<Rightarrow> string \<Rightarrow> pyval"
  pk_payload :: "'p \<Rightarrow> nat \<Rightarrow> bytes"

text \<open>The layers that only one of the two packets has, in the order they are looked at.\<close>

fun layer_mismatch :: "'p scapy \<Rightarrow> 'p \<Rightarrow> 'p \<Rightarrow> string list \<Rightarrow> string option" where
  "layer_mismatch S p1 p2 [] = None"
| "layer_mismatch S p1 p2 (l # ls) =
     (if \<not> pk_has S p1 l \<and> pk_has S p2 l then Some (''pkt1 missing '' @ l @ '' layer'')
      else if pk_has S p1 l \<and> \<not> pk_has S p2 l then Some (''pkt2 missing '' @ l @ '' layer'')
      else layer_mismatch S p1 p2 ls)"

text \<open>The loop over the bytes, from an index to the last but four; \<open>False\<close> at the first difference.\<close>

fun same_bytes :: "bytes \<Rightarrow> bytes \<Rightarrow> nat list \<Rightarrow> bool res" where
  "same_bytes b1 b2 [] = Ok True"
| "same_bytes b1 b2 (i # is) =
     rbind (nth_res b1 i) (\<lambda>x. rbind (nth_res b2 i) (\<lambda>y. if x \<noteq> y then Ok False else same_bytes b1 b2 is))"

definition compare_pkts2 :: "'p scapy \<Rightarrow> 'p \<Rightarrow> 'p \<Rightarrow> (bool \<times> string) res" where
  "compare_pkts2 S p1 p2 = (case layer_mismatch S p1 p2 [''Ether'', ''IP'', ''TCP''] of
     Some reason \<Rightarrow> Ok (False, reason)
   | None \<Rightarrow>
       if pk_len S p1 \<noteq> pk_len S p2 then
         Ok (False, ''unequal len: pkt1='' @ int_str (int (pk_len S p1)) @ '',pkt2='' @ int_str (int (pk_len S p2)))
       else
         rbind (same_bytes (pk_bytes S p1) (pk_bytes S p2) [0..<max (pk_len S p1) (pk_len S p2) - 4]) (\<lambda>b.
         Ok (if b then (True, []) else (False, ''Mismatched''))))"

text \<open>\<open>pkt_layers\<close>: the layers until the first that is missing; a packet has finitely many.\<close>

fun pkt_layers :: "'p scapy \<Rightarrow> nat \<Rightarrow> 'p \<Rightarrow> nat \<Rightarrow> string list" where
  "pkt_layers S 0 p n = []"
| "pkt_layers S (Suc fuel) p n = (case pk_layer S p n of None \<Rightarrow> [] | Some l \<Rightarrow> l # pkt_layers S fuel p (Suc n))"

definition pkt_layers_str :: "'p scapy \<Rightarrow> nat \<Rightarrow> 'p \<Rightarrow> string" where
  "pkt_layers_str S fuel p = str_join '':'' (pkt_layers S fuel p 0)"

section \<open>Addresses in sequence\<close>

definition get_next_ip :: "string option \<Rightarrow> string option \<Rightarrow> int \<Rightarrow> string res" where
  "get_next_ip ip0 step0 number =
     (let ip = (case ip0 of None \<Rightarrow> ''192.168.0.1'' | Some x \<Rightarrow> x);
          step = (case step0 of None \<Rightarrow> ''0.0.0.1'' | Some x \<Rightarrow> x) in
      if number = 0 then rbind (ipv4_int ip) (\<lambda>n. Ok (ipv4_text n))
      else rbind (ipv4_int ip) (\<lambda>n. rbind (ipv4_int step) (\<lambda>m. ipv4_of_int (n + number * m))))"

text \<open>
  \<open>mac_int\<close>: \<open>int(macaddress.MAC(s))\<close>, \<open>mac_text\<close>: \<open>str(macaddress.MAC(n))\<close>, which separates with dashes and
  refuses numbers out of range.
\<close>

record mac_lib =
  mac_int :: "string \<Rightarrow> int res"
  mac_text :: "int \<Rightarrow> string res"

definition get_next_mac :: "mac_lib \<Rightarrow> string option \<Rightarrow> string option \<Rightarrow> int \<Rightarrow> string res" where
  "get_next_mac M mac0 step0 number =
     (let mac = (case mac0 of None \<Rightarrow> ''00:00:00:AA:BB:01'' | Some x \<Rightarrow> x);
          step = (case step0 of None \<Rightarrow> ''00:00:00:00:00:01'' | Some x \<Rightarrow> x) in
      rbind (if number = 0 then rbind (mac_int M mac) (mac_text M)
             else rbind (mac_int M mac) (\<lambda>n. rbind (mac_int M step) (\<lambda>m. mac_text M (n + number * m)))) (\<lambda>t.
      Ok (str_replace ''-'' '':'' t)))"

section \<open>Facts\<close>

lemma same_bytes_range:
  assumes "\<forall>i \<in> set is. i < length b1 \<and> i < length b2"
  shows "same_bytes b1 b2 is = Ok (\<forall>i \<in> set is. b1 ! i = b2 ! i)"
  using assms by (induction "is") (auto simp: nth_res_def)

lemma layer_mismatch_None:
  "layer_mismatch S p1 p2 ls = None \<longleftrightarrow> (\<forall>l \<in> set ls. pk_has S p1 l = pk_has S p2 l)"
  by (induction ls) auto

text \<open>What the comparison accepts: the same layers and length, and the same bytes but for the last four.\<close>

lemma compare_accepts:
  assumes "\<forall>p. pk_len S p = length (pk_bytes S p)"
  shows "(\<exists>r. compare_pkts2 S p1 p2 = Ok (True, r)) \<longleftrightarrow>
    (\<forall>l \<in> {''Ether'', ''IP'', ''TCP''}. pk_has S p1 l = pk_has S p2 l) \<and>
    length (pk_bytes S p1) = length (pk_bytes S p2) \<and>
    take (length (pk_bytes S p1) - 4) (pk_bytes S p1) = take (length (pk_bytes S p2) - 4) (pk_bytes S p2)"
proof (cases "layer_mismatch S p1 p2 [''Ether'', ''IP'', ''TCP''] = None \<and> pk_len S p1 = pk_len S p2")
  case False
  then show ?thesis
    using assms layer_mismatch_None [of S p1 p2 "[''Ether'', ''IP'', ''TCP'']"]
    by (auto simp: compare_pkts2_def simp del: layer_mismatch.simps split: option.splits)
next
  case True
  let ?n = "length (pk_bytes S p1)"
  have n: "length (pk_bytes S p2) = ?n" using True assms by simp
  have "same_bytes (pk_bytes S p1) (pk_bytes S p2) [0..<max (pk_len S p1) (pk_len S p2) - 4] =
      Ok (\<forall>i < ?n - 4. pk_bytes S p1 ! i = pk_bytes S p2 ! i)"
    using n assms by (subst same_bytes_range) auto
  moreover have "(\<forall>i < ?n - 4. pk_bytes S p1 ! i = pk_bytes S p2 ! i) \<longleftrightarrow>
      take (?n - 4) (pk_bytes S p1) = take (?n - 4) (pk_bytes S p2)"
    using n by (auto simp: list_eq_iff_nth_eq)
  moreover have "\<forall>l \<in> {''Ether'', ''IP'', ''TCP''}. pk_has S p1 l = pk_has S p2 l"
    using True layer_mismatch_None [of S p1 p2 "[''Ether'', ''IP'', ''TCP'']"] by simp
  ultimately show ?thesis
    using True n by (auto simp: compare_pkts2_def simp del: layer_mismatch.simps)
qed

text \<open>The address so many steps further, while it is an IPv4 address.\<close>

lemma next_ip:
  assumes "0 \<le> a" and "a < 2 ^ 32" and "0 \<le> d" and "d < 2 ^ 32" and "0 \<le> a + n * d"
  shows "get_next_ip (Some (ipv4_text a)) (Some (ipv4_text d)) n =
    (if a + n * d < 2 ^ 32 then Ok (ipv4_text (a + n * d)) else Err ValueError)"
  using assms by (auto simp: get_next_ip_def ipv4_int_text ipv4_of_int_def Let_def)

text \<open>The clock goes on, and pausing takes its time.\<close>

definition clock_ok :: "'e clock \<Rightarrow> ('e \<Rightarrow> int) \<Rightarrow> bool" where
  "clock_ok C clk \<longleftrightarrow> (\<forall>e. now_ms C e = (Ok (clk e), e)) \<and> (\<forall>e ms f x. pause_ms C ms e = (Ok x, f) \<longrightarrow> clk e + ms \<le> clk f)"

lemma polling_ends:
  assumes "clock_ok C clk" and "\<And>e r f. func e = (r, f) \<Longrightarrow> clk e \<le> clk f"
    and "0 < or_default step default_step"
    and "or_default timeout default_timeout < int n * or_default step default_step" and "n < m"
  shows "pcap_bts_polling C m func timeout step e = pcap_bts_polling C (Suc n) func timeout step e"
proof -
  let ?t = "or_default timeout default_timeout" and ?s = "or_default step default_step"
  have "\<not> starved (Suc n) (polling_turn C func (clk e + ?t) ?s) e"
  proof (rule turns_enough [where I = "\<lambda>_. True" and clk = clk and d = ?s and deadline = "clk e + ?t"])
    fix a b
    assume "polling_turn C func (clk e + ?t) ?s a = (Ok None, b)"
    then obtain x f where 1: "func a = (Ok x, f)"
      and rest: "(if length x > 0 then py_return (Some x) else py_bind (pause_ms C ?s) (\<lambda>_.
       py_bind (now_ms C) (\<lambda>t. py_return (if t > clk e + ?t then Some x else None)))) f = (Ok None, b)"
      unfolding polling_turn_def py_bind_Ok_iff by blast
    then have "x = []" by (auto simp: py_return_app split: if_splits)
    with rest obtain g where 2: "pause_ms C ?s f = (Ok (), g)" and
      now: "py_bind (now_ms C) (\<lambda>t. py_return (if t > clk e + ?t then Some x else None)) g = (Ok None, b)"
      by (auto simp: py_bind_Ok_iff)
    have "now_ms C g = (Ok (clk g), g)" using assms(1) by (simp add: clock_ok_def)
    with now have 3: "clk g \<le> clk e + ?t" "b = g" by (auto simp: py_bind_app py_return_app split: if_splits)
    have "clk f + ?s \<le> clk g" using assms(1) 2 by (simp add: clock_ok_def)
    with assms(2) [OF 1] 3 assms(3) show "True \<and> clk a + ?s \<le> clk b \<and> clk a \<le> clk e + ?t" by simp
  qed (use assms(4) in simp_all)
  from turns_more [OF this, of m] assms(1,5) show ?thesis
    by (simp add: pcap_bts_polling_def py_bind_app clock_ok_def)
qed

end
