(* ===== verification/Snappi.thy ===== *)
theory Snappi imports SaiCore Traffic begin

text \<open>
  The Snappi data plane: \<open>snappi/sai_snappi_dataplane.py\<close>, which configures ports, flows and captures of a
  traffic generator, and \<open>SnappiDataPlaneUtilsWrapper\<close> of \<open>utils/ptf_testutils.py\<close>, which sends packets
  and verifies what was captured. The generator behind the \<open>snappi\<close> API and the \<open>dpkt\<close> reader are
  parameters.
\<close>

section \<open>Flows\<close>

text \<open>
  A header field has a value or an increment (count, start, step), a header its name and the fields
  that are set, a flow what the code sets of it.
\<close>

datatype pattern = Fixed pyval | Increment int pyval pyval

type_synonym header = "string \<times> (string, pattern) dict"

record flow =
  fl_name :: string
  fl_tx :: string
  fl_rx :: "string option"
  fl_size :: int
  fl_packets :: "int option"
  fl_seconds :: "int option"
  fl_pps :: "int option"
  fl_metrics :: bool
  fl_headers :: "header list"

definition set_increment ::
  "string \<Rightarrow> string \<Rightarrow> int \<Rightarrow> pyval \<Rightarrow> pyval \<Rightarrow> (string, pattern) dict \<Rightarrow> (string, pattern) dict" where
  "set_increment field choice count start step d =
     (if choice = ''increment'' then dict_set field (Increment count start step) d else d)"

text \<open>An Ethernet address is fixed when its count is one, otherwise it is only set by an increment.\<close>

definition eth_field ::
  "string \<Rightarrow> pyval \<Rightarrow> string \<Rightarrow> int \<Rightarrow> pyval \<Rightarrow> (string, pattern) dict \<Rightarrow> (string, pattern) dict" where
  "eth_field field v choice count step d =
     (if count = 1 then dict_set field (Fixed v) d else set_increment field choice count v step d)"

definition add_header :: "string \<Rightarrow> (string, pattern) dict \<Rightarrow> flow option \<Rightarrow> flow option" where
  "add_header name d fl = map_option (\<lambda>f. f\<lparr>fl_headers := fl_headers f @ [(name, d)]\<rparr>) fl"

definition add_ethernet_header ::
  "flow option \<Rightarrow> pyval \<Rightarrow> pyval \<Rightarrow> int \<Rightarrow> string \<Rightarrow> int \<Rightarrow> pyval \<Rightarrow> string \<Rightarrow> int \<Rightarrow> pyval \<Rightarrow> flow option" where
  "add_ethernet_header fl dst_mac src_mac eth_type dst_choice dst_count dst_step src_choice src_count src_step =
     add_header ''ethernet''
       (dict_set ''ether_type'' (Fixed (PInt eth_type))
         (eth_field ''src'' src_mac src_choice src_count src_step
           (eth_field ''dst'' dst_mac dst_choice dst_count dst_step []))) fl"

text \<open>Two fields with a value, each replaced by an increment when one is chosen.\<close>

definition two_fields ::
  "string \<Rightarrow> string \<Rightarrow> pyval \<Rightarrow> pyval \<Rightarrow> string \<Rightarrow> int \<Rightarrow> pyval \<Rightarrow> string \<Rightarrow> int \<Rightarrow> pyval \<Rightarrow> (string, pattern) dict" where
  "two_fields f g v w f_choice f_count f_step g_choice g_count g_step =
     set_increment g g_choice g_count w g_step
       (set_increment f f_choice f_count v f_step
         (dict_set g (Fixed w) (dict_set f (Fixed v) [])))"

definition add_ipv4_header ::
  "flow option \<Rightarrow> pyval \<Rightarrow> pyval \<Rightarrow> string \<Rightarrow> int \<Rightarrow> pyval \<Rightarrow> string \<Rightarrow> int \<Rightarrow> pyval \<Rightarrow> flow option" where
  "add_ipv4_header fl dst_ip src_ip dst_choice dst_count dst_step src_choice src_count src_step =
     add_header ''ipv4'' (two_fields ''dst'' ''src'' dst_ip src_ip dst_choice dst_count dst_step src_choice src_count src_step) fl"

definition add_udp_header ::
  "flow option \<Rightarrow> pyval \<Rightarrow> pyval \<Rightarrow> string \<Rightarrow> int \<Rightarrow> pyval \<Rightarrow> string \<Rightarrow> int \<Rightarrow> pyval \<Rightarrow> flow option" where
  "add_udp_header fl dst_port src_port dst_choice dst_count dst_step src_choice src_count src_step =
     add_header ''udp'' (two_fields ''dst_port'' ''src_port'' dst_port src_port dst_choice dst_count dst_step
       src_choice src_count src_step) fl"

definition add_vxlan_header :: "flow option \<Rightarrow> pyval \<Rightarrow> string \<Rightarrow> int \<Rightarrow> pyval \<Rightarrow> flow option" where
  "add_vxlan_header fl vni vni_choice vni_count vni_step =
     add_header ''vxlan'' (set_increment ''vni'' vni_choice vni_count vni vni_step [(''vni'', Fixed vni)]) fl"

section \<open>The data plane\<close>

text \<open>
  \<open>api_set_config\<close>, \<open>api_capture_state\<close>: the calls whose warnings are only printed. \<open>api_transmit_state\<close>: whether
  the result has warnings, which is how a good one is told. \<open>api_transmit_of\<close>: the \<open>transmit\<close> fields of the
  flow metrics. \<open>api_port_metrics\<close>: the port metrics, or \<open>None\<close>. \<open>api_pcap\<close>: the packets that \<open>dpkt.pcap.Reader\<close>
  gives, and the text of the error that stops it.
\<close>

record 'e snappi_api = "'e clock" +
  api_set_config :: "(string \<times> string) list \<Rightarrow> flow list \<Rightarrow> ('e, unit) py"
  api_capture_state :: "string \<Rightarrow> ('e, unit) py"
  api_get_capture :: "string \<Rightarrow> ('e, bytes) py"
  api_transmit_state :: "string \<Rightarrow> string list option \<Rightarrow> ('e, bool) py"
  api_transmit_of :: "string list \<Rightarrow> ('e, string list) py"
  api_port_metrics :: "('e, pyval list option) py"
  api_pcap :: "bytes \<Rightarrow> bytes list \<times> string option"
  api_alias :: "string \<Rightarrow> string res"

record 'e plane =
  pl_ports :: "(string \<times> string) list"
  pl_captures :: "string list list"
  pl_flows :: "flow list"
  pl_own :: "flow list"
  pl_counter :: int
  penv :: 'e

definition on_penv :: "('e, 'a) py \<Rightarrow> (('e, 'z) plane_scheme, 'a) py" where
  "on_penv m = (\<lambda>s. case m (penv s) of (r, e) \<Rightarrow> (r, s\<lparr>penv := e\<rparr>))"

lemma on_penv_app [py_simps]: "on_penv m s = (case m (penv s) of (r, e) \<Rightarrow> (r, s\<lparr>penv := e\<rparr>))"
  by (simp add: on_penv_def)

text \<open>The ports of \<open>init\<close>: a location is needed for \<open>ixnet\<close> and must not be local, otherwise it has a default.\<close>

definition port_location :: "string \<Rightarrow> nat \<Rightarrow> pyval \<Rightarrow> string res" where
  "port_location mode pid pt =
     (if mode = ''ixnet'' then
        rbind (rbind (py_item ''location'' pt) (as_str AttributeError)) (\<lambda>l.
        rbind (rassert (\<not> starts_with l ''localhost'')) (\<lambda>_. Ok l))
      else (case pt of
          PDict kvs \<Rightarrow> (case map_of kvs ''location'' of
              Some v \<Rightarrow> as_str (Unmodelled ''location'') v
            | None \<Rightarrow> Ok (''localhost:'' @ int_str (5555 + int pid)))
        | _ \<Rightarrow> Err AttributeError))"

fun port_locations :: "string \<Rightarrow> nat \<Rightarrow> pyval list \<Rightarrow> (string \<times> string) list res" where
  "port_locations mode pid [] = Ok []"
| "port_locations mode pid (p # ps) =
     rbind (port_location mode pid p) (\<lambda>l.
     rbind (rbind (py_item ''name'' p) (as_str (Unmodelled ''port name''))) (\<lambda>n.
     rbind (port_locations mode (Suc pid) ps) (\<lambda>r. Ok ((n, l) # r))))"

definition snappi_init :: "string \<Rightarrow> pyval list \<Rightarrow> (('e, 'z) plane_scheme, unit) py" where
  "snappi_init mode port_groups =
     py_bind (py_lift (port_locations mode 0 port_groups)) (\<lambda>ports.
     py_modify (\<lambda>s. s\<lparr>pl_ports := ports, pl_captures := [map fst ports], pl_flows := []\<rparr>))"

text \<open>\<open>get_capture_port_names\<close>: the names of all captures, each once, in the order they appear.\<close>

definition get_capture_port_names :: "string list list \<Rightarrow> string list" where
  "get_capture_port_names caps = fold (\<lambda>n ns. if n \<in> set ns then ns else ns @ [n]) (concat caps) []"

definition set_config :: "'e snappi_api \<Rightarrow> (('e, 'z) plane_scheme, unit) py" where
  "set_config A = py_bind (py_get (\<lambda>s. (pl_ports s, pl_flows s))) (\<lambda>(ports, flows). on_penv (api_set_config A ports flows))"

definition start_capture :: "'e snappi_api \<Rightarrow> (('e, 'z) plane_scheme, unit) py" where
  "start_capture A = on_penv (api_capture_state A ''start'')"

definition stop_capture :: "'e snappi_api \<Rightarrow> (('e, 'z) plane_scheme, unit) py" where
  "stop_capture A = on_penv (api_capture_state A ''stop'')"

definition snappi_setup :: "'e snappi_api \<Rightarrow> (('e, 'z) plane_scheme, unit) py" where
  "snappi_setup A = py_bind (set_config A) (\<lambda>_. start_capture A)"

definition snappi_teardown :: "'e snappi_api \<Rightarrow> (('e, 'z) plane_scheme, unit) py" where
  "snappi_teardown A = py_bind (stop_capture A) (\<lambda>_. py_modify (\<lambda>s. s\<lparr>pl_flows := [], pl_own := []\<rparr>))"

text \<open>The packets of a capture; an error of the reader goes through.\<close>

definition read_pcap :: "'e snappi_api \<Rightarrow> bytes \<Rightarrow> bytes list res" where
  "read_pcap A b = (case api_pcap A b of (ps, None) \<Rightarrow> Ok ps | (_, Some _) \<Rightarrow> Err PyException)"

definition get_all_captures :: "'e snappi_api \<Rightarrow> (('e, 'z) plane_scheme, (string \<times> bytes list) list) py" where
  "get_all_captures A =
     py_bind (py_get pl_captures) (\<lambda>caps.
     py_map (\<lambda>n. py_bind (on_penv (api_get_capture A n)) (\<lambda>b. py_bind (py_lift (read_pcap A b)) (\<lambda>ps. py_return (n, ps))))
       (get_capture_port_names caps))"

definition transmit :: "'e snappi_api \<Rightarrow> string \<Rightarrow> string list option \<Rightarrow> (('e, 'z) plane_scheme, unit) py" where
  "transmit A st flow_names = py_bind (on_penv (api_transmit_state A st flow_names)) py_assert"

definition start_traffic :: "'e snappi_api \<Rightarrow> string list option \<Rightarrow> (('e, 'z) plane_scheme, unit) py" where
  "start_traffic A flow_names = transmit A ''start'' flow_names"

definition stop_traffic :: "'e snappi_api \<Rightarrow> (('e, 'z) plane_scheme, unit) py" where
  "stop_traffic A = transmit A ''stop'' None"

definition pause_traffic :: "'e snappi_api \<Rightarrow> (('e, 'z) plane_scheme, unit) py" where
  "pause_traffic A = transmit A ''pause'' None"

definition is_traffic_stopped :: "'e snappi_api \<Rightarrow> string list \<Rightarrow> (('e, 'z) plane_scheme, bool) py" where
  "is_traffic_stopped A flow_names =
     py_bind (on_penv (api_transmit_of A flow_names)) (\<lambda>ts. py_return (list_all (\<lambda>t. t = ''stopped'') ts))"

definition get_all_stats :: "'e snappi_api \<Rightarrow> (('e, 'z) plane_scheme, pyval list) py" where
  "get_all_stats A = py_bind (on_penv (api_port_metrics A)) (\<lambda>r. py_return (case r of None \<Rightarrow> [] | Some ms \<Rightarrow> ms))"

text \<open>\<open>_, flow_stats = self.get_all_stats()\<close>: the list of the port metrics is unpacked as a pair; the second is iterated.\<close>

definition stats_ok :: "'e snappi_api \<Rightarrow> int \<Rightarrow> (('e, 'z) plane_scheme, bool) py" where
  "stats_ok A packets =
     py_bind (get_all_stats A) (\<lambda>ms. case ms of
       [_, flow_stats] \<Rightarrow> py_raise TypeError
     | _ \<Rightarrow> py_raise ValueError)"

definition add_flow ::
  "string \<Rightarrow> string \<Rightarrow> int \<Rightarrow> int \<Rightarrow> int \<Rightarrow> (('e, 'z) plane_scheme, flow) py" where
  "add_flow stamp name packet_count seconds_count pps =
     py_bind (py_get pl_ports) (\<lambda>ports.
     py_bind (py_lift (nth_res ports 0)) (\<lambda>p.
     (let fl = \<lparr>fl_name = (if name = [] then ''flow_'' @ stamp else name), fl_tx = fst p, fl_rx = Some (fst p), fl_size = 128,
          fl_packets = (if seconds_count > 0 then None else Some packet_count),
          fl_seconds = (if seconds_count > 0 then Some seconds_count else None),
          fl_pps = Some pps, fl_metrics = True, fl_headers = []\<rparr> in
      py_bind (py_modify (\<lambda>s. s\<lparr>pl_flows := pl_flows s @ [fl], pl_own := pl_own s @ [fl]\<rparr>)) (\<lambda>_.
      py_return fl))))"

section \<open>Sending\<close>

definition port_name_of :: "nat \<Rightarrow> (('e, 'z) plane_scheme, string) py" where
  "port_name_of port_id = py_bind (py_get pl_ports) (\<lambda>ports. py_lift (rbind (nth_res ports port_id) (\<lambda>p. Ok (fst p))))"

text \<open>\<open>packet_id\<close> stands for \<open>id(packet)\<close>.\<close>

definition create_default_flow_name :: "nat \<Rightarrow> int \<Rightarrow> (('e, 'z) plane_scheme, string) py" where
  "create_default_flow_name port_id packet_id =
     py_bind (py_modify (\<lambda>s. s\<lparr>pl_counter := pl_counter s + 1\<rparr>)) (\<lambda>_.
     py_bind (py_get pl_counter) (\<lambda>n.
     py_return (''flow_'' @ int_str (int port_id) @ ''_'' @ int_str packet_id @ ''_'' @ int_str n)))"

definition hex_byte :: "8 word \<Rightarrow> string" where
  "hex_byte b = (let n = unat b in nat_digits 16 (n div 16) @ nat_digits 16 (n mod 16))"

definition bytes_hex :: "bytes \<Rightarrow> string" where
  "bytes_hex bs = concat (map hex_byte bs)"

text \<open>A flow of a packet with its first header (or three headers) and the rest as raw bytes, and the new configuration.\<close>

definition push_flow ::
  "'e snappi_api \<Rightarrow> 'p scapy \<Rightarrow> 'p \<Rightarrow> int \<Rightarrow> nat \<Rightarrow> int \<Rightarrow> string option \<Rightarrow> header list \<Rightarrow> (('e, 'z) plane_scheme, unit) py" where
  "push_flow A S packet packet_id port_id packets_count flow_name headers =
     py_bind (port_name_of port_id) (\<lambda>tx.
     py_bind (case flow_name of
         Some (c # n) \<Rightarrow> py_return (c # n) | _ \<Rightarrow> create_default_flow_name port_id packet_id) (\<lambda>name.
     py_bind (py_modify (\<lambda>s. s\<lparr>pl_flows := pl_flows s @
       [\<lparr>fl_name = name, fl_tx = tx, fl_rx = None, fl_size = int (pk_len S packet), fl_packets = Some packets_count,
         fl_seconds = None, fl_pps = None, fl_metrics = False, fl_headers = headers\<rparr>]\<rparr>)) (\<lambda>_.
     set_config A)))"

definition add_raw_flow ::
  "'e snappi_api \<Rightarrow> 'p scapy \<Rightarrow> 'p \<Rightarrow> int \<Rightarrow> nat \<Rightarrow> int \<Rightarrow> string option \<Rightarrow> (('e, 'z) plane_scheme, unit) py" where
  "add_raw_flow A S packet packet_id port_id packets_count flow_name =
     push_flow A S packet packet_id port_id packets_count flow_name
       [(''ethernet'', [(''src'', Fixed (pk_field S packet 0 ''src'')), (''dst'', Fixed (pk_field S packet 0 ''dst'')),
           (''ether_type'', Fixed (pk_field S packet 0 ''type''))]),
        (''custom'', [(''bytes'', Fixed (PStr (bytes_hex (pk_payload S packet 0))))])]"

definition add_tcp_flow ::
  "'e snappi_api \<Rightarrow> 'p scapy \<Rightarrow> 'p \<Rightarrow> int \<Rightarrow> nat \<Rightarrow> int \<Rightarrow> string option \<Rightarrow> (('e, 'z) plane_scheme, unit) py" where
  "add_tcp_flow A S packet packet_id port_id packets_count flow_name =
     (case pk_field S packet 2 ''flags'' of
        PInt flags \<Rightarrow> push_flow A S packet packet_id port_id packets_count flow_name
          [(''ethernet'', [(''src'', Fixed (pk_field S packet 0 ''src'')), (''dst'', Fixed (pk_field S packet 0 ''dst''))]),
           (''ipv4'', [(''dst'', Fixed (pk_field S packet 1 ''dst'')), (''src'', Fixed (pk_field S packet 1 ''src'')),
              (''time_to_live'', Fixed (pk_field S packet 1 ''ttl'')), (''identification'', Fixed (pk_field S packet 1 ''id''))]),
           (''tcp'', [(''dst_port'', Fixed (pk_field S packet 2 ''dport'')), (''src_port'', Fixed (pk_field S packet 2 ''sport'')),
              (''window'', Fixed (pk_field S packet 2 ''window'')),
              (''ctl_syn'', Fixed (PInt (drop_bit 1 (and flags 2))))]),
           (''custom'', [(''bytes'', Fixed (PStr (bytes_hex (pk_payload S packet 2))))])]
      | _ \<Rightarrow> py_raise (Unmodelled ''TCP flags''))"

definition send_packet ::
  "'e snappi_api \<Rightarrow> 'p scapy \<Rightarrow> nat \<Rightarrow> 'p \<Rightarrow> int \<Rightarrow> int \<Rightarrow> (('e, 'z) plane_scheme, unit) py" where
  "send_packet A S port_id pkt packet_id count =
     py_bind (add_raw_flow A S pkt packet_id port_id count None) (\<lambda>_. start_traffic A None)"

section \<open>Verifying\<close>

definition get_pcap_bytes_by_polling ::
  "'e snappi_api \<Rightarrow> nat \<Rightarrow> string \<Rightarrow> int option \<Rightarrow> int option \<Rightarrow> (('e, 'z) plane_scheme, bytes) py" where
  "get_pcap_bytes_by_polling A fuel port_name timeout step =
     py_bind (on_penv (pcap_bts_polling \<lparr>now_ms = now_ms A, pause_ms = pause_ms A\<rparr> fuel (api_get_capture A port_name) timeout step)) (\<lambda>b.
     py_bind (start_capture A) (\<lambda>_. py_return b))"

text \<open>\<open>cap_pkt[:len(cap_pkt) - 4]\<close>: of a packet shorter than four bytes a negative index counts from the end.\<close>

definition cut_fcs :: "bytes \<Rightarrow> bytes" where
  "cut_fcs b = (let n = length b in if n < 4 then take (n - (4 - n)) b else take (n - 4) b)"

definition match_packet :: "'p scapy \<Rightarrow> 'p \<Rightarrow> bytes \<Rightarrow> bool res" where
  "match_packet S pkt b = rbind (compare_pkts2 S pkt (pk_ether S b)) (\<lambda>r. Ok (fst r))"

text \<open>Every captured packet must be the expected one.\<close>

fun check_all :: "'p scapy \<Rightarrow> 'p \<Rightarrow> bytes list \<Rightarrow> unit res" where
  "check_all S pkt [] = Ok ()"
| "check_all S pkt (b # bs) =
     rbind (rassert (pk_len S pkt = length (cut_fcs b))) (\<lambda>_.
     rbind (match_packet S pkt (cut_fcs b)) (\<lambda>m.
     rbind (rassert m) (\<lambda>_. check_all S pkt bs)))"

text \<open>None of those with the same length may be it.\<close>

fun check_none :: "'p scapy \<Rightarrow> 'p \<Rightarrow> bytes list \<Rightarrow> unit res" where
  "check_none S pkt [] = Ok ()"
| "check_none S pkt (b # bs) =
     (if pk_len S pkt \<noteq> length (cut_fcs b) then check_none S pkt bs
      else
        rbind (match_packet S pkt (cut_fcs b)) (\<lambda>m.
        rbind (rassert (\<not> m)) (\<lambda>_. check_none S pkt bs)))"

text \<open>What \<open>verify_packet\<close> makes of an error of the reader: that of an empty buffer is not one.\<close>

definition read_lenient :: "'e snappi_api \<Rightarrow> bytes \<Rightarrow> bytes list res" where
  "read_lenient A b = (case api_pcap A b of
     (ps, None) \<Rightarrow> Ok ps
   | (ps, Some msg) \<Rightarrow> if str_in ''got 0, 24 needed at least'' msg then Ok ps else Err PyException)"

definition verify_packet ::
  "'e snappi_api \<Rightarrow> 'p scapy \<Rightarrow> nat \<Rightarrow> 'p \<Rightarrow> nat \<Rightarrow> int option \<Rightarrow> int option \<Rightarrow> (('e, 'z) plane_scheme, bool) py" where
  "verify_packet A S fuel pkt port_id timeout step =
     py_bind (port_name_of port_id) (\<lambda>name.
     py_bind (get_pcap_bytes_by_polling A fuel name timeout step) (\<lambda>b.
     py_bind (py_lift (read_lenient A b)) (\<lambda>pkts.
     py_bind (py_lift (check_all S pkt pkts)) (\<lambda>_.
     py_bind (py_assert (pkts \<noteq> [])) (\<lambda>_.
     py_return True)))))"

definition verify_no_packet ::
  "'e snappi_api \<Rightarrow> 'p scapy \<Rightarrow> nat \<Rightarrow> 'p \<Rightarrow> nat \<Rightarrow> int option \<Rightarrow> int option \<Rightarrow> (('e, 'z) plane_scheme, bool) py" where
  "verify_no_packet A S fuel pkt port_id timeout step =
     py_bind (port_name_of port_id) (\<lambda>name.
     py_bind (get_pcap_bytes_by_polling A fuel name timeout step) (\<lambda>b.
     if length b = 0 then py_return True
     else
       py_bind (py_lift (read_pcap A b)) (\<lambda>pkts.
       py_bind (py_lift (check_none S pkt pkts)) (\<lambda>_.
       py_return True))))"

definition verify_no_any_packet ::
  "'e snappi_api \<Rightarrow> nat \<Rightarrow> nat \<Rightarrow> int option \<Rightarrow> int option \<Rightarrow> (('e, 'z) plane_scheme, bool) py" where
  "verify_no_any_packet A fuel port_id timeout step =
     py_bind (port_name_of port_id) (\<lambda>name.
     py_bind (get_pcap_bytes_by_polling A fuel name timeout step) (\<lambda>b.
     py_bind (py_assert (b = [])) (\<lambda>_.
     py_return True)))"

definition verify_no_other_packets ::
  "'e snappi_api \<Rightarrow> nat \<Rightarrow> int option \<Rightarrow> int option \<Rightarrow> (('e, 'z) plane_scheme, bool) py" where
  "verify_no_other_packets A fuel timeout step =
     py_bind (py_get pl_ports) (\<lambda>ports.
     py_bind (py_iter (\<lambda>i. py_bind (verify_no_any_packet A fuel i timeout step) (\<lambda>_. py_return ())) [0..<length ports]) (\<lambda>_.
     py_return True))"

text \<open>The attribute \<open>alias\<close> of every port is read first; \<open>api_alias\<close> says what the package makes of it.\<close>

definition verify_packets ::
  "'e snappi_api \<Rightarrow> 'p scapy \<Rightarrow> nat \<Rightarrow> 'p \<Rightarrow> int list \<Rightarrow> int option \<Rightarrow> int option \<Rightarrow> int option \<Rightarrow> (('e, 'z) plane_scheme, unit) py" where
  "verify_packets A S fuel packet ports_id timeout n_timeout step =
     py_bind (py_get pl_ports) (\<lambda>ports.
     py_bind (py_lift (rmap (api_alias A) (map fst ports))) (\<lambda>_.
     py_iter (\<lambda>i.
       if int i \<in> set ports_id then py_bind (verify_packet A S fuel packet i timeout step) (\<lambda>_. py_return ())
       else
         py_bind (verify_no_packet A S fuel packet i n_timeout step) (\<lambda>_.
         py_bind (verify_no_any_packet A fuel i n_timeout step) (\<lambda>_. py_return ()))) [0..<length ports]))"

text \<open>Captured packets against expected ones, position by position, without waiting and without cutting.\<close>

fun check_each :: "'p scapy \<Rightarrow> 'p list \<Rightarrow> bytes list \<Rightarrow> unit res" where
  "check_each S (p # ps) (b # bs) =
     rbind (match_packet S p b) (\<lambda>m. rbind (rassert m) (\<lambda>_. check_each S ps bs))"
| "check_each S _ _ = Ok ()"

definition verify_captures_on_port ::
  "'e snappi_api \<Rightarrow> 'p scapy \<Rightarrow> 'p list \<Rightarrow> nat \<Rightarrow> (('e, 'z) plane_scheme, bool) py" where
  "verify_captures_on_port A S exp_pkts port_id =
     py_bind (port_name_of port_id) (\<lambda>name.
     py_bind (on_penv (api_get_capture A name)) (\<lambda>b.
     py_bind (start_capture A) (\<lambda>_.
     py_bind (py_lift (read_pcap A b)) (\<lambda>pkts.
     py_bind (py_assert (length exp_pkts = length pkts)) (\<lambda>_.
     py_bind (py_lift (check_each S exp_pkts pkts)) (\<lambda>_.
     py_return True))))))"

text \<open>
  \<open>verify_any_packet_any_port\<close>. The loop over the ports runs over their dictionaries, not their numbers:
  one that is among \<open>ports\<close> is then used as an index, which is a \<open>TypeError\<close>, the others are skipped.
\<close>

definition port_dict :: "string \<times> string \<Rightarrow> pyval" where
  "port_dict p = PDict [(''location'', PStr (snd p)), (''name'', PStr (fst p))]"

fun collect_ports :: "pyval list \<Rightarrow> pyval list \<Rightarrow> (string \<times> bytes) list res" where
  "collect_ports ports [] = Ok []"
| "collect_ports ports (d # ds) = (if list_ex (py_eq d) ports then Err TypeError else collect_ports ports ds)"

fun any_match :: "'p scapy \<Rightarrow> 'p list \<Rightarrow> bytes \<Rightarrow> bool res" where
  "any_match S [] b = Ok False"
| "any_match S (p # ps) b =
     rbind (if pk_len S p \<noteq> length b then Ok False else match_packet S p b) (\<lambda>m.
     rbind (any_match S ps b) (\<lambda>r. Ok (m \<or> r)))"

fun found_in :: "'e snappi_api \<Rightarrow> 'p scapy \<Rightarrow> 'p list \<Rightarrow> (string \<times> bytes) list \<Rightarrow> bool res" where
  "found_in A S pkts [] = Ok False"
| "found_in A S pkts ((_, b) # caps) =
     rbind (read_pcap A b) (\<lambda>bs.
     rbind (rmap (\<lambda>c. any_match S pkts (cut_fcs c)) bs) (\<lambda>ms.
     rbind (found_in A S pkts caps) (\<lambda>r. Ok (list_ex id ms \<or> r))))"

definition verify_any_packet_any_port ::
  "'e snappi_api \<Rightarrow> 'p scapy \<Rightarrow> nat \<Rightarrow> 'p list \<Rightarrow> pyval list \<Rightarrow> int option \<Rightarrow> (('e, 'z) plane_scheme, unit) py" where
  "verify_any_packet_any_port A S fuel pkts ports n_timeout =
     py_bind (py_get (\<lambda>s. map port_dict (pl_ports s))) (\<lambda>all_ports.
     py_bind (py_lift (collect_ports ports all_ports)) (\<lambda>cap_dict.
     py_bind (py_lift (found_in A S pkts cap_dict)) (\<lambda>found_packet.
     py_bind (py_assert found_packet) (\<lambda>_.
     py_bind (verify_no_other_packets A fuel
       (Some (case n_timeout of None \<Rightarrow> 2000 | Some t \<Rightarrow> if t = 0 then 2000 else t)) None) (\<lambda>_.
     py_return ())))))"

text \<open>
  \<open>SnappiDataPlaneUtilsWrapper(dataplane)\<close>: \<open>__new__\<close> finds the instance of the data plane, and \<open>__init__\<close>
  runs on it again, whether it is new or not.
\<close>

definition wrapper :: "(('e, 'z) plane_scheme, unit) py" where
  "wrapper = py_modify (\<lambda>s. s\<lparr>pl_counter := 0\<rparr>)"

text \<open>\<open>dataplane_redirect\<close>: which implementation a helper calls, by the driver of the test.\<close>

definition dataplane_redirect ::
  "string \<Rightarrow> (('e, 'z) plane_scheme, 'a) py \<Rightarrow> (('e, 'z) plane_scheme, 'a) py \<Rightarrow> (('e, 'z) plane_scheme, 'a) py" where
  "dataplane_redirect driver ptf method =
     (if driver \<noteq> ''snappi'' then ptf else py_bind wrapper (\<lambda>_. method))"

section \<open>Facts\<close>

lemma fold_fresh:
  "distinct acc \<Longrightarrow> distinct (fold (\<lambda>n ns. if n \<in> set ns then ns else ns @ [n]) xs acc) \<and>
   set (fold (\<lambda>n ns. if n \<in> set ns then ns else ns @ [n]) xs acc) = set acc \<union> set xs"
proof (induction xs arbitrary: acc)
  case (Cons x xs)
  show ?case
  proof (cases "x \<in> set acc")
    case True
    then have "fold (\<lambda>n ns. if n \<in> set ns then ns else ns @ [n]) (x # xs) acc =
        fold (\<lambda>n ns. if n \<in> set ns then ns else ns @ [n]) xs acc" by simp
    with Cons.IH [OF Cons.prems] True show ?thesis by (metis Un_insert_right insert_absorb list.simps(15) UnI1)
  next
    case False
    with Cons.prems have "distinct (acc @ [x])" by simp
    from Cons.IH [OF this] False show ?thesis by simp
  qed
qed simp

lemma capture_port_names: "distinct (get_capture_port_names caps) \<and> set (get_capture_port_names caps) = \<Union> (set ` set caps)"
  using fold_fresh [of "[]" "concat caps"] by (simp add: get_capture_port_names_def)

lemma collect_nothing: "collect_ports ports ds = Ok cap_dict \<Longrightarrow> cap_dict = []"
  by (induction ports ds rule: collect_ports.induct) (auto split: if_splits)

text \<open>Whatever was captured, \<open>verify_any_packet_any_port\<close> fails.\<close>

lemma any_port_fails: "verify_any_packet_any_port A S fuel pkts ports n_timeout s \<noteq> (Ok x, t)"
proof
  assume "verify_any_packet_any_port A S fuel pkts ports n_timeout s = (Ok x, t)"
  then obtain cap_dict where "collect_ports ports (map port_dict (pl_ports s)) = Ok cap_dict"
    "found_in A S pkts cap_dict = Ok True"
    unfolding verify_any_packet_any_port_def by (auto simp: py_bind_Ok_iff py_get_app py_lift_app)
  then show False using collect_nothing by fastforce
qed

text \<open>Which packets match: same layers, same length, same bytes but for the last four.\<close>

definition matches :: "'p scapy \<Rightarrow> 'p \<Rightarrow> bytes \<Rightarrow> bool" where
  "matches S pkt b \<longleftrightarrow> (\<forall>l \<in> {''Ether'', ''IP'', ''TCP''}. pk_has S pkt l = pk_has S (pk_ether S b) l) \<and>
     length (pk_bytes S pkt) = length b \<and> take (length b - 4) (pk_bytes S pkt) = take (length b - 4) b"

definition scapy_ok :: "'p scapy \<Rightarrow> bool" where
  "scapy_ok S \<longleftrightarrow> (\<forall>p. pk_len S p = length (pk_bytes S p)) \<and> (\<forall>b. pk_bytes S (pk_ether S b) = b)"

lemma compare_total: "scapy_ok S \<Longrightarrow> \<exists>r. compare_pkts2 S p1 p2 = Ok r"
proof -
  assume ok: "scapy_ok S"
  have "\<exists>b. same_bytes (pk_bytes S p1) (pk_bytes S p2) [0..<max (pk_len S p1) (pk_len S p2) - 4] = Ok b"
    if "pk_len S p1 = pk_len S p2"
    using ok that by (subst same_bytes_range) (auto simp: scapy_ok_def)
  then obtain b where b: "pk_len S p1 = pk_len S p2 \<Longrightarrow>
      same_bytes (pk_bytes S p1) (pk_bytes S p2) [0..<max (pk_len S p1) (pk_len S p2) - 4] = Ok b" by blast
  show ?thesis
  proof (cases "layer_mismatch S p1 p2 [''Ether'', ''IP'', ''TCP'']")
    case None
    show ?thesis
    proof (cases "pk_len S p1 = pk_len S p2")
      case True
      have "same_bytes (pk_bytes S p1) (pk_bytes S p2) [0..<max (pk_len S p1) (pk_len S p2) - 4] = Ok b"
        using b [OF True] .
      then show ?thesis by (simp add: compare_pkts2_def None True del: layer_mismatch.simps rbind_eq_Ok)
    next
      case False
      show ?thesis by (rule exI) (simp add: compare_pkts2_def None False del: layer_mismatch.simps)
    qed
  next
    case (Some r)
    show ?thesis by (rule exI) (simp add: compare_pkts2_def Some del: layer_mismatch.simps)
  qed
qed

lemma match_packet_iff: "scapy_ok S \<Longrightarrow> match_packet S pkt b = Ok (matches S pkt b)"
proof -
  assume ok: "scapy_ok S"
  then obtain m r where c: "compare_pkts2 S pkt (pk_ether S b) = Ok (m, r)"
    using compare_total by (metis surj_pair)
  have "m \<longleftrightarrow> (\<exists>r. compare_pkts2 S pkt (pk_ether S b) = Ok (True, r))" using c by auto
  also have "\<dots> \<longleftrightarrow> matches S pkt b"
    using ok compare_accepts [of S pkt "pk_ether S b"] by (auto simp: scapy_ok_def matches_def)
  finally show ?thesis using c by (simp add: match_packet_def)
qed

lemma check_all_iff:
  "scapy_ok S \<Longrightarrow> check_all S pkt bs = Ok () \<longleftrightarrow> (\<forall>b \<in> set bs. matches S pkt (cut_fcs b))"
  by (induction bs) (auto simp: match_packet_iff matches_def scapy_ok_def)

lemma check_none_iff:
  "scapy_ok S \<Longrightarrow> check_none S pkt bs = Ok () \<longleftrightarrow> (\<forall>b \<in> set bs. \<not> matches S pkt (cut_fcs b))"
  by (induction bs) (auto simp: match_packet_iff matches_def scapy_ok_def)

text \<open>\<open>verify_packet\<close> passes exactly when something was captured and all of it matches.\<close>

lemma verify_packet_iff:
  assumes "scapy_ok S" and "port_id < length (pl_ports s)"
    and "get_pcap_bytes_by_polling A fuel (fst (pl_ports s ! port_id)) timeout step s = (Ok b, t)"
    and "api_pcap A b = (caps, None)"
  shows "verify_packet A S fuel pkt port_id timeout step s = (Ok True, t) \<longleftrightarrow>
    caps \<noteq> [] \<and> (\<forall>c \<in> set caps. matches S pkt (cut_fcs c))"
  using assms check_all_iff [OF assms(1), of pkt caps]
  by (auto simp: verify_packet_def port_name_of_def py_bind_app py_get_app py_lift_app nth_res_def read_lenient_def
      py_assert_app py_return_app split: res.splits)

lemma verify_no_packet_iff:
  assumes "scapy_ok S" and "port_id < length (pl_ports s)"
    and "get_pcap_bytes_by_polling A fuel (fst (pl_ports s ! port_id)) timeout step s = (Ok b, t)"
    and "api_pcap A b = (caps, None)" and "b \<noteq> []"
  shows "verify_no_packet A S fuel pkt port_id timeout step s = (Ok True, t) \<longleftrightarrow>
    (\<forall>c \<in> set caps. \<not> matches S pkt (cut_fcs c))"
  using assms check_none_iff [OF assms(1), of pkt caps]
  by (auto simp: verify_no_packet_def port_name_of_def py_bind_app py_get_app py_lift_app nth_res_def read_pcap_def
      py_assert_app py_return_app split: res.splits)

text \<open>A captured frame whose last four bytes before the checksum differ still matches.\<close>

lemma tail_unchecked:
  assumes "scapy_ok S" and "length fcs = 4" and "length tail = 4" and "length tail' = 4"
    and "pk_bytes S pkt = body @ tail"
    and "\<forall>l \<in> {''Ether'', ''IP'', ''TCP''}. pk_has S pkt l = pk_has S (pk_ether S (body @ tail')) l"
  shows "matches S pkt (cut_fcs (body @ tail' @ fcs))"
proof -
  have "cut_fcs (body @ tail' @ fcs) = body @ tail'" using assms(2,4) by (simp add: cut_fcs_def Let_def)
  with assms(3-6) show ?thesis by (simp add: matches_def)
qed


text \<open>What a packet puts in the configuration.\<close>

lemma set_config_Ok: "set_config A s = (Ok (), t) \<Longrightarrow> \<exists>e. t = s\<lparr>penv := e\<rparr>"
  by (auto simp: set_config_def py_bind_Ok_iff py_get_app on_penv_app split: prod.splits)

lemma port_name_of_Ok:
  "port_name_of i s = (Ok x, t) \<longleftrightarrow> i < length (pl_ports s) \<and> x = fst (pl_ports s ! i) \<and> t = s"
  by (cases "pl_ports s ! i")
    (auto simp: port_name_of_def py_bind_app py_get_app py_lift_app nth_res_def split: if_splits)

definition flow_name_of :: "nat \<Rightarrow> int \<Rightarrow> int \<Rightarrow> string" where
  "flow_name_of port_id packet_id n =
     ''flow_'' @ int_str (int port_id) @ ''_'' @ int_str packet_id @ ''_'' @ int_str n"

lemma create_default_flow_name_app:
  "create_default_flow_name i p s =
    (Ok (flow_name_of i p (pl_counter s + 1)), s\<lparr>pl_counter := pl_counter s + 1\<rparr>)"
  by (simp add: create_default_flow_name_def flow_name_of_def py_bind_app py_get_app py_modify_app py_return_app)

lemma push_flow_Ok:
  assumes "push_flow A S packet packet_id port_id n name hs s = (Ok (), t)"
  shows "\<exists>fl. pl_flows t = pl_flows s @ [fl] \<and> pl_ports t = pl_ports s \<and>
    port_id < length (pl_ports s) \<and> fl_tx fl = fst (pl_ports s ! port_id) \<and> fl_rx fl = None \<and> fl_headers fl = hs \<and>
    (name = None \<longrightarrow> pl_counter t = pl_counter s + 1 \<and> fl_name fl = flow_name_of port_id packet_id (pl_counter s + 1))"
proof -
  let ?new = "\<lambda>tx nm. \<lparr>fl_name = nm, fl_tx = tx, fl_rx = None, fl_size = int (pk_len S packet),
     fl_packets = Some n, fl_seconds = None, fl_pps = None, fl_metrics = False, fl_headers = hs\<rparr>"
  from assms obtain tx s1 nm s2 u s3 where
    tx: "port_name_of port_id s = (Ok tx, s1)" and
    nm: "(case name of Some (c # n) \<Rightarrow> py_return (c # n) | _ \<Rightarrow> create_default_flow_name port_id packet_id) s1 = (Ok nm, s2)" and
    add: "py_modify (\<lambda>s. s\<lparr>pl_flows := pl_flows s @ [?new tx nm]\<rparr>) s2 = (Ok u, s3)" and
    cfg: "set_config A s3 = (Ok (), t)"
    unfolding push_flow_def py_bind_Ok_iff by blast
  from tx have 1: "s1 = s" "port_id < length (pl_ports s)" "tx = fst (pl_ports s ! port_id)"
    by (simp_all add: port_name_of_Ok)
  from nm have 2: "s2 = s\<lparr>pl_counter := pl_counter s2\<rparr>"
    "name = None \<longrightarrow> pl_counter s2 = pl_counter s + 1 \<and> nm = flow_name_of port_id packet_id (pl_counter s + 1)"
    by (auto simp: 1(1) create_default_flow_name_app py_return_app split: option.splits list.splits)
  have "pl_flows s2 = pl_flows s" "pl_ports s2 = pl_ports s" by (subst 2(1); simp)+
  with add set_config_Ok [OF cfg] have "pl_flows t = pl_flows s @ [?new tx nm]" "pl_ports t = pl_ports s"
    "pl_counter t = pl_counter s2" by (auto simp: py_modify_app)
  with 1 2(2) show ?thesis by (intro exI [of _ "?new tx nm"]) simp
qed

lemma start_traffic_keeps:
  "start_traffic A ns s = (Ok (), t) \<Longrightarrow> pl_flows t = pl_flows s \<and> pl_ports t = pl_ports s \<and> pl_counter t = pl_counter s"
  by (auto simp: start_traffic_def transmit_def py_bind_Ok_iff on_penv_app py_assert_app split: prod.splits if_splits)

lemma send_packet_Ok:
  assumes "send_packet A S port_id pkt packet_id n s = (Ok (), t)"
  shows "\<exists>fl. pl_flows t = pl_flows s @ [fl] \<and> pl_ports t = pl_ports s \<and> pl_counter t = pl_counter s + 1 \<and>
    port_id < length (pl_ports s) \<and> fl_tx fl = fst (pl_ports s ! port_id) \<and>
    fl_name fl = flow_name_of port_id packet_id (pl_counter s + 1)"
proof -
  from assms obtain u where u: "add_raw_flow A S pkt packet_id port_id n None s = (Ok (), u)"
    "start_traffic A None u = (Ok (), t)" by (auto simp: send_packet_def py_bind_Ok_iff)
  from push_flow_Ok [OF u(1) [unfolded add_raw_flow_def]] start_traffic_keeps [OF u(2)] show ?thesis by auto
qed

end
