(* ===== verification/PlaneRuns.thy ===== *)
theory PlaneRuns imports Snappi begin

text \<open>
  The life of a Snappi data plane as a state machine: whatever operations are called, in whatever
  order and whether they return or raise, its configuration refers to its own ports only.
\<close>

section \<open>The invariant\<close>

text \<open>The flows and the captures name ports of the configuration.\<close>

definition flow_on :: "string set \<Rightarrow> flow \<Rightarrow> bool" where
  "flow_on ps fl \<longleftrightarrow> fl_tx fl \<in> ps \<and> (\<forall>r. fl_rx fl = Some r \<longrightarrow> r \<in> ps)"

definition plane_ok :: "('e, 'z) plane_scheme \<Rightarrow> bool" where
  "plane_ok s \<longleftrightarrow> (\<forall>fl \<in> set (pl_flows s). flow_on (fst ` set (pl_ports s)) fl) \<and>
     (\<forall>c \<in> set (pl_captures s). set c \<subseteq> fst ` set (pl_ports s))"

lemma plane_ok_other [simp]:
  "plane_ok (s\<lparr>penv := e\<rparr>) = plane_ok s" "plane_ok (s\<lparr>pl_counter := n\<rparr>) = plane_ok s"
  "plane_ok (s\<lparr>pl_own := fs\<rparr>) = plane_ok s"
  by (simp_all add: plane_ok_def)

lemma plane_ok_flow:
  "plane_ok s \<Longrightarrow> flow_on (fst ` set (pl_ports s)) fl \<Longrightarrow> plane_ok (s\<lparr>pl_flows := pl_flows s @ [fl]\<rparr>)"
  by (auto simp: plane_ok_def)

lemma inv_on_penv [inv_intros]: "py_inv plane_ok (on_penv m)"
  by (auto intro!: py_invI simp: on_penv_app split: prod.splits)

lemma inv_counter: "py_inv plane_ok (py_modify (\<lambda>s. s\<lparr>pl_counter := f s\<rparr>))"
  by (rule py_inv_modify) simp

section \<open>Every operation keeps it\<close>

lemma inv_snappi_init: "py_inv plane_ok (snappi_init mode port_groups)"
  unfolding snappi_init_def
  by (intro py_inv_bind py_inv_lift py_inv_modify) (simp add: plane_ok_def)

lemma inv_set_config: "py_inv plane_ok (set_config A)"
  unfolding set_config_def by (intro inv_intros) (auto intro: inv_intros split: prod.splits)

lemmas config_defs = start_capture_def stop_capture_def snappi_setup_def transmit_def start_traffic_def
  stop_traffic_def pause_traffic_def is_traffic_stopped_def get_all_stats_def get_all_captures_def

lemma inv_config:
  "py_inv plane_ok (start_capture A)" "py_inv plane_ok (stop_capture A)" "py_inv plane_ok (snappi_setup A)"
  "py_inv plane_ok (transmit A st ns)" "py_inv plane_ok (get_all_captures A)" "py_inv plane_ok (get_all_stats A)"
  "py_inv plane_ok (is_traffic_stopped A ms)"
  unfolding config_defs by (intro inv_intros inv_set_config)+

lemma inv_teardown: "py_inv plane_ok (snappi_teardown A)"
  unfolding snappi_teardown_def
  by (intro py_inv_bind py_inv_modify inv_config) (simp add: plane_ok_def)

lemma inv_add_flow: "py_inv plane_ok (add_flow stamp name pc sc pps)"
proof (rule py_invI)
  fix s r t
  assume s: "plane_ok s" and run: "add_flow stamp name pc sc pps s = (r, t)"
  show "plane_ok t"
  proof (cases "pl_ports s")
    case Nil
    with s run show ?thesis by (auto simp: add_flow_def py_bind_app py_get_app py_lift_app py_raise_app nth_res_def)
  next
    case (Cons p ps)
    with s run show ?thesis
      by (auto simp: add_flow_def py_bind_app py_get_app py_lift_app py_modify_app py_return_app nth_res_def
          Let_def intro!: plane_ok_flow simp: flow_on_def)
  qed
qed

lemma inv_push_flow: "py_inv plane_ok (push_flow A S packet pid port_id n name hs)"
proof (rule py_invI)
  fix s r t
  assume s: "plane_ok s" and run: "push_flow A S packet pid port_id n name hs s = (r, t)"
  show "plane_ok t"
  proof (cases "port_id < length (pl_ports s)")
    case False
    with s run show ?thesis
      by (auto simp: push_flow_def port_name_of_def py_bind_app py_get_app py_lift_app py_raise_app nth_res_def)
  next
    case True
    let ?tx = "fst (pl_ports s ! port_id)"
    let ?new = "\<lambda>nm. \<lparr>fl_name = nm, fl_tx = ?tx, fl_rx = None, fl_size = int (pk_len S packet),
       fl_packets = Some n, fl_seconds = None, fl_pps = None, fl_metrics = False, fl_headers = hs\<rparr>"
    have tx: "port_name_of port_id s = (Ok ?tx, s)" using True by (simp add: port_name_of_Ok)
    obtain nm c where nm: "(case name of Some (c # n) \<Rightarrow> py_return (c # n)
        | _ \<Rightarrow> create_default_flow_name port_id pid) s = (Ok nm, s\<lparr>pl_counter := c\<rparr>)"
      by (cases name rule: option.exhaust; cases "the name")
        (auto simp: create_default_flow_name_app py_return_app intro: that [of _ "pl_counter s"])
    let ?u = "s\<lparr>pl_counter := c, pl_flows := pl_flows s @ [?new nm]\<rparr>"
    have "set_config A ?u = (r, t)"
      using run tx nm by (simp add: push_flow_def py_bind_app py_modify_app)
    moreover have "plane_ok ?u"
      using plane_ok_flow [of "s\<lparr>pl_counter := c\<rparr>" "?new nm"] s True by (auto simp: flow_on_def)
    ultimately show ?thesis using inv_set_config by (blast intro: py_invD)
  qed
qed

lemma inv_sends:
  "py_inv plane_ok (add_raw_flow A S packet pid port_id n name)"
  "py_inv plane_ok (add_tcp_flow A S packet pid port_id n name)"
  "py_inv plane_ok (send_packet A S port_id packet pid n)"
  unfolding send_packet_def add_raw_flow_def add_tcp_flow_def start_traffic_def
  by (auto intro!: py_inv_bind inv_push_flow inv_config split: pyval.splits)

lemma inv_polling: "py_inv plane_ok (get_pcap_bytes_by_polling A fuel name timeout step)"
  unfolding get_pcap_bytes_by_polling_def by (intro inv_intros inv_config)

lemma inv_port_name_of: "py_inv plane_ok (port_name_of i)"
  unfolding port_name_of_def by (intro inv_intros)

lemmas verify_defs = verify_packet_def verify_no_packet_def verify_no_any_packet_def verify_no_other_packets_def
  verify_packets_def verify_captures_on_port_def

lemma inv_verify:
  "py_inv plane_ok (verify_packet A S fuel packet port_id timeout step)"
  "py_inv plane_ok (verify_no_packet A S fuel packet port_id timeout step)"
  "py_inv plane_ok (verify_no_any_packet A fuel port_id timeout step)"
  "py_inv plane_ok (verify_no_other_packets A fuel timeout step)"
  "py_inv plane_ok (verify_packets A S fuel packet ids timeout n_timeout step)"
  "py_inv plane_ok (verify_captures_on_port A S packets port_id)"
  unfolding verify_defs by (intro inv_intros inv_polling inv_port_name_of inv_config)+

lemma inv_any_port: "py_inv plane_ok (verify_any_packet_any_port A S fuel packets ports n_timeout)"
  unfolding verify_any_packet_any_port_def by (intro inv_intros inv_verify)

lemma inv_wrapper: "py_inv plane_ok wrapper"
  unfolding wrapper_def by (rule inv_counter)

section \<open>Runs\<close>

text \<open>One call of an operation, with whatever result.\<close>

inductive plane_step ::
  "'e snappi_api \<Rightarrow> 'p scapy \<Rightarrow> ('e, 'z) plane_scheme \<Rightarrow> ('e, 'z) plane_scheme \<Rightarrow> bool" for A S where
  Init: "snappi_init mode port_groups s = (r, t) \<Longrightarrow> plane_step A S s t"
| Setup: "snappi_setup A s = (r, t) \<Longrightarrow> plane_step A S s t"
| Teardown: "snappi_teardown A s = (r, t) \<Longrightarrow> plane_step A S s t"
| Flow: "add_flow stamp name pc sc pps s = (r', t) \<Longrightarrow> plane_step A S s t"
| Raw: "add_raw_flow A S packet pid port_id n nm s = (r, t) \<Longrightarrow> plane_step A S s t"
| Tcp: "add_tcp_flow A S packet pid port_id n nm s = (r, t) \<Longrightarrow> plane_step A S s t"
| Send: "send_packet A S port_id packet pid n s = (r, t) \<Longrightarrow> plane_step A S s t"
| Transmit: "transmit A st ns s = (r, t) \<Longrightarrow> plane_step A S s t"
| Captures: "get_all_captures A s = (c, t) \<Longrightarrow> plane_step A S s t"
| Verify: "verify_packet A S fuel packet port_id timeout step s = (b, t) \<Longrightarrow> plane_step A S s t"
| Verify_no: "verify_no_packet A S fuel packet port_id timeout step s = (b, t) \<Longrightarrow> plane_step A S s t"
| Verify_no_any: "verify_no_any_packet A fuel port_id timeout step s = (b, t) \<Longrightarrow> plane_step A S s t"
| Verify_no_other: "verify_no_other_packets A fuel timeout step s = (b, t) \<Longrightarrow> plane_step A S s t"
| Verify_packets: "verify_packets A S fuel packet ids timeout n_timeout step s = (r, t) \<Longrightarrow> plane_step A S s t"
| Verify_captures: "verify_captures_on_port A S packets port_id s = (b, t) \<Longrightarrow> plane_step A S s t"
| Verify_any: "verify_any_packet_any_port A S fuel packets ports n_timeout s = (r, t) \<Longrightarrow> plane_step A S s t"
| Wrapper: "wrapper s = (r, t) \<Longrightarrow> plane_step A S s t"

lemma step_keeps: "plane_step A S s t \<Longrightarrow> plane_ok s \<Longrightarrow> plane_ok t"
  by (induction rule: plane_step.induct)
    (blast intro: py_invD [OF inv_snappi_init] py_invD [OF inv_config(3)] py_invD [OF inv_teardown]
      py_invD [OF inv_add_flow] py_invD [OF inv_sends(1)] py_invD [OF inv_sends(2)] py_invD [OF inv_sends(3)]
      py_invD [OF inv_config(4)] py_invD [OF inv_config(5)] py_invD [OF inv_verify(1)] py_invD [OF inv_verify(2)]
      py_invD [OF inv_verify(3)] py_invD [OF inv_verify(4)] py_invD [OF inv_verify(5)] py_invD [OF inv_verify(6)]
      py_invD [OF inv_any_port] py_invD [OF inv_wrapper])+

lemma run_keeps: "(plane_step A S)\<^sup>*\<^sup>* s t \<Longrightarrow> plane_ok s \<Longrightarrow> plane_ok t"
  by (induction rule: rtranclp_induct) (auto intro: step_keeps)

section \<open>Flow names\<close>

text \<open>A helper called twice through \<open>dataplane_redirect\<close> with the same packet and port uses one name twice.\<close>

lemma redirected_send_names:
  assumes "dataplane_redirect ''snappi'' ptf (send_packet A S port_id pkt packet_id n) s = (Ok (), t)"
  shows "\<exists>fl. pl_flows t = pl_flows s @ [fl] \<and> fl_name fl = flow_name_of port_id packet_id 1"
proof -
  have "send_packet A S port_id pkt packet_id n (s\<lparr>pl_counter := 0\<rparr>) = (Ok (), t)"
    using assms by (simp add: dataplane_redirect_def wrapper_def py_bind_app py_modify_app)
  from send_packet_Ok [OF this] show ?thesis by auto
qed

lemma int_str_inj: "int_str a = int_str b \<Longrightarrow> a = b"
  by (metis py_int_dec res.inject(1))

text \<open>Without it every packet gets a name of its own.\<close>

lemma flow_name_inj: "flow_name_of i p m = flow_name_of i p n \<longleftrightarrow> m = n"
  using int_str_inj by (auto simp: flow_name_of_def)

end
