(* ===== verification/ThriftMeta.thy ===== *)
theory ThriftMeta imports ThriftClient begin

text \<open>
  How the Thrift client comes up: \<open>ThriftConverter.generate_metadata\<close>
  (\<open>common/sai_client/sai_thrift_client/sai_thrift_utils.py\<close>), which reads the types of the attributes
  out of the generated adapter with a pipeline of \<open>grep\<close> and \<open>sed\<close>, and \<open>SaiThriftClient.__init__\<close>. The
  tools, the adapter and the transport are parameters; \<open>posix_tools\<close> is what the tools are documented to
  do with the scripts of the pipeline.
\<close>

section \<open>The pipeline\<close>

text \<open>
  \<open>at_glob\<close>: the adapters found. \<open>at_cat\<close>: what \<open>cat\<close> writes for a path. \<open>at_grep\<close>, \<open>at_sed\<close>: what the tools
  write for a script and an input; \<open>at_status\<close>: the status \<open>sed\<close> ends with, which is the status of the
  pipeline when it is the last.
\<close>

record adapter_tools =
  at_glob :: "string list"
  at_cat :: "string \<Rightarrow> string"
  at_grep :: "string \<Rightarrow> string \<Rightarrow> string"
  at_sed :: "string \<Rightarrow> string \<Rightarrow> string"
  at_status :: "string \<Rightarrow> string \<Rightarrow> int"

abbreviation nl_ch :: char where "nl_ch \<equiv> CHR 0x0A"

definition attrs_pattern :: string where
  "attrs_pattern = ''attrs'' @ [bslash] @ ''['' @ [quote_ch] @ ''SAI_.*''"

definition drop_attrs :: string where
  "drop_attrs = ''s/ attrs'' @ [bslash] @ ''[//''"

definition drop_value :: string where
  "drop_value = ''s/'' @ [bslash] @ ''] = attr'' @ [bslash] @ ''.value'' @ [bslash] @ ''./: '' @ [quote_ch] @ ''/''"

definition add_comma :: string where
  "add_comma = ''s/$/'' @ [quote_ch] @ '',/''"

definition adapter_members :: "adapter_tools \<Rightarrow> string \<Rightarrow> string" where
  "adapter_members T path =
     at_sed T add_comma (at_sed T drop_value (at_sed T drop_attrs (at_grep T attrs_pattern (at_cat T path))))"

text \<open>\<open>"{" + stdout[:-2] + "}"\<close>.\<close>

definition as_object :: "string \<Rightarrow> string" where
  "as_object out = ''{'' @ take (length out - 2) out @ ''}''"

definition generate_metadata :: "adapter_tools \<Rightarrow> pyval res" where
  "generate_metadata T =
     rbind (nth_res (at_glob T) 0) (\<lambda>path.
     let picked = at_sed T drop_value (at_sed T drop_attrs (at_grep T attrs_pattern (at_cat T path))) in
     if at_status T add_comma picked \<noteq> 0 then Err AssertionError
     else loads (as_object (adapter_members T path)))"

text \<open>\<open>ThriftConverter.sai_metadata.get(name)\<close>, for the texts the pipeline makes.\<close>

definition metadata_types :: "pyval \<Rightarrow> string \<Rightarrow> string option" where
  "metadata_types m name = (case m of
     PDict kvs \<Rightarrow> (case map_of kvs name of Some (PStr f) \<Rightarrow> Some f | _ \<Rightarrow> None) | _ \<Rightarrow> None)"

section \<open>The client\<close>

text \<open>
  \<open>same\<close>: \<open>v is "True"\<close>. \<open>connect\<close>: the transport and the client of the generated code. The waiting uses
  the clock and the TCP probe of the environment that all clients share.
\<close>

definition on_net :: "('e rclient, 'a) py \<Rightarrow> (('e, 'z) tclient_scheme, 'a) py" where
  "on_net m = (\<lambda>s. case m \<lparr>asic_channel = None, env = tenv s\<rparr> of (r, t) \<Rightarrow> (r, s\<lparr>tenv := env t\<rparr>))"

definition thrift_init ::
  "adapter_tools \<Rightarrow> (pyval \<Rightarrow> bool) \<Rightarrow> 'e redis_env \<Rightarrow> (pyval \<Rightarrow> pyval \<Rightarrow> ('e, unit) py) \<Rightarrow> pyval \<Rightarrow>
   (('e, 'z) tclient_scheme, string \<Rightarrow> string option) py" where
  "thrift_init T same E connect cfg =
     py_bind (py_modify (\<lambda>s. s\<lparr>sai_type_map := []\<rparr>)) (\<lambda>_.
     py_bind (py_lift (generate_metadata T)) (\<lambda>m.
     py_bind (py_lift (py_item ''saivs'' cfg)) (\<lambda>saivs.
     py_bind (if same saivs
       then py_bind (py_lift (py_item ''ip'' cfg)) (\<lambda>ip. on_net (assert_process_running E (PStr ''6379'') ip 10))
       else py_return ()) (\<lambda>_.
     py_bind (py_lift (py_item ''port'' cfg)) (\<lambda>p.
     py_bind (py_lift (py_item ''ip'' cfg)) (\<lambda>ip.
     py_bind (on_net (assert_process_running E p ip 10)) (\<lambda>_.
     py_bind (on_tenv (connect ip p)) (\<lambda>_.
     py_return (metadata_types m)))))))))"

text \<open>\<open>__del__\<close>.\<close>

definition thrift_del :: "'e thrift_env \<Rightarrow> bool \<Rightarrow> (('e, 'z) tclient_scheme, unit) py" where
  "thrift_del E opened = (if opened then on_tenv (th_close E) else py_return ())"

text \<open>\<open>get_object_key\<close>: the Thrift client lists no objects.\<close>

definition thrift_object_key :: "sai_obj_type option \<Rightarrow> (('e, 'z) tclient_scheme, (string, string list) dict) py" where
  "thrift_object_key t = py_return []"

section \<open>What the tools do with the scripts\<close>

definition unlines :: "string list \<Rightarrow> string" where
  "unlines ls = concat (map (\<lambda>l. l @ [nl_ch]) ls)"

definition sub_first :: "string \<Rightarrow> string \<Rightarrow> string \<Rightarrow> string" where
  "sub_first p q l = (case str_cut p l of None \<Rightarrow> l | Some (a, b) \<Rightarrow> a @ q @ b)"

abbreviation attrs_key :: string where
  "attrs_key \<equiv> ''attrs['' @ [quote_ch] @ ''SAI_''"

definition posix_tools :: "adapter_tools \<Rightarrow> bool" where
  "posix_tools T \<longleftrightarrow> (\<forall>ls. list_all (\<lambda>l. nl_ch \<notin> set l) ls \<longrightarrow>
     at_grep T attrs_pattern (unlines ls) = unlines (filter (str_in attrs_key) ls) \<and>
     at_sed T drop_attrs (unlines ls) = unlines (map (sub_first '' attrs['' []) ls) \<and>
     at_sed T drop_value (unlines ls) = unlines (map (sub_first ''] = attr.value.'' ('': '' @ [quote_ch])) ls) \<and>
     at_sed T add_comma (unlines ls) = unlines (map (\<lambda>l. l @ [quote_ch] @ '','') ls) \<and>
     at_status T add_comma (unlines ls) = 0)"

text \<open>A line of the adapter that stores an attribute: \<open>attrs["a"] = attr.value.f\<close>, indented.\<close>

definition adapter_line :: "nat \<times> string \<times> string \<Rightarrow> string" where
  "adapter_line e = (case e of (n, a, f) \<Rightarrow>
     replicate n CHR '' '' @ '' attrs['' @ [quote_ch] @ a @ [quote_ch] @ ''] = attr.value.'' @ f)"

definition word_char :: "char \<Rightarrow> bool" where
  "word_char c = (let n = (of_char c :: nat) in
     48 \<le> n \<and> n \<le> 57 \<or> 65 \<le> n \<and> n \<le> 90 \<or> n = 95 \<or> 97 \<le> n \<and> n \<le> 122)"

definition word_entry :: "nat \<times> string \<times> string \<Rightarrow> bool" where
  "word_entry e = (case e of (_, a, f) \<Rightarrow> list_all word_char a \<and> list_all word_char f)"

definition entry_member :: "nat \<times> string \<times> string \<Rightarrow> string" where
  "entry_member e = (case e of (n, a, f) \<Rightarrow>
     replicate n CHR '' '' @ dumps_str a @ '': '' @ dumps_str f)"

lemma word_char_neq:
  assumes "word_char c"
  shows "c \<noteq> quote_ch" "c \<noteq> bslash" "c \<noteq> CHR '']''" "c \<noteq> nl_ch" "c \<noteq> CHR '' ''"
  using assms by (auto simp: word_char_def)

lemma esc_word: "list_all word_char a \<Longrightarrow> concat (map esc_char a) = a"
  by (induction a) (auto simp: word_char_def esc_char_def Let_def)

lemma dumps_word: "list_all word_char a \<Longrightarrow> dumps_str a = quote_ch # a @ [quote_ch]"
  by (simp add: dumps_str_def esc_word)

lemma str_cut_after:
  "c \<notin> set x \<Longrightarrow> str_cut (c # p) (x @ c # p @ r) = Some (x, r)"
  by (induction x) (auto simp: starts_with_def)

lemma str_cut_indent:
  "str_cut '' attrs['' (replicate n CHR '' '' @ '' attrs['' @ r) = Some (replicate n CHR '' '', r)"
proof (induction n)
  case (Suc n)
  have "\<not> starts_with (CHR '' '' # replicate n CHR '' '' @ '' attrs['' @ r) '' attrs[''"
    by (cases n) (simp_all add: starts_with_def)
  with Suc show ?case by simp
qed (simp add: starts_with_def)

lemma member_of_line:
  assumes "word_entry e"
  shows "sub_first ''] = attr.value.'' ('': '' @ [quote_ch]) (sub_first '' attrs['' [] (adapter_line e)) @ [quote_ch] =
    entry_member e"
proof -
  obtain n a f where e: "e = (n, a, f)" by (metis prod_cases3)
  have words: "list_all word_char a" "list_all word_char f" using assms by (simp_all add: word_entry_def e)
  let ?x = "replicate n CHR '' '' @ quote_ch # a @ [quote_ch]"
  have 1: "sub_first '' attrs['' [] (adapter_line e) = ?x @ ''] = attr.value.'' @ f"
    using str_cut_indent [of n "quote_ch # a @ quote_ch # ''] = attr.value.'' @ f"]
    by (simp add: sub_first_def adapter_line_def e)
  have "CHR '']'' \<notin> set ?x"
    using words(1) by (auto simp: list_all_iff dest: word_char_neq)
  from str_cut_after [OF this, of "'' = attr.value.''" f]
  have 2: "str_cut ''] = attr.value.'' (?x @ ''] = attr.value.'' @ f) = Some (?x, f)" by simp
  have "sub_first ''] = attr.value.'' ('': '' @ [quote_ch]) (?x @ ''] = attr.value.'' @ f) = ?x @ ('': '' @ [quote_ch]) @ f"
    unfolding sub_first_def 2 by simp
  then show ?thesis unfolding 1 by (simp add: entry_member_def e dumps_word words)
qed

section \<open>Reading the members\<close>

definition members_text :: "(nat \<times> string \<times> string) list \<Rightarrow> string" where
  "members_text es = str_join ('','' @ [nl_ch]) (map entry_member es)"

definition set_entry :: "(string, pyval) dict \<Rightarrow> nat \<times> string \<times> string \<Rightarrow> (string, pyval) dict" where
  "set_entry d e = (case e of (_, a, f) \<Rightarrow> dict_set a (PStr f) d)"

definition entries_dict :: "(nat \<times> string \<times> string) list \<Rightarrow> (string, pyval) dict" where
  "entries_dict es = foldl set_entry [] es"

lemma skip_ws_indent [simp]: "skip_ws (replicate n CHR '' '' @ r) = skip_ws r" "skip_ws (nl_ch # r) = skip_ws r"
  by (induction n) (simp_all add: skip_ws_def is_ws_def)

lemma scan_member:
  assumes "scan_value f (skip_ws u) = Ok (v, w)" and "skip_ws w = e # es"
  shows "scan_members (Suc f) (skip_ws (replicate n CHR '' '' @ dumps_str a @ '':'' @ u)) d =
    (if e = CHR ''}'' then Ok (PDict (dict_set a v d), es)
     else if e = CHR '','' then scan_members f (skip_ws es) (dict_set a v d) else Err JSONDecodeError)"
  using assms by (simp add: dumps_str_def scan_dumps_str)

lemma scan_entry:
  "scan_members (Suc (Suc f)) (skip_ws (entry_member e @ CHR ''}'' # r)) d = Ok (PDict (set_entry d e), r)"
  "scan_members (Suc (Suc f)) (skip_ws (entry_member e @ CHR '','' # r)) d =
     scan_members (Suc f) (skip_ws r) (set_entry d e)"
proof -
  obtain n a g where e: "e = (n, a, g)" by (metis prod_cases3)
  have v: "scan_value (Suc f) (skip_ws (CHR '' '' # dumps_str g @ u)) = Ok (PStr g, u)" for u
    by (simp add: dumps_str_def scan_dumps_str)
  show "scan_members (Suc (Suc f)) (skip_ws (entry_member e @ CHR ''}'' # r)) d = Ok (PDict (set_entry d e), r)"
    using scan_member [where w = "CHR ''}'' # r" and n = n and a = a and d = d, OF v] by (simp add: e entry_member_def set_entry_def is_ws_def)
  show "scan_members (Suc (Suc f)) (skip_ws (entry_member e @ CHR '','' # r)) d =
     scan_members (Suc f) (skip_ws r) (set_entry d e)"
    using scan_member [where w = "CHR '','' # r" and n = n and a = a and d = d, OF v] by (simp add: e entry_member_def set_entry_def is_ws_def)
qed

lemma scan_entries:
  assumes "es \<noteq> []" and "length es < f"
  shows "scan_members f (skip_ws (members_text es @ CHR ''}'' # r)) d = Ok (PDict (foldl set_entry d es), r)"
  using assms
proof (induction es arbitrary: f d)
  case (Cons e es)
  then obtain g where f: "f = Suc (Suc g)" by (cases f; cases "f - 1") auto
  show ?case
  proof (cases "es = []")
    case True
    then show ?thesis using scan_entry(1) [of g e r d] f by (simp add: members_text_def)
  next
    case False
    then have m: "members_text (e # es) @ CHR ''}'' # r = entry_member e @ CHR '','' # nl_ch # members_text es @ CHR ''}'' # r"
      by (simp add: members_text_def str_join_Cons)
    have "scan_members (Suc g) (skip_ws (members_text es @ CHR ''}'' # r)) (set_entry d e) =
        Ok (PDict (foldl set_entry (set_entry d e) es), r)"
      using Cons.IH [of "Suc g" "set_entry d e"] Cons.prems False f by (simp del: scan_members.simps)
    then show ?thesis unfolding m f scan_entry(2) by (simp del: scan_members.simps)
  qed
qed simp

lemma members_text_length: "length es \<le> length (members_text es)"
proof (induction es)
  case (Cons e es)
  have "1 \<le> length (entry_member e)" by (cases e) (simp add: entry_member_def dumps_str_def)
  with Cons show ?case by (cases "es = []") (simp_all add: members_text_def str_join_Cons)
qed simp

lemma loads_entries: "loads (''{'' @ members_text es @ ''}'') = Ok (PDict (entries_dict es))"
proof (cases "es = []")
  case True
  moreover have "loads ''{}'' = Ok (PDict [])" by code_simp
  ultimately show ?thesis by (simp add: members_text_def entries_dict_def)
next
  case False
  obtain e es' where es: "es = e # es'" using False by (cases es) auto
  obtain t where t: "skip_ws (members_text es @ ''}'') = quote_ch # t"
    by (cases e; cases "es' = []") (auto simp: es members_text_def str_join_Cons entry_member_def dumps_str_def)
  have m: "scan_members N (quote_ch # t) [] = Ok (PDict (entries_dict es), [])" if "length es < N" for N
    using scan_entries [OF False that, of "[]" "[]"] t by (simp add: entries_dict_def del: scan_members.simps)
  have brace: "skip_ws (CHR ''{'' # u) = CHR ''{'' # u" for u by (simp add: skip_ws_def is_ws_def)
  have "scan_value (Suc N) (''{'' @ members_text es @ ''}'') = scan_members N (quote_ch # t) []" for N
    using t by (simp del: scan_members.simps)
  with members_text_length [of es] show ?thesis
    by (simp add: loads_def brace m del: scan_value.simps scan_members.simps)
qed

section \<open>The metadata\<close>

lemma concat_with_sep:
  "xs \<noteq> [] \<Longrightarrow> concat (map (\<lambda>x. x @ p) xs) = str_join p xs @ p"
  by (induction xs rule: induct_list012) auto

lemma as_object_members: "as_object (unlines (map (\<lambda>e. entry_member e @ '','') es)) = ''{'' @ members_text es @ ''}''"
proof (cases "es = []")
  case False
  then have "unlines (map (\<lambda>e. entry_member e @ '','') es) = members_text es @ '','' @ [nl_ch]"
    using concat_with_sep [of "map entry_member es" "'','' @ [nl_ch]"]
    by (simp add: unlines_def members_text_def o_def)
  then show ?thesis by (simp add: as_object_def)
qed (simp add: as_object_def unlines_def members_text_def)

lemma no_nl:
  assumes "word_entry e"
  shows "nl_ch \<notin> set (adapter_line e)" "nl_ch \<notin> set (entry_member e)"
proof -
  obtain n a f where e: "e = (n, a, f)" by (metis prod_cases3)
  have "nl_ch \<notin> set a" "nl_ch \<notin> set f"
    using assms by (auto simp: e word_entry_def list_all_iff dest: word_char_neq)
  then show "nl_ch \<notin> set (adapter_line e)" "nl_ch \<notin> set (entry_member e)"
    using assms by (simp_all add: e adapter_line_def entry_member_def dumps_word word_entry_def)
qed

lemma metadata_of_adapter:
  assumes T: "posix_tools T" and g: "at_glob T = path # paths" and c: "at_cat T path = unlines ls"
    and nl: "list_all (\<lambda>l. nl_ch \<notin> set l) ls"
    and es: "filter (str_in attrs_key) ls = map adapter_line es" "list_all word_entry es"
  shows "generate_metadata T = Ok (PDict (entries_dict es))"
proof -
  let ?a = "map (\<lambda>e. sub_first '' attrs['' [] (adapter_line e)) es"
  let ?b = "map (sub_first ''] = attr.value.'' ('': '' @ [quote_ch])) ?a"
  have 0: "list_all (\<lambda>l. nl_ch \<notin> set l) (map adapter_line es)"
    using es(2) by (auto simp: list_all_iff no_nl)
  have b: "map (\<lambda>l. l @ [quote_ch]) ?b = map entry_member es"
    using es(2) by (simp add: list_all_iff member_of_line [simplified])
  have "nl_ch \<notin> set (sub_first ''] = attr.value.'' ('': '' @ [quote_ch]) (sub_first '' attrs['' [] (adapter_line e)))"
    if "word_entry e" for e
    using no_nl(2) [OF that] unfolding member_of_line [OF that, symmetric] by simp
  then have 2: "list_all (\<lambda>l. nl_ch \<notin> set l) ?b" using es(2) by (simp add: list_all_iff)
  have sub: "set (sub_first p q l) \<subseteq> set q \<union> set l" for p q l
    by (auto simp: sub_first_def dest: str_cut_Some split: option.splits)
  have 1: "list_all (\<lambda>l. nl_ch \<notin> set l) ?a"
    using 0 sub [of "'' attrs[''" "[]"] by (fastforce simp: list_all_iff)
  have grep: "at_grep T attrs_pattern (at_cat T path) = unlines (map adapter_line es)"
    using T nl unfolding posix_tools_def c es(1) [symmetric] by blast
  have s1: "at_sed T drop_attrs (unlines (map adapter_line es)) = unlines ?a"
    using T 0 by (simp add: posix_tools_def o_def)
  have s2: "at_sed T drop_value (unlines ?a) = unlines ?b" using T 1 unfolding posix_tools_def by blast
  have s3: "at_sed T add_comma (unlines ?b) = unlines (map (\<lambda>l. l @ [quote_ch] @ '','') ?b)"
    and st: "at_status T add_comma (unlines ?b) = 0" using T 2 unfolding posix_tools_def by blast+
  have "map (\<lambda>l. l @ [quote_ch] @ '','') ?b = map (\<lambda>l. l @ '','') (map (\<lambda>l. l @ [quote_ch]) ?b)" by simp
  also have "\<dots> = map (\<lambda>e. entry_member e @ '','') es" unfolding b by simp
  finally have tail: "map (\<lambda>l. l @ [quote_ch] @ '','') ?b = map (\<lambda>e. entry_member e @ '','') es" .
  have out: "adapter_members T path = unlines (map (\<lambda>e. entry_member e @ '','') es)"
    unfolding adapter_members_def grep s1 s2 s3 tail by (rule refl)
  have picked: "at_sed T drop_value (at_sed T drop_attrs (at_grep T attrs_pattern (at_cat T path))) = unlines ?b"
    unfolding grep s1 s2 by (rule refl)
  have "nth_res (at_glob T) 0 = Ok path" by (simp add: g)
  then show ?thesis
    unfolding generate_metadata_def by (simp only: rbind.simps picked Let_def st out as_object_members loads_entries) simp
qed

text \<open>
  The type of an attribute is the field of its last line; when nothing is found the metadata is empty
  and the check of the status has nothing to object to.
\<close>

lemma entries_dict_app: "entries_dict (es @ [e]) = set_entry (entries_dict es) e"
  by (simp add: entries_dict_def)

lemma metadata_types_entries:
  "metadata_types (PDict (entries_dict es)) = map_of (map snd (rev es))"
proof (induction es rule: rev_induct)
  case Nil
  show ?case by (simp add: metadata_types_def entries_dict_def fun_eq_iff)
next
  case (snoc e es)
  obtain n a f where e: "e = (n, a, f)" by (metis prod_cases3)
  show ?case
  proof
    fix name
    have "metadata_types (PDict (entries_dict es)) name = map_of (map snd (rev es)) name" using snoc by simp
    then show "metadata_types (PDict (entries_dict (es @ [e]))) name = map_of (map snd (rev (es @ [e]))) name"
      by (simp add: entries_dict_app set_entry_def e metadata_types_def)
  qed
qed

corollary no_attributes_found:
  assumes "posix_tools T" and "at_glob T = path # paths" and "at_cat T path = unlines ls"
    and "list_all (\<lambda>l. nl_ch \<notin> set l) ls" and "filter (str_in attrs_key) ls = []"
  shows "generate_metadata T = Ok (PDict [])"
  using metadata_of_adapter [of T path paths ls "[]"] assms by (simp add: entries_dict_def)

section \<open>The waiting for Redis\<close>

text \<open>
  \<open>Sai\<close> stores a boolean under \<open>saivs\<close>; no boolean is the text it is compared with, so the client never
  waits for Redis.
\<close>

lemma redis_never_awaited:
  assumes "\<And>v. same v \<Longrightarrow> v = PStr ''True''" and "py_item ''saivs'' cfg = Ok (PBool b)"
  shows "thrift_init T same E connect cfg s = thrift_init T (\<lambda>_. False) E connect cfg s"
proof -
  have "\<not> same (PBool b)" using assms(1) by blast
  then show ?thesis using assms(2) by (simp add: thrift_init_def py_simps py_bind_def split: prod.splits res.splits)
qed

section \<open>Tools that do what is documented\<close>

definition lines_of :: "string \<Rightarrow> string list" where
  "lines_of txt = butlast (str_split [nl_ch] txt)"

lemma lines_unlines:
  assumes "list_all (\<lambda>l. nl_ch \<notin> set l) ls"
  shows "lines_of (unlines ls) = ls"
proof -
  have "unlines ls = str_join [nl_ch] (ls @ [[]])" by (induction ls) (simp_all add: unlines_def str_join_Cons)
  moreover have "str_split [nl_ch] (str_join [nl_ch] (ls @ [[]])) = ls @ [[]]"
    using assms by (intro str_split_join) (simp_all add: list_all_iff)
  ultimately show ?thesis by (simp add: lines_of_def)
qed

definition per_line :: "string \<Rightarrow> string \<Rightarrow> string" where
  "per_line script =
     (if script = drop_attrs then sub_first '' attrs['' []
      else if script = drop_value then sub_first ''] = attr.value.'' ('': '' @ [quote_ch])
      else (\<lambda>l. l @ [quote_ch] @ '',''))"

definition line_tools :: "string \<Rightarrow> string \<Rightarrow> adapter_tools" where
  "line_tools path adapter =
     \<lparr>at_glob = [path], at_cat = \<lambda>_. adapter,
      at_grep = \<lambda>_ txt. unlines (filter (str_in attrs_key) (lines_of txt)),
      at_sed = \<lambda>script txt. unlines (map (per_line script) (lines_of txt)),
      at_status = \<lambda>_ _. 0\<rparr>"

lemma line_tools_posix: "posix_tools (line_tools path adapter)"
proof -
  have scripts: "drop_value \<noteq> drop_attrs" "add_comma \<noteq> drop_attrs" "add_comma \<noteq> drop_value"
    by (simp_all add: drop_attrs_def drop_value_def add_comma_def)
  show ?thesis
    unfolding posix_tools_def line_tools_def
    by (simp add: lines_unlines per_line_def scripts)
qed

text \<open>Three lines of an adapter, and what is read from them.\<close>

definition demo_entries :: "(nat \<times> string \<times> string) list" where
  "demo_entries = [(3, ''SAI_PORT_ATTR_SPEED'', ''u32''), (7, ''SAI_PORT_ATTR_MTU'', ''u32''), (3, ''SAI_PORT_ATTR_SPEED'', ''u64'')]"

definition adapter_sample :: "string list" where
  "adapter_sample = ''def f(client):'' # map adapter_line demo_entries @ [''    return attrs'']"

end
