(* ===== verification/Delegation.thy ===== *)
theory Delegation imports Json begin

text \<open>
  How \<open>Sai\<close> (\<open>common/sai.py\<close>) hands its operations to the client it was given: the classes of the
  clients with the signatures of their methods (\<open>common/sai_client\<close>), method resolution, the binding of
  arguments to parameters, and the methods of \<open>Sai\<close> that only forward. What a method of a class does is a
  parameter here; the other theories say it.
\<close>

section \<open>Classes and signatures\<close>

text \<open>
  The parameters after \<open>self\<close>, each with its default: \<open>sg_pos\<close> by position or name, \<open>sg_kw\<close> (after the
  \<open>*\<close>) by name only. A body of the interface class raises \<open>NotImplementedError\<close> or does nothing.
\<close>

record signature =
  sg_pos :: "(string \<times> pyval option) list"
  sg_kw :: "(string \<times> pyval option) list"

datatype body = Abstract | Nothing | Code

type_synonym method_table = "(string \<times> signature \<times> body) list"

datatype client_class = SaiClient | SaiRedisClient | SaiZmqClient | SaiThriftClient

definition sig_of :: "(string \<times> pyval option) list \<Rightarrow> signature" where
  "sig_of ps = \<lparr>sg_pos = ps, sg_kw = []\<rparr>"

abbreviation needed :: "string \<Rightarrow> string \<times> pyval option" where "needed p \<equiv> (p, None)"
abbreviation assert_param :: "string \<times> pyval option" where "assert_param \<equiv> (''do_assert'', Some (PBool True))"

text \<open>The signatures the interface and the clients share.\<close>

definition obj_sig :: signature where "obj_sig = sig_of [needed ''obj'', assert_param]"
definition attrs_sig :: signature where "attrs_sig = sig_of [needed ''obj'', needed ''attrs'', assert_param]"
definition attr_sig :: signature where "attr_sig = sig_of [needed ''obj'', needed ''attr'', assert_param]"

definition bulk_create_sig :: signature where
  "bulk_create_sig = sig_of [needed ''obj_type'', needed ''keys'', needed ''attrs'', (''obj_count'', Some (PInt 0)), assert_param]"

definition bulk_remove_sig :: signature where
  "bulk_remove_sig = sig_of [needed ''obj_type'', needed ''keys'', assert_param]"

definition bulk_set_sig :: signature where
  "bulk_set_sig = sig_of [needed ''obj_type'', needed ''keys'', needed ''attrs'', assert_param]"

definition set_group_sig :: signature where
  "set_group_sig = \<lparr>sg_pos = [needed ''group_name''],
     sg_kw = [(''enable'', Some (PBool True)), (''poll_interval'', Some (PInt 0)), (''clear_on_read'', Some (PBool False)), assert_param]\<rparr>"

definition del_group_sig :: signature where "del_group_sig = sig_of [needed ''group_name'', assert_param]"

definition start_poll_sig :: signature where
  "start_poll_sig = sig_of [needed ''group_name'', needed ''oid'', needed ''counters'', assert_param]"

definition stop_poll_sig :: signature where
  "stop_poll_sig = sig_of [needed ''group_name'', needed ''oid'', assert_param]"

definition get_counter_sig :: signature where
  "get_counter_sig = sig_of [needed ''oid'', needed ''counters'', (''counter_table'', Some (PStr ''COUNTERS''))]"

definition del_counter_sig :: signature where
  "del_counter_sig = sig_of [needed ''oid'', (''counter_table'', Some (PStr ''COUNTERS''))]"

definition availability_sig :: signature where
  "availability_sig = sig_of [needed ''switch_oid'', needed ''object_type'', needed ''attrs'', assert_param]"

definition flush_sig :: signature where "flush_sig = sig_of [needed ''obj'', (''attrs'', Some PNone)]"
definition tout_sig :: "int \<Rightarrow> signature" where "tout_sig n = sig_of [(''tout'', Some (PInt n))]"
definition loglevel_sig :: signature where "loglevel_sig = sig_of [needed ''sai_api'', needed ''loglevel'']"
definition iface_sig :: signature where "iface_sig = sig_of [needed ''iface'']"
definition iface_status_sig :: signature where "iface_status_sig = sig_of [needed ''iface'', needed ''status'']"
definition ifaces_sig :: signature where "ifaces_sig = sig_of [needed ''ifaces'']"
definition object_key_sig :: signature where "object_key_sig = sig_of [(''obj_type'', Some PNone)]"

text \<open>The interface class: every operation is there, and none does anything useful.\<close>

definition base_methods :: method_table where
  "base_methods =
    [(''cleanup'', sig_of [], Abstract), (''deinit'', sig_of [], Nothing), (''set_loglevel'', loglevel_sig, Abstract),
     (''create'', attrs_sig, Abstract), (''remove'', obj_sig, Abstract), (''set'', attr_sig, Abstract), (''get'', attrs_sig, Abstract),
     (''get_stats'', attrs_sig, Abstract), (''clear_stats'', attrs_sig, Abstract),
     (''set_flex_counter_group'', set_group_sig, Abstract), (''del_flex_counter_group'', del_group_sig, Abstract),
     (''start_flex_counter_poll'',
        sig_of [needed ''group_name'', needed ''oid'', needed ''counters'', (''counter_type'', Some PNone), assert_param], Abstract),
     (''stop_flex_counter_poll'', stop_poll_sig, Abstract), (''clear_flex_counters'', sig_of [], Abstract),
     (''get_flex_counter'', get_counter_sig, Abstract), (''del_flex_counter'', del_counter_sig, Abstract),
     (''pre_shutdown'', tout_sig 30, Abstract), (''warm_shutdown'', tout_sig 30, Abstract),
     (''verify_restore_after_warm_shutdown'', tout_sig 5, Abstract), (''get_availability'', availability_sig, Abstract),
     (''flush_fdb_entries'', flush_sig, Abstract), (''bulk_create'', bulk_create_sig, Abstract),
     (''bulk_remove'', bulk_remove_sig, Abstract), (''bulk_set'', bulk_set_sig, Abstract),
     (''remote_iface_exists'', iface_sig, Abstract), (''remote_iface_is_up'', iface_sig, Abstract),
     (''remote_iface_status_set'', iface_status_sig, Abstract), (''remote_iface_agent_start'', ifaces_sig, Abstract),
     (''remote_iface_agent_stop'', sig_of [], Abstract), (''get_object_key'', object_key_sig, Abstract)]"

definition redis_methods :: method_table where
  "redis_methods = map (\<lambda>(n, sg). (n, sg, Code))
    [(''cleanup'', sig_of []), (''set_loglevel'', loglevel_sig),
     (''operate'', sig_of [needed ''obj'', needed ''attrs'', needed ''op'']),
     (''create'', attrs_sig), (''remove'', obj_sig), (''set'', attr_sig), (''get'', attrs_sig),
     (''bulk_create'', bulk_create_sig), (''bulk_remove'', bulk_remove_sig), (''bulk_set'', bulk_set_sig),
     (''get_stats'', attrs_sig), (''clear_stats'', attrs_sig),
     (''set_flex_counter_group'', set_group_sig), (''del_flex_counter_group'', del_group_sig),
     (''start_flex_counter_poll'', start_poll_sig), (''stop_flex_counter_poll'', stop_poll_sig),
     (''clear_flex_counters'', sig_of []), (''get_flex_counter'', get_counter_sig), (''del_flex_counter'', del_counter_sig),
     (''pre_shutdown'', tout_sig 30), (''warm_shutdown'', tout_sig 30), (''verify_restore_after_warm_shutdown'', tout_sig 5),
     (''get_availability'', availability_sig), (''flush_fdb_entries'', flush_sig),
     (''remote_iface_exists'', iface_sig), (''remote_iface_is_up'', iface_sig),
     (''remote_iface_status_set'', iface_status_sig), (''remote_iface_agent_start'', ifaces_sig),
     (''remote_iface_agent_stop'', sig_of []), (''get_object_key'', object_key_sig),
     (''alloc_vid'', sig_of [needed ''obj_type'']), (''vid_to_rid'', sig_of [needed ''vid'']), (''vid_to_type'', sig_of [needed ''vid''])]"

definition zmq_methods :: method_table where
  "zmq_methods = map (\<lambda>(n, sg). (n, sg, Code))
    [(''cleanup'', sig_of []), (''deinit'', sig_of []), (''operate'', sig_of [needed ''obj'', needed ''attrs'', needed ''op''])]"

definition thrift_methods :: method_table where
  "thrift_methods = map (\<lambda>(n, sg). (n, sg, Code))
    [(''create'', attrs_sig), (''remove'', obj_sig), (''set'', attr_sig), (''get'', attrs_sig),
     (''get_object_type'', sig_of [needed ''oid'', (''default'', Some PNone)]), (''vid_to_type'', sig_of [needed ''vid'']),
     (''cleanup'', sig_of []), (''flush_fdb_entries'', flush_sig),
     (''bulk_create'', bulk_create_sig), (''bulk_remove'', bulk_remove_sig), (''bulk_set'', bulk_set_sig),
     (''get_stats'', attrs_sig), (''clear_stats'', attrs_sig), (''get_object_key'', object_key_sig)]"

text \<open>The classes a method is looked for in, in order.\<close>

fun mro :: "client_class \<Rightarrow> client_class list" where
  "mro SaiClient = [SaiClient]"
| "mro SaiRedisClient = [SaiRedisClient, SaiClient]"
| "mro SaiZmqClient = [SaiZmqClient, SaiRedisClient, SaiClient]"
| "mro SaiThriftClient = [SaiThriftClient, SaiClient]"

fun methods_of :: "client_class \<Rightarrow> method_table" where
  "methods_of SaiClient = base_methods"
| "methods_of SaiRedisClient = redis_methods"
| "methods_of SaiZmqClient = zmq_methods"
| "methods_of SaiThriftClient = thrift_methods"

fun find_method :: "client_class list \<Rightarrow> string \<Rightarrow> (client_class \<times> signature \<times> body) option" where
  "find_method [] m = None"
| "find_method (c # cs) m = (case map_of (methods_of c) m of
     Some sb \<Rightarrow> Some (c, sb) | None \<Rightarrow> find_method cs m)"

definition resolve :: "client_class \<Rightarrow> string \<Rightarrow> (client_class \<times> signature \<times> body) option" where
  "resolve c m = find_method (mro c) m"

section \<open>Calls\<close>

text \<open>
  Arguments to parameters: the positional ones in order, then those by name; a parameter without an
  argument has its default. Too many arguments, one given twice, an unknown name or a missing argument
  is a \<open>TypeError\<close>.
\<close>

fun bind_rest :: "(string \<times> pyval) list \<Rightarrow> (string \<times> pyval option) list \<Rightarrow> (string \<times> pyval) list res" where
  "bind_rest kw [] = Ok []"
| "bind_rest kw ((p, d) # ps) =
     (case (case map_of kw p of Some v \<Rightarrow> Some v | None \<Rightarrow> d) of
        None \<Rightarrow> Err TypeError
      | Some v \<Rightarrow> rbind (bind_rest kw ps) (\<lambda>ar. Ok ((p, v) # ar)))"

definition bind_args :: "signature \<Rightarrow> pyval list \<Rightarrow> (string \<times> pyval) list \<Rightarrow> (string \<times> pyval) list res" where
  "bind_args sg pos kw =
     (let by_name = drop (length pos) (sg_pos sg) @ sg_kw sg in
      if length (sg_pos sg) < length pos \<or> \<not> set (map fst kw) \<subseteq> set (map fst by_name) then Err TypeError
      else rbind (bind_rest kw by_name) (\<lambda>ar. Ok (zip (map fst (sg_pos sg)) pos @ ar)))"

text \<open>\<open>run c m ar\<close>: what the method \<open>m\<close> of the class \<open>c\<close> does with its parameters.\<close>

definition call_client ::
  "(client_class \<Rightarrow> string \<Rightarrow> (string \<times> pyval) list \<Rightarrow> ('s, pyval) py) \<Rightarrow> client_class \<Rightarrow> string \<Rightarrow> pyval list \<Rightarrow>
   (string \<times> pyval) list \<Rightarrow> ('s, pyval) py" where
  "call_client run c m pos kw = (case resolve c m of
     None \<Rightarrow> py_raise AttributeError
   | Some (owner, sg, b) \<Rightarrow> py_bind (py_lift (bind_args sg pos kw)) (\<lambda>ar. case b of
       Abstract \<Rightarrow> py_raise NotImplementedError | Nothing \<Rightarrow> py_return PNone | Code \<Rightarrow> run owner m ar))"

text \<open>
  A method of \<open>Sai\<close> that forwards: its own signature, the parameters it passes by position and those it
  passes by name, and whether it returns what the client returns. The method of the client has the same
  name.
\<close>

record forward =
  fw_name :: string
  fw_sig :: signature
  fw_pos :: "string list"
  fw_kw :: "string list"
  fw_result :: bool

definition by_position :: "string \<Rightarrow> signature \<Rightarrow> forward" where
  "by_position n sg = \<lparr>fw_name = n, fw_sig = sg, fw_pos = map fst (sg_pos sg), fw_kw = [], fw_result = True\<rparr>"

definition by_keyword :: "string \<Rightarrow> signature \<Rightarrow> forward" where
  "by_keyword n sg = \<lparr>fw_name = n, fw_sig = sg, fw_pos = [], fw_kw = map fst (sg_pos sg @ sg_kw sg), fw_result = True\<rparr>"

definition unreturned :: "forward \<Rightarrow> forward" where
  "unreturned f = f\<lparr>fw_result := False\<rparr>"

definition alloc_forward :: "forward list" where
  "alloc_forward = [by_position ''alloc_vid'' (sig_of [needed ''obj_type''])]"

definition object_forwards :: "forward list" where
  "object_forwards =
    [unreturned (by_position ''deinit'' (sig_of [])), by_position ''set_loglevel'' loglevel_sig,
     by_position ''create'' (sig_of [needed ''obj'', (''attrs'', Some (PList [])), assert_param]),
     by_position ''remove'' obj_sig]"

definition bulk_forwards :: "forward list" where
  "bulk_forwards = [by_position ''bulk_create'' bulk_create_sig, by_position ''bulk_remove'' bulk_remove_sig,
     by_position ''bulk_set'' bulk_set_sig]"

definition counter_forwards :: "forward list" where
  "counter_forwards =
    [by_position ''get_stats'' attrs_sig, by_position ''clear_stats'' attrs_sig,
     by_keyword ''set_flex_counter_group'' set_group_sig, by_position ''del_flex_counter_group'' del_group_sig,
     by_keyword ''start_flex_counter_poll'' start_poll_sig, by_keyword ''stop_flex_counter_poll'' stop_poll_sig,
     by_position ''clear_flex_counters'' (sig_of []),
     by_position ''get_flex_counter'' get_counter_sig, by_position ''del_flex_counter'' del_counter_sig]"

definition switch_forwards :: "forward list" where
  "switch_forwards =
    [by_position ''get_availability''
       (sig_of [needed ''switch_oid'', needed ''object_type'', (''attrs'', Some PNone), assert_param]),
     unreturned (by_position ''flush_fdb_entries'' flush_sig)]"

definition remote_forwards :: "forward list" where
  "remote_forwards =
    [by_position ''remote_iface_exists'' iface_sig, by_position ''remote_iface_is_up'' iface_sig,
     by_position ''remote_iface_status_set'' iface_status_sig, by_position ''remote_iface_agent_start'' ifaces_sig,
     by_position ''remote_iface_agent_stop'' (sig_of []), by_position ''vid_to_type'' (sig_of [needed ''vid''])]"

definition key_forward :: "forward list" where
  "key_forward = [by_position ''get_object_key'' object_key_sig]"

definition sai_forwards :: "forward list" where
  "sai_forwards = alloc_forward @ object_forwards @ bulk_forwards @ counter_forwards @ switch_forwards @
     remote_forwards @ key_forward"

definition arg :: "(string \<times> pyval) list \<Rightarrow> string \<Rightarrow> pyval" where
  "arg ar p = (case map_of ar p of Some v \<Rightarrow> v | None \<Rightarrow> PNone)"

definition call_sai ::
  "(client_class \<Rightarrow> string \<Rightarrow> (string \<times> pyval) list \<Rightarrow> ('s, pyval) py) \<Rightarrow> client_class \<Rightarrow> forward \<Rightarrow> pyval list \<Rightarrow>
   (string \<times> pyval) list \<Rightarrow> ('s, pyval) py" where
  "call_sai run c f pos kw =
     py_bind (py_lift (bind_args (fw_sig f) pos kw)) (\<lambda>ar.
     py_bind (call_client run c (fw_name f) (map (arg ar) (fw_pos f)) (map (\<lambda>p. (p, arg ar p)) (fw_kw f))) (\<lambda>r.
     py_return (if fw_result f then r else PNone)))"

section \<open>Arguments arrive under their names\<close>

abbreviation params :: "signature \<Rightarrow> string list" where
  "params sg \<equiv> map fst (sg_pos sg @ sg_kw sg)"

lemma bind_rest_names: "bind_rest kw ps = Ok ar \<Longrightarrow> map fst ar = map fst ps"
proof (induction ps arbitrary: ar)
  case (Cons x ps)
  obtain p d where x: "x = (p, d)" by (metis surj_pair)
  from Cons.prems obtain v br where "bind_rest kw ps = Ok br" "ar = (p, v) # br"
    by (cases "case map_of kw p of Some v \<Rightarrow> Some v | None \<Rightarrow> d") (auto simp: x)
  with Cons.IH x show ?case by simp
qed simp

lemma bind_args_names:
  assumes "bind_args sg pos kw = Ok ar"
  shows "map fst ar = params sg"
proof -
  from assms obtain br where len: "length pos \<le> length (sg_pos sg)"
    and br: "bind_rest kw (drop (length pos) (sg_pos sg) @ sg_kw sg) = Ok br"
    and ar: "ar = zip (map fst (sg_pos sg)) pos @ br"
    by (auto simp: bind_args_def Let_def split: if_splits)
  have "map fst ar = take (length pos) (map fst (sg_pos sg)) @ map fst (drop (length pos) (sg_pos sg) @ sg_kw sg)"
    unfolding ar using bind_rest_names [OF br] len by (simp add: map_fst_zip_take)
  also have "\<dots> = params sg" by (metis append_assoc append_take_drop_id map_append take_map)
  finally show ?thesis .
qed

lemma map_arg:
  assumes "distinct (map fst ar)" and "map fst ar = ps"
  shows "map (arg ar) ps = map snd ar" and "map (\<lambda>p. (p, arg ar p)) ps = ar"
proof -
  have "arg ar p = v" if "(p, v) \<in> set ar" for p v using assms(1) that by (simp add: arg_def)
  then show "map (arg ar) ps = map snd ar" "map (\<lambda>p. (p, arg ar p)) ps = ar"
    unfolding assms(2) [symmetric] by (auto intro!: map_idI)
qed

lemma bind_positional:
  assumes "distinct (map fst ar)" and "map fst ar = map fst (sg_pos sg)" and "sg_kw sg = []"
  shows "bind_args sg (map snd ar) [] = Ok ar"
proof -
  have "length ar = length (sg_pos sg)" using assms(2) by (metis length_map)
  moreover have "zip (map fst (sg_pos sg)) (map snd ar) = ar" unfolding assms(2) [symmetric] by (rule zip_map_fst_snd)
  ultimately show ?thesis using assms(3) by (simp add: bind_args_def)
qed

lemma bind_rest_given:
  "(\<And>p. p \<in> set (map fst ps) \<Longrightarrow> map_of kw p = Some (g p)) \<Longrightarrow>
   bind_rest kw ps = Ok (map (\<lambda>p. (p, g p)) (map fst ps))"
  by (induction kw ps rule: bind_rest.induct) auto

lemma bind_named:
  assumes "distinct (map fst ar)" and "map fst ar = params sg"
  shows "bind_args sg [] ar = Ok ar"
proof -
  have "map_of ar p = Some (arg ar p)" if "p \<in> set (params sg)" for p
    using that unfolding assms(2) [symmetric] by (auto simp: arg_def map_of_eq_None_iff split: option.splits)
  from bind_rest_given [of "sg_pos sg @ sg_kw sg", OF this]
  have "bind_rest ar (sg_pos sg @ sg_kw sg) = Ok ar" unfolding map_arg(2) [OF assms] .
  moreover have "set (map fst ar) \<subseteq> set (map fst (drop (length ([] :: pyval list)) (sg_pos sg) @ sg_kw sg))"
    unfolding assms(2) by (simp add: image_Un)
  ultimately show ?thesis by (simp add: bind_args_def image_Un)
qed

text \<open>
  A forwarding method fits a method of a client: its parameters have the same names in the same order,
  and all of them are passed.
\<close>

definition fits :: "forward \<Rightarrow> signature \<Rightarrow> bool" where
  "fits f tg \<longleftrightarrow> params (fw_sig f) = params tg \<and> distinct (params tg) \<and>
     (fw_pos f = params tg \<and> fw_kw f = [] \<and> sg_kw tg = [] \<or> fw_pos f = [] \<and> fw_kw f = params tg)"

definition with_result :: "forward \<Rightarrow> pyval res \<times> 's \<Rightarrow> pyval res \<times> 's" where
  "with_result f rs = (case rs of (r, s) \<Rightarrow> (rbind r (\<lambda>v. Ok (if fw_result f then v else PNone)), s))"

lemma fits_delegates:
  assumes "resolve c (fw_name f) = Some (owner, tg, b)" and "fits f tg" and "bind_args (fw_sig f) pos kw = Ok ar"
  shows "call_sai run c f pos kw s = (case b of
     Abstract \<Rightarrow> (Err NotImplementedError, s) | Nothing \<Rightarrow> (Ok PNone, s)
   | Code \<Rightarrow> with_result f (run owner (fw_name f) ar s))"
proof -
  have names: "map fst ar = params tg" "distinct (map fst ar)"
    using bind_args_names [OF assms(3)] assms(2) by (auto simp: fits_def)
  have "bind_args tg (map (arg ar) (fw_pos f)) (map (\<lambda>p. (p, arg ar p)) (fw_kw f)) = Ok ar"
    using assms(2) bind_positional [of ar tg] bind_named [OF names(2, 1)] names map_arg [OF names(2) refl]
    unfolding fits_def by auto
  then show ?thesis
    by (cases b)
      (auto simp: call_sai_def call_client_def assms(1,3) with_result_def py_bind_def py_lift_def py_return_def py_raise_def
        split: prod.splits res.splits)
qed

section \<open>Who answers\<close>

lemma redis_answers:
  assumes "f \<in> set sai_forwards" and "fw_name f \<noteq> ''deinit''" and "c \<in> {SaiRedisClient, SaiZmqClient}"
  shows "\<exists>tg. resolve c (fw_name f) = Some (SaiRedisClient, tg, Code) \<and> fits f tg"
proof -
  have "list_all (\<lambda>f. fw_name f \<noteq> ''deinit'' \<longrightarrow> (case resolve c (fw_name f) of
      Some (owner, tg, b) \<Rightarrow> owner = SaiRedisClient \<and> b = Code \<and> fits f tg | None \<Rightarrow> False)) sai_forwards"
    using assms(3) by (elim insertE emptyE; hypsubst; code_simp)
  with assms(1,2) show ?thesis by (auto simp: list_all_iff split: option.splits prod.splits)
qed

text \<open>What the Thrift client does not have, and what nothing above it has either.\<close>

definition thrift_lacks :: "string list" where
  "thrift_lacks = [''set_loglevel'', ''set_flex_counter_group'', ''del_flex_counter_group'',
     ''start_flex_counter_poll'', ''stop_flex_counter_poll'', ''clear_flex_counters'', ''get_flex_counter'',
     ''del_flex_counter'', ''get_availability'', ''remote_iface_exists'', ''remote_iface_is_up'',
     ''remote_iface_status_set'', ''remote_iface_agent_start'', ''remote_iface_agent_stop'']"

definition thrift_answer :: "forward \<Rightarrow> bool" where
  "thrift_answer f \<longleftrightarrow> (case resolve SaiThriftClient (fw_name f) of
     None \<Rightarrow> fw_name f = ''alloc_vid''
   | Some (owner, tg, b) \<Rightarrow> fw_name f \<noteq> ''alloc_vid'' \<and>
       (fw_name f = ''start_flex_counter_poll'' \<or> fits f tg) \<and>
       (if fw_name f = ''deinit'' then b = Nothing
        else if fw_name f \<in> set thrift_lacks then b = Abstract else owner = SaiThriftClient \<and> b = Code))"

lemma thrift_answers: "f \<in> set sai_forwards \<Longrightarrow> thrift_answer f"
proof -
  have "list_all thrift_answer sai_forwards" by code_simp
  then show "f \<in> set sai_forwards \<Longrightarrow> thrift_answer f" by (simp add: list_all_iff)
qed

text \<open>
  The polling of a flex counter fits the interface too, which has one more parameter with a default.
\<close>

lemma thrift_poll_lacks:
  assumes "f \<in> set sai_forwards" and "fw_name f = ''start_flex_counter_poll''" and "bind_args (fw_sig f) pos kw = Ok ar"
  shows "call_sai run SaiThriftClient f pos kw s = (Err NotImplementedError, s)"
proof -
  let ?g = "by_keyword ''start_flex_counter_poll'' start_poll_sig"
  let ?tg = "sig_of [needed ''group_name'', needed ''oid'', needed ''counters'', (''counter_type'', Some PNone), assert_param]"
  have "list_all (\<lambda>f. fw_name f = ''start_flex_counter_poll'' \<longrightarrow> f = ?g) sai_forwards" by code_simp
  with assms(1,2) have f: "f = ?g" by (auto simp: list_all_iff)
  have r: "resolve SaiThriftClient ''start_flex_counter_poll'' = Some (SaiClient, ?tg, Abstract)" by code_simp
  have "\<exists>br. bind_args ?tg [] (map (\<lambda>p. (p, arg ar p)) (params start_poll_sig)) = Ok br"
    by (simp add: bind_args_def sig_of_def start_poll_sig_def)
  then show ?thesis using assms(3)
    by (auto simp: f by_keyword_def call_sai_def call_client_def r py_bind_def py_lift_def py_raise_def)
qed

lemma thrift_calls:
  assumes "f \<in> set sai_forwards" and "bind_args (fw_sig f) pos kw = Ok ar"
  shows "call_sai run SaiThriftClient f pos kw s =
    (if fw_name f = ''alloc_vid'' then (Err AttributeError, s)
     else if fw_name f = ''deinit'' then (Ok PNone, s)
     else if fw_name f \<in> set thrift_lacks then (Err NotImplementedError, s)
     else with_result f (run SaiThriftClient (fw_name f) ar s))"
proof (cases "fw_name f = ''start_flex_counter_poll''")
  case True
  moreover have "''start_flex_counter_poll'' \<in> set thrift_lacks" by (simp add: thrift_lacks_def)
  ultimately show ?thesis using thrift_poll_lacks [OF assms(1) True assms(2)] by simp
next
  case False
  show ?thesis
  proof (cases "resolve SaiThriftClient (fw_name f)")
    case None
    then show ?thesis using thrift_answers [OF assms(1)] assms(2)
      by (simp add: thrift_answer_def call_sai_def call_client_def py_bind_def py_lift_def py_raise_def)
  next
    case (Some x)
    obtain owner tg b where x: "x = (owner, tg, b)" by (metis prod_cases3)
    from thrift_answers [OF assms(1)] Some x False have "fits f tg" by (simp add: thrift_answer_def)
    from fits_delegates [OF Some [unfolded x] this assms(2)] thrift_answers [OF assms(1)] Some x
    show ?thesis by (auto simp: thrift_answer_def split: if_splits)
  qed
qed

end
