(* ===== verification/CliRun.thy ===== *)
theory CliRun imports Testbed ThriftMeta begin

text \<open>
  \<open>cli/main.py\<close> as a whole: the commands with their arguments, the guard of the \<open>counter\<close> group that runs
  before its subcommands, and how a command gets its test bed and its entity from the configuration
  file. The bodies of the commands are in \<open>Cli\<close>, the test bed is in \<open>Testbed\<close>. What \<open>click\<close> does with a
  command line that does not fit is a parameter.
\<close>

section \<open>The commands\<close>

datatype arg_val = One "string option" | Many "string list"

record argument =
  ar_name :: string
  ar_required :: bool
  ar_many :: bool

definition one :: "string \<Rightarrow> argument" where "one n = \<lparr>ar_name = n, ar_required = True, ar_many = False\<rparr>"
definition optional :: "string \<Rightarrow> argument" where "optional n = \<lparr>ar_name = n, ar_required = False, ar_many = False\<rparr>"
definition several :: "string \<Rightarrow> argument" where "several n = \<lparr>ar_name = n, ar_required = True, ar_many = True\<rparr>"
definition any_number :: "string \<Rightarrow> argument" where "any_number n = \<lparr>ar_name = n, ar_required = False, ar_many = True\<rparr>"

text \<open>A command: its place in the tree, its declared arguments, the parameters of its function.\<close>

record cli_command =
  cm_path :: "string list"
  cm_args :: "argument list"
  cm_params :: "string list"

definition cli_cmd :: "string list \<Rightarrow> argument list \<Rightarrow> string list \<Rightarrow> cli_command" where
  "cli_cmd path as ps = \<lparr>cm_path = path, cm_args = as, cm_params = ps\<rparr>"

definition testbed_commands :: "cli_command list" where
  "testbed_commands =
    [cli_cmd [''testbed'', ''set''] [one ''testbed''] [''testbed''], cli_cmd [''testbed'', ''info''] [] [], cli_cmd [''testbed'', ''init''] [] []]"

definition dut_commands :: "cli_command list" where
  "dut_commands =
    [cli_cmd [''dut'', ''init''] [optional ''dut''] [''dut''],
     cli_cmd [''dut'', ''set''] [one ''dut'', optional ''asic''] [''dut'', ''asic'']]"

definition object_commands :: "cli_command list" where
  "object_commands =
    [cli_cmd [''init''] [] [], cli_cmd [''get''] [one ''oid'', several ''attrs''] [''oid'', ''attrs''],
     cli_cmd [''set''] [one ''oid'', one ''attr'', one ''value''] [''oid'', ''attr'', ''value''],
     cli_cmd [''create''] [one ''obj_type'', any_number ''attrs''] [''obj_type'', ''attrs''],
     cli_cmd [''remove''] [one ''oid''] [''oid'']]"

definition listing_commands :: "cli_command list" where
  "listing_commands =
    [cli_cmd [''list''] [optional ''obj_type''] [''obj_type''], cli_cmd [''dump''] [one ''oid''] [''oid'']]"

definition stats_commands :: "cli_command list" where
  "stats_commands =
    [cli_cmd [''stats'', ''get''] [one ''oid'', several ''cntrs''] [''oid'', ''cntrs''],
     cli_cmd [''stats'', ''clear''] [one ''oid'', several ''cntrs''] [''oid'', ''cntrs'']]"

definition group_commands :: "cli_command list" where
  "group_commands =
    [cli_cmd [''counter'', ''group'', ''set''] [one ''group_name'', several ''attrs''] [''group_name'', ''attrs''],
     cli_cmd [''counter'', ''group'', ''del''] [one ''group_name''] [''group_name'']]"

definition poll_commands :: "cli_command list" where
  "poll_commands =
    [cli_cmd [''counter'', ''poll'', ''start''] [one ''group_name'', one ''oid'', one ''cntrs''] [''group_name'', ''oid'', ''cntrs''],
     cli_cmd [''counter'', ''poll'', ''stop''] [one ''group_name'', one ''oid''] [''group_name'', ''oid'']]"

definition counter_commands :: "cli_command list" where
  "counter_commands =
    [cli_cmd [''counter'', ''get''] [one ''oid'', any_number ''cntrs''] [''oid'', ''cntrs''],
     cli_cmd [''counter'', ''del''] [one ''oid''] [''oid'']]"

definition version_command :: "cli_command list" where
  "version_command = [cli_cmd [''version''] [] []]"

definition cli_commands :: "cli_command list" where
  "cli_commands = testbed_commands @ dut_commands @ object_commands @ listing_commands @ stats_commands @
     group_commands @ poll_commands @ counter_commands @ version_command"

text \<open>The values \<open>click\<close> may give an argument.\<close>

definition val_fits :: "argument \<Rightarrow> arg_val \<Rightarrow> bool" where
  "val_fits a v = (case v of
     One x \<Rightarrow> \<not> ar_many a \<and> (ar_required a \<longrightarrow> x \<noteq> None)
   | Many xs \<Rightarrow> ar_many a \<and> (ar_required a \<longrightarrow> xs \<noteq> []))"

definition values_fit :: "argument list \<Rightarrow> (string \<times> arg_val) list \<Rightarrow> bool" where
  "values_fit as vals = list_all2 (\<lambda>a (n, v). n = ar_name a \<and> val_fits a v) as vals"

definition opt_val :: "(string \<times> arg_val) list \<Rightarrow> string \<Rightarrow> string option" where
  "opt_val vals n = (case map_of vals n of Some (One x) \<Rightarrow> x | _ \<Rightarrow> None)"

definition one_val :: "(string \<times> arg_val) list \<Rightarrow> string \<Rightarrow> string" where
  "one_val vals n = (case opt_val vals n of Some x \<Rightarrow> x | None \<Rightarrow> [])"

definition many_val :: "(string \<times> arg_val) list \<Rightarrow> string \<Rightarrow> string list" where
  "many_val vals n = (case map_of vals n of Some (Many xs) \<Rightarrow> xs | _ \<Rightarrow> [])"

text \<open>
  What the bodies take: the client, the metadata, the object types; \<open>op_entity\<close> is \<open>get_sai_entity()\<close> and
  \<open>op_redis\<close> whether its client is a \<open>SaiRedisClient\<close>; \<open>op_usage\<close> is \<open>click\<close>'s refusal of a command line. The
  others are parameters of the bodies.
\<close>

record 'c cli_ops =
  op_client :: "'c sai_client"
  op_counters :: "'c cli_client"
  op_types :: "sai_obj_type list"
  op_meta :: "pyval option"
  op_entity :: "('c cli, unit) py"
  op_redis :: bool
  op_usage :: "('c cli, bool option) py"
  op_reset :: "('c cli, unit) py"
  op_asic :: "pyval option"
  op_target :: "pyval option"
  op_bed_meta :: "pyval \<Rightarrow> pyval res"
  op_bed_up :: "pyval \<Rightarrow> ('c cli, unit) py"
  op_duts :: "pyval \<Rightarrow> (string \<times> ('c cli, unit) py) list"
  op_tuple :: "string list \<Rightarrow> string"
  op_repr :: "string \<Rightarrow> string"
  op_msg :: string

definition object_body :: "'c cli_ops \<Rightarrow> string list \<Rightarrow> (string \<times> arg_val) list \<Rightarrow> ('c cli, bool option) py" where
  "object_body p path vals =
     (if path = [''testbed'', ''set''] then testbed_set (one_val vals ''testbed'')
      else if path = [''testbed'', ''info''] then testbed_info (op_bed_meta p)
      else if path = [''testbed'', ''init''] then testbed_init (op_bed_up p)
      else if path = [''dut'', ''init''] then dut_init (op_duts p) (opt_val vals ''dut'')
      else if path = [''dut'', ''set''] then dut_set
      else if path = [''init''] then cli_init (op_entity p) (op_reset p) (op_asic p) (op_target p)
      else if path = [''get''] then cli_get (op_client p) (op_meta p) (op_entity p) (one_val vals ''oid'') (many_val vals ''attrs'')
      else if path = [''set''] then
        cli_set (op_client p) (op_entity p) (one_val vals ''oid'') (one_val vals ''attr'') (one_val vals ''value'')
      else if path = [''create''] then
        cli_create (op_client p) (op_types p) (op_tuple p) (op_entity p) (one_val vals ''obj_type'') (many_val vals ''attrs'')
      else if path = [''remove''] then cli_remove (op_client p) (op_entity p) (one_val vals ''oid'')
      else if path = [''list''] then cli_list (op_counters p) (op_types p) (op_entity p) (opt_val vals ''obj_type'')
      else if path = [''dump''] then cli_dump (op_client p) (op_meta p) (op_entity p) (one_val vals ''oid'')
      else cli_version)"

definition counter_body :: "'c cli_ops \<Rightarrow> string list \<Rightarrow> (string \<times> arg_val) list \<Rightarrow> ('c cli, bool option) py" where
  "counter_body p path vals =
     (let x = op_counters p; e = op_entity p; oid = one_val vals ''oid''; g = one_val vals ''group_name'' in
      if path = [''stats'', ''get''] then stats_get x e oid (many_val vals ''cntrs'')
      else if path = [''stats'', ''clear''] then stats_clear x e oid (many_val vals ''cntrs'')
      else if path = [''counter'', ''group'', ''set''] then group_set x e (op_msg p) g (many_val vals ''attrs'')
      else if path = [''counter'', ''group'', ''del''] then group_del x e g
      else if path = [''counter'', ''poll'', ''start''] then poll_start x e (op_msg p) (op_repr p) g oid (one_val vals ''cntrs'')
      else if path = [''counter'', ''poll'', ''stop''] then poll_stop x e (op_msg p) g oid
      else if path = [''counter'', ''get''] then counter_get x e oid (many_val vals ''cntrs'')
      else counter_del x e oid)"

definition cli_body :: "'c cli_ops \<Rightarrow> string list \<Rightarrow> (string \<times> arg_val) list \<Rightarrow> ('c cli, bool option) py" where
  "cli_body p path vals =
     (if hd path \<in> {''stats'', ''counter''} then counter_body p path vals else object_body p path vals)"

text \<open>The callback of the group runs first; then the function gets its arguments by name.\<close>

definition group_guard :: "'c cli_ops \<Rightarrow> string list \<Rightarrow> ('c cli, unit) py" where
  "group_guard p path = (if hd path = ''counter'' then counter_guard (op_entity p) (op_redis p) else py_return ())"

definition cli_main :: "'c cli_ops \<Rightarrow> string list \<Rightarrow> (string \<times> arg_val) list \<Rightarrow> ('c cli, bool option) py" where
  "cli_main p path vals = (case find (\<lambda>c. cm_path c = path) cli_commands of
     None \<Rightarrow> op_usage p
   | Some c \<Rightarrow>
       py_bind (group_guard p path) (\<lambda>_.
       if \<not> values_fit (cm_args c) vals then op_usage p
       else if set (map ar_name (cm_args c)) \<noteq> set (cm_params c) then py_raise TypeError
       else cli_body p path vals))"

text \<open>Every command has a place of its own, and every function takes the arguments that are declared for it.\<close>

lemma commands_distinct: "distinct (map cm_path cli_commands)"
  by code_simp

lemma commands_take_arguments: "c \<in> set cli_commands \<Longrightarrow> cm_params c = map ar_name (cm_args c)"
proof -
  have "list_all (\<lambda>c. cm_params c = map ar_name (cm_args c)) cli_commands" by code_simp
  then show "c \<in> set cli_commands \<Longrightarrow> cm_params c = map ar_name (cm_args c)" by (simp add: list_all_iff)
qed

lemma find_command: "c \<in> set cli_commands \<Longrightarrow> find (\<lambda>d. cm_path d = cm_path c) cli_commands = Some c"
proof -
  have "distinct (map f xs) \<Longrightarrow> c \<in> set xs \<Longrightarrow> find (\<lambda>d. f d = f c) xs = Some c" for f :: "cli_command \<Rightarrow> string list" and xs
    by (induction xs) (auto simp: image_iff)
  then show "c \<in> set cli_commands \<Longrightarrow> ?thesis" using commands_distinct by blast
qed

lemma cli_main_command:
  assumes "c \<in> set cli_commands"
  shows "cli_main p (cm_path c) vals =
    py_bind (group_guard p (cm_path c)) (\<lambda>_. if values_fit (cm_args c) vals then cli_body p (cm_path c) vals else op_usage p)"
  using find_command [OF assms] commands_take_arguments [OF assms] by (auto simp: cli_main_def intro!: arg_cong [where f = "py_bind _"])

text \<open>Without a Redis client no counter command prints, sends or refuses anything: it ends with the error.\<close>

lemma counter_commands_guarded:
  assumes "c \<in> set cli_commands" and "hd (cm_path c) = ''counter''" and "\<not> op_redis p" and "op_entity p s = (Ok u, t)"
  shows "cli_main p (cm_path c) vals s = (Err PyException, t)"
  unfolding cli_main_command [OF assms(1)]
  by (simp add: group_guard_def counter_guard_def assms py_bind_def py_raise_def)

text \<open>
  A command that declares an object ID refuses a text that is none: its body prints the message, and
  before it only the guard of the \<open>counter\<close> group has run.
\<close>

definition takes_oid :: "cli_command \<Rightarrow> bool" where
  "takes_oid c \<longleftrightarrow> ''oid'' \<in> set (map ar_name (cm_args c))"

lemma oid_commands_paths:
  assumes "c \<in> set cli_commands" and "takes_oid c"
  shows "cm_path c \<in> {[''get''], [''set''], [''remove''], [''dump''], [''stats'', ''get''], [''stats'', ''clear''],
    [''counter'', ''poll'', ''start''], [''counter'', ''poll'', ''stop''], [''counter'', ''get''], [''counter'', ''del'']}"
proof -
  have "list_all (\<lambda>c. takes_oid c \<longrightarrow> cm_path c \<in> {[''get''], [''set''], [''remove''], [''dump''], [''stats'', ''get''],
    [''stats'', ''clear''], [''counter'', ''poll'', ''start''], [''counter'', ''poll'', ''stop''], [''counter'', ''get''],
    [''counter'', ''del'']}) cli_commands"
    by code_simp
  with assms show ?thesis by (simp only: list_all_iff)
qed

lemma oid_body_refuses:
  assumes "c \<in> set cli_commands" and "takes_oid c" and "\<not> starts_with (one_val vals ''oid'') ''oid:''"
  shows "cli_body p (cm_path c) vals s = (Ok (Some False), s\<lparr>echoed := echoed s @ [[], bad_oid]\<rparr>)"
  using oid_commands_paths [OF assms(1,2)] assms(3)
  by (elim insertE emptyE) (simp_all add: cli_body_def counter_body_def object_body_def oid_commands Let_def with_oid_refused)

lemma oid_command_refuses:
  assumes "c \<in> set cli_commands" and "takes_oid c" and "values_fit (cm_args c) vals"
    and "\<not> starts_with (one_val vals ''oid'') ''oid:''"
  shows "cli_main p (cm_path c) vals s =
    (if hd (cm_path c) \<noteq> ''counter'' then (Ok (Some False), s\<lparr>echoed := echoed s @ [[], bad_oid]\<rparr>)
     else case op_entity p s of
       (Ok _, t) \<Rightarrow> if op_redis p then (Ok (Some False), t\<lparr>echoed := echoed t @ [[], bad_oid]\<rparr>) else (Err PyException, t)
     | (Err e, t) \<Rightarrow> (Err e, t))"
proof -
  have "cli_body p (cm_path c) vals = (\<lambda>t. (Ok (Some False), t\<lparr>echoed := echoed t @ [[], bad_oid]\<rparr>))"
    by (rule ext, rule oid_body_refuses [OF assms(1,2,4)])
  with assms(3) have "cli_main p (cm_path c) vals s =
    py_bind (group_guard p (cm_path c)) (\<lambda>_ t. (Ok (Some False), t\<lparr>echoed := echoed t @ [[], bad_oid]\<rparr>)) s"
    by (simp only: cli_main_command [OF assms(1)] if_True)
  then show ?thesis
    by (simp add: group_guard_def counter_guard_def py_bind_def py_return_def py_raise_def split: prod.splits res.splits)
qed

section \<open>The configuration file and the entity\<close>

text \<open>
  What the commands share on disk and in the world: \<open>cw_cfg\<close> is the text of \<open>/etc/sai-c/cfg.json\<close> and \<open>cw_env\<close> the
  environment of the test bed.
\<close>

record 'e cli_world =
  cw_cfg :: "string option"
  cw_env :: 'e

text \<open>\<open>json.dumps({"testbed": name}, indent=4) + "\\n"\<close>.\<close>

definition cfg_text :: "string \<Rightarrow> string" where
  "cfg_text name = ''{'' @ [nl_ch] @ ''    '' @ dumps_str ''testbed'' @ '': '' @ dumps_str name @ [nl_ch] @ ''}'' @ [nl_ch]"

definition write_testbed :: "string \<Rightarrow> ('e cli_world, unit) py" where
  "write_testbed name = py_modify (\<lambda>w. w\<lparr>cw_cfg := Some (cfg_text name)\<rparr>)"

text \<open>Whatever goes wrong with the file, there is no configuration.\<close>

definition read_cfg :: "string option \<Rightarrow> pyval option" where
  "read_cfg txt = (case txt of None \<Rightarrow> None | Some t \<Rightarrow> (case loads t of Ok v \<Rightarrow> Some v | Err _ \<Rightarrow> None))"

text \<open>The name of the configured test bed.\<close>

definition cfg_testbed :: "pyval option \<Rightarrow> pyval option res" where
  "cfg_testbed f = (case f of
     None \<Rightarrow> Ok None
   | Some cfg \<Rightarrow>
       if \<not> truthy cfg then Ok None
       else (case cfg of
         PDict kvs \<Rightarrow>
           (let name = (case map_of kvs ''testbed'' of Some n \<Rightarrow> n | None \<Rightarrow> PStr ''undefined'') in
            Ok (if name = PStr ''undefined'' then None else Some name))
       | _ \<Rightarrow> Err AttributeError))"

definition sai_home :: string where "sai_home = ''/sai-challenger''"

text \<open>
  \<open>get_sai_testbed\<close>: the test bed is made from its description, without traffic and data planes, and
  spawned. A name that is no text fails like a description that cannot be read.
\<close>

definition spawned_testbed ::
  "host \<Rightarrow> ('e, 'd, 'a, 'p) parts \<Rightarrow> pyval \<Rightarrow> ('e cli_world, ('e, 'd, 'a, 'p) tbed) py" where
  "spawned_testbed H P name =
     py_bind (py_get cw_env) (\<lambda>e.
     py_bind (py_lift (case name of PStr n \<Rightarrow> new_testbed H sai_home n False True e | _ \<Rightarrow> Err AssertionError)) (\<lambda>tb w.
     (case tb_spawn H P tb of (r, tb') \<Rightarrow>
        (case r of Ok _ \<Rightarrow> Ok tb' | Err x \<Rightarrow> Err x, w\<lparr>cw_env := tb_env tb'\<rparr>))))"

definition world_testbed ::
  "host \<Rightarrow> ('e, 'd, 'a, 'p) parts \<Rightarrow> ('e cli_world, ('e, 'd, 'a, 'p) tbed option) py" where
  "world_testbed H P =
     py_bind (py_get cw_cfg) (\<lambda>txt.
     py_bind (py_lift (cfg_testbed (read_cfg txt))) (\<lambda>name. case name of
       None \<Rightarrow> py_return None
     | Some n \<Rightarrow> py_bind (spawned_testbed H P n) (\<lambda>tb. py_return (Some tb))))"

text \<open>The parameters of the switch when no test bed is configured.\<close>

definition exec_params :: pyval where
  "exec_params = PDict [(''traffic'', PBool False), (''testbed'', PNone), (''alias'', PStr ''dut''), (''asic'', PNone),
     (''target'', PNone), (''sku'', PNone),
     (''client'', PDict [(''type'', PStr ''redis''),
       (''config'', PDict [(''ip'', PStr ''localhost''), (''port'', PInt 6379), (''loglevel'', PStr ''NOTICE'')])])]"

text \<open>\<open>get_sai_entity\<close>: the first NPU of the test bed, or the default switch.\<close>

definition world_entity :: "host \<Rightarrow> ('e, 'd, 'a, 'p) parts \<Rightarrow> ('e cli_world, 'a) py" where
  "world_entity H P =
     py_bind (world_testbed H P) (\<lambda>tb. case tb of
       Some t \<Rightarrow> py_lift (nth_res (tb_npu t) 0)
     | None \<Rightarrow> (\<lambda>w. case mk_asic P None ''npu'' exec_params None (cw_env w) of (r, e) \<Rightarrow> (r, w\<lparr>cw_env := e\<rparr>)))"

section \<open>Facts\<close>

text \<open>The reading of the file is what \<open>Cli\<close> does with the content of the file.\<close>

lemma get_sai_testbed_reads:
  "get_sai_testbed s = (cfg_testbed (cfg_file s), s)"
  by (auto simp: get_sai_testbed_def cfg_testbed_def py_simps Let_def split: option.splits pyval.splits)

lemma cfg_text_read: "read_cfg (Some (cfg_text name)) = Some (PDict [(''testbed'', PStr name)])"
proof -
  have v: "scan_value (Suc f) (skip_ws (CHR '' '' # dumps_str g @ u)) = Ok (PStr g, u)" for f g u
    by (simp add: dumps_str_def scan_dumps_str)
  have m: "scan_members (Suc (Suc f)) (skip_ws (replicate 4 CHR '' '' @ dumps_str ''testbed'' @ '':'' @ CHR '' '' #
      dumps_str name @ nl_ch # ''}'' @ [nl_ch])) [] = Ok (PDict [(''testbed'', PStr name)], [nl_ch])" for f
    using scan_member [where e = "CHR ''}''" and es = "[nl_ch]" and n = 4 and a = "''testbed''" and d = "[]", OF v] by simp
  obtain n where n: "2 * length (cfg_text name) = Suc (Suc n)"
    by (cases "2 * length (cfg_text name)"; cases "2 * length (cfg_text name) - 1") (auto simp: cfg_text_def)
  obtain c cs where c: "skip_ws (replicate 4 CHR '' '' @ dumps_str ''testbed'' @ '':'' @ CHR '' '' #
      dumps_str name @ nl_ch # ''}'' @ [nl_ch]) = quote_ch # cs" by (simp add: dumps_str_def)
  have "skip_ws (cfg_text name) = cfg_text name" by (simp add: cfg_text_def skip_ws_def is_ws_def)
  moreover have "scan_value (Suc (Suc (Suc n))) (cfg_text name) =
      scan_members (Suc (Suc n)) (skip_ws (replicate 4 CHR '' '' @ dumps_str ''testbed'' @ '':'' @ CHR '' '' #
      dumps_str name @ nl_ch # ''}'' @ [nl_ch])) []"
    using c by (simp add: cfg_text_def numeral_eq_Suc del: scan_members.simps)
  ultimately have "loads (cfg_text name) = Ok (PDict [(''testbed'', PStr name)])"
    unfolding loads_def m by (simp add: n del: scan_value.simps scan_members.simps)
  then show ?thesis by (simp add: read_cfg_def)
qed

text \<open>What \<open>testbed set\<close> stores is the test bed every later command uses, except for one name.\<close>

lemma testbed_set_used:
  "name \<noteq> ''undefined'' \<Longrightarrow> cfg_testbed (read_cfg (Some (cfg_text name))) = Ok (Some (PStr name))"
  "cfg_testbed (read_cfg (Some (cfg_text ''undefined''))) = Ok None"
  by (simp_all add: cfg_text_read cfg_testbed_def)

text \<open>
  An entity is the first NPU: a test bed of DPUs and PHYs gives an \<open>IndexError\<close>, although \<open>testbed info\<close>
  shows it as the active target.
\<close>

lemma world_testbed_spawned:
  assumes "cfg_testbed (read_cfg (cw_cfg w)) = Ok (Some (PStr name))"
    and "new_testbed H sai_home name False True (cw_env w) = Ok tb" and "tb_spawn H P tb = (Ok u, tb')"
  shows "world_testbed H P w = (Ok (Some tb'), w\<lparr>cw_env := tb_env tb'\<rparr>)"
  using assms by (simp add: world_testbed_def spawned_testbed_def py_simps)

lemma new_testbed_empty:
  assumes "new_testbed H base name traffic skip e = Ok tb"
  shows "tb_npu tb = []" "tb_dpu tb = []" "tb_phy tb = []" "tb_dut tb = []" "tb_dataplane tb = []"
    "load_testbed H base name = Ok (tb_config tb)" "tb_env tb = e"
  using assms by (auto simp: new_testbed_def)

lemma entity_is_first_npu:
  assumes "cfg_testbed (read_cfg (cw_cfg w)) = Ok (Some (PStr name))"
    and "new_testbed H sai_home name False True (cw_env w) = Ok tb" and "tb_spawn H P tb = (Ok u, tb')"
    and "entries ''npu'' (tb_config tb) = Ok npus"
  shows "world_entity H P w =
    (if npus = [] then Err IndexError else Ok (hd (tb_npu tb')), w\<lparr>cw_env := tb_env tb'\<rparr>)"
proof -
  note empty = new_testbed_empty [OF assms(2)]
  obtain npus' N where "entries ''npu'' (tb_config tb) = Ok npus'" "all_made H P tb ''npu'' npus' N" "tb_npu tb' = map snd N"
    by (rule tb_spawn_Ok [OF assms(3) empty(1-3)])
  with assms(4) have len: "length (tb_npu tb') = length npus" by (auto simp: all_made_def dest: list_all2_lengthD)
  show ?thesis
    using len by (cases "tb_npu tb'")
      (auto simp: world_entity_def py_bind_def world_testbed_spawned [OF assms(1-3)] py_lift_def nth_res_def)
qed

end
