(* ===== verification/PtfSession.thy ===== *)
theory PtfSession imports PtfPlane begin

text \<open>
  What surrounds the data plane of the PTF: the default configuration and the logging of
  \<open>ptf/sai_ptf_dataplane.py\<close>, and the session fixture \<open>set_ptf_params\<close> of \<open>usecases/sai-ptf/conftest.py\<close>, which
  restarts the server, gives the PTF runner its arguments and brings the data plane up and down around
  the tests. Files, the runner and the restart are parameters.
\<close>

section \<open>The default configuration\<close>

text \<open>The two time-outs are floating-point numbers, kept in tenths of a second.\<close>

datatype cfg_value = Val pyval | Tenths nat | Interfaces "((nat \<times> nat) \<times> string) list"

definition default_interfaces :: "((nat \<times> nat) \<times> string) list" where
  "default_interfaces = map (\<lambda>i. ((0, i), ''veth'' @ int_str (int i + 1))) [0..<16]"

definition config_default :: "(string \<times> cfg_value) list" where
  "config_default =
    [(''list'', Val (PBool False)), (''list_test_names'', Val (PBool False)), (''allow_user'', Val (PBool False)),
     (''test_spec'', Val (PStr [])), (''test_file'', Val PNone), (''test_dir'', Val PNone),
     (''test_order'', Val (PStr ''default'')), (''test_order_seed'', Val (PInt 2748)),
     (''platform'', Val (PStr ''eth'')), (''platform_args'', Val PNone), (''platform_dir'', Val PNone),
     (''interfaces'', Interfaces default_interfaces), (''device_sockets'', Val (PList [])),
     (''log_file'', Val (PStr ''ptf.log'')), (''log_dir'', Val PNone), (''debug'', Val (PStr ''verbose'')),
     (''profile'', Val (PBool False)), (''profile_file'', Val (PStr ''profile.out'')),
     (''xunit'', Val (PBool False)), (''xunit_dir'', Val (PStr ''xunit'')),
     (''relax'', Val (PBool False)), (''test_params'', Val PNone), (''failfast'', Val (PBool False)),
     (''fail_skipped'', Val (PBool False)), (''default_timeout'', Tenths 20), (''default_negative_timeout'', Tenths 1),
     (''minsize'', Val (PInt 0)), (''random_seed'', Val PNone), (''disable_ipv6'', Val (PBool False)),
     (''disable_vxlan'', Val (PBool True)), (''disable_erspan'', Val (PBool True)), (''disable_geneve'', Val (PBool True)),
     (''disable_mpls'', Val (PBool True)), (''disable_nvgre'', Val (PBool True)), (''disable_igmp'', Val (PBool False)),
     (''qlen'', Val (PInt 100)), (''test_case_timeout'', Val PNone), (''socket_recv_size'', Val (PInt 4096)),
     (''port_map'', Val PNone)]"

text \<open>The fields of the state that \<open>PtfPlane\<close> keeps of the configuration have these values at the start.\<close>

lemma default_config_reads:
  "map_of config_default ''port_map'' = Some (Val PNone) \<and> cfg_map (default_config s) = None"
  "map_of config_default ''platform'' = Some (Val (PStr (cfg_platform (default_config s))))"
  "map_of config_default ''log_dir'' = Some (Val PNone) \<and> cfg_log_dir (default_config s) = None"
  "map_of config_default ''log_file'' = Some (Val (PStr (cfg_log_file (default_config s))))"
  by (simp_all add: config_default_def default_config_def)

section \<open>Logging\<close>

text \<open>The levels of \<open>logging\<close>, by number.\<close>

definition debug_levels :: "(string \<times> nat) list" where
  "debug_levels = [(''debug'', 10), (''verbose'', 10), (''info'', 20), (''warning'', 30), (''warn'', 30), (''error'', 40),
     (''critical'', 50)]"

record 'e log_files =
  lf_level :: "nat \<Rightarrow> ('e, unit) py"
  lf_exists :: "string \<Rightarrow> ('e, bool) py"
  lf_rmtree :: "string \<Rightarrow> ('e, unit) py"
  lf_makedirs :: "string \<Rightarrow> ('e, unit) py"
  lf_remove :: "string \<Rightarrow> ('e, unit) py"
  lf_open :: "string \<Rightarrow> ('e, unit) py"

definition logging_setup :: "'e log_files \<Rightarrow> string \<Rightarrow> string option \<Rightarrow> string \<Rightarrow> ('e, unit) py" where
  "logging_setup F debug log_dir log_file =
     py_bind (py_lift (dict_getitem debug_levels debug)) (\<lambda>level.
     py_bind (lf_level F level) (\<lambda>_.
     py_bind (case log_dir of
       Some dir \<Rightarrow>
         py_bind (lf_exists F dir) (\<lambda>b.
         py_bind (if b then lf_rmtree F dir else py_return ()) (\<lambda>_.
         lf_makedirs F dir))
     | None \<Rightarrow> py_bind (lf_exists F log_file) (\<lambda>b. if b then lf_remove F log_file else py_return ())) (\<lambda>_.
     lf_open F ''main'')))"

text \<open>The library of the data plane, with the logging of the default configuration.\<close>

definition with_logging :: "'e log_files \<Rightarrow> 'e ptf_lib \<Rightarrow> 'e ptf_lib" where
  "with_logging F L = L\<lparr>pt_open_log := logging_setup F ''verbose'' None ''ptf.log''\<rparr>"

text \<open>An unknown level stops the set-up before any file is touched; the old log is removed, not appended to.\<close>

lemma unknown_level: "map_of debug_levels debug = None \<Longrightarrow> logging_setup F debug dir file s = (Err KeyError, s)"
  by (simp add: logging_setup_def py_simps dict_getitem_def)

text \<open>What the operations on files do to the paths that exist.\<close>

definition files_laws :: "'e log_files \<Rightarrow> ('e \<Rightarrow> string set) \<Rightarrow> bool" where
  "files_laws F paths \<longleftrightarrow>
     (\<forall>l e. fst (lf_level F l e) = Ok () \<and> paths (snd (lf_level F l e)) = paths e) \<and>
     (\<forall>p e. fst (lf_exists F p e) = Ok (p \<in> paths e) \<and> paths (snd (lf_exists F p e)) = paths e) \<and>
     (\<forall>p e. p \<in> paths e \<longrightarrow> fst (lf_remove F p e) = Ok () \<and> paths (snd (lf_remove F p e)) = paths e - {p}) \<and>
     (\<forall>p e. p \<in> paths e \<longrightarrow> fst (lf_rmtree F p e) = Ok () \<and> paths (snd (lf_rmtree F p e)) = paths e - {p}) \<and>
     (\<forall>p e. p \<notin> paths e \<longrightarrow> fst (lf_makedirs F p e) = Ok () \<and> paths (snd (lf_makedirs F p e)) = insert p (paths e)) \<and>
     (\<forall>n e. fst (lf_open F n e) = Ok () \<and> paths (snd (lf_open F n e)) = paths e)"

lemma py_bind_returns: "fst (m s) = Ok x \<Longrightarrow> py_bind m f s = f x (snd (m s))"
  by (simp add: py_bind_app split_def)

text \<open>A log file is removed, not appended to, and a log directory is made anew: \<open>makedirs\<close> never meets an old one.\<close>

lemma logging_setup_files:
  assumes "files_laws F paths" and "map_of debug_levels debug = Some n"
  shows "fst (logging_setup F debug None file s) = Ok () \<and> paths (snd (logging_setup F debug None file s)) = paths s - {file}"
    and "fst (logging_setup F debug (Some dir) file s) = Ok () \<and>
      paths (snd (logging_setup F debug (Some dir) file s)) = insert dir (paths s)"
  using assms
  by (auto simp: logging_setup_def files_laws_def dict_getitem_def py_lift_app py_bind_returns py_return_app py_bind_app [of "py_lift r" for r]
      py_bind_assoc)

section \<open>The session of the SAI PTF tests\<close>

text \<open>
  \<open>so_supervisor\<close>: \<open>supervisorctl restart saiserver\<close> on this host. \<open>so_ssh\<close>: the same over SSH. \<open>so_write\<close>: the
  files of \<open>generate_sai_ptf_config_files\<close>. \<open>so_runner\<close>: loading the PTF runner with its arguments, which
  leaves a platform and a port map in \<open>ptf.config\<close>. \<open>so_pcap\<close>: \<open>pcap_setup\<close>.
\<close>

record 'e session_ops =
  so_supervisor :: "('e, unit) py"
  so_ssh :: "string \<Rightarrow> pyval \<Rightarrow> pyval \<Rightarrow> ('e, unit) py"
  so_sleep :: "nat \<Rightarrow> ('e, unit) py"
  so_write :: "pyval \<times> string list \<Rightarrow> ('e, unit) py"
  so_runner :: "string list \<Rightarrow> ('e, string \<times> port_map) py"
  so_pcap :: "('e, unit) py"

definition restart_server :: "'e session_ops \<Rightarrow> restart \<Rightarrow> ('e, unit) py" where
  "restart_server S r = (case r of
     Supervisor \<Rightarrow> py_catch (so_supervisor S) (\<lambda>_. True) (py_raise RuntimeError)
   | Remote ip user pw \<Rightarrow> py_bind (so_ssh S ip user pw) (\<lambda>_. so_sleep S 5000)
   | NoRestart \<Rightarrow> py_return ())"

text \<open>The arguments for the runner, with or without a test bed.\<close>

definition session_argv :: "host \<Rightarrow> 'e session_ops \<Rightarrow> string option \<Rightarrow> ('e, string list) py" where
  "session_argv H S testbed = (case testbed of
     None \<Rightarrow> py_return (ptf_argv ''127.0.0.1'' [])
   | Some name \<Rightarrow>
       if name = [] then py_return (ptf_argv ''127.0.0.1'' [])
       else
         py_bind (py_lift (load_testbed H ''/sai-challenger'' name)) (\<lambda>config.
         py_bind (py_lift (saiserver_restart config)) (\<lambda>(ip, r).
         py_bind (restart_server S r) (\<lambda>_.
         py_bind (py_lift (ptf_config_files H ''/sai-challenger'' config None ''npu'')) (\<lambda>files.
         py_bind (case files of None \<Rightarrow> py_return () | Some fs \<Rightarrow> so_write S fs) (\<lambda>_.
         py_lift (ptf_session_args config)))))))"

text \<open>
  Up to the \<open>yield\<close> of the fixture, and after it. Whatever happens in the tests, the fixture goes on: they
  are a change \<open>tests\<close> of the environment.
\<close>

definition session_plane :: "'e session_ops \<Rightarrow> 'e ptf_lib \<Rightarrow> string list \<Rightarrow> ('e, nat) py" where
  "session_plane S L argv =
     py_bind (so_runner S argv) (\<lambda>(platform, ports).
     py_bind (pt_new L platform) (\<lambda>d.
     py_bind (so_pcap S) (\<lambda>_.
     py_bind (py_iter (\<lambda>((device, port), ifname). pt_port_add L d ifname device port) ports) (\<lambda>_.
     py_return d))))"

definition session_end :: "'e ptf_lib \<Rightarrow> nat \<Rightarrow> ('e, unit) py" where
  "session_end L d = py_bind (pt_stop_pcap L d) (\<lambda>_. pt_kill L d)"

definition set_ptf_params ::
  "host \<Rightarrow> 'e session_ops \<Rightarrow> 'e ptf_lib \<Rightarrow> string option \<Rightarrow> ('e \<Rightarrow> 'e) \<Rightarrow> ('e, unit) py" where
  "set_ptf_params H S L testbed tests =
     py_bind (session_argv H S testbed) (\<lambda>argv.
     py_bind (session_plane S L argv) (\<lambda>d.
     py_bind (py_modify tests) (\<lambda>_. session_end L d)))"

text \<open>
  Each port becomes two arguments, as long as no alias or name has a blank; without a port the runner
  gets one empty argument.
\<close>

lemma port_options:
  assumes "list_all2 (\<lambda>m (a, n). rbind (py_item ''alias'' m) py_format = Ok a \<and> rbind (py_item ''name'' m) py_format = Ok n) ms ans"
    and "list_all (\<lambda>(a, n). CHR '' '' \<notin> set a \<and> CHR '' '' \<notin> set n) ans" and "ans \<noteq> []"
  shows "to_ptf_int_list ms = Ok (concat (map (\<lambda>(a, n). [''--interface'', a @ ''@'' @ n]) ans))"
proof -
  let ?words = "concat (map (\<lambda>(a, n). [''--interface'', a @ ''@'' @ n]) ans)"
  have "list_all2 (\<lambda>m o'. port_option m = Ok o') ms (map (\<lambda>(a, n). ''--interface '' @ a @ ''@'' @ n) ans)"
    using assms(1) by (induction rule: list_all2_induct) (auto simp: port_option_def)
  then have opts: "rmap port_option ms = Ok (map (\<lambda>(a, n). ''--interface '' @ a @ ''@'' @ n) ans)"
    by (simp add: rmap_list_all2)
  have join: "str_join '' '' (map (\<lambda>(a, n). ''--interface '' @ a @ ''@'' @ n) ans) = str_join '' '' ?words"
    using assms(3)
  proof (induction ans rule: list_nonempty_induct)
    case (cons x xs)
    obtain a n where x: "x = (a, n)" by (metis surj_pair)
    have "concat (map (\<lambda>(a, n). [''--interface'', a @ ''@'' @ n]) xs) \<noteq> []" using cons.hyps by (cases xs) auto
    with cons x show ?case by (simp add: str_join_Cons)
  qed (auto split: prod.splits)
  have "str_split '' '' (str_join '' '' ?words) = ?words"
    using assms(2,3) by (intro str_split_join) (cases ans, auto simp: list_all_iff split: prod.splits)
  then show ?thesis unfolding to_ptf_int_list_def opts rbind.simps join by (rule arg_cong [where f = Ok])
qed

lemma no_port_options: "to_ptf_int_list [] = Ok [[]]"
  by (simp add: to_ptf_int_list_def str_split_None)

context port_log begin

lemma port_adds_logged:
  "logs log (map (\<lambda>((dev, p), n). (d, n, dev, p)) ports)
     (py_iter (\<lambda>((dev, p), n). pt_port_add L d n dev p) ports)"
proof (induction ports)
  case (Cons x ports)
  obtain dev p n where x: "x = ((dev, p), n)" by (metis surj_pair)
  show ?case using logs_bind [OF log_add Cons.IH, of d n dev p] by (simp add: x)
qed (simp add: logs_def py_return_app)

lemma session_ports:
  assumes "silent log (so_pcap S)" and "silent log (so_runner S argv)" and "session_plane S L argv e = (Ok d, f)"
  shows "\<exists>platform ports e'. so_runner S argv e = (Ok (platform, ports), e') \<and>
    log f = log e @ map (\<lambda>((dev, p), n). (d, n, dev, p)) ports"
proof -
  from assms(3) obtain pp e1 where 1: "so_runner S argv e = (Ok pp, e1)"
    and rest: "(case pp of (platform, ports) \<Rightarrow> py_bind (pt_new L platform) (\<lambda>d.
     py_bind (so_pcap S) (\<lambda>_.
     py_bind (py_iter (\<lambda>((device, port), ifname). pt_port_add L d ifname device port) ports) (\<lambda>_.
     py_return d)))) e1 = (Ok d, f)"
    unfolding session_plane_def py_bind_Ok_iff [of "so_runner S argv"] by blast
  obtain platform ports where pp: "pp = (platform, ports)" by (metis surj_pair)
  from rest [unfolded pp prod.case] obtain d' e2 u e3 u' e4 where 2: "pt_new L platform e1 = (Ok d', e2)" and 3: "so_pcap S e2 = (Ok u, e3)"
    and 4: "py_iter (\<lambda>((device, port), ifname). pt_port_add L d' ifname device port) ports e3 = (Ok u', e4)"
    and 5: "py_return d' e4 = (Ok d, f)"
    unfolding py_bind_Ok_iff by blast
  have "d' = d" "e4 = f" using 5 by (simp_all add: py_return_app)
  with logsD [OF port_adds_logged 4] silentD [OF assms(2) 1] silentD [OF log_quiet(5) 2] silentD [OF assms(1) 3]
  have "log f = log e @ map (\<lambda>((dev, p), n). (d, n, dev, p)) ports" by simp
  with 1 pp show ?thesis by blast
qed

end

end
