(* ===== verification/PacketTools.thy ===== *)
theory PacketTools imports Snappi Delegation begin

text \<open>
  The helpers a test calls for packets, beside what \<open>Snappi\<close> has of them
  (\<open>common/sai_dataplane/utils/ptf_testutils.py\<close>, \<open>traffic_utils.py\<close>): the constructors, which belong to the
  \<open>ptf\<close> package; the names that are redirected by the driver, with the signatures on both sides; and the
  printing of two packets side by side.
\<close>

section \<open>Constructors\<close>

text \<open>The constructors; each calls the function of the same name of the package, which \<open>ptf\<close> stands for.\<close>

definition packet_constructors :: "string list" where
  "packet_constructors = map (\<lambda>n. ''simple_'' @ n @ ''_packet'')
    [''arp'', ''eth'', ''geneve'', ''gre_erspan'', ''gre'', ''grev6'', ''icmp'', ''icmpv6'', ''igmp'', ''ip_only'', ''ip'', ''ipv4ip'',
     ''ipv6_mld'', ''ipv6_sr'', ''ipv6ip'', ''mpls'', ''nvgre'', ''qinq_tcp'', ''rocev2'', ''rocev2v6'', ''tcp'', ''tcpv6'', ''udp'',
     ''udpv6'', ''vxlan'', ''vxlanv6'']"

definition construct ::
  "(string \<Rightarrow> pyval list \<Rightarrow> (string \<times> pyval) list \<Rightarrow> 'p res) \<Rightarrow> string \<Rightarrow> pyval list \<Rightarrow> (string \<times> pyval) list \<Rightarrow> 'p res" where
  "construct ptf name a kw = (if name \<in> set packet_constructors then ptf name a kw else Err NameError)"

section \<open>Redirected names\<close>

text \<open>
  The signatures the module shows for the redirected names, after the test, and those of the methods of
  \<open>SnappiDataPlaneUtilsWrapper\<close>.
\<close>

abbreviation none_for :: "string \<Rightarrow> string \<times> pyval option" where "none_for p \<equiv> (p, Some PNone)"

definition redirected :: "(string \<times> signature) list" where
  "redirected =
    [(''send_packet'', sig_of [needed ''port_id'', needed ''pkt'', (''count'', Some (PInt 1))]),
     (''verify_packets'', sig_of [needed ''pkt'', (''ports'', Some (PList [])), (''device_number'', Some (PInt 0)),
        none_for ''timeout'', none_for ''n_timeout'']),
     (''verify_packet'', sig_of [needed ''pkt'', needed ''port_id'', none_for ''timeout'']),
     (''verify_no_packet'', sig_of [needed ''pkt'', needed ''port_id'', none_for ''timeout'']),
     (''verify_no_other_packets'', sig_of [(''device_number'', Some (PInt 0)), none_for ''timeout'']),
     (''verify_any_packet_any_port'', sig_of [(''pkts'', Some (PList [])), (''ports'', Some (PList [])),
        (''device_number'', Some (PInt 0)), none_for ''timeout'', none_for ''n_timeout''])]"

definition wrapper_methods :: "(string \<times> signature) list" where
  "wrapper_methods =
    [(''send_packet'', sig_of [needed ''port_id'', needed ''pkt'', (''count'', Some (PInt 1))]),
     (''verify_no_any_packet'', sig_of [needed ''port_id'', none_for ''timeout'', none_for ''step'']),
     (''verify_packet'', sig_of [needed ''pkt'', needed ''port_id'', none_for ''timeout'', none_for ''step'']),
     (''verify_packets'', sig_of [needed ''packet'', needed ''ports_id'', (''device_number'', Some (PInt 0)),
        none_for ''timeout'', none_for ''n_timeout'', none_for ''step'']),
     (''verify_no_packet'', sig_of [needed ''pkt'', needed ''port_id'', none_for ''timeout'', none_for ''step'']),
     (''verify_no_other_packets'', sig_of [(''device_number'', Some (PInt 0)), none_for ''timeout'', none_for ''step'']),
     (''verify_any_packet_any_port'', sig_of [(''pkts'', Some (PList [])), (''ports'', Some (PList [])),
        (''device_number'', Some (PInt 0)), none_for ''timeout'', none_for ''n_timeout''])]"

text \<open>Where a call goes: to the function of the package with all its arguments, or to the method of the wrapper.\<close>

datatype target = ToPtf string "pyval list" "(string \<times> pyval) list" | ToWrapper string "(string \<times> pyval) list"

definition redirect :: "string \<Rightarrow> string \<Rightarrow> pyval list \<Rightarrow> (string \<times> pyval) list \<Rightarrow> target res" where
  "redirect driver name pos kw =
     (if driver \<noteq> ''snappi'' then Ok (ToPtf name pos kw)
      else (case map_of wrapper_methods name of
        None \<Rightarrow> Err AttributeError
      | Some sg \<Rightarrow> rbind (bind_args sg pos kw) (\<lambda>ar. Ok (ToWrapper name ar))))"

text \<open>
  A call of all parameters by position reaches the wrapper; by name it does, too, but for one function,
  whose parameters have other names there.
\<close>

lemma bind_rest_defaults: "list_all (\<lambda>p. snd p \<noteq> None) ps \<Longrightarrow> \<exists>ar. bind_rest [] ps = Ok ar"
  by (induction "[] :: (string \<times> pyval) list" ps rule: bind_rest.induct) auto

lemma redirect_by_position:
  assumes "(name, sg) \<in> set redirected" and "length pos = length (sg_pos sg)"
  shows "\<exists>ar. redirect ''snappi'' name pos [] = Ok (ToWrapper name ar) \<and> map snd (take (length pos) ar) = pos"
proof -
  have "list_all (\<lambda>(name, sg). case map_of wrapper_methods name of None \<Rightarrow> False | Some tg \<Rightarrow>
      length (sg_pos sg) \<le> length (sg_pos tg) \<and> sg_kw tg = [] \<and>
      list_all (\<lambda>p. snd p \<noteq> None) (drop (length (sg_pos sg)) (sg_pos tg))) redirected"
    by code_simp
  with assms(1) obtain tg where tg: "map_of wrapper_methods name = Some tg" "length (sg_pos sg) \<le> length (sg_pos tg)"
    "sg_kw tg = []" "list_all (\<lambda>p. snd p \<noteq> None) (drop (length (sg_pos sg)) (sg_pos tg))"
    by (auto simp: list_all_iff split: option.splits)
  obtain ar where ar: "bind_rest [] (drop (length pos) (sg_pos tg)) = Ok ar"
    using bind_rest_defaults tg(4) assms(2) by metis
  have "bind_args tg pos [] = Ok (zip (map fst (sg_pos tg)) pos @ ar)"
    using tg assms(2) ar by (simp add: bind_args_def)
  moreover have "map snd (zip (map fst (sg_pos tg)) pos) = pos" using tg(2) assms(2) by (simp add: map_snd_zip_take)
  moreover have "length (zip (map fst (sg_pos tg)) pos) = length pos" using tg(2) assms(2) by simp
  ultimately show ?thesis by (simp add: redirect_def tg(1))
qed

lemma redirect_by_name:
  "redirect ''snappi'' ''verify_packets'' [] [(''pkt'', p), (''ports'', q)] = Err TypeError"
  by (simp add: redirect_def wrapper_methods_def bind_args_def sig_of_def)

section \<open>Packets side by side\<close>

abbreviation tab :: char where "tab \<equiv> CHR 0x09"

text \<open>A row: the byte expected and the byte received, where there is one.\<close>

definition rows :: "bytes \<Rightarrow> bytes \<Rightarrow> (8 word option \<times> 8 word option) list" where
  "rows bex brx = map (\<lambda>i. (if i < length bex then Some (bex ! i) else None, if i < length brx then Some (brx ! i) else None))
     [0..<max (length bex) (length brx)]"

definition row_same :: "8 word option \<times> 8 word option \<Rightarrow> bool" where
  "row_same r = (case r of (Some a, Some b) \<Rightarrow> a = b | _ \<Rightarrow> False)"

definition byte_col :: "8 word option \<Rightarrow> string" where
  "byte_col b = (case b of Some x \<Rightarrow> hex_byte x | None \<Rightarrow> ''--'')"

definition row_text :: "nat \<Rightarrow> 8 word option \<times> 8 word option \<Rightarrow> string" where
  "row_text i r = ''['' @ int_str (int i) @ '']'' @ [tab] @ '' '' @ byte_col (fst r) @ [tab] @ '' '' @
     (if row_same r then ''=='' else ''!='') @ [tab] @ '' '' @ byte_col (snd r)"

definition print_pkts_side_by_side :: "bytes \<Rightarrow> bytes \<Rightarrow> string list" where
  "print_pkts_side_by_side p1 p2 =
     [''Byte#'' @ [tab] @ '' Exp '' @ [tab] @ '' Eq?'' @ [tab] @ '' Rx'', []] @
     map (\<lambda>(i, r). row_text i r) (enumerate 0 (rows p1 p2))"

text \<open>There is a row per byte of the longer packet, and every row says the bytes are the same exactly when the packets are.\<close>

lemma rows_same: "list_all row_same (rows p1 p2) \<longleftrightarrow> p1 = p2"
proof
  assume same: "list_all row_same (rows p1 p2)"
  have at: "i < length p1 \<and> i < length p2 \<and> p1 ! i = p2 ! i" if "i < max (length p1) (length p2)" for i
    using same that by (auto simp: list_all_length rows_def row_same_def split: if_splits option.splits)
  then have "length p1 = length p2" by (metis linorder_neqE_nat max_less_iff_conj less_max_iff_disj less_irrefl)
  with at show "p1 = p2" by (intro nth_equalityI) auto
qed (simp add: list_all_length rows_def row_same_def)

lemma side_by_side_length: "length (print_pkts_side_by_side p1 p2) = 2 + max (length p1) (length p2)"
  by (simp add: print_pkts_side_by_side_def rows_def)

end
