(* ===== verification/BenchInstances.thy ===== *)
theory BenchInstances imports ClientInstances PtfPlane Listener PlaneRuns ThriftMeta Delegation CliRun PtfSession PacketTools begin

text \<open>
  Instances for the test bed around the clients: a SONiC device, a server whose listener runs while
  the client sleeps, a traffic generator with one packet captured on its port, and the PTF.
\<close>

section \<open>A SONiC device\<close>

text \<open>The time, and whether the database container runs. Redis answers from the third second on.\<close>

definition running_json :: "bool \<Rightarrow> string" where
  "running_json b = dumps (PList [PDict [(''State'', PDict [(''Running'', PBool b)])]])"

definition metadata_text :: string where
  "metadata_text = concat (map (\<lambda>(k, v). k @ CHR 0x0A # v @ [CHR 0x0A]) [(''hwsku'', ''DX010''), (''mac'', ''02:00'')])"

definition demo_device :: "(int \<times> bool) dut_env" where
  "demo_device = \<lparr>ssh_connect = (\<lambda>_ _ _. py_return ()),
     ssh_run = (\<lambda>c (t, b). (Ok (), (t, if c = ''docker stop database'' then False
       else if c = ''docker start database'' then True else b))),
     ssh_output = (\<lambda>c (t, b). (Ok (
       if c = ''cat device_metadata.log'' then metadata_text
       else if c = ''docker inspect database'' then running_json b
       else if c = ''docker inspect syncd'' then running_json False
       else ''inactive''), (t, b))),
     dut_ping = (\<lambda>(t, b). (if t < 3000 then Err PyException else Ok (), (t, b))),
     dut_flushall = py_return (), dut_flushdb = (\<lambda>_. py_return ()), dut_hset = (\<lambda>_ _ _. py_return ()),
     dut_set_key = (\<lambda>_ _ _. py_return ()),
     dut_now = (\<lambda>(t, b). (Ok t, (t, b))), dut_sleep = (\<lambda>ms (t, b). (Ok (), (t + ms, b)))\<rparr>"

text \<open>The same device when it cannot be reached.\<close>

definition dead_device :: "(int \<times> bool) dut_env" where
  "dead_device = demo_device\<lparr>ssh_connect := (\<lambda>_ _ _. py_raise PyException)\<rparr>"

definition demo_dut :: "'e \<Rightarrow> 'e dut" where
  "demo_dut e = sonic_init_state [(''mode'', PStr ''sonic-restore''), (''ip'', PStr ''10.0.0.1'')] e"

lemma demo_device_clock: "dut_clock_laws demo_device fst"
  by (auto simp: dut_clock_laws_def demo_device_def)

section \<open>A test bed\<close>

definition plain_port :: "string \<Rightarrow> pyval" where
  "plain_port lanes = PDict [(''alias'', PInt 0), (''lanes'', PStr lanes)]"

definition demo_ports :: "pyval list" where
  "demo_ports = [plain_port ''0,1,2,3'', plain_port ''4,5,6,7'', plain_port ''8'']"

definition port_sku :: pyval where
  "port_sku = PDict [(''speed'', PStr ''100000''), (''fec'', PStr ''rs''), (''autoneg'', PStr ''off'')]"

section \<open>The listener beside the client\<close>

text \<open>
  The lists of the server, the flags of the interfaces, and how many sleeps of 50 ms the listener has
  been asleep. The host has one interface, which the listener may configure.
\<close>

type_synonym server = "(string \<Rightarrow> string list) \<times> (string \<Rightarrow> int option) \<times> nat"

definition demo_host :: "server host_os" where
  "demo_host = \<lparr>h_ifaces = py_return [''eth0''],
     h_get_flags = (\<lambda>n (q, fl, p). (case fl n of Some w \<Rightarrow> Ok w | None \<Rightarrow> Err OSError, (q, fl, p))),
     h_set_flags = (\<lambda>n v (q, fl, p). if n = ''eth0'' then (Ok (), (q, fl(n \<mapsto> v), p)) else (Err OSError, (q, fl, p))),
     h_popen = (\<lambda>_. py_return 1), h_stop = (\<lambda>_. py_return ())\<rparr>"

definition queue_server :: "(nat \<Rightarrow> (server, unit) py) \<Rightarrow> server redis_env" where
  "queue_server sl = \<lparr>
     rd_delete = (\<lambda>_ k (q, h). (Ok 1, (q(k := []), h))),
     rd_lrange = (\<lambda>_ k (q, h). (Ok (q k), (q, h))),
     rd_lpush = (\<lambda>_ k vs (q, h). (Ok (), (q(k := rev vs @ q k), h))),
     rd_rpush = (\<lambda>_ k vs (q, h). (Ok (), (q(k := q k @ vs), h))),
     rd_publish = (\<lambda>_ _ _. py_return ()), rd_numsub = (\<lambda>_ _. py_return 1), rd_get = (\<lambda>_ _. py_return None),
     rd_set = (\<lambda>_ _ _. py_return ()), rd_incr = (\<lambda>_ _. py_return 1), rd_hget = (\<lambda>_ _ _. py_return None),
     rd_hgetall = (\<lambda>_ _. py_return []), rd_hset = (\<lambda>_ _ _. py_return ()), rd_hdel = (\<lambda>_ _ _. py_return ()),
     rd_hmget = (\<lambda>_ _ _. py_return []), rd_exists = (\<lambda>_ _. py_return 0), rd_sadd = (\<lambda>_ _ _. py_return ()),
     rd_scan = (\<lambda>_ _ _. py_return ([], 0)), rd_flushdb = (\<lambda>_. py_return ()), rd_flushall = (\<lambda>_. py_return ()),
     rd_shutdown = (\<lambda>_. py_return ()), sleep_ms = sl, connect_to = (\<lambda>_ _. py_return True)\<rparr>"

text \<open>While the client sleeps three times the listener sleeps too; in the fourth it looks into the command queue.\<close>

definition listening :: "nat \<Rightarrow> (server, unit) py" where
  "listening ms = (\<lambda>(q, fl, p).
     if p < 3 then (Ok (), (q, fl, Suc p))
     else if q ''SAI_CHALLENGER_CMD_QUEUE'' = [] then (Ok (), (q, fl, 0))
     else case answer_command (queue_server (\<lambda>_. py_return ())) demo_host (q ''SAI_CHALLENGER_CMD_QUEUE'')
         \<lparr>lenv = (q, fl, p), agent = None\<rparr> of
       (Ok _, t) \<Rightarrow> (Ok (), lenv t) | (Err x, t) \<Rightarrow> (Err x, lenv t))"

definition demo_queues :: "server redis_env" where
  "demo_queues = queue_server listening"

abbreviation demo_flags :: "server \<Rightarrow> string \<Rightarrow> int option" where
  "demo_flags e \<equiv> fst (snd e)"

lemma demo_queue_laws: "queue_laws demo_queues fst (\<lambda>_. [''eth0''])"
  by (simp add: queue_laws_def demo_queues_def queue_server_def)

lemma demo_flag_queues: "queue_laws demo_queues fst demo_flags"
  by (simp add: queue_laws_def demo_queues_def queue_server_def)

lemma demo_flag_laws: "flag_laws demo_host fst demo_flags {''eth0''} UNIV"
  by (auto simp: flag_laws_def demo_host_def)

lemma answer_same_sleep: "answer_command (queue_server f) demo_host = answer_command (queue_server g) demo_host"
  by (intro ext) (simp add: answer_command_def queue_server_def)

lemma demo_sleep: "sleep_ms demo_queues = listening"
  by (simp add: demo_queues_def queue_server_def)

lemma demo_listener_polls:
  assumes "\<And>q fl p p'. os (q, fl, p) = os (q, fl, p')"
  shows "listener_polls demo_queues demo_host fst os 4"
  unfolding listener_polls_def demo_sleep
proof (intro allI impI)
  fix e :: server assume pending: "fst e ''SAI_CHALLENGER_CMD_QUEUE'' \<noteq> []"
  obtain q fl p where e: "e = (q, fl, p)" by (metis surj_pair)
  let ?k = "3 - p" and ?g = "\<lambda>j. (q, fl, p + j)"
  have same: "answer_command demo_queues demo_host = answer_command (queue_server (\<lambda>_. py_return ())) demo_host"
    unfolding demo_queues_def by (rule answer_same_sleep)
  have last: "listening 50 (?g ?k) = (Ok (), lenv t)"
    if "answer_command demo_queues demo_host (fst (?g ?k) ''SAI_CHALLENGER_CMD_QUEUE'') \<lparr>lenv = ?g ?k, agent = None\<rparr> = (Ok (), t)" for t
  proof -
    have late: "\<not> p + (3 - p) < 3" by linarith
    show ?thesis using that pending e by (simp add: listening_def late same)
  qed
  show "\<exists>k g a. k < 4 \<and> g 0 = e \<and>
      (\<forall>j<k. listening 50 (g j) = (Ok (), g (Suc j)) \<and> fst (g (Suc j)) = fst (g j) \<and> os (g (Suc j)) = os (g j)) \<and>
      (\<forall>t. answer_command demo_queues demo_host (fst (g k) ''SAI_CHALLENGER_CMD_QUEUE'') \<lparr>lenv = g k, agent = a\<rparr> = (Ok (), t) \<longrightarrow>
        listening 50 (g k) = (Ok (), lenv t))"
    using last assms e
    by (intro exI [of _ ?k] exI [of _ ?g] exI [of _ None] conjI allI impI) (auto simp: listening_def)
qed

definition queue_client :: "server rclient" where
  "queue_client = \<lparr>asic_channel = None, env = (\<lambda>_. [], [''eth0'' \<mapsto> 2], 0)\<rparr>"

section \<open>A traffic generator\<close>

text \<open>Packets are their bytes; a capture holds one packet with its checksum.\<close>

definition byte_packets :: "bytes scapy" where
  "byte_packets = \<lparr>pk_bytes = id, pk_len = length, pk_has = (\<lambda>_ l. l = ''Ether''), pk_ether = id,
     pk_layer = (\<lambda>_ n. if n = 0 then Some ''Ethernet'' else None), pk_field = (\<lambda>_ _ _. PNone),
     pk_payload = (\<lambda>b _. drop 14 b)\<rparr>"

definition demo_traffic :: "int snappi_api" where
  "demo_traffic = \<lparr>now_ms = (\<lambda>t. (Ok t, t)), pause_ms = (\<lambda>ms t. (Ok (), t + ms)),
     api_set_config = (\<lambda>_ _. py_return ()), api_capture_state = (\<lambda>_. py_return ()),
     api_get_capture = (\<lambda>_ t. (Ok (if t < 500 then [] else [1, 2, 3, 4, 5, 6, 0, 0, 0, 0]), t)),
     api_transmit_state = (\<lambda>_ _. py_return True), api_transmit_of = (\<lambda>_. py_return []),
     api_port_metrics = py_return None, api_pcap = (\<lambda>b. ([b], None)), api_alias = (\<lambda>s. Ok s)\<rparr>"

definition demo_plane :: "int plane" where
  "demo_plane = \<lparr>pl_ports = [(''p1'', ''localhost:5555'')], pl_captures = [[''p1'']], pl_flows = [], pl_own = [],
     pl_counter = 0, penv = 0\<rparr>"

lemma byte_packets_ok: "scapy_ok byte_packets"
  by (simp add: scapy_ok_def byte_packets_def)

text \<open>Host and port of a flow are those of the only port.\<close>

lemma demo_plane_ok: "plane_ok demo_plane"
  by (simp add: plane_ok_def demo_plane_def)

section \<open>The PTF\<close>

text \<open>Data planes are numbered from one.\<close>

definition demo_ptf :: "nat ptf_lib" where
  "demo_ptf = \<lparr>pt_open_log = py_return (), pt_platform = (\<lambda>_. py_return ()), pt_default_map = py_return None,
     pt_is_root = py_return True, pt_new = (\<lambda>_ n. (Ok (n + 1), n + 1)), pt_start_pcap = (\<lambda>_ _. py_return ()),
     pt_stop_pcap = (\<lambda>_. py_return ()), pt_port_add = (\<lambda>_ _ _ _. py_return ()), pt_flush = (\<lambda>_. py_return ()),
     pt_kill = (\<lambda>_. py_return ()), pt_case_name = (\<lambda>_. ''case'')\<rparr>"

definition demo_agent :: "nat agent_ops" where
  "demo_agent = \<lparr>ag_start = (\<lambda>_. py_return True), ag_up = (\<lambda>_. py_return True), ag_stop = py_return True\<rparr>"

definition ptf_groups :: "pyval list" where
  "ptf_groups = [PDict [(''alias'', PInt 0), (''name'', PStr ''veth1'')], PDict [(''alias'', PInt 1), (''name'', PStr ''veth2'')]]"

definition ptf_description :: pyval where
  "ptf_description = PDict [(''type'', PStr ''ptf''), (''port_groups'', PList ptf_groups), (''traffic'', PBool True)]"

definition fresh_ptf :: "'e \<Rightarrow> 'e ptf" where
  "fresh_ptf e = \<lparr>cfg_map = None, cfg_platform = ''eth'', cfg_log_dir = None, cfg_log_file = ''ptf.log'', ptenv = e\<rparr>"

definition two_ports :: port_map where
  "two_ports = [((0, PInt 0), PStr ''veth1''), ((0, PInt 1), PStr ''veth2'')]"

definition host_ports :: "nat hostif" where
  "host_ports = \<lparr>cfg_map = Some two_ports, cfg_platform = ''eth'', cfg_log_dir = None, cfg_log_file = ''ptf.log'', ptenv = 1,
     hf_plane = Some (Some 1), hf_saved = None, hf_map = Some [((0, PInt 0), PStr (socket_addr ''localhost''))]\<rparr>"

section \<open>A test bed\<close>

text \<open>A switch with a device and a PHY without one, beside one data plane; what is made is a number.\<close>

definition demo_npu_entry :: pyval where
  "demo_npu_entry = PDict [(''alias'', PStr ''n''), (''asic'', PStr ''t''),
     (''client'', PDict [(''config'', PDict [(''mode'', PStr ''m'')])])]"

definition demo_phy_entry :: pyval where
  "demo_phy_entry = PDict [(''alias'', PStr ''p''), (''asic'', PStr ''t''), (''client'', PDict [(''config'', PDict [])])]"

definition demo_dirs :: host where
  "demo_dirs = \<lparr>read_file = \<lambda>_. None, find_dirs = \<lambda>_. [''d'']\<rparr>"

definition demo_parts :: "(nat, nat, nat, nat) parts" where
  "demo_parts = (let make = (\<lambda>n. (Ok n, Suc n)); quiet = (\<lambda>_. py_return ()) in
     \<lparr>mk_dut = \<lambda>_ n. (Ok (Some n), Suc n), has_module = \<lambda>_ _. False, mk_asic = \<lambda>_ _ _ _. make,
      mk_dataplane = \<lambda>_. make, dut_init_op = quiet, dut_deinit_op = quiet, asic_reset = quiet,
      asic_deinit = quiet, dp_init = quiet, dp_deinit = quiet, dp_setup = quiet, dp_teardown = quiet\<rparr>)"

definition demo_tbed :: "(nat, nat, nat, nat) tbed" where
  "demo_tbed = \<lparr>tb_config = PDict [(''npu'', PList [demo_npu_entry]), (''phy'', PList [demo_phy_entry]),
       (''dataplane'', PList [PDict []])],
     tb_base = ''b'', tb_traffic = True, tb_skip = False, tb_dut = [], tb_npu = [], tb_dpu = [], tb_phy = [],
     tb_dataplane = [], tb_env = 0\<rparr>"

section \<open>The command line on a test bed of DPUs\<close>

text \<open>A description with a DPU and no NPU, as the text of its file, and the world with that test bed configured.\<close>

definition demo_dpu_bed :: pyval where
  "demo_dpu_bed = PDict [(''dpu'', PList [PDict [(''alias'', PStr ''d''), (''asic'', PStr ''t''),
     (''client'', PDict [(''config'', PDict [])])]])]"

definition demo_bed_host :: host where
  "demo_bed_host = \<lparr>read_file = \<lambda>p. if p = ''/sai-challenger/testbeds/b.json'' then Some (dumps demo_dpu_bed) else None,
     find_dirs = \<lambda>_. [''d'']\<rparr>"

definition demo_world :: "nat cli_world" where
  "demo_world = \<lparr>cw_cfg = Some (cfg_text ''b''), cw_env = 0\<rparr>"

text \<open>What the commands work with over the Redis server in memory, with an entity that is always there.\<close>

definition demo_ops :: "mem rclient cli_ops" where
  "demo_ops = \<lparr>op_client = redis_sai_client (demo_redis []) demo_cfg demo_types,
     op_counters = redis_cli_client (demo_redis []) demo_cfg demo_types (redis_transport (demo_redis []) demo_cfg),
     op_types = demo_types, op_meta = None, op_entity = py_return (), op_redis = True, op_usage = py_raise PyException,
     op_reset = py_return (), op_asic = None, op_target = None, op_bed_meta = Ok, op_bed_up = (\<lambda>_. py_return ()),
     op_duts = (\<lambda>_. []), op_tuple = concat, op_repr = id, op_msg = []\<rparr>"

text \<open>A client whose methods return what they were given.\<close>

definition echo_client :: "client_class \<Rightarrow> string \<Rightarrow> (string \<times> pyval) list \<Rightarrow> (nat, pyval) py" where
  "echo_client c m ar = py_return (PDict ar)"

end
