(* ===== verification/Spec2Isabelle.thy ===== *)
theory Spec2Isabelle
  imports BenchInstances
begin

text \<open>
  SAI Challenger drives a switch through the SAI interface from Python tests.

  Parts and how they interact.  A test calls \<open>Sai\<close> (\<open>src/common/sai.py\<close>) or its subclass \<open>SaiNpu\<close>
  (\<open>src/common/sai_npu.py\<close>), or gives a list of commands to \<open>CommandProcessor\<close>, which keeps a
  registry of named objects and replaces references \<open>$NAME\<close> by object IDs. They call a client:
  \<open>SaiRedisClient\<close> (\<open>src/common/sai_client/sai_redis_client\<close>), which exchanges texts with syncd
  through lists of a Redis server, or \<open>SaiZmqClient\<close>, the same client over a ZMQ socket. Responses are
  JSON texts wrapped in \<open>SaiData\<close> (\<open>src/common/sai_data.py\<close>). \<open>Sai.apply_rec\<close> plays back a
  recording of SAI calls, translating the object IDs of the recording to those of this run.
  \<open>SaiPtfTopologyMixin\<close> (\<open>src/topologies/sai_ptf_topology.py\<close>) builds a standard layout of bridge
  ports, LAGs, VLANs and router interfaces over a \<open>SaiNpu\<close> and takes it down again.
  \<open>SaiThriftClient\<close> (\<open>src/common/sai_client/sai_thrift_client\<close>) is a third client, over generated
  Thrift calls; \<open>SaiPhy\<close> and \<open>SaiDpu\<close> are the other kinds of devices; \<open>src/cli/main.py\<close> is a command
  line over the same operations. Around them \<open>SaiTestbed\<close> (\<open>src/common/sai_testbed.py\<close>) reads the
  description of a test bed and makes the devices under test (\<open>src/common/sai_dut.py\<close>), the ASICs and
  the data planes (\<open>src/common/sai_dataplane\<close>), and takes them through a session;
  \<open>src/scripts/redis-cmd-listener.py\<close> works on the network interfaces of the host for the clients.

  Theories.
  \<^item> \<open>Prelude\<close>: exceptions as values, state passing \<open>('s, 'a) py\<close> with raising and handling, dictionaries
    in insertion order, and the rules for invariants (\<open>py_inv\<close>), outcomes (\<open>py_post\<close>) and returning
    (\<open>py_total\<close>). \<open>PyString\<close>, \<open>Json\<close>: what the code uses of \<open>str\<close>, \<open>int\<close> and \<open>json\<close>.
  \<^item> \<open>SaiData\<close>: \<open>sai_data.py\<close>: status codes, object types (a list that grows), the accessors of
    response data and the placeholders for list attributes.
  \<^item> \<open>RedisEnv\<close>, \<open>RedisClient\<close>, \<open>RedisOps\<close>, \<open>RedisFacts\<close>: the Redis client. The server, the clock and
    the process table are a record of functions on an unknown environment \<open>'e\<close>; \<open>redis_operate\<close> is
    \<open>operate\<close>, \<open>create\<close>, \<open>remove\<close>, \<open>set_attr\<close>, \<open>get_attrs\<close> the four verbs, \<open>RedisOps\<close> the rest.
    \<open>RedisFacts\<close> has the laws of the clock and the counter, the arrival of a response as an inductive
    relation, and the locale \<open>sai_transport\<close>: what the verbs promise over any exchange that returns
    three texts, interpreted for Redis and, in \<open>ZmqClient\<close>, for ZMQ.
  \<^item> \<open>SaiCore\<close>, \<open>CommandProcessor\<close>, \<open>RecPlayer\<close>: \<open>sai.py\<close>. The client is a record of its operations
    (\<open>sai_client\<close>); \<open>rpc_sai_client\<close> builds it from the Redis or the ZMQ client, and the locale
    \<open>sai_crud\<close> says what the callers rely on. \<open>Playback\<close>: what of the state a playback depends on and what
    it never changes.
  \<^item> \<open>Npu\<close>: \<open>sai_npu.py\<close>. \<open>Topology\<close>: the topologies; \<open>TopologyAudit\<close>: a client that counts creations and
    removals per type, and the locale \<open>audited\<close>, interpreted for it on every client.
  \<^item> \<open>EndToEnd\<close>: facts across these parts.
  \<^item> \<open>IpAddress\<close>, \<open>ThriftConvert\<close>, \<open>ThriftClient\<close>: \<open>sai_thrift_utils.py\<close>, with what it uses of
    \<open>ipaddress\<close>, and \<open>sai_thrift_client.py\<close>. The generated adapter is a record of functions.
  \<^item> \<open>PhyDpu\<close>: \<open>sai_phy.py\<close>, \<open>sai_dpu.py\<close> and the platform modules under \<open>npu/\<close> and \<open>phy/\<close>. \<open>Cli\<close>: the bodies of
    the commands of \<open>cli/main.py\<close>.
  \<^item> \<open>Deadline\<close>, \<open>Logs\<close>: loops until a deadline, as a number of turns of which enough make no
    difference, and what an operation adds to a log. \<open>Dut\<close>: \<open>sai_dut.py\<close>, with the locale \<open>device_log\<close>, in
    which the order of the actions on a device is proved, and \<open>device_journal\<close>, which has the outputs that
    were read as well; they are interpreted for every device with a log or a journal beside it. \<open>Testbed\<close>: \<open>sai_testbed.py\<close> and the choice of a data plane.
  \<^item> \<open>Listener\<close>: \<open>redis-cmd-listener.py\<close>, and the exchange of a command between client and listener:
    \<open>queue_laws\<close>, \<open>flag_laws\<close> and \<open>listener_polls\<close> are what it relies on of Redis, of the network devices of the
    host and of the listener that polls beside the client.
  \<^item> \<open>Traffic\<close>, \<open>Snappi\<close>: the helpers under \<open>sai_dataplane/utils\<close> and the Snappi data plane; \<open>PlaneRuns\<close>: its
    runs as an inductive step relation with the invariant of its configuration. \<open>PtfPlane\<close>: the PTF and
    the host interface data planes, the part of \<open>sai_npu.py\<close> that switches between them as an inductive
    relation, the locale \<open>port_log\<close> for the ports that are added, and the preparation of the SAI PTF tests
    (\<open>usecases/sai-ptf/conftest.py\<close>).
  \<^item> \<open>Delegation\<close>: the classes of the clients with the signatures of their methods, method resolution, the
    binding of arguments, and the methods of \<open>Sai\<close> that forward to the client.
  \<^item> \<open>ThriftMeta\<close>: the start of the Thrift client and the table of types it reads from the adapter with a
    pipeline of \<open>grep\<close> and \<open>sed\<close>; \<open>posix_tools\<close> is what it relies on.
  \<^item> \<open>CliRun\<close>: \<open>cli/main.py\<close> as a whole: the commands with their arguments, the guard of the \<open>counter\<close> group, the
    configuration file, and the test bed and the entity a command works on.
  \<^item> \<open>PtfSession\<close>: the default configuration and the logging of the PTF data plane, and the session of the
    SAI PTF tests. \<open>PacketTools\<close>: the packet constructors, the names that are redirected by the driver, and
    the printing of packets side by side.
  \<^item> \<open>Instances\<close>, \<open>ClientInstances\<close>, \<open>BenchInstances\<close>: concrete servers, clients, devices and libraries for
    the witnesses.

  Properties.  The command processor keeps its registry in step with the objects and well-formed
  (C1-C4); the clients deliver responses, wait for a bounded time, allocate distinct typed IDs and treat
  every status right, \<open>Sai\<close> passes its calls on with their arguments, the two transports agree, and the
  status of a host interface is read as it was set (C5-C13); values cross the Thrift interface unharmed,
  its types are read from the adapter, and what the Thrift client cannot do is known (C14-C18); the
  topology is complete and leaves nothing behind (C19, C20); the switch operations work in order and
  read lists completely, and the connectors of a PHY join its ports (C21-C25); the playback keeps its map
  of object IDs and forgets those of earlier runs (C26-C28); the command line refuses what is no object and works on the first NPU of its
  test bed (C29, C30); a device is prepared and given back in order, the waiting for it ends, every entry
  of a description gets its objects and every port its row (C31-C35); the data planes refer to their own
  ports, compare packets as they say and give the port map back, and waiting for a capture ends (C36-C40). The section after them has further facts of the same parts, with the theorems behind
  some of the defects found.

  Bounds.  Every loop of the code over a list is structural recursion. The polling loops count their
  attempts as the code does, so they need no fuel of their own. A loop with a deadline is given a number
  of turns: \<open>turns_enough\<close> shows that, with a clock that advances with the sleeping, the time over the
  interval is enough, and C33 and C40 say so of the loops. The JSON reader has fuel
  from the length of its text, which \<open>data_reading_ends\<close> proves to be enough.

  Not modelled.  What \<open>click\<close> does to split a command line; the constructors of packets, which belong to
  the \<open>ptf\<close> package, beyond their names; the PTF runner, the random seed and the signal handler of the PTF
  data plane. Packages (\<open>ptf\<close>, \<open>scapy\<close>, \<open>snappi\<close>, \<open>dpkt\<close>, \<open>paramiko\<close>, \<open>redis\<close>, \<open>zmq\<close>), the generated
  Thrift code, files, processes and clocks are parameters. Texts printed for the user are left out, but
  for those of the command line. Where the code could meet a value that the model has no form for (a
  float, a counter name that is no string) the definitions return the exception \<open>Unmodelled\<close>.
\<close>

section \<open>Commands and the registry\<close>

text \<open>
  C1: running a list of commands in clean-up mode to its end takes exactly the names that the list
  creates out of the registry: no such name is left, and every other name keeps its entry.
\<close>

theorem cleanup_unregisters:
  assumes "process_commands cl meta cmds True s = (Ok rs, t)"
  shows "map_of (objects_registry t) name =
    (if \<exists>c \<in> set cmds. map_of c ''op'' = Some (PStr ''create'') \<and> map_of c ''name'' = Some (PStr name)
     then None else map_of (objects_registry s) name)"
  by (rule cleanup_registry [OF assms])

theorem cleanup_unregisters_witness:
  "map_of (objects_registry (snd (process_commands (demo_client []) None demo_commands True demo_sai))) ''P1'' = None"
proof -
  have "fst (process_commands (demo_client []) None demo_commands True demo_sai) = Ok [Removed success]"
    by code_simp
  then have "process_commands (demo_client []) None demo_commands True demo_sai =
      (Ok [Removed success], snd (process_commands (demo_client []) None demo_commands True demo_sai))"
    by (metis prod.collapse)
  from cleanup_unregisters [OF this, of "''P1''"] show ?thesis by (simp add: demo_commands_def)
qed

text \<open>
  C2: whatever commands are run, forwards or as a clean-up, and whatever the client answers, the
  registry stays well-formed: no name twice, and every entry has a type and stands for either an
  object or a key, never both.
\<close>

theorem registry_well_formed:
  assumes "registry_ok (objects_registry s)" and "process_commands cl meta cmds clean s = (r, t)"
  shows "registry_ok (objects_registry t)"
  using commands_keep_ok assms by (rule py_invD)

theorem registry_well_formed_witness:
  "registry_ok (objects_registry (snd (process_commands (demo_client []) None
     [[(''name'', PStr ''V''), (''op'', PStr ''create''), (''type'', PStr ''SAI_OBJECT_TYPE_VLAN'')]] False
     (demo_sai\<lparr>objects_registry := []\<rparr>))))"
  by (rule registry_well_formed [OF _ prod.collapse [symmetric]]) (simp add: registry_ok_def)

text \<open>
  C3: removing an object by its name asks the client to remove its OID and takes the name out of
  the registry whether the removal succeeds or fails; the outcome is the client's.
\<close>

theorem remove_command_outcome:
  assumes "map_of (objects_registry s) name = Some e" and "e_key e = PNone" and "e_oid e = PStr oid"
    and "starts_with oid ''oid:0x''" and "e_type e = PStr ty" and "ty \<noteq> []" and "name \<noteq> []"
  shows "process_command cl meta [(''name'', PStr name), (''op'', PStr ''remove'')] s =
    (case c_remove cl oid True (client s) of
       (r, c) \<Rightarrow> (rbind r (\<lambda>st. Ok (Removed st)),
                  s\<lparr>client := c, objects_registry := dict_del name (objects_registry s)\<rparr>))"
  by (rule remove_known [OF assms])

theorem remove_command_outcome_witness:
  "process_command (demo_client []) None [(''name'', PStr ''P1''), (''op'', PStr ''remove'')] demo_sai =
     (Ok (Removed success), demo_sai\<lparr>objects_registry := []\<rparr>)"
  by (subst remove_command_outcome [where e = demo_port and oid = "''oid:0x1''" and ty = "''SAI_OBJECT_TYPE_PORT''"])
    (simp_all add: demo_sai_def demo_port_def demo_client_def dict_del_def)

text \<open>
  C4: creating an object under a new name asks the client for its type with every known reference
  among the attributes replaced; a success registers the new OID under the name, after the entries
  that were there, and a failure registers nothing. The client is the Redis or the ZMQ client.
\<close>

theorem create_command_outcome:
  assumes "map_of (objects_registry s) name = None" and "name \<noteq> []" and "ty \<noteq> []"
  shows "process_command (rpc_sai_client E cfg ots T clean) meta
      [(''name'', PStr name), (''op'', PStr ''create''), (''type'', PStr ty), (''attributes'', PList as)] s =
    (case create E cfg ots T (OStr ty) (PList (map (subst_value (objects_registry s)) as)) True (client s) of
       (Ok q, c) \<Rightarrow> (Ok (Created (reply_val q)), s\<lparr>client := c,
          objects_registry := objects_registry s @ [(name, \<lparr>e_type = PStr ty, e_oid = reply_val q, e_key = PNone\<rparr>)]\<rparr>)
     | (Err e, c) \<Rightarrow> (Err e, s\<lparr>client := c\<rparr>))"
  using create_fresh [where cl = "rpc_sai_client E cfg ots T clean", OF assms rpc_crud.create_bare]
  by (simp add: rpc_sai_client_def)

theorem create_command_outcome_witness:
  "fst (process_command (redis_sai_client demo_created demo_cfg demo_types) None
     [(''name'', PStr ''L1''), (''op'', PStr ''create''), (''type'', PStr ''SAI_OBJECT_TYPE_LAG''),
      (''attributes'', PList [PStr ''SAI_LAG_ATTR_X'', PStr ''$P1''])] demo_session) =
   Ok (Created (PStr ''oid:0x2000000000001''))"
proof -
  have args: "map (subst_value (objects_registry demo_session)) [PStr ''SAI_LAG_ATTR_X'', PStr ''$P1''] =
      map PStr [''SAI_LAG_ATTR_X'', ''oid:0x1'']"
    by code_simp
  have new: "map_of (objects_registry demo_session) ''L1'' = None" by (simp add: demo_session_def)
  have "client demo_session = demo_rclient" by (simp add: demo_session_def)
  with demo_create [of "[''SAI_LAG_ATTR_X'', ''oid:0x1'']"] show ?thesis
    unfolding redis_sai_client_def
    by (subst create_command_outcome [OF new]) (auto simp: args [simplified] split: prod.splits res.splits)
qed

section \<open>The Redis and ZMQ clients\<close>

text \<open>
  C5: a response that the server completes within the attempts of the exchange is what
  \<open>operate\<close> returns, whatever the object, the attributes and the operation.
\<close>

theorem operate_delivers:
  assumes "redis_answers E cfg (norm_key obj) attrs op resp k s t" and "length resp = 3"
    and "k \<le> snd (wait_params (norm_key obj) op)"
  shows "redis_operate E cfg obj attrs op s = (Ok (map Bytes resp), t)"
  by (rule redis_operate_delivers [OF assms])

theorem operate_delivers_witness:
  "redis_operate (demo_redis demo_answer) demo_cfg ''SAI_OBJECT_TYPE_PORT:oid:0x1'' ''[]'' ''Sget'' demo_rclient =
     (Ok (map Bytes demo_answer),
      after_request [norm_key ''SAI_OBJECT_TYPE_PORT:oid:0x1'', ''[]'', ''Sget''] demo_rclient)"
  by (rule operate_delivers [OF demo_answers]) simp_all

text \<open>
  C6: the waiting of an exchange on a known channel is bounded: whatever the server does, at most
  one second, or two minutes for the creation of the switch.
\<close>

theorem operate_waits_bounded:
  assumes "clock_laws E clk" and "asic_channel s = Some c"
  shows "clk (env (snd (redis_operate E cfg obj attrs op s))) \<le> clk (env s) +
    (if starts_with (norm_key obj) ''SAI_OBJECT_TYPE_SWITCH'' \<and> op = ''Screate'' then 120000 else 1000)"
  by (rule operate_bounded [OF assms])

theorem operate_waits_bounded_witness:
  "m_clock (env (snd (redis_operate (demo_redis []) demo_cfg ''SAI_OBJECT_TYPE_SWITCH:oid:0x21'' ''[]'' ''Screate'' demo_rclient))) \<le> 120000"
  using operate_waits_bounded [OF demo_clock, of demo_rclient "''ASIC_STATE_CHANNEL''" "[]" demo_cfg
      "''SAI_OBJECT_TYPE_SWITCH:oid:0x21''" "''[]''" "''Screate''"]
  by (simp add: demo_rclient_def demo_mem_def split: if_splits)

text \<open>
  C7: the object IDs a run allocates are all different, and each one tells its type, over a server
  that counts as Redis documents (\<open>GET\<close>, \<open>SET\<close>, \<open>INCR\<close>) as long as the counter fits its 48 bits.
\<close>

theorem vids_distinct_typed:
  assumes "counter_laws E (asic_db cfg) cnt" and "ots_ok ots"
    and "py_map (alloc_vid E cfg ots) os s = (Ok vids, s')"
    and "\<forall>t. OType t \<in> set os \<longrightarrow> t \<in> set ots" and "-1 \<le> counter_top cnt s"
    and "counter_top cnt s' < 2 ^ 48"
  shows "distinct vids \<and> list_all2 (\<lambda>o1 vid. \<exists>t. as_obj_type ots o1 = Ok t \<and>
    vid_to_type ots vid = Ok (''SAI_OBJECT_TYPE_'' @ ot_name t)) os vids"
  by (rule alloc_vids_distinct [OF assms])

theorem vids_distinct_typed_witness:
  "\<exists>vids s'. py_map (alloc_vid (demo_redis []) demo_cfg demo_types)
       [OStr ''SAI_OBJECT_TYPE_LAG'', OStr ''SAI_OBJECT_TYPE_LAG''] demo_rclient = (Ok vids, s') \<and> distinct vids"
proof -
  let ?s = "demo_rclient\<lparr>env := demo_mem\<lparr>m_counter := Some 2\<rparr>\<rparr>"
  have run: "py_map (alloc_vid (demo_redis []) demo_cfg demo_types)
       [OStr ''SAI_OBJECT_TYPE_LAG'', OStr ''SAI_OBJECT_TYPE_LAG''] demo_rclient =
    (Ok [mk_vid (SaiObjType ''LAG'' 2) 1, mk_vid (SaiObjType ''LAG'' 2) 2], ?s)"
    by (simp add: alloc_vid_def demo_lag demo_switch py_simps demo_redis_def demo_rclient_def demo_mem_def)
  from vids_distinct_typed [OF demo_counter demo_types_ok run] run show ?thesis
    by (auto simp: counter_top_def demo_rclient_def demo_mem_def)
qed

text \<open>
  C8: over the Redis client and the ZMQ client, every forwarding method of \<open>Sai\<close> but \<open>deinit\<close> reaches code
  of the Redis client class, with each argument under its own name, and a call that does not fit the
  signature of \<open>Sai\<close> is a \<open>TypeError\<close> that reaches nothing.
\<close>

theorem sai_reaches_client:
  assumes "f \<in> set sai_forwards" and "fw_name f \<noteq> ''deinit''" and "c \<in> {SaiRedisClient, SaiZmqClient}"
  shows "call_sai run c f pos kw s = (case bind_args (fw_sig f) pos kw of
     Err e \<Rightarrow> (Err e, s)
   | Ok ar \<Rightarrow> with_result f (run SaiRedisClient (fw_name f) ar s))"
proof (cases "bind_args (fw_sig f) pos kw")
  case (Ok ar)
  from redis_answers [OF assms] obtain tg where "resolve c (fw_name f) = Some (SaiRedisClient, tg, Code)" "fits f tg" by blast
  from fits_delegates [OF this Ok] Ok show ?thesis by simp
qed (simp add: call_sai_def py_bind_def py_lift_def)

theorem sai_reaches_client_witness:
  "call_sai echo_client SaiZmqClient (by_keyword ''stop_flex_counter_poll'' stop_poll_sig)
     [PStr ''G''] [(''oid'', PStr ''oid:0x1'')] 0 =
   (Ok (PDict [(''group_name'', PStr ''G''), (''oid'', PStr ''oid:0x1''), (''do_assert'', PBool True)]), 0)"
proof -
  let ?f = "by_keyword ''stop_flex_counter_poll'' stop_poll_sig"
  have f: "?f \<in> set sai_forwards" "fw_name ?f \<noteq> ''deinit''"
    by (simp_all add: sai_forwards_def counter_forwards_def by_keyword_def)
  have b: "bind_args (fw_sig ?f) [PStr ''G''] [(''oid'', PStr ''oid:0x1'')] =
      Ok [(''group_name'', PStr ''G''), (''oid'', PStr ''oid:0x1''), (''do_assert'', PBool True)]" by code_simp
  have r: "fw_result ?f" by (simp add: by_keyword_def)
  show ?thesis
    using sai_reaches_client [OF f, of SaiZmqClient echo_client "[PStr ''G'']" "[(''oid'', PStr ''oid:0x1'')]" 0]
    by (simp add: b r echo_client_def with_result_def py_return_app)
qed

text \<open>
  C9: an OID that syncd does not know is refused by \<open>remove\<close>, \<open>set\<close> and \<open>get\<close> alike, before
  anything is sent: the only effect is the query of \<open>VIDTORID\<close>.
\<close>

theorem unknown_object_refused:
  assumes "starts_with oid ''oid:''" and "rd_hget E (asic_db cfg) ''VIDTORID'' oid (env s) = (Ok None, e)"
  shows "remove E cfg ots T oid b s = (Err AssertionError, s\<lparr>env := e\<rparr>) \<and>
    set_attr E cfg ots T oid attrs b s = (Err AssertionError, s\<lparr>env := e\<rparr>) \<and>
    get_attrs E cfg ots T oid attrs b s = (Err AssertionError, s\<lparr>env := e\<rparr>)"
  using unknown_oid_refused [OF assms] by blast

theorem unknown_object_refused_witness:
  "remove (demo_redis []) demo_cfg demo_types (redis_transport (demo_redis []) demo_cfg) ''oid:0x5'' False demo_rclient =
     (Err AssertionError, demo_rclient)"
  using unknown_object_refused [of "''oid:0x5''" "demo_redis []" demo_cfg demo_rclient demo_mem demo_types
      "redis_transport (demo_redis []) demo_cfg" False PNone]
  by (simp add: demo_redis_def demo_rclient_def demo_mem_def demo_cfg_def)

text \<open>
  C10: the attributes of a bulk entry, written as \<open>a=v|a=v|...\<close>, read back as they were, when no
  name has a separator and no value has a bar.
\<close>

theorem bulk_attributes_roundtrip:
  assumes "bulk_attr_ok ps"
  shows "rbind (bulk_attr_serialize (PList (flat_pairs ps))) bulk_attr_parse = Ok ps"
  by (simp add: bulk_attr_serialize_pairs bulk_codec.dec_enc [OF assms])

theorem bulk_attributes_roundtrip_witness:
  "rbind (bulk_attr_serialize (PList [PStr ''A'', PStr ''oid:0x1'', PStr ''B'', PStr ''x=y''])) bulk_attr_parse =
     Ok [(''A'', ''oid:0x1''), (''B'', ''x=y'')]"
  using bulk_attributes_roundtrip [of "[(''A'', ''oid:0x1''), (''B'', ''x=y'')]"]
  by (simp add: bulk_attr_ok_def)

text \<open>
  C11: the ZMQ client returns what the Redis client returns: for the same object, attributes and
  operation, when the Redis response and the ZMQ reply have the same status, operation and values, both
  return these three parts with the same status and operation, and \<open>to_json\<close> reads the same value from
  the data of both. The text of the Redis response may be any JSON text of the values.
\<close>

theorem zmq_like_redis:
  assumes "redis_answers E cfg (norm_key obj) (dumps_with c' (PList (map PStr xs))) op [CHR ''S'' # rop, d, status] n r r'"
    and "loads d = Ok (PList (map PStr fvs))" and "n \<le> snd (wait_params (norm_key obj) op)"
    and "asic_channel s = Some ch" and "req_open s"
    and "zmq_timeouts Z (zmq_timeout zc (norm_key obj) (zmq_cmd op)) (env s) = (Ok (), e1)"
    and "zmq_send Z (dumps_with True (PList (map PStr (norm_key obj # zmq_cmd op # xs)))) e1 = (Ok (), e2)"
    and "zmq_recv Z e2 = (Ok (dumps_with c (PList (zmq_reply status rop fvs))), e3)"
    and "ascii status" and "ascii rop"
  shows "\<exists>d'. fst (zmq_operate E' Z zc obj (dumps_with c' (PList (map PStr xs))) op s) =
      Ok [Bytes (CHR ''S'' # rop), Bytes d', Bytes status] \<and>
    fst (redis_operate E cfg obj (dumps_with c' (PList (map PStr xs))) op r) =
      Ok [Bytes (CHR ''S'' # rop), Bytes d, Bytes status] \<and>
    to_json (SaiData (Some d')) = to_json (SaiData (Some d))"
  by (rule transports_agree [OF assms])

theorem zmq_like_redis_witness:
  "\<exists>d'. fst (zmq_operate (demo_redis []) (demo_zmq (Ok (dumps_with False (PList (zmq_reply ''SAI_STATUS_SUCCESS'' ''getresponse'' [''A'', ''7'']))))) demo_zmq_cfg
      ''SAI_OBJECT_TYPE_PORT:oid:0x1'' (dumps_with False (PList (map PStr [''A'', ''B'']))) ''Sget'' demo_zclient) =
      Ok [Bytes (CHR ''S'' # ''getresponse''), Bytes d', Bytes ''SAI_STATUS_SUCCESS''] \<and>
    fst (redis_operate (demo_redis [CHR ''S'' # ''getresponse'', dumps_with True (PList (map PStr [''A'', ''7''])), ''SAI_STATUS_SUCCESS'']) demo_cfg
      ''SAI_OBJECT_TYPE_PORT:oid:0x1'' (dumps_with False (PList (map PStr [''A'', ''B'']))) ''Sget'' demo_rclient) =
      Ok [Bytes (CHR ''S'' # ''getresponse''), Bytes (dumps_with True (PList (map PStr [''A'', ''7'']))), Bytes ''SAI_STATUS_SUCCESS''] \<and>
    to_json (SaiData (Some d')) = to_json (SaiData (Some (dumps_with True (PList (map PStr [''A'', ''7''])))))"
proof -
  have "loads (dumps_with True (PList (map PStr [''A'', ''7'']))) = Ok (PList (map PStr [''A'', ''7'']))"
    by (rule loads_dumps_with) simp
  from zmq_like_redis [OF demo_answers this, where ch = "''tcp://127.0.0.1:5555''" and s = demo_zclient and c = False]
  show ?thesis by (simp add: demo_zclient_def demo_zmq_def del: dumps_with.simps list.map)
qed

text \<open>
  C12: a ZMQ request that gets no answer in time returns no reply and leaves an open socket: the
  timed-out one has been replaced, so the next request can be sent.
\<close>

theorem zmq_timeout_reopens:
  assumes "req_open s" and "zmq_timeouts Z ms (env s) = (Ok (), e1)"
    and "zmq_send Z (dumps_with True (PList (map PStr payload))) e1 = (Ok (), e2)"
    and "zmq_recv Z e2 = (Err ZmqAgain, e3)"
    and "open_req_socket Z zc (s\<lparr>env := e3\<rparr>) = (Ok (), t)"
  shows "req_rep Z zc payload ms s = (Ok None, t) \<and> req_open t"
  by (rule req_rep_timeout [OF assms])

theorem zmq_timeout_reopens_witness:
  "\<exists>t. req_rep (demo_zmq (Err ZmqAgain)) demo_zmq_cfg [''x''] 100 demo_zclient = (Ok None, t) \<and> req_open t"
proof -
  let ?Z = "demo_zmq (Err ZmqAgain)"
  let ?e = "demo_mem\<lparr>m_zmq := dumps_with True (PList (map PStr [''x'']))\<rparr>"
  have "open_req_socket ?Z demo_zmq_cfg (demo_zclient\<lparr>env := ?e\<rparr>) = (Ok (), demo_zclient\<lparr>env := ?e\<rparr>)"
    by (simp add: open_req_socket_def close_req_socket_def py_simps demo_zclient_def demo_zmq_def del: dumps_with.simps)
  from zmq_timeout_reopens [OF _ _ _ _ this, of 100 demo_mem "[''x'']" ?e] show ?thesis
    by (simp add: demo_zclient_def demo_zmq_def del: dumps_with.simps)
qed

text \<open>
  C13: what the client sets over Redis as the status of an interface of the host is what it reads
  afterwards; the other flags that can be set and the other interfaces stay as they are. The interface
  exists and the listener may configure it, and the listener, which polls its queue, gets to a command
  before the attempts of the client are used up.
\<close>

theorem remote_status_kept:
  assumes "queue_laws E q fl" and "flag_laws O1 q fl may settable" and "0 \<in> settable" and "iface \<in> may"
    and "listener_polls E O1 q fl n" and "n \<le> default_attempts"
    and "ascii iface" and "asic_db cfg = 1" and "\<not> is_dut_mbr cfg" and "fl (env s) iface = Some w"
  shows "\<exists>t u w'. remote_iface_status_set E cfg iface up s = (Ok True, t) \<and>
    remote_iface_is_up E cfg iface t = (Ok up, u) \<and>
    fl (env t) = (fl (env s))(iface \<mapsto> w') \<and> (\<forall>i \<in> settable. bit w' i = (if i = 0 then up else bit w i))"
  by (rule remote_status_read [OF assms])

theorem remote_status_kept_witness:
  "\<exists>t u. remote_iface_status_set demo_queues demo_cfg ''eth0'' True queue_client = (Ok True, t) \<and>
    remote_iface_is_up demo_queues demo_cfg ''eth0'' t = (Ok True, u)"
proof -
  have polls: "listener_polls demo_queues demo_host fst demo_flags 4" by (rule demo_listener_polls) simp
  show ?thesis
    using remote_status_kept [OF demo_flag_queues demo_flag_laws _ _ polls, of "''eth0''" demo_cfg queue_client 2 True]
    by (auto simp: demo_cfg_def default_attempts_def queue_client_def)
qed

section \<open>The Thrift client\<close>

text \<open>
  C14: an object list is read over Thrift as the server holds it: when the object's type is known
  and the adapter answers the call for the attribute with the list, \<open>get\<close> returns data whose list is
  those OIDs, in their order.
\<close>

theorem thrift_object_list_read:
  assumes "0 \<le> n" and "map_of (sai_type_map s) n = Some (Some ty)"
    and "str_lower (ot_name ty) = tn" and "tn \<noteq> ''switch''"
    and "th_has E (''sai_thrift_get_'' @ tn @ ''_attribute'')"
    and "attr_to_thrift L ots (PStr name, w) = Ok (Some (c # a, x))" and "\<not> isdigit_char c"
    and "c # a \<noteq> tn @ ''_oid''"
    and "th_call E (''sai_thrift_get_'' @ tn @ ''_attribute'') [(tn @ ''_oid'', TInt n), (c # a, x)] (tenv s) =
      (Ok (ADict [(name, oid_list ns), (c # a, oid_list ns)]), e)"
    and "th_status E e = 0" and "starts_with name ''SAI''" and "\<not> starts_with (c # a) ''SAI''"
    and "get_attribute_type L name = Some ''objlist''" and "ns \<noteq> []"
  shows "\<exists>d. thrift_get E L ots (OStr (oid_text n)) [PStr name, w] True s = (Ok (Bare (Some d)), s\<lparr>tenv := e\<rparr>) \<and>
    data_to_list 1 d = Ok (map oid_text ns)"
  by (rule thrift_get_list [OF assms])

theorem thrift_object_list_read_witness:
  "\<exists>d. thrift_get demo_adapter demo_libs demo_types (OStr (oid_text 9))
      [PStr ''SAI_VLAN_ATTR_MEMBER_LIST'', PStr ''1:oid:0x0''] True demo_tclient = (Ok (Bare (Some d)), demo_tclient) \<and>
    data_to_list 1 d = Ok [''oid:0x11'', ''oid:0x12'', ''oid:0x13'']"
proof -
  have arg: "attr_to_thrift demo_libs demo_types (PStr ''SAI_VLAN_ATTR_MEMBER_LIST'', PStr ''1:oid:0x0'') =
      Ok (Some (CHR ''m'' # ''ember_list'', oid_list [0]))"
    by code_simp
  have texts: "map oid_text demo_members = [''oid:0x11'', ''oid:0x12'', ''oid:0x13'']"
    by code_simp
  have low: "str_lower (ot_name (SaiObjType ''VLAN'' 38)) = ''vlan''" by code_simp
  have known: "map_of (sai_type_map demo_tclient) 9 = Some (Some (SaiObjType ''VLAN'' 38))"
    by (simp add: demo_tclient_def)
  have has: "th_has demo_adapter (''sai_thrift_get_'' @ ''vlan'' @ ''_attribute'')" by (simp add: demo_adapter_def)
  have call: "th_call demo_adapter (''sai_thrift_get_'' @ ''vlan'' @ ''_attribute'')
      [(''vlan'' @ ''_oid'', TInt 9), (CHR ''m'' # ''ember_list'', oid_list [0])] (tenv demo_tclient) =
      (Ok (ADict [(''SAI_VLAN_ATTR_MEMBER_LIST'', oid_list demo_members), (CHR ''m'' # ''ember_list'', oid_list demo_members)]),
       tenv demo_tclient)"
    by (simp add: demo_adapter_def)
  have ty: "get_attribute_type demo_libs ''SAI_VLAN_ATTR_MEMBER_LIST'' = Some ''objlist''" by code_simp
  have m: "\<not> isdigit_char (CHR ''m'')" by code_simp
  have "\<exists>d. thrift_get demo_adapter demo_libs demo_types (OStr (oid_text 9))
      [PStr ''SAI_VLAN_ATTR_MEMBER_LIST'', PStr ''1:oid:0x0''] True demo_tclient =
        (Ok (Bare (Some d)), demo_tclient\<lparr>tenv := tenv demo_tclient\<rparr>) \<and>
    data_to_list 1 d = Ok (map oid_text demo_members)"
    by (rule thrift_object_list_read [OF _ known low _ has arg m _ call _ _ _ ty])
      (simp_all add: demo_adapter_def demo_members_def)
  then show ?thesis unfolding texts by simp
qed

text \<open>
  C15: the type of an object that \<open>create\<close> returns is remembered under its number, so that asking for
  it sends nothing and gives the type it was created with; the OID text reads back as that number
  unless the server's signed 64-bit value is negative.
\<close>

theorem thrift_type_remembered:
  assumes "thrift_create E L ots (OType ty) attrs True s = (Ok (Bare v), t)"
  shows "\<exists>n. v = PStr (oid_text n) \<and> get_object_type E ots (PInt n) None t = (Ok (Some ty), t) \<and>
    (n < 0 \<or> object_id v = Ok n)"
  by (rule created_type_known [OF assms])

theorem thrift_type_remembered_witness:
  "\<exists>n. PStr ''oid:0x1f'' = PStr (oid_text n) \<and>
    fst (get_object_type demo_adapter demo_types (PInt n) None
      (snd (thrift_create demo_adapter demo_libs demo_types (OType (SaiObjType ''VLAN'' 38))
        [PStr ''SAI_VLAN_ATTR_VLAN_ID'', PStr ''10''] True demo_tclient))) = Ok (Some (SaiObjType ''VLAN'' 38))"
proof -
  let ?run = "thrift_create demo_adapter demo_libs demo_types (OType (SaiObjType ''VLAN'' 38))
    [PStr ''SAI_VLAN_ATTR_VLAN_ID'', PStr ''10''] True demo_tclient"
  have "fst ?run = Ok (Bare (PStr ''oid:0x1f''))" by code_simp
  then have "?run = (Ok (Bare (PStr ''oid:0x1f'')), snd ?run)" by (metis prod.collapse)
  from thrift_type_remembered [OF this] show ?thesis by auto
qed

text \<open>
  C16: unsigned values cross the signed Thrift interface: every 8-bit and 16-bit value is sent as
  the signed value of the same word, and the text that comes back is the unsigned value again.
\<close>

theorem thrift_unsigned:
  "convert_u8_to_thrift (int_str (uint (v :: 8 word))) = Ok (sint v) \<and>
   unsigned_text 0xFF (TInt (sint v)) = Ok (int_str (uint v)) \<and>
   convert_u16_to_thrift (int_str (uint (w :: 16 word))) = Ok (sint w) \<and>
   unsigned_text 0xFFFF (TInt (sint w)) = Ok (int_str (uint w))"
  using u8_to_thrift [of v] u16_to_thrift [of w] unsigned_text_sint [of v] unsigned_text_sint [of w]
  by (simp add: mask_eq_exp_minus_1)

text \<open>
  C17: the type of an attribute is read from the generated adapter: when the lines that store attributes
  have the form of the adapter, the metadata is exactly theirs, and an attribute that is stored twice has
  the field of its last line.
\<close>

theorem metadata_reads_back:
  assumes "posix_tools T" and "at_glob T = path # paths" and "at_cat T path = unlines ls"
    and "list_all (\<lambda>l. nl_ch \<notin> set l) ls"
    and "filter (str_in attrs_key) ls = map adapter_line es" and "list_all word_entry es"
  shows "\<exists>m. generate_metadata T = Ok m \<and> metadata_types m = map_of (map snd (rev es))"
  using metadata_of_adapter [OF assms] metadata_types_entries [of es] by blast

theorem metadata_reads_back_witness:
  "\<exists>m. generate_metadata (line_tools ''sai_adapter.py'' (unlines adapter_sample)) = Ok m \<and>
     metadata_types m ''SAI_PORT_ATTR_SPEED'' = Some ''u64'' \<and> metadata_types m ''SAI_PORT_ATTR_NAME'' = None"
proof -
  let ?T = "line_tools ''sai_adapter.py'' (unlines adapter_sample)"
  have "at_glob ?T = ''sai_adapter.py'' # []" "at_cat ?T ''sai_adapter.py'' = unlines adapter_sample"
    by (simp_all add: line_tools_def)
  moreover have "list_all (\<lambda>l. nl_ch \<notin> set l) adapter_sample" by code_simp
  moreover have "filter (str_in attrs_key) adapter_sample = map adapter_line demo_entries" by code_simp
  moreover have "list_all word_entry demo_entries" by code_simp
  ultimately obtain m where m: "generate_metadata ?T = Ok m" "metadata_types m = map_of (map snd (rev demo_entries))"
    using metadata_reads_back [OF line_tools_posix] by blast
  have "map_of (map snd (rev demo_entries)) ''SAI_PORT_ATTR_SPEED'' = Some ''u64''"
    "map_of (map snd (rev demo_entries)) ''SAI_PORT_ATTR_NAME'' = None" by code_simp+
  with m show ?thesis by metis
qed

text \<open>
  C18: what the forwarding methods of \<open>Sai\<close> do over the Thrift client: the fourteen operations it lacks
  raise \<open>NotImplementedError\<close>, \<open>alloc_vid\<close>, which the interface lacks as well, raises \<open>AttributeError\<close>, \<open>deinit\<close>
  does nothing, and all others reach code of the Thrift client with each argument under its own name.
\<close>

theorem thrift_answers_calls:
  assumes "f \<in> set sai_forwards" and "bind_args (fw_sig f) pos kw = Ok ar"
  shows "call_sai run SaiThriftClient f pos kw s =
    (if fw_name f = ''alloc_vid'' then (Err AttributeError, s)
     else if fw_name f = ''deinit'' then (Ok PNone, s)
     else if fw_name f \<in> set thrift_lacks then (Err NotImplementedError, s)
     else with_result f (run SaiThriftClient (fw_name f) ar s))"
  by (rule thrift_calls [OF assms])

theorem thrift_answers_calls_witness:
  "call_sai echo_client SaiThriftClient (by_position ''alloc_vid'' (sig_of [needed ''obj_type''])) [PStr ''VLAN''] [] 0 =
   (Err AttributeError, 0)"
proof -
  let ?f = "by_position ''alloc_vid'' (sig_of [needed ''obj_type''])"
  have f: "?f \<in> set sai_forwards" by (simp add: sai_forwards_def alloc_forward_def)
  have "bind_args (fw_sig ?f) [PStr ''VLAN''] [] = Ok [(''obj_type'', PStr ''VLAN'')]" by code_simp
  from thrift_answers_calls [OF f this, of echo_client 0] show ?thesis by (simp add: by_position_def)
qed

section \<open>The topology\<close>

text \<open>
  C19: destroying a topology that was built always succeeds on a client that refuses no removal,
  and leaves nothing behind: every object and route has been removed as often as it was created,
  and all lists of the topology are empty.
\<close>

theorem topology_balanced:
  assumes "create_sai_helper_topology (traced cl) ots s = (Ok x, t)" and "all_saved s = []"
    and "obliging cl" and "switch_oid s = PStr sw"
  shows "\<exists>u. destroy_topology (traced cl) t = (Ok (), u) \<and> all_saved u = [] \<and> snd (client u) = snd (client s)"
proof -
  have "has_switch t"
    using traced_audit.topology_builds(1) [OF assms(1)] assms(4) by (simp add: frame_def has_switch_def)
  with destroy_returns [OF obliging_traced [OF assms(3)]] obtain u where
    "destroy_topology (traced cl) t = (Ok (), u)" by blast
  with traced_audit.built_and_destroyed [OF assms(1) this assms(2)] show ?thesis by blast
qed

theorem topology_balanced_witness:
  "\<exists>u. destroy_topology (traced demo_kind) (snd (create_sai_helper_topology (traced demo_kind)
     demo_types (demo_topo L2_basic))) = (Ok (), u) \<and> snd (client u) = (\<lambda>_. 0)"
proof -
  have "snd (client (demo_topo L2_basic)) = (\<lambda>_. 0)" by (simp add: demo_topo_def)
  with topology_balanced [OF demo_topology_run demo_topo_empty(1) demo_kind_obliging demo_topo_empty(2)]
  show ?thesis by auto
qed

text \<open>
  C20: every layout of the topology creates its number of bridge ports, LAGs, LAG members, VLANs and
  router interfaces, and at most its number of VLAN members: those of \<open>layout_size\<close>, which counts a bridge
  port for every LAG. (The table of the module lists the same objects but for the bridge ports of \<open>lag3\<close>
  and \<open>lag4\<close>, so nine instead of eleven for the last layout.)
\<close>

theorem topology_complete:
  assumes "create_sai_helper_topology (traced cl) ots s = (Ok x, t)" and "all_saved s = []"
  shows "length (saved_list l t) \<le> layout_size (layout s) l \<and>
    (l \<noteq> VlanMembers \<longrightarrow> length (saved_list l t) = layout_size (layout s) l)"
proof -
  have "saved_list l s = []" using assms(2) by (cases l) (simp_all add: all_saved_app)
  with traced_audit.topology_builds(2) [OF assms(1), of l] show ?thesis by (simp add: grown_def)
qed

theorem topology_complete_witness:
  "length (def_bridge_port_list (snd (create_sai_helper_topology (traced demo_kind) demo_types (demo_topo L2_basic)))) = 4"
  using topology_complete [OF demo_topology_run demo_topo_empty(1), of BridgePorts] by (simp add: demo_topo_def)

section \<open>The switch and the PHY\<close>

text \<open>
  C21: after the ports have been re-created from an SKU, there are as many ports and as many bridge
  ports as the SKU lists.
\<close>

theorem sku_ports_complete:
  assumes "set_sku_mode cl ots meta sku s = (Ok (), t)"
  shows "\<exists>ports. rbind (py_item ''port'' sku) elements = Ok ports \<and>
    length (port_oids t) = length ports \<and> length (dot1q_bp_oids t) = length ports"
  by (rule set_sku_mode_ports [OF assms])

theorem sku_ports_complete_witness:
  "length (port_oids (snd (set_sku_mode (demo_client demo_switch_table) demo_types (Some demo_meta) demo_sku demo_switch_npu))) = 1"
proof -
  let ?run = "set_sku_mode (demo_client demo_switch_table) demo_types (Some demo_meta) demo_sku demo_switch_npu"
  have "fst ?run = Ok ()" by code_simp
  then have "?run = (Ok (), snd ?run)" by (metis prod.collapse)
  moreover have "rbind (py_item ''port'' demo_sku) elements = Ok [PDict [(''lanes'', PStr ''1,2'')]]" by code_simp
  ultimately show ?thesis using sku_ports_complete by force
qed

text \<open>
  C22: removing a bridge port that succeeds has disabled it, then flushed its dynamic FDB entries on
  the switch, then removed it, in that order and with nothing else.
\<close>

theorem bridge_port_removed_in_order:
  assumes "remove_bridge_port cl bp s = (Ok (), t)"
  shows "\<exists>sw st1 c1 u c2 st2 c3. switch_oid s = PStr sw \<and>
    c_set cl bp (PList [PStr ''SAI_BRIDGE_PORT_ATTR_ADMIN_STATE'', PStr ''false'']) True (client s) = (Ok st1, c1) \<and>
    c_flush_fdb cl sw (PList [PStr ''SAI_FDB_FLUSH_ATTR_ENTRY_TYPE'', PStr ''SAI_FDB_FLUSH_ENTRY_TYPE_DYNAMIC'',
      PStr ''SAI_FDB_FLUSH_ATTR_BRIDGE_PORT_ID'', PStr bp]) c1 = (Ok u, c2) \<and>
    c_remove cl bp True c2 = (Ok st2, c3) \<and> t = s\<lparr>client := c3\<rparr>"
  by (rule remove_bridge_port_steps [OF assms])

theorem bridge_port_removed_in_order_witness:
  "\<exists>sw. switch_oid demo_npu = PStr sw \<and> remove_bridge_port (demo_client []) ''oid:0x9'' demo_npu = (Ok (), demo_npu)"
proof -
  have run: "remove_bridge_port (demo_client []) ''oid:0x9'' demo_npu = (Ok (), demo_npu)"
    by (simp add: remove_bridge_port_def npu_set_def npu_remove_def sai_set_def switch_obj_def oid_obj_def
        demo_client_def demo_npu_def npu_init_state_def py_simps)
  from bridge_port_removed_in_order [OF run] run show ?thesis by blast
qed

text \<open>
  C23: \<open>assert_port_oper_up\<close> passes exactly when the port reports to be up at one of the \<open>tout\<close>
  readings, a second apart.
\<close>

theorem port_up_exactly:
  "(\<exists>t. assert_port_oper_up cl meta port_oid tout s = (Ok (), t)) \<longleftrightarrow>
   0 < tout \<and> answers_within
     (py_bind (npu_get cl meta port_oid ''SAI_PORT_ATTR_OPER_STATUS'' data_value) (\<lambda>v.
         py_return (if v = ''SAI_PORT_OPER_STATUS_UP'' then Some () else None)))
     (on_client (c_sleep cl 1000)) (nat (tout - 1)) s"
  by (rule assert_port_oper_up_iff)

text \<open>
  C24: a list attribute is read completely, whatever its length: \<open>get_list\<close> asks with one place
  and, when the server reports an overflow, again with the size it was told.
\<close>

theorem list_read_completely:
  assumes "serves_list cl obj attr xs c" and "CHR '','' \<notin> set v"
    and "list_all (\<lambda>x. CHR '','' \<notin> set x) xs"
  shows "get_list cl meta obj attr v c = (Ok xs, c)"
  by (rule get_list_complete [OF assms])

theorem list_read_completely_witness:
  "get_list (list_client [''oid:0x1'', ''oid:0x2'']) None ''oid:0x21'' ''SAI_SWITCH_ATTR_PORT_LIST'' ''oid:0x0'' 7 =
     (Ok [''oid:0x1'', ''oid:0x2''], 7)"
  by (rule list_read_completely [OF list_client_serves]) simp_all

text \<open>
  C25: when the SKU of a PHY has been applied, both sides of every connector of the SKU name ports of
  the SKU: a connector to an unknown port never goes unnoticed.
\<close>

theorem phy_connectors_join_ports:
  assumes "phy_set_sku_mode cl ots sku s = (Ok (), t)"
  shows "\<exists>ports cs. rbind (py_item ''port'' sku) elements = Ok ports \<and>
    rbind (py_item ''connector'' sku) elements = Ok cs \<and>
    (\<forall>c \<in> set cs. \<forall>side \<in> {''system_side'', ''line_side''}. \<exists>a \<in> port_aliases ports. py_item side c = Ok (PStr a))"
  by (rule phy_connectors_known [OF assms])

theorem phy_connectors_join_ports_witness:
  "(\<exists>t. phy_set_sku_mode (demo_client []) phy_types demo_phy_sku demo_sai = (Ok (), t)) \<and>
   (\<exists>cs. rbind (py_item ''connector'' demo_phy_sku) elements = Ok cs)"
proof -
  let ?run = "phy_set_sku_mode (demo_client []) phy_types demo_phy_sku demo_sai"
  have "fst ?run = Ok ()" by code_simp
  then have run: "?run = (Ok (), snd ?run)" by (metis prod.collapse)
  from phy_connectors_join_ports [OF this] run show ?thesis by blast
qed

section \<open>Playing back a recording\<close>

text \<open>
  C26: the rewriting of the key of a recorded action: a creation drops the recorded OID, a use
  replaces it by the OID of this run, a removal also forgets it, and any other action leaves the key.
\<close>

theorem recorded_key_rewritten:
  assumes "CHR '':'' \<notin> set ty" and "CHR ''{'' \<notin> set ty" and "CHR ''{'' \<notin> set oid"
    and "map_of (rec2vid s) oid = Some (PStr vid)"
  shows "update_key a (ty @ '':'' @ oid) s =
    (if a \<in> {''c'', ''C''} then (Ok ty, s)
     else if a \<in> {''g'', ''s'', ''S''} then (Ok (ty @ '':'' @ vid), s)
     else if a \<in> {''r'', ''R''} then (Ok (ty @ '':'' @ vid), s\<lparr>rec2vid := dict_del oid (rec2vid s)\<rparr>)
     else (Ok (ty @ '':'' @ oid), s))"
  by (rule update_key_oid [OF assms])

theorem recorded_key_rewritten_witness:
  "update_key ''r'' (''SAI_OBJECT_TYPE_LAG'' @ '':'' @ ''oid:0xa'') demo_sai =
     (Ok (''SAI_OBJECT_TYPE_LAG'' @ '':'' @ ''oid:0xb''), demo_sai\<lparr>rec2vid := []\<rparr>)"
  by (subst recorded_key_rewritten [where vid = "''oid:0xb''"]) (simp_all add: demo_sai_def dict_del_def)

text \<open>
  C27: after a recorded response has been compared with this run's, every OID the recording lists
  is mapped to the OID at the same place, and the two lists are as long.
\<close>

theorem recorded_response_maps:
  assumes "process_get_response rec oids s = (Ok (), t)"
    and "distinct (recorded_oids (split_attrs (drop 2 rec)))"
    and "i < length oids"
  shows "length (recorded_oids (split_attrs (drop 2 rec))) = length oids \<and>
    map_of (rec2vid t) (recorded_oids (split_attrs (drop 2 rec)) ! i) = Some (oids ! i)"
  using assms fold_dict_set_nth [OF assms(2), of oids i "rec2vid s"]
  by (auto simp: process_get_response_def Let_def py_bind_Ok_iff py_modify_app)

theorem recorded_response_maps_witness:
  "map_of (rec2vid (snd (process_get_response [''G'', ''x'', ''A=2:oid:0x1,oid:0x2''] [PStr ''oid:0x8'', PStr ''oid:0x9''] demo_sai)))
     ''oid:0x2'' = Some (PStr ''oid:0x9'')"
proof -
  let ?rec = "[''G'', ''x'', ''A=2:oid:0x1,oid:0x2'']"
  let ?oids = "[PStr ''oid:0x8'', PStr ''oid:0x9'']"
  have rs: "recorded_oids (split_attrs (drop 2 ?rec)) = [''oid:0x1'', ''oid:0x2'']" by code_simp
  have "fst (process_get_response ?rec ?oids demo_sai) = Ok ()" by code_simp
  then have "process_get_response ?rec ?oids demo_sai = (Ok (), snd (process_get_response ?rec ?oids demo_sai))"
    by (metis prod.collapse)
  from recorded_response_maps [OF this, of 1] show ?thesis by (simp add: rs [simplified])
qed

text \<open>
  C28: a playback forgets the aliases and the object IDs of earlier runs: two states that differ in them
  alone give the same outcome, and the same state once the clean-up at its start has succeeded. What it
  does not forget is \<open>switch_oid\<close>: no recording changes it, not even one that creates a switch. The
  clean-up of the device, when there is one, works on the world the client lives in.
\<close>

theorem playback_forgets:
  shows "fst (apply_rec cl meta (map_option on_client d) lines (s\<lparr>objects_registry := reg, rec2vid := m\<rparr>)) =
      fst (apply_rec cl meta (map_option on_client d) lines s) \<and>
    (fst (sai_cleanup cl (map_option on_client d) s) = Ok () \<longrightarrow>
      apply_rec cl meta (map_option on_client d) lines (s\<lparr>objects_registry := reg, rec2vid := m\<rparr>) =
      apply_rec cl meta (map_option on_client d) lines s) \<and>
    switch_oid (snd (apply_rec cl meta (map_option on_client d) lines s)) = switch_oid s"
  using apply_rec_forgets(2) [where cl = cl and d = d and s = s and u = "()" and v = "snd (sai_cleanup cl (map_option on_client d) s)"]
  by (auto simp: apply_rec_forgets(1) apply_rec_switch prod_eq_iff)

theorem playback_forgets_witness:
  "apply_rec (demo_client []) None None [''2026|c|SAI_OBJECT_TYPE_LAG:oid:0x2|A=1''] (demo_sai\<lparr>objects_registry := [], rec2vid := [(''oid:0x2'', PNone)]\<rparr>) =
   apply_rec (demo_client []) None None [''2026|c|SAI_OBJECT_TYPE_LAG:oid:0x2|A=1''] demo_sai"
proof -
  have clean: "fst (sai_cleanup (demo_client []) (map_option on_client None) demo_sai) = Ok ()"
    by (simp add: sai_cleanup_def demo_client_def py_simps)
  from playback_forgets [where cl = "demo_client []" and meta = None and d = None and s = demo_sai and reg = "[]"
      and m = "[(''oid:0x2'', PNone)]" and lines = "[''2026|c|SAI_OBJECT_TYPE_LAG:oid:0x2|A=1'']"] clean
  show ?thesis by (simp only: option.map simp_thms)
qed

section \<open>The command line\<close>

text \<open>
  C29: every command of the tree that declares an object ID refuses a text without the prefix \<open>oid:\<close>: it
  prints the message and fails, and the command itself brings no entity up and sends nothing. Before a
  command of the \<open>counter\<close> group the callback of the group has brought the entity up: its error ends the
  command, and so does a client that is no Redis client.
\<close>

theorem cli_refuses_non_oids:
  assumes "c \<in> set cli_commands" and "takes_oid c" and "values_fit (cm_args c) vals"
    and "\<not> starts_with (one_val vals ''oid'') ''oid:''"
  shows "cli_main p (cm_path c) vals s =
    (if hd (cm_path c) \<noteq> ''counter'' then (Ok (Some False), s\<lparr>echoed := echoed s @ [[], bad_oid]\<rparr>)
     else case op_entity p s of
       (Ok _, t) \<Rightarrow> if op_redis p then (Ok (Some False), t\<lparr>echoed := echoed t @ [[], bad_oid]\<rparr>) else (Err PyException, t)
     | (Err e, t) \<Rightarrow> (Err e, t))"
  by (rule oid_command_refuses [OF assms])

theorem cli_refuses_non_oids_witness:
  "cli_main demo_ops [''counter'', ''del''] [(''oid'', One (Some ''0x1''))] demo_redis_cli =
     (Ok (Some False), demo_redis_cli\<lparr>echoed := echoed demo_redis_cli @ [[], bad_oid]\<rparr>)"
proof -
  let ?c = "cli_cmd [''counter'', ''del''] [one ''oid''] [''oid'']"
  have mem: "?c \<in> set cli_commands" by (simp add: cli_commands_def counter_commands_def)
  have oid: "takes_oid ?c" "values_fit (cm_args ?c) [(''oid'', One (Some ''0x1''))]"
    "\<not> starts_with (one_val [(''oid'', One (Some ''0x1''))] ''oid'') ''oid:''" by code_simp+
  have ops: "op_entity demo_ops = py_return ()" "op_redis demo_ops" by (simp_all add: demo_ops_def)
  have path: "cm_path ?c = [''counter'', ''del'']" by (simp add: cli_cmd_def)
  from cli_refuses_non_oids [OF mem oid, of demo_ops demo_redis_cli] show ?thesis
    unfolding path by (simp add: ops py_return_app)
qed

text \<open>
  C30: the entity a command of the command line works on is the first NPU of the configured test bed; a
  test bed without one gives an \<open>IndexError\<close> after everything in its description has been spawned.
\<close>

theorem entity_is_npu:
  assumes "cfg_testbed (read_cfg (cw_cfg w)) = Ok (Some (PStr name))"
    and "new_testbed H sai_home name False True (cw_env w) = Ok tb" and "tb_spawn H P tb = (Ok u, tb')"
    and "entries ''npu'' (tb_config tb) = Ok npus"
  shows "world_entity H P w =
    (if npus = [] then Err IndexError else Ok (hd (tb_npu tb')), w\<lparr>cw_env := tb_env tb'\<rparr>)"
  by (rule entity_is_first_npu [OF assms])

theorem entity_is_npu_witness:
  "fst (world_entity demo_bed_host demo_parts demo_world) = Err IndexError"
proof -
  let ?bed = "\<lparr>tb_config = demo_dpu_bed, tb_base = sai_home, tb_traffic = False, tb_skip = True, tb_dut = [],
         tb_npu = [], tb_dpu = [], tb_phy = [], tb_dataplane = [], tb_env = 0\<rparr>"
  have 1: "cfg_testbed (read_cfg (cw_cfg demo_world)) = Ok (Some (PStr ''b''))"
    by (simp add: demo_world_def testbed_set_used)
  have v: "loads (dumps demo_dpu_bed) = Ok demo_dpu_bed" by (rule loads_dumps_with) (simp add: demo_dpu_bed_def)
  have 2: "new_testbed demo_bed_host sai_home ''b'' False True (cw_env demo_world) = Ok ?bed"
    by (simp add: new_testbed_def load_testbed_def load_file_def demo_bed_host_def demo_world_def sai_home_def ends_with_def v)
  have 3: "fst (tb_spawn demo_bed_host demo_parts ?bed) = Ok ()" by code_simp
  then obtain t where 3: "tb_spawn demo_bed_host demo_parts ?bed = (Ok (), t)" by (metis prod.collapse)
  have 4: "entries ''npu'' (tb_config ?bed) = Ok []" by code_simp
  show ?thesis using entity_is_npu [OF 1 2 3 4] by simp
qed

section \<open>The test bed\<close>

text \<open>
  C31: when a SONiC device has been prepared, the last things done to it are, in this order, starting
  its database, emptying all of Redis, writing back the metadata that was read at the beginning and
  marking the configuration as initialised: nothing follows that could undo them.
\<close>

theorem dut_left_ready:
  assumes "sonic_init (logged E) fuel s = (Ok (), t)"
  shows "\<exists>s0 s1 ls md pre. dut_connect (logged E) s = (Ok (), s0) \<and> sonic_metadata (logged E) s0 = (Ok ls, s1) \<and>
     metadata_of ls [] = Ok md \<and>
     snd (denv t) = pre @ [Run ''docker start database'', FlushAll,
       HSet 4 ''DEVICE_METADATA|localhost'' md, SetKey 4 ''CONFIG_DB_INITIALIZED'' ''1'']"
  using logged_device.init_end_log [OF assms] by (simp only: logged_device.dlog_def)

theorem dut_left_ready_witness:
  "\<exists>md pre. snd (denv (snd (sonic_init (logged demo_device) 60 (demo_dut ((0, True), []))))) =
     pre @ [Run ''docker start database'', FlushAll,
       HSet 4 ''DEVICE_METADATA|localhost'' md, SetKey 4 ''CONFIG_DB_INITIALIZED'' ''1'']"
proof -
  let ?run = "sonic_init (logged demo_device) 60 (demo_dut ((0, True), []))"
  have "fst ?run = Ok ()" by code_simp
  then have "?run = (Ok (), snd ?run)" by (metis prod.collapse)
  from dut_left_ready [OF this] show ?thesis by blast
qed

text \<open>
  C32: giving a device back, on any device: each of the two containers is stopped and inspected until it
  is reported not to run; then the services are asked for in the reverse of the order they were stopped
  in, and unmasked and restarted exactly when the answer says that they are inactive. Nothing else is
  done to the device, and a device that is not to be restored is left alone.
\<close>

theorem dut_restored:
  assumes "sonic_deinit (journalled E) s = (Ok (), t)"
  shows "if dut_mode s = PStr ''sonic-restore'' then \<exists>syncd db outs.
       snd (denv t) = snd (denv s) @ stopped ''syncd'' syncd @ stopped ''database'' db @
         concat (map2 (\<lambda>x out. Saw (''systemctl is-active '' @ x) out #
             (if str_in ''inactive'' out
              then [Did (Run (''sudo systemctl unmask '' @ x)), Did (Run (''sudo systemctl restart '' @ x))]
              else [])) (rev sonic_services) outs) \<and>
       ends_with_hit says_stopped syncd \<and> ends_with_hit says_stopped db \<and> length outs = length sonic_services
     else t = s"
proof -
  have "restored = (\<lambda>x out. Saw (''systemctl is-active '' @ x) out #
             (if str_in ''inactive'' out
              then [Did (Run (''sudo systemctl unmask '' @ x)), Did (Run (''sudo systemctl restart '' @ x))]
              else []))"
    unfolding restored_def unmask_restart_def by (rule refl)
  with journal.deinit_journal [OF assms] show ?thesis by (simp only: journal.jlog_def)
qed

theorem dut_restored_witness:
  "\<exists>syncd db outs. snd (denv (snd (sonic_deinit (journalled demo_device) (demo_dut ((0, True), []))))) =
     stopped ''syncd'' syncd @ stopped ''database'' db @
       concat (map2 (\<lambda>x out. Saw (''systemctl is-active '' @ x) out #
             (if str_in ''inactive'' out
              then [Did (Run (''sudo systemctl unmask '' @ x)), Did (Run (''sudo systemctl restart '' @ x))]
              else [])) (rev sonic_services) outs) \<and>
     ends_with_hit says_stopped syncd \<and> ends_with_hit says_stopped db \<and> length outs = length sonic_services"
proof -
  let ?run = "sonic_deinit (journalled demo_device) (demo_dut ((0, True), []))"
  have "fst ?run = Ok ()" by code_simp
  then have run: "?run = (Ok (), snd ?run)" by (metis prod.collapse)
  have demo: "dut_mode (demo_dut ((0, True), [])) = PStr ''sonic-restore''"
    "snd (denv (demo_dut ((0, True), []))) = []"
    by (simp_all add: demo_dut_def sonic_init_state_def cfg_get_def)
  from dut_restored [OF run] show ?thesis by (simp only: demo if_True append_Nil simp_thms)
qed

text \<open>
  C33: waiting for the Redis server of a device ends: more turns than the seconds of the timeout and
  two make no difference, whatever the server answers.
\<close>

theorem dut_redis_wait_ends:
  assumes "dut_clock_laws E clk" and "0 \<le> tout" and "nat tout div 1000 + 2 \<le> n" and "n \<le> m"
  shows "assert_redis_is_available E m tout s = assert_redis_is_available E n tout s"
  by (rule redis_wait_ends [OF assms])

theorem dut_redis_wait_ends_witness:
  "assert_redis_is_available demo_device 1000 45000 (demo_dut (0, True)) =
   assert_redis_is_available demo_device 47 45000 (demo_dut (0, True))"
  by (rule dut_redis_wait_ends [OF demo_device_clock]) simp_all

text \<open>
  C34: a test bed that is spawned is complete. Every entry of the description, in order, has in the list of
  its kind the ASIC made from that entry; an entry whose client names a mode, and no other, has its place
  in the list of devices, which holds what \<open>SaiDut.spawn\<close> returned for its configuration (\<open>None\<close> for a
  mode that it does not know), and its ASIC was made for that device; every data plane entry has the
  data plane made from it.
\<close>

theorem testbed_complete:
  assumes "tb_spawn H P s = (Ok u, t)" and "tb_npu s = []" "tb_dpu s = []" "tb_phy s = []"
  shows "\<exists>npus dpus phys planes N D F ps.
    entries ''npu'' (tb_config s) = Ok npus \<and> entries ''dpu'' (tb_config s) = Ok dpus \<and>
    entries ''phy'' (tb_config s) = Ok phys \<and> plane_entries (tb_config s) = Ok planes \<and>
    all_made H P s ''npu'' npus N \<and> all_made H P s ''dpu'' dpus D \<and> all_made H P s ''phy'' phys F \<and>
    tb_npu t = map snd N \<and> tb_dpu t = map snd D \<and> tb_phy t = map snd F \<and>
    tb_dut t = tb_dut s @ concat (map fst (N @ D @ F)) \<and>
    tb_dataplane t = tb_dataplane s @ ps \<and> list_all2 (plane_made P (tb_traffic s)) planes ps"
  by (rule tb_spawn_Ok [OF assms]) blast

theorem testbed_complete_witness:
  "\<exists>t d a b p. tb_spawn demo_dirs demo_parts demo_tbed = (Ok (), t) \<and> tb_npu t = [a] \<and> tb_dpu t = [] \<and> tb_phy t = [b] \<and>
     tb_dut t = [d] \<and> tb_dataplane t = [p] \<and> plane_made demo_parts True (PDict []) p \<and>
     entry_made demo_dirs demo_parts ''b'' True ''npu'' demo_npu_entry [d] a \<and>
     entry_made demo_dirs demo_parts ''b'' True ''phy'' demo_phy_entry [] b"
proof -
  let ?t = "snd (tb_spawn demo_dirs demo_parts demo_tbed)"
  have "fst (tb_spawn demo_dirs demo_parts demo_tbed) = Ok ()" by code_simp
  then have run: "tb_spawn demo_dirs demo_parts demo_tbed = (Ok (), ?t)" by (simp add: prod_eq_iff)
  have 0: "tb_npu demo_tbed = []" "tb_dpu demo_tbed = []" "tb_phy demo_tbed = []" "tb_dut demo_tbed = []"
    "tb_dataplane demo_tbed = []" "tb_base demo_tbed = ''b''" "tb_traffic demo_tbed" by (simp_all add: demo_tbed_def)
  have n: "entries ''npu'' (tb_config demo_tbed) = Ok [demo_npu_entry]" by code_simp
  have d: "entries ''dpu'' (tb_config demo_tbed) = Ok []" by code_simp
  have p: "entries ''phy'' (tb_config demo_tbed) = Ok [demo_phy_entry]" by code_simp
  have pl: "plane_entries (tb_config demo_tbed) = Ok [PDict []]" by code_simp
  from testbed_complete [OF run 0(1-3)] obtain N D F ps where
    made: "all_made demo_dirs demo_parts demo_tbed ''npu'' [demo_npu_entry] N" "all_made demo_dirs demo_parts demo_tbed ''dpu'' [] D"
      "all_made demo_dirs demo_parts demo_tbed ''phy'' [demo_phy_entry] F"
      "list_all2 (plane_made demo_parts True) [PDict []] ps"
    and lists: "tb_npu ?t = map snd N" "tb_dpu ?t = map snd D" "tb_phy ?t = map snd F"
      "tb_dut ?t = concat (map fst (N @ D @ F))" "tb_dataplane ?t = ps"
    unfolding n d p pl 0 by (auto simp: 0)
  from made obtain ds a ds' b q where N: "N = [(ds, a)]" "D = []" "F = [(ds', b)]" "ps = [q]"
    and m: "entry_made demo_dirs demo_parts ''b'' True ''npu'' demo_npu_entry ds a"
      "entry_made demo_dirs demo_parts ''b'' True ''phy'' demo_phy_entry ds' b" "plane_made demo_parts True (PDict []) q"
    by (auto simp: all_made_def list_all2_Cons1 0)
  have c: "entry_has_mode demo_npu_entry" "\<not> entry_has_mode demo_phy_entry" by code_simp+
  from made_device [OF m(1)] made_device [OF m(2)] c obtain x where "ds = [x]" "ds' = []" by auto
  with run lists N m show ?thesis by (intro exI [of _ ?t]) simp
qed

text \<open>
  C35: the port table of the PTF tests, for an SKU without port names: one row per port, in order, all
  under different names that count the lanes before the port, with the lanes of the port and an index
  that counts from one.
\<close>

theorem testbed_ports_named:
  assumes "port_table sku 0 0 ps [] = Ok d" and "\<forall>p \<in> set ps. py_str_in ''name'' p = Ok False"
  shows "map fst d = map default_name (offsets 0 ps) \<and> distinct (map fst d) \<and> length d = length ps \<and>
    (\<forall>k < length d. py_item ''index'' (snd (d ! k)) = Ok (PInt (int k + 1)) \<and>
       py_item ''lanes'' (snd (d ! k)) = py_item ''lanes'' (ps ! k))"
  by (rule default_ports [OF assms])

theorem testbed_ports_named_witness:
  "\<exists>d. port_table port_sku 0 0 demo_ports [] = Ok d \<and>
     map fst d = [''Ethernet0'', ''Ethernet4'', ''Ethernet8''] \<and> distinct (map fst d)"
proof -
  let ?run = "port_table port_sku 0 0 demo_ports []"
  have "case ?run of Ok _ \<Rightarrow> True | Err _ \<Rightarrow> False" by code_simp
  then obtain d where d: "?run = Ok d" by (auto split: res.splits)
  have unnamed: "list_all (\<lambda>p. py_str_in ''name'' p = Ok False) demo_ports" by code_simp
  have "map default_name (offsets 0 demo_ports) = [''Ethernet0'', ''Ethernet4'', ''Ethernet8'']" by code_simp
  with testbed_ports_named [OF d] unnamed d show ?thesis by (auto simp: list_all_iff)
qed

section \<open>The data planes\<close>

text \<open>
  C36: whatever operations of the Snappi data plane are called, in whatever order and however they end,
  every flow of its configuration is sent from (and received at) a port of the configuration and every
  capture is of such ports.
\<close>

theorem plane_refers_to_ports:
  assumes "(plane_step A S)\<^sup>*\<^sup>* s t" and "plane_ok s"
  shows "(\<forall>fl \<in> set (pl_flows t). fl_tx fl \<in> fst ` set (pl_ports t) \<and>
      (\<forall>r. fl_rx fl = Some r \<longrightarrow> r \<in> fst ` set (pl_ports t))) \<and>
    set (get_capture_port_names (pl_captures t)) \<subseteq> fst ` set (pl_ports t)"
  using run_keeps [OF assms] capture_port_names [of "pl_captures t"] by (auto simp: plane_ok_def flow_on_def)

theorem plane_refers_to_ports_witness:
  "length (pl_flows (snd (send_packet demo_traffic byte_packets 0 [1] 7 1 demo_plane))) = 1 \<and>
   set (map fl_tx (pl_flows (snd (send_packet demo_traffic byte_packets 0 [1] 7 1 demo_plane)))) \<subseteq>
     fst ` set (pl_ports (snd (send_packet demo_traffic byte_packets 0 [1] 7 1 demo_plane)))"
proof -
  let ?run = "send_packet demo_traffic byte_packets 0 [1] 7 1 demo_plane"
  have "length (pl_flows (snd ?run)) = 1" by code_simp
  moreover have "?run = (fst ?run, snd ?run)" by simp
  then have "(plane_step demo_traffic byte_packets)\<^sup>*\<^sup>* demo_plane (snd ?run)"
    by (blast intro: plane_step.Send r_into_rtranclp)
  note plane_refers_to_ports [OF this demo_plane_ok]
  ultimately show ?thesis by auto
qed

text \<open>
  C37: \<open>verify_packet\<close> passes exactly when the capture of the port holds packets and every one of them,
  without its checksum, has the layers, the length and all but the last four bytes of the expected one.
\<close>

theorem packet_verified:
  assumes "scapy_ok S" and "port_id < length (pl_ports s)"
    and "get_pcap_bytes_by_polling A fuel (fst (pl_ports s ! port_id)) timeout step s = (Ok b, t)"
    and "api_pcap A b = (caps, None)"
  shows "verify_packet A S fuel pkt port_id timeout step s = (Ok True, t) \<longleftrightarrow>
    caps \<noteq> [] \<and> (\<forall>c \<in> set caps. matches S pkt (cut_fcs c))"
  by (rule verify_packet_iff [OF assms])

theorem packet_verified_witness:
  "\<exists>t. verify_packet demo_traffic byte_packets 9 [1, 2, 9, 9, 9, 9] 0 None None demo_plane = (Ok True, t)"
proof -
  let ?poll = "get_pcap_bytes_by_polling demo_traffic 9 ''p1'' None None demo_plane"
  let ?b = "[1, 2, 3, 4, 5, 6, 0, 0, 0, 0]"
  have "fst ?poll = Ok ?b" by code_simp
  then have "get_pcap_bytes_by_polling demo_traffic 9 (fst (pl_ports demo_plane ! 0)) None None demo_plane = (Ok ?b, snd ?poll)"
    by (simp add: demo_plane_def prod_eq_iff)
  moreover have "api_pcap demo_traffic ?b = ([?b], None)" by (simp add: demo_traffic_def)
  moreover have "matches byte_packets [1, 2, 9, 9, 9, 9] (cut_fcs ?b)" by (simp add: matches_def byte_packets_def cut_fcs_def)
  ultimately show ?thesis
    using packet_verified [OF byte_packets_ok, of 0 demo_plane demo_traffic 9 None None ?b "snd ?poll" "[?b]" "[1, 2, 9, 9, 9, 9]"]
    by (auto simp: demo_plane_def)
qed

text \<open>
  C38: however often a test switches between the host interfaces and the ports of the data plane, with
  whatever results, stopping the host interfaces gives the tests their port map back.
\<close>

theorem host_interfaces_give_back:
  assumes "hf_saved s = None" and "cfg_map s = Some m" and "m \<noteq> []" and "hf_map s = Some h" and "h \<noteq> []"
    and "listens s t" and "hostif_dataplane_stop L G t = (Ok b, u)"
  shows "cfg_map u = Some m \<and> hf_map u = None \<and> hf_plane u = None"
proof -
  have "listening_ok m s" using assms by (simp add: listening_ok_def)
  from stop_gives_back [OF listens_ok [OF assms(6) this] assms(3,7)] show ?thesis .
qed

theorem host_interfaces_give_back_witness:
  "cfg_map (snd (hostif_dataplane_stop demo_ptf demo_agent (snd (hostif_pkt_listen host_ports)))) = Some two_ports"
proof -
  let ?t = "snd (hostif_pkt_listen host_ports)" and ?run = "hostif_dataplane_stop demo_ptf demo_agent (snd (hostif_pkt_listen host_ports))"
  have "listens host_ports ?t" by (rule listens.Host [OF listens.Start prod.collapse [symmetric]])
  moreover have "fst ?run = Ok True" by code_simp
  then have "?run = (Ok True, snd ?run)" by (metis prod.collapse)
  ultimately show ?thesis
    using host_interfaces_give_back [of host_ports two_ports _ ?t demo_ptf demo_agent True "snd ?run"]
    by (simp add: host_ports_def two_ports_def)
qed

text \<open>
  C39: the PTF data plane made from a description has exactly the ports of the description, each
  interface under its alias and in order, and none at all without traffic.
\<close>

theorem ptf_described_ports:
  assumes "ptf_init (logged_lib L) (Some cfg) s = (Ok d, t)"
    and "groups_of (Some cfg) = Ok (PList ps)" and "traffic_of (Some cfg) = Ok b"
    and "list_all2 (\<lambda>p (al, n). py_item ''name'' p = Ok n \<and> rbind (py_item ''alias'' p) alias_key = Ok al) ps ans"
    and "distinct (map fst ans)"
  shows "snd (ptenv t) = snd (ptenv s) @ (if b then map (\<lambda>(al, n). (d, n, 0, al)) ans else [])"
  by (rule described_ports [OF assms])

theorem ptf_described_ports_witness:
  "snd (ptenv (snd (ptf_init (logged_lib demo_ptf) (Some ptf_description) (fresh_ptf (0, []))))) =
     [(1, PStr ''veth1'', 0, PInt 0), (1, PStr ''veth2'', 0, PInt 1)]"
proof -
  let ?run = "ptf_init (logged_lib demo_ptf) (Some ptf_description) (fresh_ptf (0, []))"
  have "fst ?run = Ok 1" by code_simp
  then have run: "?run = (Ok 1, snd ?run)" by (metis prod.collapse)
  have gs: "groups_of (Some ptf_description) = Ok (PList ptf_groups)" "traffic_of (Some ptf_description) = Ok True"
    by code_simp+
  have "list_all2 (\<lambda>p (al, n). py_item ''name'' p = Ok n \<and> rbind (py_item ''alias'' p) alias_key = Ok al)
      ptf_groups [(PInt 0, PStr ''veth1''), (PInt 1, PStr ''veth2'')]"
    by (simp add: ptf_groups_def py_item_def alias_key_def)
  from ptf_described_ports [OF run gs this] show ?thesis by (simp add: fresh_ptf_def)
qed

text \<open>
  C40: polling a capture ends: as soon as the turns are enough for the timeout at the interval of the
  polling, more of them make no difference, and a capture that never comes does not keep the test.
\<close>

theorem capture_polling_ends:
  assumes "clock_ok C clk" and "\<And>e r f. func e = (r, f) \<Longrightarrow> clk e \<le> clk f"
    and "0 < or_default step default_step"
    and "or_default timeout default_timeout < int n * or_default step default_step" and "n < m"
  shows "pcap_bts_polling C m func timeout step e = pcap_bts_polling C (Suc n) func timeout step e"
  by (rule polling_ends [OF assms])

theorem capture_polling_ends_witness:
  "pcap_bts_polling \<lparr>now_ms = (\<lambda>t. (Ok t, t)), pause_ms = (\<lambda>ms t. (Ok (), t + ms))\<rparr> 500 (py_return []) None None (0::int) =
   pcap_bts_polling \<lparr>now_ms = (\<lambda>t. (Ok t, t)), pause_ms = (\<lambda>ms t. (Ok (), t + ms))\<rparr> (Suc 11) (py_return []) None None 0"
  by (rule capture_polling_ends [where clk = id])
    (simp_all add: clock_ok_def or_default_def default_step_def default_timeout_def py_return_app)

section \<open>Further facts\<close>

text \<open>
  Creating an entry by its key over Redis sends the normalised key and the attributes, and
  returns the key as a structure; with \<open>do_assert\<close> exactly the success status returns, without it
  the status comes first.
\<close>

theorem create_entry_outcome:
  assumes "CHR '':'' \<notin> set ty" and "val_ok (PDict members)" and "ascii status"
    and "redis_answers E cfg (norm_key (entry_key ty members)) (dumps (PList (map PStr as))) ''Screate''
      [k, d, status] n s t" and "n \<le> snd (wait_params (norm_key (entry_key ty members)) ''Screate'')"
  shows "create E cfg ots (redis_transport E cfg) (OStr (entry_key ty members)) (PList (map PStr as)) b s =
    (if b \<longrightarrow> status = success then Ok (if b then Bare (PDict members) else Tagged status (PDict members))
     else Err AssertionError, t)"
  by (rule redis_create_entry [OF assms])

text \<open>
  C0: \<open>bulk_remove\<close> without assertion never finishes a list: once the first object has been removed
  it fails with a \<open>ValueError\<close>, whatever the server answered, since \<open>remove\<close> returns one text where
  two values are unpacked. The entries behind are not removed.
\<close>

theorem thrift_bulk_remove_raises:
  assumes "thrift_remove E L ots (OStr (bulk_type_text o1 @ '':'' @ dumps k)) False s = (Ok st, t)"
  shows "thrift_bulk_remove E L ots o1 (k # ks) False s = (Err ValueError, t)"
  by (rule bulk_remove_raises [OF assms])

text \<open>
  C0: \<open>get\<close> prints one line per attribute, in the order asked, each with the name padded to 48
  columns and the value as the object has it, then an empty line.
\<close>

theorem cli_get_prints:
  assumes "starts_with oid ''oid:''" and "ent (s\<lparr>echoed := echoed s @ [[]]\<rparr>) = (Ok (), t)"
    and "c_vid_to_type cl oid (client t) = (Ok ot, client t)"
    and "\<forall>a \<in> set attrs. get_obj_attr_type meta (Some (OStr ot)) (PStr a) = Ok (ty a) \<and> ty a \<noteq> PNone \<and>
      get_by_type cl oid (PStr a) (ty a) False (client t) = (Ok (success, Some (reply_data a (val a))), client t)"
  shows "cli_get cl meta ent oid attrs s =
    (Ok None, t\<lparr>echoed := echoed t @ map (\<lambda>a. ljust 48 a @ '' '' @ val a) attrs @ [[]]\<rparr>)"
proof -
  have "t\<lparr>client := client t\<rparr> = t" by simp
  with assms get_loop_prints [of attrs meta ot ty cl oid "client t" val t] show ?thesis
    by (simp add: cli_get_def with_oid_def py_simps)
qed

text \<open>
  C0: \<open>verify_any_packet_any_port\<close> of the Snappi helpers never passes, whatever was captured and
  whichever ports are asked for.
\<close>

theorem any_port_never_passes: "verify_any_packet_any_port A S fuel pkts ports n_timeout s \<noteq> (Ok x, t)"
  by (rule any_port_fails)

text \<open>
  Over a client that is not the Redis client, every command of the \<open>counter\<close> group ends with the error of
  the group, whatever its arguments: it prints nothing and asks the client for nothing.
\<close>

theorem counters_guarded:
  assumes "c \<in> set cli_commands" and "hd (cm_path c) = ''counter''" and "\<not> op_redis p" and "op_entity p s = (Ok u, t)"
  shows "cli_main p (cm_path c) vals s = (Err PyException, t)"
  by (rule counter_commands_guarded [OF assms])

text \<open>
  What \<open>testbed set\<close> writes is read back as the configured test bed, for every name but the one that
  stands for none.
\<close>

theorem testbed_set_reads:
  "cfg_testbed (read_cfg (cw_cfg (snd (write_testbed name w)))) = Ok (if name = ''undefined'' then None else Some (PStr name))"
  by (simp add: write_testbed_def py_modify_app testbed_set_used)

text \<open>
  The rows printed for two packets all say that the bytes are the same exactly when the packets are.
\<close>

theorem printed_rows:
  "list_all row_same (rows p1 p2) \<longleftrightarrow> p1 = p2 \<and> length (print_pkts_side_by_side p1 p2) = 2 + max (length p1) (length p2)"
  by (simp add: rows_same side_by_side_length)

text \<open>
  Over the Snappi driver \<open>verify_packets\<close> cannot be called with the parameter names its module shows.
\<close>

theorem redirected_names_differ:
  "redirect ''snappi'' ''verify_packets'' [] [(''pkt'', p), (''ports'', q)] = Err TypeError"
  by (rule redirect_by_name)

text \<open>
  The set-up of the logging leaves no old log: the log file is removed, and a log directory is new.
\<close>

theorem logs_are_new:
  assumes "files_laws F paths" and "map_of debug_levels debug = Some n"
  shows "fst (logging_setup F debug None file s) = Ok () \<and> paths (snd (logging_setup F debug None file s)) = paths s - {file}"
    and "fst (logging_setup F debug (Some dir) file s) = Ok () \<and>
      paths (snd (logging_setup F debug (Some dir) file s)) = insert dir (paths s)"
  by (rule logging_setup_files [OF assms])+

text \<open>
  The Thrift client never waits for Redis: \<open>Sai\<close> stores a boolean where it looks for a text.
\<close>

theorem redis_not_awaited:
  assumes "\<And>v. same v \<Longrightarrow> v = PStr ''True''" and "py_item ''saivs'' cfg = Ok (PBool b)"
  shows "thrift_init T same E connect cfg s = thrift_init T (\<lambda>_. False) E connect cfg s"
  by (rule redis_never_awaited [OF assms])

text \<open>
  The arguments of the PTF runner have two words per port, as long as no alias and no name has a blank.
\<close>

theorem runner_port_arguments:
  assumes "list_all2 (\<lambda>m (a, n). rbind (py_item ''alias'' m) py_format = Ok a \<and> rbind (py_item ''name'' m) py_format = Ok n) ms ans"
    and "list_all (\<lambda>(a, n). CHR '' '' \<notin> set a \<and> CHR '' '' \<notin> set n) ans" and "ans \<noteq> []"
  shows "to_ptf_int_list ms = Ok (concat (map (\<lambda>(a, n). [''--interface'', a @ ''@'' @ n]) ans))"
  by (rule port_options [OF assms])

text \<open>
  The data plane of a PTF session has exactly the ports the runner left in the configuration, in order.
\<close>

theorem session_adds_ports:
  assumes "silent snd (so_pcap S)" and "silent snd (so_runner S argv)" and "session_plane S (logged_lib L) argv e = (Ok d, f)"
  shows "\<exists>platform ports e'. so_runner S argv e = (Ok (platform, ports), e') \<and>
    snd f = snd e @ map (\<lambda>((dev, p), n). (d, n, dev, p)) ports"
  by (rule logged_ptf.session_ports [OF assms])

text \<open>
  Asking over Redis whether a network interface exists, the client gets the answer of the host:
  the command reaches the listener, its answer reaches the client, and it is about that interface.
\<close>

theorem remote_interface_answered:
  assumes "queue_laws E q os" and "\<forall>e. h_ifaces O1 e = (Ok (os e), e)"
    and "listener_polls E O1 q os n" and "n \<le> default_attempts"
    and "ascii iface" and "asic_db cfg = 1" and "\<not> is_dut_mbr cfg"
  shows "\<exists>t. remote_iface_exists E cfg iface s = (Ok (iface \<in> set (os (env s))), t)"
  by (rule remote_exists_answered [OF assms])

text \<open>
  The arguments of a flex counter group are read back from their texts: whatever combination of
  interval, read mode and status is given, the parser returns exactly those settings.
\<close>

theorem cli_group_arguments: "parse_flex_counter_group_attrs (group_args kw) = Ok kw"
  by (rule parse_group_args)

text \<open>
  Every operation but \<open>create\<close> on a name that is not registered is an \<open>AssertionError\<close> that
  changes nothing: no request is sent.
\<close>

theorem unknown_name_refused:
  assumes "map_of cmd ''name'' = Some (PStr name)" and "name \<noteq> []"
    and "map_of cmd ''op'' = Some op" and "op \<in> {PStr ''set'', PStr ''get'', PStr ''remove''}"
    and "map_of (objects_registry s) name = None"
  shows "process_command cl meta cmd s = (Err AssertionError, s)"
  by (rule process_command_unknown [OF assms])

text \<open>
  Reading attributes of an object over Redis returns the second part of the response; with
  \<open>do_assert\<close> exactly when the third is the success status, without it together with the status.
\<close>

theorem get_object_outcome:
  assumes "resolve_obj E cfg ots oid s = (Ok full, u)" and "ascii status" and "ascii d"
    and "redis_answers E cfg (norm_key full) (dumps (PList (map PStr as))) ''Sget'' [k, d, status] n u t"
    and "n \<le> snd (wait_params (norm_key full) ''Sget'')"
  shows "get_attrs E cfg ots (redis_transport E cfg) oid (PList (map PStr as)) b s =
    (if b \<longrightarrow> status = success
     then Ok (if b then Bare (SaiData (Some d)) else Tagged status (SaiData (Some d))) else Err AssertionError, t)"
  by (rule redis_get_object [OF assms])

text \<open>
  Removing an object over Redis returns the status of the response; with \<open>do_assert\<close> any
  other status than success is an \<open>AssertionError\<close>.
\<close>

theorem remove_object_outcome:
  assumes "resolve_obj E cfg ots oid s = (Ok full, u)" and "ascii status" and "CHR '' '' \<notin> set full"
    and "redis_answers E cfg (norm_key full) ''{}'' ''Dremove'' [k, d, status] n u t"
    and "n \<le> snd (wait_params (norm_key full) ''Dremove'')"
  shows "remove E cfg ots (redis_transport E cfg) oid b s =
    (if b \<longrightarrow> status = success then Ok status else Err AssertionError, t)"
  by (rule redis_remove_object [OF assms])

text \<open>
  A bulk creation that returns gives one key per requested entry: the given ones, or as many
  new object IDs as were asked for; with \<open>do_assert\<close> its status is success.
\<close>

theorem bulk_create_outcome:
  assumes "bulk_create E cfg ots T o1 keys attrs n do_assert s = (Ok (status, outs, sts), t)"
  shows "length outs = (case keys of Some (k # ks) \<Rightarrow> length (k # ks) | _ \<Rightarrow> nat n) \<and>
    (do_assert \<longrightarrow> status = success)"
  by (rule bulk_create_keys [OF assms])

text \<open>
  A successful \<open>bulk_create\<close> returns an object per key but two statuses per key: the list starts
  with a \<open>None\<close> for each and the real statuses follow.
\<close>

theorem thrift_bulk_statuses:
  assumes "thrift_bulk_create E L ots o1 (Some keys) attrs n True s = (Ok (st, outs, sts), t)" and "keys \<noteq> []"
  shows "st = success \<and> length outs = length keys \<and>
    sts = replicate (length keys) PNone @ replicate (length keys) (PStr success)"
  by (rule thrift_bulk_create_statuses [OF assms])

text \<open>
  An IPv4 prefix is converted to its network address and its mask: the host bits are cleared
  and the mask has the prefix length's leading ones, whatever the address and the length.
\<close>

theorem thrift_prefix:
  assumes "0 \<le> a" and "a < 2 ^ 32" and "p \<le> 32" and "lib_header L ''SAI_IP_ADDR_FAMILY_IPV4'' = Some f"
  shows "sai_ipprefix L (PStr (ipv4_text a @ ''/'' @ int_str (int p))) =
    Ok (ip_prefix_struct f ''ip4'' (ipv4_text (a - a mod 2 ^ (32 - p)), ipv4_text (2 ^ 32 - 2 ^ (32 - p))))"
  by (rule sai_ipprefix_v4 [OF assms])

text \<open>
  C0: \<open>counter poll start\<close> with counters that have no common list, of different kinds or unknown to
  the flex counters, prints the reason and sends nothing to the device.
\<close>

theorem cli_poll_refused:
  assumes "starts_with oid ''oid:''" and "counter_names cntrs \<noteq> []" and "ent (s\<lparr>echoed := echoed s @ [[]]\<rparr>) = (Ok (), t)"
    and "\<not> (\<exists>k l. list_all (\<lambda>c. sai_type_from_counter c = Some k) (counter_names cntrs) \<and>
      map_of sai_counter_type_to_id_list k = Some l)"
  shows "poll_start (redis_cli_client E cfg ots T) ent msg repr g oid cntrs s =
    (Ok (Some False), t\<lparr>echoed := echoed t @ [msg @ nl]\<rparr>)"
proof -
  have "flex_id_list (counter_names cntrs) = Err ValueError"
    using assms(4) by (auto simp: flex_id_list_def split: list.splits option.splits)
  with assms(1-3) show ?thesis by (intro poll_start_refused)
qed

text \<open>
  Without an SKU the bring-up of a PHY always fails, after the switch has been created: the
  attribute \<open>sku_config\<close> is only set by loading an SKU but read in any case.
\<close>

theorem phy_needs_sku:
  assumes "npu_create cl ots ''SWITCH'' (attr @
       [PStr ''SAI_SWITCH_ATTR_INIT_SWITCH'', PStr ''true'',
        PStr ''SAI_SWITCH_ATTR_TYPE'', PStr ''SAI_SWITCH_TYPE_PHY'']) s = (Ok sw, t)"
    and "phy_sku s = None"
  shows "\<exists>u. phy_init cl ots None attr s = (Err AttributeError, u) \<and> switch_oid u = PStr sw"
  by (rule phy_init_without_sku [OF assms])

text \<open>
  Reading a line of a recording gives back the groups of fields it was written from: time
  stamp dropped, groups split at two bars, fields at one.
\<close>

theorem record_roundtrip:
  assumes "field_ok ts" and "record_ok gs"
  shows "parse_line (print_line ts gs) = gs"
  by (rule parse_print_line [OF assms])

text \<open>
  A recorded removal forgets the mapping of the OID, but the alias of the object stays: the
  player looks it up under the type and the OID together, and an alias holds the OID alone.
\<close>

theorem recorded_removal_keeps_alias:
  assumes "CHR '':'' \<notin> set ty" and "CHR ''{'' \<notin> set ty" and "CHR ''{'' \<notin> set oid"
    and "map_of (rec2vid s) oid = Some (PStr vid)"
    and "c_remove cl (ty @ '':'' @ vid) True (client s) = (Ok st, c)"
    and "oid_entries (objects_registry s)" and "ty \<noteq> ''oid''"
  shows "process_remove cl (''r'' # (ty @ '':'' @ oid) # fs) s =
    (Ok (), s\<lparr>client := c, rec2vid := dict_del oid (rec2vid s)\<rparr>)"
proof -
  note keeps = remove_keeps_aliases [OF assms(6,7,1)]
  from process_remove_run [OF assms(1-5) keeps(1)] show ?thesis
    by (simp add: keeps(2))
qed

text \<open>
  Reading the data of a response ends on every text, malformed ones included: the bound on
  the recursion of the reader, taken from the length of the text, is never reached.
\<close>

theorem data_reading_ends: "to_json d \<noteq> Err OutOfFuel"
  by (cases "raw d") (simp_all add: to_json_def loads_no_fuel)

text \<open>
  The device metadata is read back field by field from the lines it is printed on, a key and a
  value on alternating lines.
\<close>

theorem dut_metadata_read:
  assumes "distinct (map fst kvs)" and "list_all (\<lambda>(k, v). CHR 0x0A \<notin> set k \<and> CHR 0x0A \<notin> set v) kvs"
  shows "metadata_of (py_lines (concat (map (\<lambda>(k, v). k @ CHR 0x0A # v @ [CHR 0x0A]) kvs))) [] = Ok kvs"
  using metadata_read [of kvs "[]"] assms by simp

text \<open>
  The data of a response is what the server wrote into it: \<open>to_json\<close> reads back every text of
  \<open>json.dumps\<close>, in both styles the code uses, for all nested lists and dictionaries of strings,
  integers, booleans and nulls with distinct keys.
\<close>

theorem data_reads_back:
  assumes "val_ok v"
  shows "to_json (SaiData (Some (dumps_with compact v))) = Ok v"
  by (rule to_json_dumps [OF assms])

text \<open>
  A recorded switch played on a \<open>Sai\<close> whose own switch has never been created ends with an
  \<open>AttributeError\<close>, although the client has created the recorded one: the discovery of its objects asks
  the switch of before, and there is none.
\<close>

theorem recorded_switch_fails:
  assumes "CHR ''{'' \<notin> set oid" and "CHR ''{'' \<notin> set vid" and "switch_oid s = PNone"
    and "update_attr_oids False (split_attrs fs) s = (Ok as, s)"
    and "c_create cl (OStr ''SAI_OBJECT_TYPE_SWITCH'') (PList as) False (client s) = (Ok (Tagged success (PStr vid)), c)"
  shows "\<exists>t. process_create cl meta (''c'' # (''SAI_OBJECT_TYPE_SWITCH'' @ '':'' @ oid) # fs) s = (Err AttributeError, t)"
  by (rule recorded_switch_undiscovered [OF assms])

text \<open>
  A connection to a device that failed is never tried again: the client object is kept, so the
  next call takes it for a connection and does nothing.
\<close>

theorem dut_connects_once:
  assumes "ssh_connect E (dut_ip s) (dut_username s) (dut_password s) (denv s) = (Err x, f)" and "\<not> ssh s"
  shows "\<exists>t. dut_connect E s = (Err x, t) \<and> dut_connect E t = (Ok (), t)"
  by (rule connect_once [OF assms])

text \<open>
  A command to stop an agent that does not run ends the listener with an error, and the client
  that sent it gets no answer.
\<close>

theorem listener_stop_fails:
  assumes "agent s = None"
  shows "run_command O1 [''stop_nn_agent''] s = (Err AttributeError, s)"
  by (rule stop_without_agent [OF assms])

text \<open>
  Sending the same packet twice from the same port through the helpers of the PTF tests leaves two
  flows with the same name in the configuration: each call starts the counter of the names again.
\<close>

theorem redirected_names_clash:
  assumes "dataplane_redirect ''snappi'' ptf (send_packet A S port_id pkt packet_id n) s = (Ok (), t)"
    and "dataplane_redirect ''snappi'' ptf (send_packet A S port_id pkt packet_id n) t = (Ok (), u)"
  shows "\<exists>f g. pl_flows u = pl_flows s @ [f, g] \<and> fl_name f = fl_name g"
  using redirected_send_names [OF assms(1)] redirected_send_names [OF assms(2)] by auto

text \<open>
  The last four bytes of a payload are never compared: a captured packet that differs from the
  expected one only there, before its checksum, is accepted.
\<close>

theorem packet_tail_unchecked:
  assumes "scapy_ok S" and "length fcs = 4" and "length tail = 4" and "length tail' = 4"
    and "pk_bytes S pkt = body @ tail"
    and "\<forall>l \<in> {''Ether'', ''IP'', ''TCP''}. pk_has S pkt l = pk_has S (pk_ether S (body @ tail')) l"
  shows "match_packet S pkt (cut_fcs (body @ tail' @ fcs)) = Ok True"
  using tail_unchecked [OF assms] match_packet_iff [OF assms(1)] by simp

text \<open>
  The address some steps further is the sum as an IPv4 address, and an error when the sum is past
  the last address instead of a wrap-around.
\<close>

theorem next_address:
  assumes "0 \<le> a" and "a < 2 ^ 32" and "0 \<le> d" and "d < 2 ^ 32" and "0 \<le> a + n * d"
  shows "get_next_ip (Some (ipv4_text a)) (Some (ipv4_text d)) n =
    (if a + n * d < 2 ^ 32 then Ok (ipv4_text (a + n * d)) else Err ValueError)"
  by (rule next_ip [OF assms])

text \<open>
  The first patch that is already applied ends the patching of the SAI sources; the patches after it
  are not even tried.
\<close>

theorem patches_stop:
  assumes "pa_try P f s = (Ok 1, t)"
  shows "patch_loop P (f # fs) s = (Ok (), t)"
  by (rule patch_loop_stops [OF assms])

text \<open>
  Substitution of the attributes of a command, position by position: a reference \<open>$NAME\<close> to a
  registered name becomes the OID, or the key, of its entry, anything else stays as it is.
\<close>

theorem attributes_substituted:
  assumes "substitute_command reg cmd = Ok sc" and "map_of cmd ''attributes'' = Some (PList as)"
    and "i < length as"
  shows "length (sc_attrs sc) = length as \<and> sc_attrs sc ! i =
    (case as ! i of
       PStr (c # name) \<Rightarrow> (case map_of reg name of
           Some e \<Rightarrow> if c = CHR ''$'' then entry_value e else as ! i | None \<Rightarrow> as ! i)
     | _ \<Rightarrow> as ! i)"
proof -
  have "sc_attrs sc = map (subst_value reg) as" by (rule substitute_command_attrs [OF assms(1,2)])
  with assms(3) show ?thesis
    by (auto simp: subst_value_def substitute_ref_def split: pyval.splits list.splits option.splits)
qed

text \<open>
  C7: \<open>operate\<close> returns normally only with a response of three texts: a missing or incomplete
  answer is never taken for one.
\<close>

theorem operate_three:
  assumes "redis_operate E cfg obj attrs op s = (Ok st, t)"
  shows "length st = 3 \<and> (\<forall>w \<in> set st. \<exists>b. w = Bytes b)"
  by (rule redis_operate_three [OF assms])

text \<open>
  An object ID carries its type: the type is read back from the text for every type of the
  interface and every counter below \<open>2 ^ 48\<close>.
\<close>

theorem vid_type_read_back:
  assumes "ots_ok ots" and "t \<in> set ots" and "0 \<le> c" and "c < 2 ^ 48"
  shows "vid_to_type ots (mk_vid t c) = Ok (''SAI_OBJECT_TYPE_'' @ ot_name t)"
  by (rule vid_to_type_mk [OF assms])

text \<open>
  The check whether the ZMQ peer is there answers yes or no for every endpoint and every
  network error: neither \<open>OSError\<close> nor \<open>ValueError\<close> leaves it.
\<close>

theorem peer_check_catches:
  assumes "peer_reachable Z zc s = (Err e, t)"
  shows "e \<noteq> OSError \<and> e \<noteq> ValueError"
  by (rule peer_reachable_catches [OF assms])

text \<open>
  The key of a neighbour entry, after the rewriting that \<open>operate\<close> applies, is the compact
  JSON that syncd deserialises: the same values under \<open>ip\<close>, \<open>rif\<close> and \<open>switch_id\<close>.
\<close>

theorem neighbor_key_normalised:
  assumes "plain sw" and "plain rif_oid" and "plain ip"
  shows "norm_key (neighbor_entry_key (PStr sw) rif_oid ip) =
    ''SAI_OBJECT_TYPE_NEIGHBOR_ENTRY:'' @ dumps_with True
      (PDict [(''ip'', PStr ip), (''rif'', PStr rif_oid), (''switch_id'', PStr sw)])"
  by (rule norm_key_neighbor [OF assms])

text \<open>
  The same holds for \<open>get\<close> by metadata: an attribute of type \<open>sai_object_list_t\<close> is answered
  with success and all its elements.
\<close>

theorem object_list_read_by_type:
  assumes "serves_list cl obj attr xs c"
  shows "get_by_type cl obj (PStr attr) (PStr ''sai_object_list_t'') False c =
    (Ok (success, Some (reply_data attr (counted xs))), c)"
  by (rule get_by_type_list_complete [OF assms])

text \<open>
  A recorded creation that succeeds maps the recorded OID to the new one and changes nothing
  else but the client, for every type without an alias.
\<close>

theorem recorded_creation_maps:
  assumes "CHR '':'' \<notin> set ty" and "CHR ''{'' \<notin> set ty" and "CHR ''{'' \<notin> set oid" and "CHR ''{'' \<notin> set vid"
    and "ty \<notin> set alias_types"
    and "update_attr_oids False (split_attrs fs) s = (Ok as, s)"
    and "c_create cl (OStr ty) (PList as) False (client s) = (Ok (Tagged success (PStr vid)), c)"
  shows "process_create cl meta (''c'' # (ty @ '':'' @ oid) # fs) s =
    (Ok success, s\<lparr>client := c, rec2vid := dict_set oid (PStr vid) (rec2vid s)\<rparr>)"
  by (rule process_create_run [OF assms])

text \<open>
  A list of object IDs goes to Thrift and comes back unchanged: its text is parsed into the
  list structure, and that structure is printed as the same text.
\<close>

theorem thrift_object_list_text:
  assumes "ns \<noteq> []" and "list_all (\<lambda>n. 0 \<le> n) ns"
  shows "sai_object_list (PStr (counted (map oid_text ns))) = Ok (oid_list ns) \<and>
    from_sai_object_list (oid_list ns) = Ok (counted (map oid_text ns))"
  using to_oid_list [OF assms] from_oid_list [OF assms(1)] by simp

text \<open>
  The key of a bulk entry that is given as a value is sent as its compact JSON text, and that
  text reads back as the key, when no string inside has a space (the code removes all spaces).
\<close>

theorem bulk_key_text:
  assumes "val_no_space (PDict kvs)" and "val_ok (PDict kvs)"
  shows "text_key (PDict kvs) = dumps_with True (PDict kvs) \<and> loads (text_key (PDict kvs)) = Ok (PDict kvs)"
  using replace_space_dumps [OF assms(1)] loads_dumps_with [OF assms(2), of True]
  by (simp add: text_key_def del: dumps_with.simps)

text \<open>The counters of a statistics response are read with their names and values, in order.\<close>

theorem counters_read:
  assumes "dict_ok cs"
  shows "data_counters (SaiData (Some (dumps (PList (counter_pairs cs))))) = Ok cs"
  by (rule data_counters_reply [OF assms])

text \<open>
  The status codes: every member of the enumeration has its own value, and a value is that of
  at most one member.
\<close>

theorem status_codes: "status_of_value (status_value st) = Ok st \<and> (status_of_value v = Ok st \<longleftrightarrow> status_value st = v)"
  using status_value_of status_of_value_of by metis

text \<open>
  The placeholder \<open>make_list\<close> builds for a list of \<open>n\<close> elements is read as \<open>n\<close> elements.
\<close>

theorem placeholder_has_size:
  assumes "1 \<le> n" and "CHR '','' \<notin> set e"
  shows "split_counted (make_list n e) = Ok (replicate (nat n) e)"
  by (rule split_counted_make_list [OF assms])

text \<open>
  The list placeholders for resources and maps are JSON with the right count: read back they
  are a dictionary of the count and that many copies of the element.
\<close>

theorem counted_placeholder_parses:
  assumes "val_ok item" and "val_no_space item"
  shows "loads (make_count_list item n) =
    Ok (PDict [(''count'', PInt n), (''list'', PList (replicate (nat n) item))])"
  by (rule make_count_list_loads [OF assms])

end
